(* ===== verification/Prelude.thy ===== *)
theory Prelude
  imports Main "HOL-Library.Word" "HOL-Library.Char_ord" "HOL-Library.List_Lexorder"
    "HOL-Library.Multiset"
begin

text \<open>
  Shared vocabulary of the development.
  \<^item> Go's \<open>error\<close> values and gRPC status codes (\<open>gerr\<close>, \<open>code\<close>), with
    \<open>errors.Is\<close> and \<open>status.Code\<close>.
  \<^item> The shape of an effectful Go method that returns \<open>(value, error)\<close>: a function from a
    state to a sum and a new state (\<open>io\<close>), with the few combinators the code's control flow
    needs, and an equational weakest-precondition calculus for them (collection \<open>wp\<close>).
  \<^item> Go maps with string keys and the zero value of a missing key.
\<close>

named_theorems wp \<open>equations that push a postcondition through the io combinators\<close>
named_theorems gomap \<open>rewriting of Go map reads and writes\<close>

section \<open>Errors\<close>

text \<open>The gRPC status codes the driver uses.\<close>

datatype code = OK | InvalidArgument | NotFound | Internal | Aborted | FailedPrecondition
  | Unavailable | Unimplemented | Unknown

text \<open>
  An error value is one of the package-level sentinels, an error of a library or of the
  operating system (known by its text; \<open>NotExist\<close> is one for which \<open>os.IsNotExist\<close> holds),
  one built by \<open>fmt.Errorf\<close> from a format and its arguments (with \<open>%w\<close> the wrapped error
  is kept), one built by \<open>errors.Join\<close>, or a gRPC status error built by \<open>status.Error\<close> or
  \<open>status.Errorf\<close> (an error argument of its \<open>%v\<close> verb is kept beside the strings).
  Formats and arguments are kept apart, so no rendering of messages has to be modelled.
\<close>

datatype gerr =
    ErrPVNotFound | ErrSnapshotStoreUnavailable | ErrEmptyAddress
  | ErrEmptyDriverName | ErrEmptyNodeID | ErrInvalidPinFailurePolicy
  | ExtErr string
  | NotExist string
  | Errorf string "string list"
  | ErrorfW string "string list" gerr
  | ErrorsJoin "gerr list"
  | StatusErr code string "string list" "gerr option"

text \<open>\<open>errors.Is\<close>: the error itself, or one it wraps, is the target.\<close>

fun errors_Is :: "gerr \<Rightarrow> gerr \<Rightarrow> bool" where
  "errors_Is (ErrorfW f xs e) t = (ErrorfW f xs e = t \<or> errors_Is e t)"
| "errors_Is (ErrorsJoin es) t = (ErrorsJoin es = t \<or> (\<exists>e \<in> set es. errors_Is e t))"
| "errors_Is e t = (e = t)"

text \<open>\<open>status.Code\<close>: the code of a status error, also below a \<open>%w\<close>; else \<open>Unknown\<close>.\<close>

fun status_Code :: "gerr \<Rightarrow> code" where
  "status_Code (StatusErr c f xs e) = c"
| "status_Code (ErrorfW f xs e) = status_Code e"
| "status_Code e = Unknown"

text \<open>The code of a finished call: \<open>OK\<close> when there is no error.\<close>

fun result_Code :: "gerr + 'a \<Rightarrow> code" where
  "result_Code (Inl e) = status_Code e"
| "result_Code (Inr a) = OK"

section \<open>Methods that return a value or an error\<close>

type_synonym ('w, 'a) io = "'w \<Rightarrow> (gerr + 'a) \<times> 'w"

definition ret :: "'a \<Rightarrow> ('w, 'a) io" where
  "ret a w = (Inr a, w)"

definition throw :: "gerr \<Rightarrow> ('w, 'a) io" where
  "throw e w = (Inl e, w)"

text \<open>\<open>v, err := m(); if err != nil { return err }\<close>\<close>

definition bindE :: "('w, 'a) io \<Rightarrow> ('a \<Rightarrow> ('w, 'b) io) \<Rightarrow> ('w, 'b) io" where
  "bindE m f w = (case m w of (Inl e, w') \<Rightarrow> (Inl e, w') | (Inr a, w') \<Rightarrow> f a w')"

text \<open>\<open>if err != nil { return wrap(err) }\<close>\<close>

definition mapErr :: "(gerr \<Rightarrow> gerr) \<Rightarrow> ('w, 'a) io \<Rightarrow> ('w, 'a) io" where
  "mapErr g m w = (case m w of (Inl e, w') \<Rightarrow> (Inl (g e), w') | (Inr a, w') \<Rightarrow> (Inr a, w'))"

text \<open>\<open>v, err := m()\<close> with the error inspected by the code that follows.\<close>

definition attempt :: "('w, 'a) io \<Rightarrow> ('w, gerr + 'a) io" where
  "attempt m w = (case m w of (r, w') \<Rightarrow> (Inr r, w'))"

text \<open>\<open>if err := m(); err != nil { log }\<close>: the error is logged and dropped.\<close>

definition ignoreErr :: "('w, unit) io \<Rightarrow> ('w, unit) io" where
  "ignoreErr m w = (Inr (), snd (m w))"

text \<open>A read of the state, and a read that may fail.\<close>

definition reads :: "('w \<Rightarrow> 'a) \<Rightarrow> ('w, 'a) io" where
  "reads f w = (Inr (f w), w)"

definition readsE :: "('w \<Rightarrow> gerr + 'a) \<Rightarrow> ('w, 'a) io" where
  "readsE f w = (f w, w)"

text \<open>\<open>m; defer c()\<close>: the deferred call runs whatever \<open>m\<close> returned.\<close>

definition deferring :: "('w \<Rightarrow> 'w) \<Rightarrow> ('w, 'a) io \<Rightarrow> ('w, 'a) io" where
  "deferring c m w = (case m w of (r, w') \<Rightarrow> (r, c w'))"

text \<open>The postcondition \<open>Q\<close> holds if the call succeeds, \<open>E\<close> if it returns an error.\<close>

definition wpE :: "('w, 'a) io \<Rightarrow> ('a \<Rightarrow> 'w \<Rightarrow> bool) \<Rightarrow> (gerr \<Rightarrow> 'w \<Rightarrow> bool) \<Rightarrow> 'w \<Rightarrow> bool" where
  "wpE m Q E w = (case m w of (Inl e, w') \<Rightarrow> E e w' | (Inr a, w') \<Rightarrow> Q a w')"

section \<open>Go maps\<close>

type_synonym gomap = "string \<rightharpoonup> string"

text \<open>\<open>m[k]\<close>: a missing key reads as the empty string.\<close>

definition mget :: "gomap \<Rightarrow> string \<Rightarrow> string" where
  "mget m k = (case m k of None \<Rightarrow> '''' | Some v \<Rightarrow> v)"

section \<open>Lemmas\<close>

lemma errors_Is_refl [simp]: "errors_Is e e"
  by (cases e) auto

text \<open>
  The equations are between predicates on the state, so that they also rewrite below the
  abstraction over a returned value.
\<close>

lemma wpE_ret [wp]: "wpE (ret a) Q E = Q a"
  by (simp add: fun_eq_iff wpE_def ret_def)

lemma wpE_throw [wp]: "wpE (throw e) Q E = E e"
  by (simp add: fun_eq_iff wpE_def throw_def)

lemma wpE_bindE [wp]: "wpE (bindE m f) Q E = wpE m (\<lambda>a. wpE (f a) Q E) E"
  by (auto simp: fun_eq_iff wpE_def bindE_def split: prod.splits sum.splits)

lemma wpE_mapErr [wp]: "wpE (mapErr g m) Q E = wpE m Q (\<lambda>e. E (g e))"
  by (auto simp: fun_eq_iff wpE_def mapErr_def split: prod.splits sum.splits)

lemma wpE_attempt [wp]: "wpE (attempt m) Q E = wpE m (\<lambda>a. Q (Inr a)) (\<lambda>e. Q (Inl e))"
  by (auto simp: fun_eq_iff wpE_def attempt_def split: prod.splits sum.splits)

lemma wpE_ignoreErr [wp]: "wpE (ignoreErr m) Q E = wpE m (\<lambda>_. Q ()) (\<lambda>_. Q ())"
  by (auto simp: fun_eq_iff wpE_def ignoreErr_def split: prod.splits sum.splits)

lemma wpE_reads [wp]: "wpE (reads f) Q E = (\<lambda>w. Q (f w) w)"
  by (simp add: fun_eq_iff wpE_def reads_def)

lemma wpE_readsE [wp]:
  "wpE (readsE f) Q E = (\<lambda>w. case f w of Inl e \<Rightarrow> E e w | Inr a \<Rightarrow> Q a w)"
  by (simp add: fun_eq_iff wpE_def readsE_def split: sum.splits)

lemma wpE_deferring [wp]:
  "wpE (deferring c m) Q E = wpE m (\<lambda>a w'. Q a (c w')) (\<lambda>e w'. E e (c w'))"
  by (auto simp: fun_eq_iff wpE_def deferring_def split: prod.splits sum.splits)

lemma wpE_if [wp]: "wpE (if b then m else n) Q E = (if b then wpE m Q E else wpE n Q E)"
  by simp

lemma wpE_case_sum [wp]:
  "wpE (case x of Inl a \<Rightarrow> f a | Inr b \<Rightarrow> g b) Q E
     = (case x of Inl a \<Rightarrow> wpE (f a) Q E | Inr b \<Rightarrow> wpE (g b) Q E)"
  by (cases x) auto

lemma wpE_case_option [wp]:
  "wpE (case x of None \<Rightarrow> f | Some b \<Rightarrow> g b) Q E
     = (case x of None \<Rightarrow> wpE f Q E | Some b \<Rightarrow> wpE (g b) Q E)"
  by (cases x) auto

lemma wpE_case_prod [wp]:
  "wpE (case x of (a, b) \<Rightarrow> f a b) Q E = (case x of (a, b) \<Rightarrow> wpE (f a b) Q E)"
  by (cases x) auto

lemma wpE_Let [wp]: "wpE (let x = v in m x) Q E = (let x = v in wpE (m x) Q E)"
  by simp

lemma wpE_True [simp]: "wpE m (\<lambda>_ _. True) (\<lambda>_ _. True) = (\<lambda>_. True)"
  by (simp add: fun_eq_iff wpE_def split: prod.split sum.split)

text \<open>A call that meets its specification returns a value, if errors are ruled out by it.\<close>

lemma wpE_no_error: "wpE m (\<lambda>a w'. True) (\<lambda>e w'. False) w \<Longrightarrow> \<exists>a. fst (m w) = Inr a"
  by (auto simp: wpE_def split: prod.splits sum.splits)

text \<open>Postconditions are monotone, so a specification of a callee can be used for a caller.\<close>

lemma wpE_mono:
  assumes "wpE m Q E w" "\<And>a w'. Q a w' \<Longrightarrow> Q' a w'" "\<And>e w'. E e w' \<Longrightarrow> E' e w'"
  shows "wpE m Q' E' w"
  using assms by (auto simp: wpE_def split: prod.splits sum.splits)

lemma wpE_conj:
  assumes "wpE m Q E w" "wpE m Q' E' w"
  shows "wpE m (\<lambda>a w'. Q a w' \<and> Q' a w') (\<lambda>e w'. E e w' \<and> E' e w') w"
  using assms by (auto simp: wpE_def split: prod.splits sum.splits)

text \<open>From a postcondition to a statement about a finished call, and back.\<close>

lemma wpE_Inr: "wpE m Q E w \<Longrightarrow> m w = (Inr a, w') \<Longrightarrow> Q a w'"
  by (simp add: wpE_def)

lemma wpE_Inl: "wpE m Q E w \<Longrightarrow> m w = (Inl e, w') \<Longrightarrow> E e w'"
  by (simp add: wpE_def)

lemma wpE_iff:
  "wpE m Q E w \<longleftrightarrow>
     (\<forall>a w'. m w = (Inr a, w') \<longrightarrow> Q a w') \<and> (\<forall>e w'. m w = (Inl e, w') \<longrightarrow> E e w')"
  by (auto simp: wpE_def split: prod.splits sum.splits)

lemma wpE_snd: "wpE m (\<lambda>_. P) (\<lambda>_. P) w \<longleftrightarrow> P (snd (m w))"
  by (auto simp: wpE_def split: prod.splits sum.splits)

lemma mget_upd [gomap, simp]: "mget (m(k \<mapsto> v)) k' = (if k' = k then v else mget m k')"
  by (simp add: mget_def)

lemma mget_empty [gomap, simp]: "mget Map.empty k = ''''"
  by (simp add: mget_def)

end
