(* ===== verification/GoStd.thy ===== *)
theory GoStd
  imports Prelude
begin

text \<open>
  The parts of Go's standard library that the driver's logic depends on, on byte strings:
  \<open>strings.HasPrefix\<close>, \<open>strings.Contains\<close>, \<open>strings.ToLower\<close> (ASCII), \<open>path.Clean\<close>,
  \<open>path.IsAbs\<close>, \<open>filepath.Join\<close>, \<open>filepath.Rel\<close> (on Linux \<open>path\<close> and
  \<open>path/filepath\<close> agree), \<open>strconv.Itoa\<close>, \<open>strconv.Atoi\<close>, UTF-8 decoding of a string
  into runes, and \<open>sort.Slice\<close>.
  The lemmas are the facts the components use: \<open>path.Clean\<close> is idempotent and a rooted
  clean path has no dot-dot element; \<open>Atoi\<close> inverts \<open>Itoa\<close>.
\<close>

section \<open>strings\<close>

definition HasPrefix :: "string \<Rightarrow> string \<Rightarrow> bool" where
  "HasPrefix s p \<longleftrightarrow> take (length p) s = p"

fun Contains :: "string \<Rightarrow> string \<Rightarrow> bool" where
  "Contains [] sub \<longleftrightarrow> sub = []"
| "Contains (c # cs) sub \<longleftrightarrow> HasPrefix (c # cs) sub \<or> Contains cs sub"

definition ascii_lower :: "char \<Rightarrow> char" where
  "ascii_lower c = (if CHR ''A'' \<le> c \<and> c \<le> CHR ''Z'' then char_of (of_char c + (32::nat)) else c)"

section \<open>path\<close>

text \<open>The elements between slashes; a leading, trailing or double slash gives an empty one.\<close>

fun split_slash :: "string \<Rightarrow> string list" where
  "split_slash [] = [[]]"
| "split_slash (c # cs) =
     (if c = CHR ''/'' then [] # split_slash cs
      else (case split_slash cs of [] \<Rightarrow> [[c]] | x # xs \<Rightarrow> (c # x) # xs))"

fun join_slash :: "string list \<Rightarrow> string" where
  "join_slash [] = []"
| "join_slash [x] = x"
| "join_slash (x # y # xs) = x @ ''/'' @ join_slash (y # xs)"

definition IsAbs :: "string \<Rightarrow> bool" where
  "IsAbs p = HasPrefix p ''/''"

text \<open>
  One element of \<open>path.Clean\<close>'s scan; the output so far is a stack. Empty elements and
  \<open>.\<close> are dropped; \<open>..\<close> backs up over the last element where there is one that is not
  itself \<open>..\<close>, is dropped at the root, and is kept at the start of a relative path.
\<close>

definition clean_step :: "bool \<Rightarrow> string \<Rightarrow> string list \<Rightarrow> string list" where
  "clean_step rooted c st =
     (if c = '''' \<or> c = ''.'' then st
      else if c = ''..'' then
        (case st of [] \<Rightarrow> if rooted then [] else [''..'']
         | t # ts \<Rightarrow> if t = ''..'' then ''..'' # st else ts)
      else c # st)"

definition clean_elems :: "bool \<Rightarrow> string list \<Rightarrow> string list" where
  "clean_elems rooted cs = rev (fold (clean_step rooted) cs [])"

definition path_Clean :: "string \<Rightarrow> string" where
  "path_Clean p =
     (if p = '''' then ''.''
      else let rooted = IsAbs p;
               out = (if rooted then ''/'' else '''') @ join_slash (clean_elems rooted (split_slash p))
           in if out = '''' then ''.'' else out)"

text \<open>\<open>filepath.Join\<close>: join from the first non-empty element on, then clean.\<close>

definition filepath_Join :: "string list \<Rightarrow> string" where
  "filepath_Join es =
     (case dropWhile (\<lambda>e. e = '''') es of [] \<Rightarrow> '''' | xs \<Rightarrow> path_Clean (join_slash xs))"

text \<open>\<open>filepath.Dir\<close> and \<open>filepath.Base\<close>.\<close>

definition filepath_Dir :: "string \<Rightarrow> string" where
  "filepath_Dir p = path_Clean (rev (dropWhile (\<lambda>c. c \<noteq> CHR ''/'') (rev p)))"

definition filepath_Base :: "string \<Rightarrow> string" where
  "filepath_Base p =
     (if p = '''' then ''.''
      else let q = dropWhile (\<lambda>c. c = CHR ''/'') (rev p);
               r = rev (takeWhile (\<lambda>c. c \<noteq> CHR ''/'') q)
           in if r = '''' then ''/'' else r)"

text \<open>The non-empty elements of a path.\<close>

definition path_elems :: "string \<Rightarrow> string list" where
  "path_elems p = filter (\<lambda>c. c \<noteq> '''') (split_slash p)"

text \<open>
  \<open>filepath.Rel\<close>: both paths cleaned; the common leading elements are dropped, one \<open>..\<close>
  stands for each element left of the base. It fails between an absolute and a relative path
  and where it would have to back out of a \<open>..\<close> of the base.
\<close>

fun drop_common :: "'a list \<Rightarrow> 'a list \<Rightarrow> 'a list \<times> 'a list" where
  "drop_common (x # xs) (y # ys) = (if x = y then drop_common xs ys else (x # xs, y # ys))"
| "drop_common xs ys = (xs, ys)"

definition rel_elems :: "string \<Rightarrow> string list" where
  "rel_elems p = filter (\<lambda>c. c \<noteq> '''' \<and> c \<noteq> ''.'') (split_slash (path_Clean p))"

definition filepath_Rel :: "string \<Rightarrow> string \<Rightarrow> string option" where
  "filepath_Rel base targ =
     (if path_Clean base = path_Clean targ then Some ''.''
      else if IsAbs (path_Clean base) \<noteq> IsAbs (path_Clean targ) then None
      else case drop_common (rel_elems base) (rel_elems targ) of (bs, ts) \<Rightarrow>
        if bs \<noteq> [] \<and> hd bs = ''..'' then None
        else Some (join_slash (map (\<lambda>_. ''..'') bs @ ts)))"

text \<open>A path element that \<open>path.Clean\<close> keeps as it is.\<close>

definition plain_elem :: "string \<Rightarrow> bool" where
  "plain_elem c \<longleftrightarrow> c \<noteq> '''' \<and> c \<noteq> ''.'' \<and> c \<noteq> ''..'' \<and> CHR ''/'' \<notin> set c"

section \<open>strconv\<close>

definition digit_char :: "nat \<Rightarrow> char" where
  "digit_char d = char_of (48 + d)"

fun nat_digits :: "nat \<Rightarrow> string" where
  "nat_digits n = (if n < 10 then [digit_char n] else nat_digits (n div 10) @ [digit_char (n mod 10)])"

declare nat_digits.simps [simp del]

definition Itoa :: "int \<Rightarrow> string" where
  "Itoa i = (if i < 0 then ''-'' @ nat_digits (nat (- i)) else nat_digits (nat i))"

definition is_digit :: "char \<Rightarrow> bool" where
  "is_digit c \<longleftrightarrow> CHR ''0'' \<le> c \<and> c \<le> CHR ''9''"

definition digits_val :: "string \<Rightarrow> nat" where
  "digits_val s = foldl (\<lambda>acc c. 10 * acc + (of_char c - 48)) 0 s"

text \<open>
  \<open>strconv.Atoi\<close> for a 64-bit \<open>int\<close>: an optional sign and at least one decimal digit;
  a syntax error or a value out of range is an error.
\<close>

definition Atoi :: "string \<Rightarrow> int option" where
  "Atoi s =
     (let neg = HasPrefix s ''-'';
          body = (if neg \<or> HasPrefix s ''+'' then tl s else s)
      in if body = '''' \<or> \<not> list_all is_digit body then None
         else let v = (if neg then - int (digits_val body) else int (digits_val body))
              in if - (2 ^ 63) \<le> v \<and> v < 2 ^ 63 then Some v else None)"

section \<open>unicode/utf8\<close>

text \<open>
  \<open>utf8.DecodeRuneInString\<close> applied along a string: a well-formed sequence of one to four
  bytes gives its code point; a byte that does not start one gives U+FFFD and is skipped
  alone. Ranges of the second byte exclude overlong forms, surrogates and values past U+10FFFF.
\<close>

definition runeError :: nat where
  "runeError = 65533"

definition cont_byte :: "nat \<Rightarrow> bool" where
  "cont_byte b \<longleftrightarrow> 128 \<le> b \<and> b \<le> 191"

definition second_ok :: "nat \<Rightarrow> nat \<Rightarrow> bool" where
  "second_ok b0 b1 \<longleftrightarrow>
     (if b0 = 224 then 160 else if b0 = 240 then 144 else 128) \<le> b1 \<and>
     b1 \<le> (if b0 = 237 then 159 else if b0 = 244 then 143 else 191)"

definition decode_rune :: "nat list \<Rightarrow> nat \<times> nat" where
  "decode_rune bs = (case bs of
       [] \<Rightarrow> (runeError, 0)
     | b0 # r \<Rightarrow>
         if b0 < 128 then (b0, 1)
         else if 194 \<le> b0 \<and> b0 \<le> 223 then
           (case r of b1 # _ \<Rightarrow> if second_ok b0 b1 then ((b0 - 192) * 64 + (b1 - 128), 2) else (runeError, 1)
            | _ \<Rightarrow> (runeError, 1))
         else if 224 \<le> b0 \<and> b0 \<le> 239 then
           (case r of b1 # b2 # _ \<Rightarrow>
              if second_ok b0 b1 \<and> cont_byte b2
              then ((b0 - 224) * 4096 + (b1 - 128) * 64 + (b2 - 128), 3) else (runeError, 1)
            | _ \<Rightarrow> (runeError, 1))
         else if 240 \<le> b0 \<and> b0 \<le> 244 then
           (case r of b1 # b2 # b3 # _ \<Rightarrow>
              if second_ok b0 b1 \<and> cont_byte b2 \<and> cont_byte b3
              then ((b0 - 240) * 262144 + (b1 - 128) * 4096 + (b2 - 128) * 64 + (b3 - 128), 4)
              else (runeError, 1)
            | _ \<Rightarrow> (runeError, 1))
         else (runeError, 1))"

lemma decode_rune_progress: "0 < snd (decode_rune (b # bs))"
  by (simp add: decode_rune_def split: list.splits)

function runes :: "nat list \<Rightarrow> nat list" where
  "runes [] = []"
| "runes (b # bs) = fst (decode_rune (b # bs)) # runes (drop (snd (decode_rune (b # bs))) (b # bs))"
  by pat_completeness auto
termination
proof (relation "measure length")
  fix b bs
  have "0 < snd (decode_rune (b # bs))"
    by (rule decode_rune_progress)
  then show "(drop (snd (decode_rune (b # bs))) (b # bs), b # bs) \<in> measure length"
    by simp
qed simp

definition string_runes :: "string \<Rightarrow> nat list" where
  "string_runes s = runes (map of_char s)"

section \<open>sort\<close>

text \<open>
  \<open>sort.Slice\<close> with a comparison of keys. The order of elements with equal keys is left
  open by Go; the model keeps their input order, and the facts used below (a permutation,
  sorted by key) hold for every choice.
\<close>

definition sort_Slice :: "('a \<Rightarrow> 'k::linorder) \<Rightarrow> 'a list \<Rightarrow> 'a list" where
  "sort_Slice key xs = sort_key key xs"

section \<open>Facts\<close>

lemma HasPrefix_append [simp]: "HasPrefix (p @ s) p"
  by (simp add: HasPrefix_def)

lemma HasPrefix_iff: "HasPrefix s p \<longleftrightarrow> (\<exists>r. s = p @ r)"
  unfolding HasPrefix_def by (metis append_eq_conv_conj append_take_drop_id)

lemma HasPrefix_Cons [simp]: "HasPrefix (c # cs) (p # ps) \<longleftrightarrow> c = p \<and> HasPrefix cs ps"
  by (auto simp: HasPrefix_def)

lemma HasPrefix_Nil [simp]: "HasPrefix s []" "HasPrefix [] (p # ps) = False"
  by (simp_all add: HasPrefix_def)


subsection \<open>Splitting and joining at slashes\<close>

lemma split_slash_ne [simp]: "split_slash s \<noteq> []"
  by (induction s) (auto split: list.splits)

lemma split_slash_no_slash: "c \<in> set (split_slash s) \<Longrightarrow> CHR ''/'' \<notin> set c"
  by (induction s arbitrary: c) (force split: if_splits list.splits)+

lemma split_slash_single: "CHR ''/'' \<notin> set s \<Longrightarrow> split_slash s = [s]"
  by (induction s) auto

lemma split_slash_append: "split_slash (a @ CHR ''/'' # b) = split_slash a @ split_slash b"
proof (induction a)
  case (Cons c a)
  show ?case
  proof (cases "c = CHR ''/''")
    case False
    obtain x xs where "split_slash a = x # xs" by (meson neq_Nil_conv split_slash_ne)
    with False Cons show ?thesis by simp
  qed (use Cons in simp)
qed simp

lemma join_slash_Cons: "xs \<noteq> [] \<Longrightarrow> join_slash (x # xs) = x @ CHR ''/'' # join_slash xs"
  by (cases xs) auto

lemma join_slash_append:
  "xs \<noteq> [] \<Longrightarrow> ys \<noteq> [] \<Longrightarrow> join_slash (xs @ ys) = join_slash xs @ CHR ''/'' # join_slash ys"
proof (induction xs)
  case (Cons x xs)
  then show ?case by (cases xs) (auto simp: join_slash_Cons)
qed simp

lemma split_join_slash:
  "xs \<noteq> [] \<Longrightarrow> \<forall>c \<in> set xs. CHR ''/'' \<notin> set c \<Longrightarrow> split_slash (join_slash xs) = xs"
proof (induction xs)
  case (Cons x xs)
  then show ?case
    by (cases xs) (auto simp: join_slash_Cons split_slash_append split_slash_single)
qed simp

lemma path_elems_root [simp]: "path_elems (CHR ''/'' # s) = path_elems s"
  by (simp add: path_elems_def)

lemma path_elems_append: "path_elems (a @ CHR ''/'' # b) = path_elems a @ path_elems b"
  by (simp add: path_elems_def split_slash_append)

lemma path_elems_join:
  assumes "\<forall>c \<in> set xs. c \<noteq> '''' \<and> CHR ''/'' \<notin> set c"
  shows "path_elems (join_slash xs) = xs"
proof (cases "xs = []")
  case False
  with assms show ?thesis by (simp add: path_elems_def split_join_slash)
qed (simp add: path_elems_def)

subsection \<open>Cleaning\<close>

text \<open>The elements of a clean path: leading dot-dots only in a relative one, then plain ones.\<close>

definition clean_form :: "bool \<Rightarrow> string list \<Rightarrow> bool" where
  "clean_form rooted cs \<longleftrightarrow>
     (\<exists>k ps. cs = replicate k ''..'' @ ps \<and> (rooted \<longrightarrow> k = 0) \<and> list_all plain_elem ps)"

lemma clean_form_rooted [simp]: "clean_form True cs \<longleftrightarrow> list_all plain_elem cs"
  by (auto simp: clean_form_def)

lemma clean_step_dotdot:
  assumes k: "rooted \<longrightarrow> k = 0" and ps: "list_all plain_elem ps"
  shows "clean_form rooted (rev (clean_step rooted ''..'' (rev ps @ replicate k ''..'')))"
proof (cases ps rule: rev_cases)
  case (snoc qs q)
  with ps have q: "plain_elem q" and qs: "list_all plain_elem qs" by auto
  have "clean_step rooted ''..'' (rev ps @ replicate k ''..'') = rev qs @ replicate k ''..''"
    using q snoc by (simp add: clean_step_def plain_elem_def)
  with k qs show ?thesis by (auto simp: clean_form_def)
next
  case Nil
  show ?thesis
  proof (cases "rooted")
    case True
    with k Nil show ?thesis by (simp add: clean_step_def)
  next
    case False
    have "clean_step rooted ''..'' (replicate k ''..'') = replicate (Suc k) ''..''"
      using False by (cases k) (auto simp: clean_step_def)
    then have "rev (clean_step rooted ''..'' (rev ps @ replicate k ''..'')) = replicate (Suc k) ''..'' @ []"
      using Nil by (simp add: replicate_append_same)
    with False show ?thesis unfolding clean_form_def by fastforce
  qed
qed

lemma clean_step_form:
  assumes "clean_form rooted (rev st)" "CHR ''/'' \<notin> set c"
  shows "clean_form rooted (rev (clean_step rooted c st))"
proof -
  from assms(1) obtain k ps where st: "rev st = replicate k ''..'' @ ps"
    and k: "rooted \<longrightarrow> k = 0" and ps: "list_all plain_elem ps"
    by (auto simp: clean_form_def)
  from st have st': "st = rev ps @ replicate k ''..''"
    by (metis rev_append rev_replicate rev_rev_ident)
  consider (drop) "c = '''' \<or> c = ''.''" | (dd) "c = ''..''" | (plain) "plain_elem c"
    using assms(2) by (auto simp: plain_elem_def)
  then show ?thesis
  proof cases
    case drop
    with assms(1) show ?thesis by (auto simp: clean_step_def)
  next
    case plain
    then have "rev (clean_step rooted c st) = replicate k ''..'' @ (ps @ [c])"
      using st by (auto simp: clean_step_def plain_elem_def)
    with k ps plain show ?thesis unfolding clean_form_def by fastforce
  next
    case dd
    then show ?thesis using clean_step_dotdot [OF k ps] st' by simp
  qed
qed

lemma fold_clean_form:
  assumes "clean_form rooted (rev st)" "\<forall>c \<in> set cs. CHR ''/'' \<notin> set c"
  shows "clean_form rooted (rev (fold (clean_step rooted) cs st))"
  using assms by (induction cs arbitrary: st) (auto intro: clean_step_form)

lemma clean_elems_form:
  "\<forall>c \<in> set cs. CHR ''/'' \<notin> set c \<Longrightarrow> clean_form rooted (clean_elems rooted cs)"
  unfolding clean_elems_def by (rule fold_clean_form) (auto simp: clean_form_def)

lemma clean_step_plain: "plain_elem c \<Longrightarrow> clean_step rooted c st = c # st"
  by (simp add: clean_step_def plain_elem_def)

lemma fold_clean_plain:
  "list_all plain_elem ps \<Longrightarrow> fold (clean_step rooted) ps st = rev ps @ st"
  by (induction ps arbitrary: st) (auto simp: clean_step_plain)

lemma fold_clean_dotdots:
  "fold (clean_step False) (replicate k ''..'') (replicate m ''..'') = replicate (k + m) ''..''"
proof (induction k arbitrary: m)
  case (Suc k)
  have "clean_step False ''..'' (replicate m ''..'') = replicate (Suc m) ''..''"
    by (cases m) (auto simp: clean_step_def)
  with Suc [of "Suc m"] show ?case by simp
qed simp

lemma clean_elems_fixed: "clean_form rooted cs \<Longrightarrow> clean_elems rooted cs = cs"
proof -
  assume "clean_form rooted cs"
  then obtain k ps where cs: "cs = replicate k ''..'' @ ps" and k: "rooted \<longrightarrow> k = 0"
    and ps: "list_all plain_elem ps" by (auto simp: clean_form_def)
  have "fold (clean_step rooted) (replicate k ''..'') [] = replicate k ''..''"
  proof (cases rooted)
    case False
    with fold_clean_dotdots [of k 0] show ?thesis by simp
  qed (use k in simp)
  with cs ps show ?thesis by (simp add: clean_elems_def fold_clean_plain)
qed

lemma clean_elems_drop_empty: "clean_elems rooted ([] # cs) = clean_elems rooted cs"
  by (simp add: clean_elems_def clean_step_def)

lemma clean_elems_append_plain:
  "list_all plain_elem ps \<Longrightarrow> clean_elems rooted (cs @ ps) = clean_elems rooted cs @ ps"
  by (simp add: clean_elems_def fold_clean_plain)

lemma clean_form_no_slash:
  "clean_form rooted cs \<Longrightarrow> c \<in> set cs \<Longrightarrow> c \<noteq> '''' \<and> c \<noteq> ''.'' \<and> CHR ''/'' \<notin> set c"
proof -
  assume "clean_form rooted cs" and c: "c \<in> set cs"
  then obtain k ps where "cs = replicate k ''..'' @ ps" "list_all plain_elem ps"
    by (auto simp: clean_form_def)
  with c have "c = ''..'' \<or> plain_elem c" by (auto simp: list_all_iff)
  then show ?thesis by (auto simp: plain_elem_def)
qed

lemma clean_elems_split_form: "clean_form rooted (clean_elems rooted (split_slash p))"
  by (rule clean_elems_form) (simp add: split_slash_no_slash)

lemma clean_elems_split_join:
  assumes "clean_form rooted cs"
  shows "clean_elems rooted (split_slash (join_slash cs)) = cs"
proof (cases "cs = []")
  case True
  then show ?thesis by (simp add: clean_elems_def clean_step_def)
next
  case False
  then show ?thesis
    using clean_form_no_slash [OF assms] assms by (simp add: split_join_slash clean_elems_fixed)
qed

text \<open>A rooted path cleans to a slash and its clean elements, which are all plain.\<close>

lemma IsAbs_iff: "IsAbs p \<longleftrightarrow> (\<exists>q. p = CHR ''/'' # q)"
  by (simp add: IsAbs_def HasPrefix_iff)

lemma path_Clean_rooted:
  "path_Clean (CHR ''/'' # p) = CHR ''/'' # join_slash (clean_elems True (split_slash p))"
  by (simp add: path_Clean_def IsAbs_def clean_elems_drop_empty)

lemma path_elems_Clean_rooted:
  "path_elems (path_Clean (CHR ''/'' # p)) = clean_elems True (split_slash p)"
proof -
  have "\<forall>c \<in> set (clean_elems True (split_slash p)). c \<noteq> '''' \<and> CHR ''/'' \<notin> set c"
    using clean_form_no_slash [OF clean_elems_split_form] by blast
  then show ?thesis unfolding path_Clean_rooted path_elems_root by (rule path_elems_join)
qed

lemma path_Clean_rooted_plain: "list_all plain_elem (path_elems (path_Clean (CHR ''/'' # p)))"
  using clean_elems_split_form [of True p] by (simp add: path_elems_Clean_rooted)

lemma IsAbs_Clean_rooted: "IsAbs p \<Longrightarrow> IsAbs (path_Clean p)"
  by (auto simp: IsAbs_iff path_Clean_rooted)

lemma IsAbs_join: "clean_form r cs \<Longrightarrow> \<not> IsAbs (join_slash cs)"
proof (cases cs)
  case (Cons x xs)
  assume "clean_form r cs"
  with Cons have "x \<noteq> '''' \<and> CHR ''/'' \<notin> set x" using clean_form_no_slash [of r cs x] by simp
  with Cons show ?thesis by (cases xs; cases x) (auto simp: IsAbs_def join_slash_Cons)
qed (simp add: IsAbs_def)

text \<open>A relative path cleans to its clean elements, or to a dot when none is left.\<close>

lemma path_Clean_relative:
  "\<not> IsAbs p \<Longrightarrow> path_Clean p =
     (let cs = clean_elems False (split_slash p) in if cs = [] then ''.'' else join_slash cs)"
proof -
  assume p: "\<not> IsAbs p"
  define cs where "cs = clean_elems False (split_slash p)"
  have "join_slash cs = '''' \<longleftrightarrow> cs = []"
    using clean_form_no_slash [OF clean_elems_split_form [of False p]] unfolding cs_def [symmetric]
    by (cases cs; cases "tl cs") auto
  moreover have "p = '''' \<Longrightarrow> cs = []"
    by (simp add: cs_def clean_elems_def clean_step_def)
  ultimately show ?thesis using p by (auto simp: path_Clean_def Let_def cs_def)
qed

lemma IsAbs_Clean_relative: "\<not> IsAbs p \<Longrightarrow> \<not> IsAbs (path_Clean p)"
  using IsAbs_join [OF clean_elems_split_form [of False p]]
  by (auto simp: path_Clean_relative Let_def IsAbs_iff)

lemma IsAbs_Clean [simp]: "IsAbs (path_Clean p) = IsAbs p"
  using IsAbs_Clean_rooted IsAbs_Clean_relative by blast

lemma path_Clean_idem: "path_Clean (path_Clean p) = path_Clean p"
proof (cases "IsAbs p")
  case True
  then obtain q where "p = CHR ''/'' # q" by (auto simp: IsAbs_iff)
  with clean_elems_split_join [OF clean_elems_split_form [of True q]] show ?thesis
    by (simp add: path_Clean_rooted)
next
  case False
  define cs where "cs = clean_elems False (split_slash p)"
  have dot: "path_Clean ''.'' = ''.''"
    by (simp add: path_Clean_def IsAbs_def clean_elems_def clean_step_def)
  have "clean_elems False (split_slash (join_slash cs)) = cs"
    unfolding cs_def by (rule clean_elems_split_join [OF clean_elems_split_form])
  with False dot IsAbs_join [OF clean_elems_split_form [of False p]] show ?thesis
    by (auto simp: path_Clean_relative Let_def cs_def)
qed


subsection \<open>Decimal numbers\<close>

lemma of_char_digit: "d < 10 \<Longrightarrow> (of_char (digit_char d) :: nat) = 48 + d"
  by (simp add: digit_char_def of_char_of)

lemma is_digit_digit_char: "d < 10 \<Longrightarrow> is_digit (digit_char d)"
  by (simp add: is_digit_def less_eq_char_def of_char_digit)

lemma digits_val_snoc: "digits_val (s @ [c]) = 10 * digits_val s + (of_char c - 48)"
  by (simp add: digits_val_def)

lemma nat_digits_digits: "nat_digits n \<noteq> [] \<and> list_all is_digit (nat_digits n) \<and> digits_val (nat_digits n) = n"
proof (induction n rule: nat_digits.induct)
  case (1 n)
  show ?case
  proof (cases "n < 10")
    case True
    then show ?thesis
      by (simp add: nat_digits.simps [of n] is_digit_digit_char of_char_digit digits_val_def)
  next
    case False
    with "1" show ?thesis
      by (simp add: nat_digits.simps [of n] is_digit_digit_char of_char_digit digits_val_snoc)
  qed
qed

lemma nat_digits_hd: "\<exists>d < 10. hd (nat_digits n) = digit_char d"
proof (induction n rule: nat_digits.induct)
  case (1 n)
  then show ?case
    by (cases "n < 10") (auto simp: nat_digits.simps [of n] nat_digits_digits)
qed

lemma digit_char_not_sign: "d < 10 \<Longrightarrow> digit_char d \<noteq> CHR ''-'' \<and> digit_char d \<noteq> CHR ''+''"
proof
  assume d: "d < 10"
  show "digit_char d \<noteq> CHR ''-''" "digit_char d \<noteq> CHR ''+''"
    using of_char_digit [OF d] by (auto dest!: arg_cong [where f = "of_char :: char \<Rightarrow> nat"])
qed

lemma nat_digits_no_sign: "\<not> HasPrefix (nat_digits n) ''-''" "\<not> HasPrefix (nat_digits n) ''+''"
proof -
  obtain d where d: "d < 10" "hd (nat_digits n) = digit_char d" using nat_digits_hd by blast
  obtain c cs where n: "nat_digits n = c # cs" using nat_digits_digits [of n] by (cases "nat_digits n") auto
  with d digit_char_not_sign show "\<not> HasPrefix (nat_digits n) ''-''" by auto
  from d n digit_char_not_sign show "\<not> HasPrefix (nat_digits n) ''+''" by auto
qed

text \<open>\<open>Atoi\<close> reads back what \<open>Itoa\<close> writes, for every value of a 64-bit \<open>int\<close>.\<close>

lemma Atoi_digits: "n < 2 ^ 63 \<Longrightarrow> Atoi (nat_digits n) = Some (int n)"
  using nat_digits_digits [of n] nat_digits_no_sign [of n] by (simp add: Atoi_def)

lemma Atoi_neg_digits: "n \<le> 2 ^ 63 \<Longrightarrow> Atoi (CHR ''-'' # nat_digits n) = Some (- int n)"
  using nat_digits_digits [of n] by (simp add: Atoi_def)

lemma Atoi_Itoa: "- (2 ^ 63) \<le> i \<Longrightarrow> i < 2 ^ 63 \<Longrightarrow> Atoi (Itoa i) = Some i"
  using Atoi_digits [of "nat i"] Atoi_neg_digits [of "nat (- i)"]
  by (simp add: Itoa_def nat_less_iff nat_le_iff)

lemma Itoa_not_empty: "Itoa i \<noteq> ''''"
  using nat_digits_digits by (auto simp: Itoa_def)

subsection \<open>Runes\<close>

lemma runes_ascii: "list_all (\<lambda>b. b < 128) bs \<Longrightarrow> runes bs = bs"
  by (induction bs) (auto simp: decode_rune_def)

lemma length_runes: "length (runes bs) \<le> length bs"
proof (induction bs rule: runes.induct)
  case (2 b bs)
  let ?n = "snd (decode_rune (b # bs))"
  have n: "0 < ?n" by (rule decode_rune_progress)
  have "length (runes (drop ?n (b # bs))) \<le> Suc (length bs) - ?n"
    using 2 [unfolded length_drop] by simp
  with n show ?case by (simp only: runes.simps list.size)
qed simp

lemma runes_ne: "bs \<noteq> [] \<Longrightarrow> runes bs \<noteq> []"
  by (cases bs) auto

subsection \<open>Sorting\<close>

lemma mset_sort_Slice [simp]: "mset (sort_Slice key xs) = mset xs"
  by (simp add: sort_Slice_def)

lemma length_sort_Slice [simp]: "length (sort_Slice key xs) = length xs"
  by (simp add: sort_Slice_def)

lemma set_sort_Slice [simp]: "set (sort_Slice key xs) = set xs"
  by (simp add: sort_Slice_def)

lemma sorted_sort_Slice [simp]: "sorted (map key (sort_Slice key xs))"
  by (simp add: sort_Slice_def)

text \<open>
  With distinct keys the result does not depend on the order of the input, so neither on the
  sorting algorithm nor on the random order in which a Go map is ranged over.
\<close>

lemma distinct_map_filter_singleton:
  "distinct (map key zs) \<Longrightarrow> k \<in> set zs \<Longrightarrow> filter (\<lambda>x. key k = key x) zs = [k]"
proof (induction zs)
  case (Cons z zs)
  have none: "filter (\<lambda>x. key z = key x) zs = []"
    using Cons.prems(1) by (auto simp: filter_empty_conv image_iff)
  show ?case
  proof (cases "k = z")
    case True
    with none show ?thesis by simp
  next
    case False
    with Cons show ?thesis by (auto simp: image_iff)
  qed
qed simp

lemma sort_Slice_unique:
  assumes "mset xs = mset ys" "distinct (map key xs)" "sorted (map key zs)" "mset zs = mset ys"
  shows "sort_Slice key xs = zs"
proof -
  have "mset (map key zs) = mset (map key xs)" using assms by (metis mset_map)
  then have d: "distinct (map key zs)" using assms(2) mset_eq_imp_distinct_iff by blast
  show ?thesis unfolding sort_Slice_def
  proof (rule properties_for_sort_key)
    show "mset zs = mset xs" using assms by simp
    show "sorted (map key zs)" by fact
    fix k assume "k \<in> set zs"
    show "filter (\<lambda>x. key k = key x) zs = filter (\<lambda>x. key k = key x) xs"
    proof -
      have s: "set zs = set xs" using assms by (metis set_mset_mset)
      have a: "filter (\<lambda>x. key k = key x) zs = [k]"
        by (rule distinct_map_filter_singleton [OF d \<open>k \<in> set zs\<close>])
      have b: "filter (\<lambda>x. key k = key x) xs = [k]"
        by (rule distinct_map_filter_singleton [OF assms(2)]) (use s \<open>k \<in> set zs\<close> in simp)
      from a b show ?thesis by simp
    qed
  qed
qed

end
