(* ===== verification/Utils.thy ===== *)
theory Utils
  imports GoStd
begin

text \<open>
  The pure helpers of \<open>pkg/driver/utils.go\<close> and the parameter names of
  \<open>pkg/driver/driver.go\<close>: capacity ranges, pinning, capability lists, volume identifiers,
  MFS path normalisation and the saturating arithmetic behind volume statistics.
  An \<open>int64\<close> is an \<open>int\<close>, a \<open>uint64\<close> a \<open>64 word\<close>; the conversion \<open>int64(u)\<close> is
  \<open>sint\<close>.
\<close>

section \<open>Parameter names\<close>

definition DefaultDriverName :: string where "DefaultDriverName = ''ipfs.csi.ptrvsrg.github.io''"
definition paramCID :: string where "paramCID = ''cid''"
definition paramPinning :: string where "paramPinning = ''pinning''"
definition paramMFSPath :: string where "paramMFSPath = ''mfspath''"
definition paramReadOnly :: string where "paramReadOnly = ''readonly''"

lemmas param_defs = paramCID_def paramPinning_def paramMFSPath_def paramReadOnly_def

lemma param_distinct [simp]:
  "paramCID \<noteq> paramPinning" "paramCID \<noteq> paramMFSPath" "paramCID \<noteq> paramReadOnly"
  "paramPinning \<noteq> paramCID" "paramPinning \<noteq> paramMFSPath" "paramPinning \<noteq> paramReadOnly"
  "paramMFSPath \<noteq> paramCID" "paramMFSPath \<noteq> paramPinning" "paramMFSPath \<noteq> paramReadOnly"
  "paramReadOnly \<noteq> paramCID" "paramReadOnly \<noteq> paramPinning" "paramReadOnly \<noteq> paramMFSPath"
  by (simp_all add: param_defs)

section \<open>Capacity\<close>

type_synonym int64 = int
type_synonym uint64 = "64 word"

definition MaxInt64 :: int64 where "MaxInt64 = 2 ^ 63 - 1"

definition defaultCapacityBytes :: int64 where
  "defaultCapacityBytes = 1 * 1024 * 1024 * 1024"

record CapacityRange =
  RequiredBytes :: int64
  LimitBytes :: int64

definition parseCapacityFromRequest :: "CapacityRange option \<Rightarrow> int64 \<Rightarrow> int64" where
  "parseCapacityFromRequest capRange defaultBytes =
     (case capRange of
        None \<Rightarrow> defaultBytes
      | Some r \<Rightarrow>
          let size = RequiredBytes r;
              size = (if size = 0 then LimitBytes r else size)
          in if size \<le> 0 then defaultBytes else size)"

definition isPinningEnabled :: "gomap \<Rightarrow> bool" where
  "isPinningEnabled attrs \<longleftrightarrow> mget attrs paramPinning \<noteq> ''false''"

section \<open>Capabilities\<close>

datatype ControllerRPC = CREATE_DELETE_VOLUME | LIST_VOLUMES | GET_CAPACITY
  | CREATE_DELETE_SNAPSHOT | LIST_SNAPSHOTS | EXPAND_VOLUME
  | PUBLISH_UNPUBLISH_VOLUME | CLONE_VOLUME | PUBLISH_READONLY | GET_VOLUME | MODIFY_VOLUME

datatype ControllerServiceCapability = ControllerCapRpc ControllerRPC

definition controllerCapabilityTypes :: "ControllerRPC list" where
  "controllerCapabilityTypes =
     [CREATE_DELETE_VOLUME, LIST_VOLUMES, GET_CAPACITY, CREATE_DELETE_SNAPSHOT,
      LIST_SNAPSHOTS, EXPAND_VOLUME]"

definition buildControllerCapabilities :: "ControllerServiceCapability list" where
  "buildControllerCapabilities =
     foldl (\<lambda>caps t. caps @ [ControllerCapRpc t]) [] controllerCapabilityTypes"

section \<open>Volume identifiers\<close>

text \<open>
  \<open>unicode.ToLower\<close>, as far as it matters here: the upper-case ASCII letters, and the two
  other runes whose lower case is ASCII (U+0130, a capital I with a dot, and U+212A, the
  Kelvin sign). Every further rune is left as it is; Go may map it to another rune, but never
  to an ASCII one (lemma \<open>sanitize_any_lower\<close> shows that nothing else matters).
\<close>

definition rune_lower :: "nat \<Rightarrow> nat" where
  "rune_lower r =
     (if 65 \<le> r \<and> r \<le> 90 then r + 32 else if r = 304 then 105 else if r = 8490 then 107 else r)"

text \<open>The complement of the class of \<open>sanitizeRe\<close> is replaced by a hyphen, rune by rune.\<close>

definition sanitizeRe_keeps :: "nat \<Rightarrow> bool" where
  "sanitizeRe_keeps r \<longleftrightarrow>
     97 \<le> r \<and> r \<le> 122 \<or> 65 \<le> r \<and> r \<le> 90 \<or> 48 \<le> r \<and> r \<le> 57 \<or> r = 45"

definition sanitize_rune :: "nat \<Rightarrow> char" where
  "sanitize_rune r = (if sanitizeRe_keeps r then char_of r else CHR ''-'')"

definition sanitizeVolumeID :: "string \<Rightarrow> string" where
  "sanitizeVolumeID name =
     (let s = map rune_lower (string_runes name);
          s = map sanitize_rune s
      in if length s > 128 then take 128 s else s)"

section \<open>MFS paths\<close>

definition normalizeMFSPath :: "string \<Rightarrow> string \<Rightarrow> gerr + string" where
  "normalizeMFSPath rawPath root =
     (let normalizedRoot = path_Clean root;
          normalizedRoot = (if \<not> IsAbs normalizedRoot then ''/'' @ normalizedRoot else normalizedRoot);
          normalizedPath = path_Clean rawPath;
          normalizedPath = (if \<not> IsAbs normalizedPath then ''/'' @ normalizedPath else normalizedPath)
      in if normalizedPath \<noteq> normalizedRoot \<and> \<not> HasPrefix normalizedPath (normalizedRoot @ ''/'')
         then Inl (Errorf ''MFS path must be under %s'' [normalizedRoot])
         else Inr normalizedPath)"

section \<open>Volume statistics\<close>

definition subtractUint64Saturating :: "uint64 \<Rightarrow> uint64 \<Rightarrow> uint64" where
  "subtractUint64Saturating a b = (if b \<ge> a then 0 else a - b)"

definition uint64ToInt64Saturating :: "uint64 \<Rightarrow> int64" where
  "uint64ToInt64Saturating v = (if v > word_of_int MaxInt64 then MaxInt64 else sint v)"

definition multiplyUint64ToInt64 :: "uint64 \<Rightarrow> uint64 \<Rightarrow> int64" where
  "multiplyUint64ToInt64 a b =
     (if a = 0 \<or> b = 0 then 0
      else if a > word_of_int MaxInt64 div b then MaxInt64
      else sint (a * b))"

record Statfs_t =
  Bsize :: int64
  Blocks :: uint64
  Bfree :: uint64
  Bavail :: uint64
  Files :: uint64
  Ffree :: uint64

record volumeStats =
  availableBytes :: int64
  totalBytes :: int64
  usedBytes :: int64
  availableInodes :: int64
  totalInodes :: int64
  usedInodes :: int64

text \<open>\<open>syscall.Statfs\<close> is the argument \<open>statfs\<close>: what the kernel reports for a path.\<close>

definition getVolumeStats :: "(string \<Rightarrow> string + Statfs_t) \<Rightarrow> string \<Rightarrow> gerr + volumeStats" where
  "getVolumeStats statfs p =
     (case statfs p of
        Inl err \<Rightarrow> Inl (ErrorfW ''statfs on path %s: %w'' [p] (ExtErr err))
      | Inr stat \<Rightarrow>
          let blockSize = word_of_int (Bsize stat) :: uint64;
              usedBlocks = subtractUint64Saturating (Blocks stat) (Bfree stat)
          in Inr \<lparr>availableBytes = multiplyUint64ToInt64 (Bavail stat) blockSize,
                  totalBytes = multiplyUint64ToInt64 (Blocks stat) blockSize,
                  usedBytes = multiplyUint64ToInt64 usedBlocks blockSize,
                  availableInodes = uint64ToInt64Saturating (Ffree stat),
                  totalInodes = uint64ToInt64Saturating (Files stat),
                  usedInodes = uint64ToInt64Saturating
                                 (subtractUint64Saturating (Files stat) (Ffree stat))\<rparr>)"

section \<open>Lemmas: capacity\<close>

lemma parseCapacity_pos: "0 < d \<Longrightarrow> 0 < parseCapacityFromRequest r d"
  by (auto simp: parseCapacityFromRequest_def Let_def split: option.splits)

lemma parseCapacity_nonneg: "0 \<le> d \<Longrightarrow> 0 \<le> parseCapacityFromRequest r d"
  by (auto simp: parseCapacityFromRequest_def Let_def split: option.splits)

lemma buildControllerCapabilities_eq:
  "buildControllerCapabilities = map ControllerCapRpc controllerCapabilityTypes"
  by (simp add: buildControllerCapabilities_def controllerCapabilityTypes_def)

section \<open>Lemmas: saturating arithmetic\<close>

lemma uint_MaxInt64: "uint (word_of_int MaxInt64 :: uint64) = MaxInt64"
  by (simp add: MaxInt64_def)

lemma sint_small: "uint (v :: uint64) \<le> MaxInt64 \<Longrightarrow> sint v = uint v"
proof -
  assume "uint v \<le> MaxInt64"
  moreover have "0 \<le> uint v" by simp
  ultimately have "signed_take_bit 63 (uint v) = uint v"
    by (intro signed_take_bit_int_eq_self) (auto simp: MaxInt64_def intro: order_trans [of _ 0])
  then show ?thesis by (simp add: sint_uint)
qed

lemma subtractUint64Saturating_eq:
  "uint (subtractUint64Saturating a b) = max 0 (uint a - uint b)"
  by (auto simp: subtractUint64Saturating_def word_le_def uint_sub_if_size max_def)

lemma uint64ToInt64Saturating_eq: "uint64ToInt64Saturating v = min (uint v) MaxInt64"
  using sint_small [of v]
  by (auto simp: uint64ToInt64Saturating_def word_less_def uint_MaxInt64 min_def)


lemma int_div_less_iff: "0 < b \<Longrightarrow> a div b < c \<longleftrightarrow> a < c * (b::int)"
proof
  assume b: "0 < b"
  have eq: "a = a div b * b + a mod b" "0 \<le> a mod b" "a mod b < b" using b by simp_all
  show "a < c * b" if "a div b < c"
  proof -
    have "(a div b + 1) * b \<le> c * b" using that b by (intro mult_right_mono) auto
    moreover have "(a div b + 1) * b = a div b * b + b" by (simp add: algebra_simps)
    ultimately show ?thesis using eq by linarith
  qed
  show "a div b < c" if "a < c * b"
  proof (rule ccontr)
    assume "\<not> a div b < c"
    then have "c * b \<le> a div b * b" using b by (intro mult_right_mono) auto
    with eq that show False by linarith
  qed
qed

lemma multiplyUint64ToInt64_eq: "multiplyUint64ToInt64 a b = min (uint a * uint b) MaxInt64"
proof (cases "a = 0 \<or> b = 0")
  case True
  then show ?thesis by (auto simp: multiplyUint64ToInt64_def MaxInt64_def)
next
  case False
  then have b: "0 < uint b" by (simp add: order_less_le uint_0_iff)
  have div: "a > word_of_int MaxInt64 div b \<longleftrightarrow> MaxInt64 < uint a * uint b"
  proof -
    have "a > word_of_int MaxInt64 div b \<longleftrightarrow> MaxInt64 div uint b < uint a"
      by (simp add: word_less_def uint_div uint_MaxInt64)
    also have "\<dots> \<longleftrightarrow> MaxInt64 < uint a * uint b"
      using b by (rule int_div_less_iff)
    finally show ?thesis .
  qed
  show ?thesis
  proof (cases "MaxInt64 < uint a * uint b")
    case True
    with div False show ?thesis by (simp add: multiplyUint64ToInt64_def)
  next
    case small: False
    then have "uint a * uint b < 2 ^ 64" by (simp add: MaxInt64_def)
    then have "uint (a * b) = uint a * uint b"
      by (simp add: uint_word_ariths)
    with small div False show ?thesis
      using sint_small [of "a * b"] by (simp add: multiplyUint64ToInt64_def)
  qed
qed

lemmas saturating_eqs =
  subtractUint64Saturating_eq uint64ToInt64Saturating_eq multiplyUint64ToInt64_eq

section \<open>Lemmas: volume identifiers\<close>

text \<open>
  Any lower-casing of runes that agrees with \<open>unicode.ToLower\<close> on the runes with an ASCII
  image gives the same identifier.
\<close>

lemma sanitize_any_lower:
  assumes "\<And>r. r < 128 \<Longrightarrow> low r = rune_lower r" "low 304 = 105" "low 8490 = 107"
    and "\<And>r. 128 \<le> r \<Longrightarrow> r \<noteq> 304 \<Longrightarrow> r \<noteq> 8490 \<Longrightarrow> 128 \<le> low r"
  shows "sanitize_rune (low r) = sanitize_rune (rune_lower r)"
proof -
  have hi: "128 \<le> n \<Longrightarrow> sanitize_rune n = CHR ''-''" for n
    by (auto simp: sanitize_rune_def sanitizeRe_keeps_def)
  consider "r < 128" | "r = 304" | "r = 8490" | "128 \<le> r" "r \<noteq> 304" "r \<noteq> 8490" by linarith
  then show ?thesis
  proof cases
    case 4
    then have "128 \<le> low r" "rune_lower r = r" using assms(4) by (auto simp: rune_lower_def)
    with 4 show ?thesis by (simp add: hi)
  qed (use assms in \<open>auto simp: rune_lower_def\<close>)
qed

text \<open>The characters an identifier can have.\<close>

definition id_char :: "char \<Rightarrow> bool" where
  "id_char c \<longleftrightarrow> (let r = of_char c :: nat in 97 \<le> r \<and> r \<le> 122 \<or> 48 \<le> r \<and> r \<le> 57 \<or> r = 45)"

lemma rune_lower_not_upper: "\<not> (65 \<le> rune_lower r \<and> rune_lower r \<le> 90)"
  by (auto simp: rune_lower_def)

lemma id_char_sanitize: "id_char (sanitize_rune (rune_lower r))"
  using rune_lower_not_upper [of r]
  by (auto simp: id_char_def sanitize_rune_def sanitizeRe_keeps_def of_char_of Let_def)

lemma sanitizeVolumeID_eq:
  "sanitizeVolumeID name = take 128 (map (sanitize_rune \<circ> rune_lower) (string_runes name))"
  by (simp add: sanitizeVolumeID_def Let_def)

lemma sanitizeVolumeID_chars: "list_all id_char (sanitizeVolumeID name)"
  by (auto simp: sanitizeVolumeID_eq list_all_iff id_char_sanitize dest!: in_set_takeD)

lemma sanitizeVolumeID_length: "length (sanitizeVolumeID name) \<le> 128"
  by (simp add: sanitizeVolumeID_eq)

lemma sanitizeVolumeID_ne: "name \<noteq> '''' \<Longrightarrow> sanitizeVolumeID name \<noteq> ''''"
  by (simp add: sanitizeVolumeID_eq string_runes_def runes_ne)

lemma id_char_ascii: "id_char c \<Longrightarrow> (of_char c :: nat) < 128"
  by (auto simp: id_char_def Let_def)

lemma id_char_fixed: "id_char c \<Longrightarrow> sanitize_rune (rune_lower (of_char c)) = c"
proof -
  assume c: "id_char c"
  then have "rune_lower (of_char c) = of_char c" "sanitizeRe_keeps (of_char c)"
    by (auto simp: id_char_def Let_def rune_lower_def sanitizeRe_keeps_def)
  then show ?thesis by (simp add: sanitize_rune_def)
qed

text \<open>On ASCII names the runes are the characters.\<close>

lemma sanitizeVolumeID_ascii:
  assumes "list_all (\<lambda>c. (of_char c :: nat) < 128) s"
  shows "sanitizeVolumeID s = take 128 (map (sanitize_rune \<circ> rune_lower \<circ> of_char) s)"
proof -
  have "list_all (\<lambda>b. b < 128) (map of_char s :: nat list)" using assms by (simp add: list_all_iff)
  then show ?thesis by (simp add: sanitizeVolumeID_eq string_runes_def runes_ascii comp_assoc)
qed

text \<open>An identifier of at most 128 admissible characters is left as it is.\<close>

lemma sanitizeVolumeID_fixed:
  assumes "list_all id_char s" "length s \<le> 128"
  shows "sanitizeVolumeID s = s"
proof -
  have "list_all (\<lambda>b. b < 128) (map of_char s :: nat list)"
    using assms(1) by (auto simp: list_all_iff id_char_ascii)
  then have "string_runes s = map of_char s" by (simp add: string_runes_def runes_ascii)
  moreover have "map (sanitize_rune \<circ> rune_lower \<circ> of_char) s = s"
    using assms(1) by (auto simp: list_all_iff id_char_fixed intro!: map_idI)
  ultimately show ?thesis using assms(2) by (simp add: sanitizeVolumeID_eq comp_assoc)
qed

text \<open>An identifier is one plain path element: it cannot climb or branch in MFS.\<close>

lemma id_chars_plain: "list_all id_char s \<Longrightarrow> s \<noteq> '''' \<Longrightarrow> plain_elem s"
proof -
  assume s: "list_all id_char s" "s \<noteq> ''''"
  have "\<not> id_char (CHR ''/'')" "\<not> id_char (CHR ''.'')" by (simp_all add: id_char_def)
  with s show ?thesis by (auto simp: plain_elem_def list_all_iff)
qed

lemma sanitizeVolumeID_plain: "name \<noteq> '''' \<Longrightarrow> plain_elem (sanitizeVolumeID name)"
  by (intro id_chars_plain sanitizeVolumeID_chars sanitizeVolumeID_ne)


section \<open>Lemmas: MFS paths\<close>

text \<open>The normal form of a path: cleaned, and rooted if it was relative.\<close>

definition rooted_Clean :: "string \<Rightarrow> string" where
  "rooted_Clean p = (if IsAbs p then path_Clean p else CHR ''/'' # path_Clean p)"

lemma normalizeMFSPath_eq:
  "normalizeMFSPath raw root =
     (if rooted_Clean raw \<noteq> rooted_Clean root \<and>
         \<not> HasPrefix (rooted_Clean raw) (rooted_Clean root @ ''/'')
      then Inl (Errorf ''MFS path must be under %s'' [rooted_Clean root])
      else Inr (rooted_Clean raw))"
  by (simp add: normalizeMFSPath_def rooted_Clean_def)

lemma rooted_Clean_abs:
  assumes "IsAbs p"
  obtains es where "rooted_Clean p = CHR ''/'' # join_slash es" "list_all plain_elem es"
    "path_elems (rooted_Clean p) = es"
proof -
  from assms obtain q where q: "p = CHR ''/'' # q" by (auto simp: IsAbs_iff)
  show ?thesis
  proof (rule that)
    show "rooted_Clean p = CHR ''/'' # join_slash (clean_elems True (split_slash q))"
      using assms q by (simp add: rooted_Clean_def path_Clean_rooted)
    show "list_all plain_elem (clean_elems True (split_slash q))"
      using clean_elems_split_form [of True q] by simp
    show "path_elems (rooted_Clean p) = clean_elems True (split_slash q)"
      using assms q by (simp add: rooted_Clean_def path_elems_Clean_rooted)
  qed
qed

text \<open>
  The shape of a normal form. A relative path keeps its leading dot-dots below the added slash:
  its elements are then not all plain, so it is under no absolute root.
\<close>

lemma rooted_Clean_shape:
  obtains "rooted_Clean p = ''/.''"
  | r cs where "clean_form r cs" "rooted_Clean p = CHR ''/'' # join_slash cs"
proof (cases "IsAbs p")
  case True
  then show ?thesis using rooted_Clean_abs [OF True] that(2) [of True] by auto
next
  case False
  show ?thesis
  proof (cases "clean_elems False (split_slash p) = []")
    case True
    with False show ?thesis by (intro that(1)) (simp add: rooted_Clean_def path_Clean_relative)
  next
    case ne: False
    with False show ?thesis
      by (intro that(2) [OF clean_elems_split_form])
        (simp add: rooted_Clean_def path_Clean_relative)
  qed
qed

lemma path_elems_clean_form: "clean_form r cs \<Longrightarrow> path_elems (CHR ''/'' # join_slash cs) = cs"
  using clean_form_no_slash [of r cs] by (simp add: path_elems_join)

lemma no_double_slash: "clean_form r cs \<Longrightarrow> \<not> HasPrefix (CHR ''/'' # join_slash cs) ''//''"
  using IsAbs_join [of r cs] by (simp add: IsAbs_def)

text \<open>What a prefix test against a rooted clean path means for the elements.\<close>

lemma under_root_elems:
  assumes "HasPrefix p (CHR ''/'' # join_slash es @ ''/'')" "list_all plain_elem es" "es \<noteq> []"
  obtains rest where "path_elems p = es @ rest"
proof -
  from assms(1) obtain r where "p = CHR ''/'' # join_slash es @ CHR ''/'' # r"
    by (auto simp: HasPrefix_iff)
  then have "path_elems p = path_elems (join_slash es) @ path_elems r"
    by (simp add: path_elems_append)
  moreover have "path_elems (join_slash es) = es"
    using assms(2) by (intro path_elems_join) (auto simp: list_all_iff plain_elem_def)
  ultimately show ?thesis using that by simp
qed

lemma clean_form_hd_plain:
  assumes "clean_form r cs" "cs = e # cs'" "plain_elem e"
  shows "list_all plain_elem cs"
proof -
  from assms(1) obtain k ps where "cs = replicate k ''..'' @ ps" "list_all plain_elem ps"
    by (auto simp: clean_form_def)
  with assms(2,3) show ?thesis by (cases k) (auto simp: plain_elem_def)
qed


text \<open>
  The elements of an accepted path, for an absolute root: those of the root, then plain ones.
\<close>

lemma under_root_plain:
  assumes es: "list_all plain_elem es"
    and pre: "HasPrefix (rooted_Clean raw) (CHR ''/'' # join_slash es @ ''/'')"
  obtains rest where "list_all plain_elem (es @ rest)"
    "rooted_Clean raw = CHR ''/'' # join_slash (es @ rest)"
proof -
  from rooted_Clean_shape [of raw] show ?thesis
  proof cases
    case 1
    with pre have "es \<noteq> []" by auto
    then obtain rest where "path_elems (rooted_Clean raw) = es @ rest"
      using under_root_elems [OF pre es] by blast
    with 1 have "[''.''] = es @ rest" by (simp add: path_elems_def)
    with \<open>es \<noteq> []\<close> es show ?thesis by (cases es) (auto simp: plain_elem_def)
  next
    case (2 r cs)
    have "es \<noteq> []" using pre 2(2) no_double_slash [OF 2(1)] by auto
    then obtain rest where "path_elems (rooted_Clean raw) = es @ rest"
      using under_root_elems [OF pre es] by blast
    then have cs: "cs = es @ rest" using 2(2) path_elems_clean_form [OF 2(1)] by simp
    obtain e es' where e: "es = e # es'" using \<open>es \<noteq> []\<close> by (cases es) auto
    with cs es have "list_all plain_elem cs" by (intro clean_form_hd_plain [OF 2(1)]) auto
    with cs 2(2) that [of rest] show ?thesis by simp
  qed
qed

lemma normalizeMFSPath_elems:
  assumes root: "IsAbs root" and ok: "normalizeMFSPath raw root = Inr p"
  shows "(\<exists>rest. path_elems p = path_elems (path_Clean root) @ rest) \<and>
    list_all plain_elem (path_elems p) \<and> path_Clean p = p \<and> IsAbs p"
proof -
  obtain es where es: "rooted_Clean root = CHR ''/'' # join_slash es" "list_all plain_elem es"
    "path_elems (rooted_Clean root) = es"
    using rooted_Clean_abs [OF root] .
  have root_elems: "path_elems (path_Clean root) = es"
    using es(3) root by (simp add: rooted_Clean_def)
  from ok have p: "p = rooted_Clean raw" and
    under: "p = rooted_Clean root \<or> HasPrefix p (CHR ''/'' # join_slash es @ ''/'')"
    by (auto simp: normalizeMFSPath_eq es(1) split: if_splits)
  obtain rest where cs: "list_all plain_elem (es @ rest)" "p = CHR ''/'' # join_slash (es @ rest)"
  proof (cases "p = rooted_Clean root")
    case True
    with es that [of "[]"] show ?thesis by simp
  next
    case False
    with under p have "HasPrefix (rooted_Clean raw) (CHR ''/'' # join_slash es @ ''/'')" by simp
    from under_root_plain [OF es(2) this] p that show ?thesis by metis
  qed
  have "path_elems p = es @ rest" using cs path_elems_clean_form [of True "es @ rest"] by simp
  moreover have "path_Clean p = p"
    using cs clean_elems_split_join [of True "es @ rest"] by (simp add: path_Clean_rooted)
  moreover have "IsAbs p" using cs by (simp add: IsAbs_iff)
  ultimately show ?thesis using cs root_elems by auto
qed

text \<open>A plain element appended to an absolute root other than the file system root is accepted.\<close>

lemma normalizeMFSPath_child:
  assumes "IsAbs root" "path_Clean root \<noteq> ''/''" "plain_elem v"
  shows "normalizeMFSPath (root @ ''/'' @ v) root = Inr (path_Clean root @ ''/'' @ v)"
proof -
  from assms(1) obtain q where q: "root = CHR ''/'' # q" by (auto simp: IsAbs_iff)
  have v: "split_slash v = [v]" using assms(3) by (simp add: split_slash_single plain_elem_def)
  define es where "es = clean_elems True (split_slash q)"
  have root: "path_Clean root = CHR ''/'' # join_slash es"
    by (simp add: q es_def path_Clean_rooted)
  with assms(2) have "es \<noteq> []" by auto
  have "path_Clean (root @ ''/'' @ v) = CHR ''/'' # join_slash (es @ [v])"
    using assms(3) v
    by (simp add: q es_def path_Clean_rooted split_slash_append clean_elems_append_plain)
  also have "\<dots> = path_Clean root @ ''/'' @ v"
    using \<open>es \<noteq> []\<close> by (simp add: root join_slash_append)
  finally have c: "path_Clean (root @ ''/'' @ v) = path_Clean root @ ''/'' @ v" .
  have "IsAbs (root @ ''/'' @ v)" using q by (simp add: IsAbs_iff)
  then have "rooted_Clean (root @ ''/'' @ v) = path_Clean root @ ''/'' @ v"
    using c by (simp add: rooted_Clean_def)
  moreover have "rooted_Clean root = path_Clean root" using assms(1) by (simp add: rooted_Clean_def)
  ultimately show ?thesis
    by (simp add: normalizeMFSPath_eq HasPrefix_iff)
qed

section \<open>Properties\<close>

text \<open>
  Path confinement. With an absolute MFS root, a path that \<open>normalizeMFSPath\<close> accepts is
  absolute and in normal form, its elements start with those of the cleaned root, and none of
  them is empty, a dot or a dot-dot: no \<open>mfspath\<close> parameter reaches a directory outside the root.
\<close>

lemma normalizeMFSPath_confined:
  assumes "IsAbs root" "normalizeMFSPath raw root = Inr p"
  shows "\<exists>rest. path_elems p = path_elems (path_Clean root) @ rest \<and>
           list_all plain_elem (path_elems p) \<and> path_Clean p = p \<and> IsAbs p"
  using normalizeMFSPath_elems [OF assms] by blast

text \<open>
  The path of a volume without an \<open>mfspath\<close> parameter (the root, a slash and the sanitised
  name) is always accepted, and is the child of the cleaned root with that name, provided the
  root is absolute and not the MFS root directory itself.
\<close>

lemma normalizeMFSPath_default:
  assumes "IsAbs root" "path_Clean root \<noteq> ''/''" "name \<noteq> ''''"
  shows "normalizeMFSPath (root @ ''/'' @ sanitizeVolumeID name) root
           = Inr (path_Clean root @ ''/'' @ sanitizeVolumeID name)"
  using assms by (intro normalizeMFSPath_child sanitizeVolumeID_plain)

text \<open>
  With the MFS root directory as root, only the root directory itself is accepted: the
  prefix that is tested is two slashes, which no cleaned absolute path has. Every volume with a
  directory of its own is then refused.
\<close>

lemma normalizeMFSPath_slash_root:
  "normalizeMFSPath raw ''/'' =
     (if rooted_Clean raw = ''/'' then Inr ''/'' else Inl (Errorf ''MFS path must be under %s'' [''/'']))"
proof -
  have root: "rooted_Clean ''/'' = ''/''" by code_simp
  have "\<not> HasPrefix (rooted_Clean raw) ''//''"
    using rooted_Clean_shape [of raw] by cases (auto dest: no_double_slash)
  then show ?thesis by (simp add: normalizeMFSPath_eq root)
qed

text \<open>
  (C38) A sanitised identifier has only lower-case letters, digits and hyphens, at most 128 of
  them, at least one if the name has, and sanitising it again changes nothing.
\<close>

theorem sanitizeVolumeID_safe:
  "list_all id_char (sanitizeVolumeID name) \<and> length (sanitizeVolumeID name) \<le> 128 \<and>
   (sanitizeVolumeID name = '''' \<longleftrightarrow> name = '''') \<and>
   sanitizeVolumeID (sanitizeVolumeID name) = sanitizeVolumeID name"
  using sanitizeVolumeID_chars [of name] sanitizeVolumeID_length [of name] sanitizeVolumeID_ne [of name]
    sanitizeVolumeID_fixed [of "sanitizeVolumeID name"]
  by (auto simp: sanitizeVolumeID_def string_runes_def)

text \<open>
  (C33) Volume statistics do not wrap: each byte count is the exact product of blocks and block
  size, each inode count the exact number, cut off at the largest \<open>int64\<close>; used space is total
  minus free, and zero where the kernel reports more free than total.
\<close>

theorem getVolumeStats_exact:
  assumes "statfs p = Inr st" "0 \<le> Bsize st" "Bsize st \<le> MaxInt64"
  shows "getVolumeStats statfs p = Inr
    \<lparr>availableBytes = min (uint (Bavail st) * Bsize st) MaxInt64,
     totalBytes = min (uint (Blocks st) * Bsize st) MaxInt64,
     usedBytes = min (max 0 (uint (Blocks st) - uint (Bfree st)) * Bsize st) MaxInt64,
     availableInodes = min (uint (Ffree st)) MaxInt64,
     totalInodes = min (uint (Files st)) MaxInt64,
     usedInodes = min (max 0 (uint (Files st) - uint (Ffree st))) MaxInt64\<rparr>"
proof -
  have "uint (word_of_int (Bsize st) :: uint64) = Bsize st"
    using assms(2,3) by (simp add: MaxInt64_def unsigned_of_int take_bit_int_eq_self)
  with assms(1) show ?thesis by (simp add: getVolumeStats_def Let_def saturating_eqs)
qed

theorem getVolumeStats_exact_witness:
  "getVolumeStats (\<lambda>_. Inr \<lparr>Bsize = 4096, Blocks = 2 ^ 60, Bfree = 1, Bavail = 7, Files = 3, Ffree = 5\<rparr>) ''/data''
   = Inr \<lparr>availableBytes = 28672, totalBytes = MaxInt64, usedBytes = MaxInt64,
          availableInodes = 5, totalInodes = 3, usedInodes = 0\<rparr>"
  by (subst getVolumeStats_exact
        [of _ _ "\<lparr>Bsize = 4096, Blocks = 2 ^ 60, Bfree = 1, Bavail = 7, Files = 3, Ffree = 5\<rparr>"])
    (simp_all add: MaxInt64_def)

text \<open>
  The capacity a request asks for: the required size, else the limit, else the default; a
  size that is not positive counts as none. With a positive default it is always positive.
\<close>

lemma parseCapacityFromRequest_spec:
  "parseCapacityFromRequest None dflt = dflt \<and>
   parseCapacityFromRequest (Some \<lparr>RequiredBytes = r, LimitBytes = l\<rparr>) dflt =
     (if 0 < r then r else if r = 0 \<and> 0 < l then l else dflt) \<and>
   (0 < parseCapacityFromRequest c dflt \<or> parseCapacityFromRequest c dflt = dflt)"
  by (auto simp: parseCapacityFromRequest_def Let_def split: option.splits)

end
