(* ===== verification/Stores.thy ===== *)
theory Stores
  imports Utils
begin

text \<open>
  \<open>pkg/driver/store\<close>: volume and snapshot metadata read from the informer caches of
  PersistentVolumes and VolumeSnapshotContents. The listers are client-go code: they are
  records of functions of the state \<open>'w\<close> (the caches change between calls), given as
  arguments. The Go interfaces \<open>VolumeStore\<close> and \<open>SnapshotStore\<close> are records of their
  methods; \<open>pvStore\<close> and \<open>vscStore\<close> build them from a lister. What the driver relies on is
  stated by the locales \<open>volume_store\<close> and \<open>snapshot_store\<close>, interpreted on these two.
\<close>

section \<open>PersistentVolumes\<close>

record CSIPersistentVolumeSource =
  csi_Driver :: string
  csi_VolumeHandle :: string
  csi_VolumeAttributes :: gomap

text \<open>\<open>pv_Storage\<close> is the value of the storage resource of \<open>spec.capacity\<close>, if present.\<close>

record PersistentVolume =
  pv_Name :: string
  pv_CSI :: "CSIPersistentVolumeSource option"
  pv_Storage :: "int64 option"

record 'w PVLister =
  pvl_Get :: "string \<Rightarrow> 'w \<Rightarrow> gerr + PersistentVolume"
  pvl_List :: "'w \<Rightarrow> gerr + PersistentVolume list"

record VolumeAttributes =
  VolumeID :: string
  Capacity :: int64
  Attributes :: gomap

record 'w VolumeStore =
  GetVolumeAttributes :: "string \<Rightarrow> 'w \<Rightarrow> gerr + VolumeAttributes"
  ListVolumes :: "string \<Rightarrow> 'w \<Rightarrow> gerr + VolumeAttributes list"

definition pvToAttributes :: "PersistentVolume \<Rightarrow> gerr + VolumeAttributes" where
  "pvToAttributes pv =
     (case pv_CSI pv of
        None \<Rightarrow> Inl (Errorf ''PV has no CSI spec'' [])
      | Some csi \<Rightarrow>
          let volID = csi_VolumeHandle csi;
              volID = (if volID = '''' then pv_Name pv else volID);
              capacity = (case pv_Storage pv of Some q \<Rightarrow> q | None \<Rightarrow> 0)
          in Inr \<lparr>VolumeID = volID, Capacity = capacity, Attributes = csi_VolumeAttributes csi\<rparr>)"

text \<open>The test of both lookups: a CSI volume whose handle is the wanted identifier.\<close>

definition has_handle :: "string \<Rightarrow> PersistentVolume \<Rightarrow> bool" where
  "has_handle volumeID pv \<longleftrightarrow>
     (case pv_CSI pv of None \<Rightarrow> False | Some csi \<Rightarrow> csi_VolumeHandle csi = volumeID)"

fun find_by_handle :: "string \<Rightarrow> PersistentVolume list \<Rightarrow> gerr + VolumeAttributes" where
  "find_by_handle volumeID [] = Inl (ErrorfW ''%w: volume %s'' [volumeID] ErrPVNotFound)"
| "find_by_handle volumeID (pv # pvs) =
     (if has_handle volumeID pv then pvToAttributes pv else find_by_handle volumeID pvs)"

definition pv_list_lookup :: "'w PVLister \<Rightarrow> string \<Rightarrow> 'w \<Rightarrow> gerr + VolumeAttributes" where
  "pv_list_lookup L volumeID w =
     (case pvl_List L w of
        Inl err \<Rightarrow> Inl (ErrorfW ''list PVs: %w'' [] err)
      | Inr pvs \<Rightarrow> find_by_handle volumeID pvs)"

definition pvStore_GetVolumeAttributes :: "'w PVLister \<Rightarrow> string \<Rightarrow> 'w \<Rightarrow> gerr + VolumeAttributes" where
  "pvStore_GetVolumeAttributes L volumeID w =
     (case pvl_Get L volumeID w of
        Inr pv \<Rightarrow> if has_handle volumeID pv then pvToAttributes pv else pv_list_lookup L volumeID w
      | Inl err \<Rightarrow> pv_list_lookup L volumeID w)"

fun collect_volumes :: "string \<Rightarrow> PersistentVolume list \<Rightarrow> VolumeAttributes list" where
  "collect_volumes driverName [] = []"
| "collect_volumes driverName (pv # pvs) =
     (case pv_CSI pv of
        None \<Rightarrow> collect_volumes driverName pvs
      | Some csi \<Rightarrow>
          if csi_Driver csi \<noteq> driverName then collect_volumes driverName pvs
          else (case pvToAttributes pv of
                  Inl err \<Rightarrow> collect_volumes driverName pvs
                | Inr attrs \<Rightarrow> attrs # collect_volumes driverName pvs))"

definition pvStore_ListVolumes :: "'w PVLister \<Rightarrow> string \<Rightarrow> 'w \<Rightarrow> gerr + VolumeAttributes list" where
  "pvStore_ListVolumes L driverName w =
     (case pvl_List L w of
        Inl err \<Rightarrow> Inl (ErrorfW ''list PVs: %w'' [] err)
      | Inr pvs \<Rightarrow> Inr (collect_volumes driverName pvs))"

definition NewVolumeStoreFromPVLister :: "'w PVLister \<Rightarrow> 'w VolumeStore" where
  "NewVolumeStoreFromPVLister L =
     \<lparr>GetVolumeAttributes = pvStore_GetVolumeAttributes L, ListVolumes = pvStore_ListVolumes L\<rparr>"

section \<open>VolumeSnapshotContents\<close>

record VolumeSnapshotContentStatus =
  vscs_SnapshotHandle :: "string option"
  vscs_ReadyToUse :: "bool option"
  vscs_CreationTime :: "int64 option"
  vscs_RestoreSize :: "int64 option"

record VolumeSnapshotContent =
  vsc_Driver :: string
  vsc_VolumeHandle :: "string option"
  vsc_SnapshotHandle :: "string option"
  vsc_Status :: "VolumeSnapshotContentStatus option"

record 'w VSCLister =
  vscl_List :: "'w \<Rightarrow> gerr + VolumeSnapshotContent list"

record SnapshotEntry =
  SnapshotID :: string
  SourceVolumeID :: string
  ReadyToUse :: bool
  CreationTime :: int64
  SizeBytes :: int64

record 'w SnapshotStore =
  ListSnapshots :: "string \<Rightarrow> string \<Rightarrow> string \<Rightarrow> 'w \<Rightarrow> gerr + SnapshotEntry list"

text \<open>Reading through a pointer that may be nil, with the zero value otherwise.\<close>

definition deref :: "'a \<Rightarrow> 'a option \<Rightarrow> 'a" where
  "deref z p = (case p of None \<Rightarrow> z | Some v \<Rightarrow> v)"

text \<open>Go's integer division truncates towards zero.\<close>

definition go_quot :: "int \<Rightarrow> int \<Rightarrow> int" where
  "go_quot a b = sgn a * sgn b * (\<bar>a\<bar> div \<bar>b\<bar>)"

definition vsc_handle :: "VolumeSnapshotContent \<Rightarrow> string" where
  "vsc_handle vsc =
     (let snapHandle = deref '''' (Option.bind (vsc_Status vsc) vscs_SnapshotHandle)
      in if snapHandle = '''' then deref '''' (vsc_SnapshotHandle vsc) else snapHandle)"

definition vscToSnapshotEntry ::
  "VolumeSnapshotContent \<Rightarrow> string \<Rightarrow> string \<Rightarrow> string \<Rightarrow> SnapshotEntry option" where
  "vscToSnapshotEntry vsc driverName filterSnapshotID filterSourceVolumeID =
     (if vsc_Driver vsc \<noteq> driverName then None
      else
        let sourceVol = deref '''' (vsc_VolumeHandle vsc);
            snapHandle = vsc_handle vsc
        in if filterSnapshotID \<noteq> '''' \<and> snapHandle \<noteq> filterSnapshotID then None
           else if filterSourceVolumeID \<noteq> '''' \<and> sourceVol \<noteq> filterSourceVolumeID then None
           else Some
             \<lparr>SnapshotID = snapHandle,
              SourceVolumeID = sourceVol,
              ReadyToUse = deref False (Option.bind (vsc_Status vsc) vscs_ReadyToUse),
              CreationTime =
                (case Option.bind (vsc_Status vsc) vscs_CreationTime of
                   None \<Rightarrow> 0 | Some t \<Rightarrow> go_quot t 1000000000),
              SizeBytes = deref 0 (Option.bind (vsc_Status vsc) vscs_RestoreSize)\<rparr>)"

fun collect_snapshots ::
  "string \<Rightarrow> string \<Rightarrow> string \<Rightarrow> VolumeSnapshotContent list \<Rightarrow> SnapshotEntry list" where
  "collect_snapshots d f s [] = []"
| "collect_snapshots d f s (vsc # vscs) =
     (case vscToSnapshotEntry vsc d f s of
        None \<Rightarrow> collect_snapshots d f s vscs
      | Some entry \<Rightarrow> entry # collect_snapshots d f s vscs)"

definition vscStore_ListSnapshots ::
  "'w VSCLister \<Rightarrow> string \<Rightarrow> string \<Rightarrow> string \<Rightarrow> 'w \<Rightarrow> gerr + SnapshotEntry list" where
  "vscStore_ListSnapshots L driverName filterSnapshotID filterSourceVolumeID w =
     (case vscl_List L w of
        Inl err \<Rightarrow> Inl (ErrorfW ''list VolumeSnapshotContents: %w'' [] err)
      | Inr vscs \<Rightarrow> Inr (collect_snapshots driverName filterSnapshotID filterSourceVolumeID vscs))"

text \<open>A nil lister gives a nil store: the snapshot API is not installed.\<close>

definition NewSnapshotStoreFromVSCLister :: "'w VSCLister option \<Rightarrow> 'w SnapshotStore option" where
  "NewSnapshotStoreFromVSCLister lister =
     (case lister of None \<Rightarrow> None | Some L \<Rightarrow> Some \<lparr>ListSnapshots = vscStore_ListSnapshots L\<rparr>)"

section \<open>The interface of the volume store\<close>

text \<open>
  \<open>vols w\<close> are the CSI volumes known in state \<open>w\<close>, each with its handle, its driver and its
  attributes; \<open>ok w\<close> says that the store can be read consistently.
\<close>

locale volume_store =
  fixes get :: "string \<Rightarrow> 'w \<Rightarrow> gerr + VolumeAttributes"
    and list :: "string \<Rightarrow> 'w \<Rightarrow> gerr + VolumeAttributes list"
    and vols :: "'w \<Rightarrow> (string \<times> string \<times> VolumeAttributes) list"
    and ok :: "'w \<Rightarrow> bool"
  assumes get_found: "ok w \<Longrightarrow> get v w = Inr a \<Longrightarrow> \<exists>d. (v, d, a) \<in> set (vols w)"
    and get_error: "ok w \<Longrightarrow> get v w = Inl e \<Longrightarrow>
      errors_Is e ErrPVNotFound \<and> (\<forall>d a. (v, d, a) \<notin> set (vols w))"
    and list_ok: "ok w \<Longrightarrow> list d w = Inr (map (snd \<circ> snd) (filter (\<lambda>x. fst (snd x) = d) (vols w)))"
    and vols_id: "(v, d, a) \<in> set (vols w) \<Longrightarrow> v \<noteq> '''' \<Longrightarrow> VolumeID a = v"
begin

text \<open>A volume that the store knows is found, under an identifier that is its own.\<close>

lemma get_complete:
  assumes "ok w" "(v, d, a) \<in> set (vols w)"
  shows "\<exists>a'. get v w = Inr a'"
proof (cases "get v w")
  case (Inl e)
  with get_error [OF assms(1) Inl] assms(2) show ?thesis by blast
qed simp

lemma get_VolumeID: "ok w \<Longrightarrow> v \<noteq> '''' \<Longrightarrow> get v w = Inr a \<Longrightarrow> VolumeID a = v"
  using get_found vols_id by blast

text \<open>Every volume of the driver is listed, so a reference held by it is counted.\<close>

lemma listed: "ok w \<Longrightarrow> list d w = Inr vs \<Longrightarrow> (v, d, a) \<in> set (vols w) \<Longrightarrow> a \<in> set vs"
  by (force simp: list_ok)

lemma listed_only: "ok w \<Longrightarrow> list d w = Inr vs \<Longrightarrow> a \<in> set vs \<Longrightarrow> \<exists>v. (v, d, a) \<in> set (vols w)"
  by (force simp: list_ok)

end

text \<open>
  What client-go documents of a lister over a synced cache: a list is available, and an
  object returned by name is one of the list.
\<close>

definition lister_ok :: "'w PVLister \<Rightarrow> 'w \<Rightarrow> bool" where
  "lister_ok L w \<longleftrightarrow>
     (case pvl_List L w of
        Inl e \<Rightarrow> False
      | Inr pvs \<Rightarrow> (\<forall>n pv. pvl_Get L n w = Inr pv \<longrightarrow> pv \<in> set pvs))"

definition pv_view :: "PersistentVolume \<Rightarrow> (string \<times> string \<times> VolumeAttributes) list" where
  "pv_view pv = (case pv_CSI pv of None \<Rightarrow> []
     | Some csi \<Rightarrow> (case pvToAttributes pv of Inl e \<Rightarrow> []
         | Inr a \<Rightarrow> [(csi_VolumeHandle csi, csi_Driver csi, a)]))"

definition pv_vols :: "'w PVLister \<Rightarrow> 'w \<Rightarrow> (string \<times> string \<times> VolumeAttributes) list" where
  "pv_vols L w = (case pvl_List L w of Inl e \<Rightarrow> [] | Inr pvs \<Rightarrow> concat (map pv_view pvs))"

lemma has_handle_view:
  "has_handle v pv \<longleftrightarrow> (\<exists>d a. pv_view pv = [(v, d, a)] \<and> pvToAttributes pv = Inr a)"
  by (auto simp: has_handle_def pv_view_def pvToAttributes_def Let_def split: option.splits)

lemma pv_view_mem: "(v, d, a) \<in> set (pv_view pv) \<Longrightarrow> has_handle v pv \<and> pvToAttributes pv = Inr a"
  by (auto simp: has_handle_def pv_view_def pvToAttributes_def Let_def split: option.splits)

lemma find_by_handle_Inr:
  "find_by_handle v pvs = Inr a \<Longrightarrow> \<exists>d. (v, d, a) \<in> set (concat (map pv_view pvs))"
  by (induction pvs) (auto simp: has_handle_view split: if_splits)

lemma find_by_handle_Inl:
  "find_by_handle v pvs = Inl e \<Longrightarrow> e = ErrorfW ''%w: volume %s'' [v] ErrPVNotFound
     \<and> (\<forall>pv \<in> set pvs. \<not> has_handle v pv)"
  by (induction pvs) (auto simp: has_handle_view split: if_splits)

lemma collect_volumes_eq:
  "collect_volumes d pvs =
     map (snd \<circ> snd) (filter (\<lambda>x. fst (snd x) = d) (concat (map pv_view pvs)))"
  by (induction pvs) (auto simp: pv_view_def split: option.splits sum.splits)

lemma pv_view_VolumeID: "(v, d, a) \<in> set (pv_view pv) \<Longrightarrow> v \<noteq> '''' \<Longrightarrow> VolumeID a = v"
  by (auto simp: pv_view_def pvToAttributes_def Let_def split: option.splits)

lemma pvStore_get_known:
  assumes ok: "lister_ok L w" and get: "pvStore_GetVolumeAttributes L v w = Inr a"
  shows "\<exists>d. (v, d, a) \<in> set (pv_vols L w)"
proof -
  from ok obtain pvs where pvs: "pvl_List L w = Inr pvs"
    and mem: "\<And>n pv. pvl_Get L n w = Inr pv \<Longrightarrow> pv \<in> set pvs"
    by (auto simp: lister_ok_def split: sum.splits)
  consider pv where "pvl_Get L v w = Inr pv" "has_handle v pv" "pvToAttributes pv = Inr a"
    | "find_by_handle v pvs = Inr a"
    using get pvs
    by (auto simp: pvStore_GetVolumeAttributes_def pv_list_lookup_def split: sum.splits if_splits)
  then show ?thesis
  proof cases
    case (1 pv)
    then have "pv \<in> set pvs" using mem by blast
    moreover obtain d where "(v, d, a) \<in> set (pv_view pv)" using 1 by (auto simp: has_handle_view)
    ultimately show ?thesis using pvs by (auto simp: pv_vols_def)
  next
    case 2
    then show ?thesis using pvs find_by_handle_Inr by (auto simp: pv_vols_def)
  qed
qed

lemma pvStore_get_unknown:
  assumes ok: "lister_ok L w" and get: "pvStore_GetVolumeAttributes L v w = Inl e"
  shows "errors_Is e ErrPVNotFound \<and> (\<forall>d a. (v, d, a) \<notin> set (pv_vols L w))"
proof -
  from ok obtain pvs where pvs: "pvl_List L w = Inr pvs"
    by (auto simp: lister_ok_def split: sum.splits)
  have "find_by_handle v pvs = Inl e"
    using get pvs
    by (auto simp: pvStore_GetVolumeAttributes_def pv_list_lookup_def has_handle_view
        split: sum.splits if_splits)
  from find_by_handle_Inl [OF this] show ?thesis
    using pvs by (auto simp: pv_vols_def dest: pv_view_mem)
qed

interpretation pvs: volume_store
  "pvStore_GetVolumeAttributes L" "pvStore_ListVolumes L" "pv_vols L" "lister_ok L" for L
proof unfold_locales
  fix w v a
  assume "lister_ok L w" "pvStore_GetVolumeAttributes L v w = Inr a"
  then show "\<exists>d. (v, d, a) \<in> set (pv_vols L w)" by (rule pvStore_get_known)
next
  fix w v e
  assume "lister_ok L w" "pvStore_GetVolumeAttributes L v w = Inl e"
  then show "errors_Is e ErrPVNotFound \<and> (\<forall>d a. (v, d, a) \<notin> set (pv_vols L w))"
    by (rule pvStore_get_unknown)
next
  fix w d
  assume "lister_ok L w"
  then show "pvStore_ListVolumes L d w
      = Inr (map (snd \<circ> snd) (filter (\<lambda>x. fst (snd x) = d) (pv_vols L w)))"
    by (auto simp: lister_ok_def pvStore_ListVolumes_def pv_vols_def collect_volumes_eq
        split: sum.splits)
next
  fix v d a w
  assume "(v, d, a) \<in> set (pv_vols L w)" "v \<noteq> ''''"
  then show "VolumeID a = v"
    by (auto simp: pv_vols_def pv_view_VolumeID split: sum.splits)
qed

section \<open>The interface of the snapshot store\<close>

text \<open>\<open>snaps w\<close> are the snapshots known in state \<open>w\<close>, each with its driver.\<close>

locale snapshot_store =
  fixes list :: "string \<Rightarrow> string \<Rightarrow> string \<Rightarrow> 'w \<Rightarrow> gerr + SnapshotEntry list"
    and snaps :: "'w \<Rightarrow> (string \<times> SnapshotEntry) list"
    and ok :: "'w \<Rightarrow> bool"
  assumes list_ok: "ok w \<Longrightarrow> list d f s w =
    Inr (map snd (filter (\<lambda>(d', e). d' = d \<and> (f = '''' \<or> SnapshotID e = f) \<and>
                                     (s = '''' \<or> SourceVolumeID e = s)) (snaps w)))"
begin

text \<open>The references to a content identifier are the driver's snapshots with that handle.\<close>

lemma list_by_id:
  "ok w \<Longrightarrow> f \<noteq> '''' \<Longrightarrow> list d f '''' w = Inr es \<Longrightarrow>
     length es = length (filter (\<lambda>(d', e). d' = d \<and> SnapshotID e = f) (snaps w))"
  by (auto simp: list_ok case_prod_unfold)

text \<open>Filters only remove entries.\<close>

lemma list_filter_sub:
  assumes "ok w" "list d f s w = Inr es" "list d '''' '''' w = Inr all"
  shows "set es \<subseteq> set all"
  using assms by (auto simp: list_ok)

end

definition vsc_lister_ok :: "'w VSCLister \<Rightarrow> 'w \<Rightarrow> bool" where
  "vsc_lister_ok L w \<longleftrightarrow> (case vscl_List L w of Inl e \<Rightarrow> False | Inr vscs \<Rightarrow> True)"

definition vsc_view :: "VolumeSnapshotContent \<Rightarrow> string \<times> SnapshotEntry" where
  "vsc_view vsc = (vsc_Driver vsc, the (vscToSnapshotEntry vsc (vsc_Driver vsc) '''' ''''))"

definition vsc_snaps :: "'w VSCLister \<Rightarrow> 'w \<Rightarrow> (string \<times> SnapshotEntry) list" where
  "vsc_snaps L w = (case vscl_List L w of Inl e \<Rightarrow> [] | Inr vscs \<Rightarrow> map vsc_view vscs)"

lemma vscToSnapshotEntry_view:
  "vscToSnapshotEntry vsc d f s =
     (case vsc_view vsc of (d', e) \<Rightarrow>
        if d' = d \<and> (f = '''' \<or> SnapshotID e = f) \<and> (s = '''' \<or> SourceVolumeID e = s)
        then Some e else None)"
  by (simp add: vsc_view_def vscToSnapshotEntry_def Let_def)

lemma collect_snapshots_eq:
  "collect_snapshots d f s vscs =
     map snd (filter (\<lambda>(d', e). d' = d \<and> (f = '''' \<or> SnapshotID e = f) \<and>
                                (s = '''' \<or> SourceVolumeID e = s)) (map vsc_view vscs))"
  by (induction vscs) (auto simp: vscToSnapshotEntry_view split: prod.splits if_splits)

interpretation vscs: snapshot_store "vscStore_ListSnapshots L" "vsc_snaps L" "vsc_lister_ok L" for L
  by unfold_locales
    (auto simp: vsc_lister_ok_def vscStore_ListSnapshots_def vsc_snaps_def collect_snapshots_eq
      split: sum.splits)

section \<open>Further lemmas\<close>

lemma find_by_handle_unique:
  assumes "pv \<in> set pvs" "has_handle v pv" "distinct (map csi_VolumeHandle (List.map_filter pv_CSI pvs))"
  shows "find_by_handle v pvs = pvToAttributes pv"
  using assms
proof (induction pvs)
  case (Cons q qs)
  have mem: "csi \<in> set (List.map_filter pv_CSI qs)" if "pv_CSI pv = Some csi" "pv \<in> set qs" for csi
    using that by (force simp: List.map_filter_def)
  show ?case
    using Cons mem by (fastforce simp: has_handle_def split: option.splits if_splits)
qed simp

lemma get_by_scan:
  assumes "lister_ok L w" "pvl_List L w = Inr pvs"
    and "distinct (map csi_VolumeHandle (List.map_filter pv_CSI pvs))"
  shows "pvStore_GetVolumeAttributes L v w = find_by_handle v pvs"
proof -
  have "pvToAttributes pv = find_by_handle v pvs" if "pv \<in> set pvs" "has_handle v pv" for pv
    using find_by_handle_unique [OF that assms(3)] by (rule sym)
  with assms(1,2) show ?thesis
    by (auto simp: pvStore_GetVolumeAttributes_def pv_list_lookup_def lister_ok_def split: sum.splits)
qed

lemma collect_volumes_comp:
  "collect_volumes d pvs =
     map (\<lambda>(pv, csi). \<lparr>VolumeID = (if csi_VolumeHandle csi = '''' then pv_Name pv else csi_VolumeHandle csi),
                        Capacity = (case pv_Storage pv of None \<Rightarrow> 0 | Some q \<Rightarrow> q),
                        Attributes = csi_VolumeAttributes csi\<rparr>)
       (filter (\<lambda>(pv, csi). csi_Driver csi = d)
         (List.map_filter (\<lambda>pv. map_option (Pair pv) (pv_CSI pv)) pvs))"
  by (induction pvs) (auto simp: pvToAttributes_def Let_def split: option.splits)

lemma vsc_view_fields:
  "fst (vsc_view vsc) = vsc_Driver vsc" "SnapshotID (snd (vsc_view vsc)) = vsc_handle vsc"
  "SourceVolumeID (snd (vsc_view vsc)) = deref '''' (vsc_VolumeHandle vsc)"
  by (simp_all add: vsc_view_def vscToSnapshotEntry_def Let_def)

text \<open>
  A small cache, for examples: three volumes of the driver, two of them with the same content,
  one volume of another driver, and a snapshot.
\<close>

definition example_pv :: "string \<Rightarrow> string \<Rightarrow> string \<Rightarrow> PersistentVolume" where
  "example_pv name driver cid =
     \<lparr>pv_Name = name,
      pv_CSI = Some \<lparr>csi_Driver = driver, csi_VolumeHandle = ''h-'' @ name,
                     csi_VolumeAttributes = [paramCID \<mapsto> cid, paramReadOnly \<mapsto> ''true'']\<rparr>,
      pv_Storage = Some 5\<rparr>"

definition example_PVs :: "PersistentVolume list" where
  "example_PVs = [example_pv ''a'' DefaultDriverName ''Qm1'', example_pv ''b'' ''other'' ''Qm1'',
                  example_pv ''c'' DefaultDriverName ''Qm1'', example_pv ''e'' DefaultDriverName ''Qm2'']"

definition example_PVLister :: "'w PVLister" where
  "example_PVLister =
     \<lparr>pvl_Get = (\<lambda>n w. case filter (\<lambda>pv. pv_Name pv = n) example_PVs of
                         [] \<Rightarrow> Inl (ExtErr ''not found'') | pv # _ \<Rightarrow> Inr pv),
      pvl_List = (\<lambda>w. Inr example_PVs)\<rparr>"

definition example_VSC :: VolumeSnapshotContent where
  "example_VSC = \<lparr>vsc_Driver = DefaultDriverName, vsc_VolumeHandle = Some ''h-a'', vsc_SnapshotHandle = None,
     vsc_Status = Some \<lparr>vscs_SnapshotHandle = Some ''Qm3'', vscs_ReadyToUse = Some True,
                        vscs_CreationTime = Some 7000000000, vscs_RestoreSize = None\<rparr>\<rparr>"

definition example_VSCLister :: "'w VSCLister" where
  "example_VSCLister = \<lparr>vscl_List = (\<lambda>w. Inr [example_VSC])\<rparr>"

lemma example_PVLister_ok: "lister_ok example_PVLister w"
proof -
  have "pv \<in> set example_PVs" if "pvl_Get example_PVLister n w = Inr pv" for n pv
  proof (cases "filter (\<lambda>pv. pv_Name pv = n) example_PVs")
    case (Cons q qs)
    then have "q \<in> set example_PVs" by (metis filter_is_subset list.set_intros(1) subsetD)
    with Cons that show ?thesis by (simp add: example_PVLister_def)
  qed (use that in \<open>simp add: example_PVLister_def\<close>)
  moreover have "pvl_List example_PVLister w = Inr example_PVs" by (simp add: example_PVLister_def)
  ultimately show ?thesis by (simp add: lister_ok_def)
qed

lemma example_PVLister_List [simp]: "pvl_List example_PVLister w = Inr example_PVs"
  by (simp add: example_PVLister_def)

lemma example_VSCLister_List [simp]: "vscl_List example_VSCLister w = Inr [example_VSC]"
  by (simp add: example_VSCLister_def)

section \<open>Properties\<close>

text \<open>
  (C28) The lookup of a volume is exact: it returns the attributes of a PersistentVolume of the
  cache whose CSI handle is the identifier, and fails, with an error that is \<open>ErrPVNotFound\<close> for
  \<open>errors.Is\<close>, only when there is none.
\<close>

theorem pvStore_lookup_exact:
  assumes "lister_ok L w" "pvl_List L w = Inr pvs"
  shows "case pvStore_GetVolumeAttributes L v w of
           Inr a \<Rightarrow> \<exists>pv \<in> set pvs. has_handle v pv \<and> pvToAttributes pv = Inr a
         | Inl e \<Rightarrow> errors_Is e ErrPVNotFound \<and> \<not> (\<exists>pv \<in> set pvs. has_handle v pv)"
proof (cases "pvStore_GetVolumeAttributes L v w")
  case (Inl e)
  have "\<not> has_handle v pv" if "pv \<in> set pvs" for pv
    using pvs.get_error [OF assms(1) Inl] assms(2) that by (fastforce simp: pv_vols_def has_handle_view)
  with pvs.get_error [OF assms(1) Inl] Inl show ?thesis by auto
next
  case (Inr a)
  then show ?thesis
    using pvs.get_found [OF assms(1) Inr] assms(2) by (auto simp: pv_vols_def dest: pv_view_mem)
qed

theorem pvStore_lookup_exact_witness:
  "\<exists>pv \<in> set example_PVs. has_handle ''h-c'' pv \<and>
     pvToAttributes pv = pvStore_GetVolumeAttributes example_PVLister ''h-c'' ()"
  using pvStore_lookup_exact [OF example_PVLister_ok example_PVLister_List, of "''h-c''" "()"]
  by (auto simp: example_PVs_def example_pv_def has_handle_def split: sum.splits)

text \<open>
  (C29) The lookup by object name is only a shortcut: when no two volumes of the cache share a
  handle, the result is that of the scan over the whole list.
\<close>

theorem pvStore_fast_path:
  assumes "lister_ok L w" "pvl_List L w = Inr pvs"
    and "distinct (map csi_VolumeHandle (List.map_filter pv_CSI pvs))"
  shows "pvStore_GetVolumeAttributes L v w = find_by_handle v pvs"
  by (rule get_by_scan [OF assms])

theorem pvStore_fast_path_witness:
  "pvStore_GetVolumeAttributes example_PVLister ''h-e'' () = find_by_handle ''h-e'' example_PVs"
  by (rule pvStore_fast_path [OF example_PVLister_ok example_PVLister_List])
    (simp add: example_PVs_def example_pv_def)

text \<open>
  The list of a driver's volumes has exactly the CSI volumes of the cache that name the
  driver, in cache order, each with its handle (or its object name when the handle is empty),
  capacity and attributes.
\<close>

lemma pvStore_list_exact:
  assumes "pvl_List L w = Inr pvs"
  shows "pvStore_ListVolumes L d w =
    Inr (map (\<lambda>(pv, csi).
                \<lparr>VolumeID = (if csi_VolumeHandle csi = '''' then pv_Name pv else csi_VolumeHandle csi),
                 Capacity = (case pv_Storage pv of None \<Rightarrow> 0 | Some q \<Rightarrow> q),
                 Attributes = csi_VolumeAttributes csi\<rparr>)
          (filter (\<lambda>(pv, csi). csi_Driver csi = d)
            (List.map_filter (\<lambda>pv. map_option (Pair pv) (pv_CSI pv)) pvs)))"
  using assms collect_volumes_comp [of d pvs] by (simp add: pvStore_ListVolumes_def)

text \<open>
  The list of snapshots is exact: the snapshot contents of the driver, in cache order, with
  the wanted handle and the wanted source volume, where an empty filter admits everything.
\<close>

lemma vscStore_list_exact:
  assumes "vscl_List L w = Inr vscs"
  shows "vscStore_ListSnapshots L d f s w =
    Inr (map (snd \<circ> vsc_view)
          (filter (\<lambda>vsc. vsc_Driver vsc = d \<and> (f = '''' \<or> vsc_handle vsc = f) \<and>
                         (s = '''' \<or> deref '''' (vsc_VolumeHandle vsc) = s)) vscs))"
  using assms vscs.list_ok [of L w d f s]
  by (simp add: vsc_lister_ok_def vsc_snaps_def vsc_view_fields case_prod_unfold filter_map o_def)

end
