(* ===== verification/Locks.thy ===== *)
theory Locks
  imports Prelude
begin

text \<open>
  \<open>pkg/driver/lock/volumelocks.go\<close>: a set of held keys behind a mutex. Each method holds the
  mutex for its whole body, so it is one atomic step. The interface the handlers rely on is the
  locale \<open>try_lock\<close>, interpreted on \<open>VolumeLocks\<close>. What the locks achieve for the concurrent
  handlers is shown in theory \<open>Goroutines\<close>.
\<close>

section \<open>VolumeLocks\<close>

record VolumeLocks =
  locks :: "string set"

definition NewVolumeLocks :: VolumeLocks where
  "NewVolumeLocks = \<lparr>locks = {}\<rparr>"

definition TryAcquire :: "string \<Rightarrow> VolumeLocks \<Rightarrow> bool \<times> VolumeLocks" where
  "TryAcquire key vl =
     (if key \<in> locks vl then (False, vl)
      else (True, vl\<lparr>locks := insert key (locks vl)\<rparr>))"

definition Release :: "string \<Rightarrow> VolumeLocks \<Rightarrow> VolumeLocks" where
  "Release key vl = vl\<lparr>locks := locks vl - {key}\<rparr>"

section \<open>The interface\<close>

locale try_lock =
  fixes held :: "'l \<Rightarrow> string set"
    and acquire :: "string \<Rightarrow> 'l \<Rightarrow> bool \<times> 'l"
    and release :: "string \<Rightarrow> 'l \<Rightarrow> 'l"
  assumes acquire_held: "k \<in> held l \<Longrightarrow> acquire k l = (False, l)"
    and acquire_free: "k \<notin> held l \<Longrightarrow> fst (acquire k l) \<and> held (snd (acquire k l)) = insert k (held l)"
    and release_held: "held (release k l) = held l - {k}"
begin

lemma acquire_ok: "fst (acquire k l) \<longleftrightarrow> k \<notin> held l"
  using acquire_held acquire_free by fastforce

lemma acquire_True: "acquire k l = (True, l') \<Longrightarrow> k \<notin> held l \<and> held l' = insert k (held l)"
  using acquire_ok [of k l] acquire_free [of k l] by simp

lemma acquire_False: "acquire k l = (False, l') \<Longrightarrow> k \<in> held l \<and> l' = l"
  using acquire_ok [of k l] acquire_held [of k l] by simp

text \<open>Acquire, then any body that leaves the set as it found it, then release: nothing changed.\<close>

lemma acquire_release:
  "acquire k l = (True, l') \<Longrightarrow> held l'' = held l' \<Longrightarrow> held (release k l'') = held l"
  by (auto simp: release_held dest: acquire_True)

text \<open>The key of another operation is not affected.\<close>

lemma acquire_other: "k \<noteq> j \<Longrightarrow> acquire k l = (b, l') \<Longrightarrow> j \<in> held l' \<longleftrightarrow> j \<in> held l"
  using acquire_True [of k l l'] acquire_False [of k l l'] by (cases b) auto

end

interpretation vlock: try_lock locks TryAcquire Release
  by unfold_locales (auto simp: TryAcquire_def Release_def)

section \<open>Lemmas\<close>

lemma VolumeLocks_eqI: "locks v = locks v' \<Longrightarrow> v = (v' :: VolumeLocks)"
  by simp

end
