(* ===== verification/HostFS.thy ===== *)
theory HostFS
  imports Utils Locks
begin

text \<open>
  The state the driver works on, and the parts of package \<open>os\<close> it uses.
  \<open>world\<close> is the state shared by all calls: the host file system as a tree, the driver's lock
  set, the clock, a counter behind random temporary names, and \<open>ext\<close>, the state of the
  services outside the process (IPFS daemon, informer caches, mount table), whose type is a
  parameter. What the host decides is the record \<open>OS\<close>: a call may be refused
  (\<open>os_fault\<close> gives the error and what the failed call leaves of the tree), the temporary
  directory and its random suffixes, what \<open>statfs\<close> reports, and which special files are sockets.
  Directory entries are kept sorted by name, the order in which \<open>os.ReadDir\<close> and
  \<open>filepath.Walk\<close> deliver them.
\<close>

section \<open>Trees\<close>

text \<open>
  A regular file, a directory, or anything else (a symbolic link, a device), of which only
  matters what opening and reading it inside an \<open>os.Root\<close> gives.
\<close>

datatype fnode = FFile string | FDir "(string \<times> fnode) list" | FOther "string + string"

fun lookup :: "fnode \<Rightarrow> string list \<Rightarrow> fnode option" where
  "lookup n [] = Some n"
| "lookup (FDir es) (c # cs) = (case map_of es c of None \<Rightarrow> None | Some m \<Rightarrow> lookup m cs)"
| "lookup _ (c # cs) = None"

fun put_entry :: "string \<Rightarrow> fnode \<Rightarrow> (string \<times> fnode) list \<Rightarrow> (string \<times> fnode) list" where
  "put_entry c n [] = [(c, n)]"
| "put_entry c n ((d, m) # es) =
     (if c < d then (c, n) # (d, m) # es
      else if c = d then (c, n) # es
      else (d, m) # put_entry c n es)"

definition del_entry :: "string \<Rightarrow> (string \<times> fnode) list \<Rightarrow> (string \<times> fnode) list" where
  "del_entry c es = filter (\<lambda>e. fst e \<noteq> c) es"

text \<open>Create the directories along a path; \<open>None\<close> where a component is no directory.\<close>

fun mkdirs :: "string list \<Rightarrow> fnode \<Rightarrow> fnode option" where
  "mkdirs [] (FDir es) = Some (FDir es)"
| "mkdirs (c # cs) (FDir es) =
     map_option (\<lambda>m. FDir (put_entry c m es))
       (mkdirs cs (case map_of es c of None \<Rightarrow> FDir [] | Some m \<Rightarrow> m))"
| "mkdirs _ _ = None"

text \<open>Remove what is at a path, if there is something.\<close>

fun removeAt :: "string list \<Rightarrow> fnode \<Rightarrow> fnode" where
  "removeAt [] n = n"
| "removeAt [c] (FDir es) = FDir (del_entry c es)"
| "removeAt (c # d # cs) (FDir es) =
     (case map_of es c of None \<Rightarrow> FDir es
      | Some m \<Rightarrow> FDir (put_entry c (removeAt (d # cs) m) es))"
| "removeAt (c # cs) n = n"

text \<open>Put a node at a path whose parent is a directory.\<close>

fun storeAt :: "string list \<Rightarrow> fnode \<Rightarrow> fnode \<Rightarrow> fnode option" where
  "storeAt [] n t = Some n"
| "storeAt [c] n (FDir es) = Some (FDir (put_entry c n es))"
| "storeAt (c # d # cs) n (FDir es) =
     (case map_of es c of None \<Rightarrow> None
      | Some m \<Rightarrow> map_option (\<lambda>m'. FDir (put_entry c m' es)) (storeAt (d # cs) n m))"
| "storeAt (c # cs) n t = None"

section \<open>The state\<close>

record 'x world =
  ext :: 'x
  hfs :: fnode
  volumeLocks :: VolumeLocks
  clock :: int64
  seqno :: nat

record 'x OS =
  os_fault :: "string \<Rightarrow> string \<Rightarrow> 'x world \<Rightarrow> (string \<times> fnode) option"
  os_TempDir :: string
  os_rand :: "nat \<Rightarrow> string"
  os_Statfs :: "'x world \<Rightarrow> string \<Rightarrow> string + Statfs_t"
  os_IsSocket :: "'x world \<Rightarrow> string \<Rightarrow> bool"

text \<open>
  The path of tree components a name denotes, resolved lexically; the working directory of the
  driver's container is the root.
\<close>

definition fs_path :: "string \<Rightarrow> string list" where
  "fs_path p = clean_elems True (split_slash p)"

section \<open>Package os\<close>

text \<open>A call the host may refuse.\<close>

definition os_call :: "'x OS \<Rightarrow> string \<Rightarrow> string \<Rightarrow> ('x world, 'a) io \<Rightarrow> ('x world, 'a) io" where
  "os_call E op p m w =
     (case os_fault E op p w of
        Some (err, t) \<Rightarrow> (Inl (ExtErr err), w\<lparr>hfs := t\<rparr>)
      | None \<Rightarrow> m w)"

definition os_MkdirAll :: "'x OS \<Rightarrow> string \<Rightarrow> ('x world, unit) io" where
  "os_MkdirAll E p = os_call E ''mkdirall'' p
     (\<lambda>w. case mkdirs (fs_path p) (hfs w) of
            None \<Rightarrow> (Inl (ExtErr ''not a directory''), w)
          | Some t \<Rightarrow> (Inr (), w\<lparr>hfs := t\<rparr>))"

definition os_ReadDir :: "'x OS \<Rightarrow> string \<Rightarrow> ('x world, string list) io" where
  "os_ReadDir E p = os_call E ''readdir'' p
     (readsE (\<lambda>w. case lookup (hfs w) (fs_path p) of
            None \<Rightarrow> Inl (NotExist p)
          | Some (FDir es) \<Rightarrow> Inr (map fst es)
          | Some _ \<Rightarrow> Inl (ExtErr ''not a directory'')))"

definition os_RemoveAll :: "'x OS \<Rightarrow> string \<Rightarrow> ('x world, unit) io" where
  "os_RemoveAll E p = os_call E ''removeall'' p
     (\<lambda>w. (Inr (), w\<lparr>hfs := removeAt (fs_path p) (hfs w)\<rparr>))"

text \<open>
  \<open>os.MkdirTemp("", "csi-ipfs-restore-*")\<close>: random suffixes are tried until one names no
  existing file, at most 10000 of them.
\<close>

definition temp_prefix :: "'x OS \<Rightarrow> string \<Rightarrow> string" where
  "temp_prefix E prefix =
     (let dir = os_TempDir E
      in if dir \<noteq> '''' \<and> last dir = CHR ''/'' then dir @ prefix else dir @ ''/'' @ prefix)"

fun mkdirTemp_try :: "'x OS \<Rightarrow> string \<Rightarrow> nat \<Rightarrow> ('x world, string) io" where
  "mkdirTemp_try E prefix 0 w = (Inl (ExtErr ''file exists''), w)"
| "mkdirTemp_try E prefix (Suc n) w =
     (let name = temp_prefix E prefix @ os_rand E (seqno w);
          w1 = w\<lparr>seqno := Suc (seqno w)\<rparr>
      in case os_fault E ''mkdir'' name w of
           Some (err, t) \<Rightarrow> (Inl (ExtErr err), w1\<lparr>hfs := t\<rparr>)
         | None \<Rightarrow>
             if lookup (hfs w) (fs_path name) \<noteq> None then mkdirTemp_try E prefix n w1
             else (case storeAt (fs_path name) (FDir []) (hfs w) of
                     None \<Rightarrow> (Inl (NotExist name), w1)
                   | Some t \<Rightarrow> (Inr name, w1\<lparr>hfs := t\<rparr>)))"

definition os_MkdirTemp :: "'x OS \<Rightarrow> string \<Rightarrow> ('x world, string) io" where
  "os_MkdirTemp E prefix = mkdirTemp_try E prefix 10000"

definition os_Stat :: "'x OS \<Rightarrow> string \<Rightarrow> ('x world, fnode) io" where
  "os_Stat E p = os_call E ''stat'' p
     (readsE (\<lambda>w. case lookup (hfs w) (fs_path p) of None \<Rightarrow> Inl (NotExist p) | Some n \<Rightarrow> Inr n))"

text \<open>\<open>os.OpenRoot\<close> needs a directory; \<open>root.Open\<close> gives the bytes of a file inside it.\<close>

definition os_OpenRoot :: "'x OS \<Rightarrow> string \<Rightarrow> ('x world, unit) io" where
  "os_OpenRoot E p = os_call E ''openroot'' p
     (readsE (\<lambda>w. case lookup (hfs w) (fs_path p) of
            None \<Rightarrow> Inl (NotExist p)
          | Some (FDir es) \<Rightarrow> Inr ()
          | Some _ \<Rightarrow> Inl (ExtErr ''not a directory'')))"

definition root_Open :: "'x OS \<Rightarrow> string \<Rightarrow> fnode \<Rightarrow> ('x world, string) io" where
  "root_Open E p n = os_call E ''open'' p
     (case n of
        FFile b \<Rightarrow> ret b
      | FOther (Inr b) \<Rightarrow> ret b
      | FOther (Inl e) \<Rightarrow> throw (ExtErr e)
      | FDir es \<Rightarrow> throw (ExtErr ''is a directory''))"

definition os_Close :: "'x OS \<Rightarrow> string \<Rightarrow> string \<Rightarrow> ('x world, unit) io" where
  "os_Close E kind p = os_call E kind p (ret ())"

text \<open>
  \<open>filepath.Walk\<close>: the callback is called on a directory before its entries, in lexical
  order, and with an error where an entry or a listing cannot be read; its first error ends
  the walk. The callbacks used here do not change the host's tree.
\<close>

type_synonym 'x walk_fn = "string \<Rightarrow> fnode option \<Rightarrow> gerr option \<Rightarrow> ('x world, unit) io"

text \<open>A read of the host with a handler for the case that it is refused.\<close>

definition os_guard ::
  "'x OS \<Rightarrow> string \<Rightarrow> string \<Rightarrow> (gerr \<Rightarrow> ('x world, 'a) io) \<Rightarrow> ('x world, 'a) io \<Rightarrow> ('x world, 'a) io" where
  "os_guard E op p h m w =
     (case os_fault E op p w of Some (err, t) \<Rightarrow> h (ExtErr err) w | None \<Rightarrow> m w)"

fun walk :: "'x OS \<Rightarrow> 'x walk_fn \<Rightarrow> string \<Rightarrow> fnode \<Rightarrow> ('x world, unit) io"
  and walk_entries :: "'x OS \<Rightarrow> 'x walk_fn \<Rightarrow> string \<Rightarrow> (string \<times> fnode) list \<Rightarrow> ('x world, unit) io"
where
  "walk E fn p (FDir es) =
     os_guard E ''readdir'' p (\<lambda>err. fn p (Some (FDir es)) (Some err))
       (bindE (fn p (Some (FDir es)) None) (\<lambda>_. walk_entries E fn p es))"
| "walk E fn p (FFile b) = fn p (Some (FFile b)) None"
| "walk E fn p (FOther r) = fn p (Some (FOther r)) None"
| "walk_entries E fn p [] = ret ()"
| "walk_entries E fn p ((name, n) # es) =
     bindE (os_guard E ''lstat'' (filepath_Join [p, name])
              (\<lambda>err. fn (filepath_Join [p, name]) None (Some err))
              (walk E fn (filepath_Join [p, name]) n))
       (\<lambda>_. walk_entries E fn p es)"

definition filepath_Walk :: "'x OS \<Rightarrow> 'x walk_fn \<Rightarrow> string \<Rightarrow> ('x world, unit) io" where
  "filepath_Walk E fn root =
     os_guard E ''lstat'' root (\<lambda>err. fn root None (Some err))
       (bindE (reads (\<lambda>w. lookup (hfs w) (fs_path root))) (\<lambda>n.
          case n of
            None \<Rightarrow> fn root None (Some (NotExist root))
          | Some n \<Rightarrow> walk E fn root n))"

end
