(* ===== verification/IpfsClient.thy ===== *)
theory IpfsClient
  imports HostFS
begin

text \<open>
  \<open>pkg/ipfs/client.go\<close>: the kubo RPC client. The Go interface \<open>Client\<close> is a record of its
  methods; \<open>client\<close> builds it from the kubo HTTP API and the host. The kubo RPC library, the
  daemon behind it and boxo's file helpers are not part of the repository: they are the record
  \<open>KuboAPI\<close>, functions of the daemon's state \<open>'x\<close> that may fail with an error text. A decoded
  CID is known by a string key.
\<close>

section \<open>What the client talks to\<close>

text \<open>
  A Unixfs node as \<open>Unixfs().Get\<close> returns it: a file with its bytes, a directory with the
  entries its iterator yields and the error it ends with, if any, or another kind of node.
\<close>

datatype unode = UFile string | UDir "(string \<times> unode) list" "string option" | UOther

text \<open>A JSON document as the decoder sees it; \<open>JInvalid\<close> is malformed input.\<close>

datatype json = JNull | JBool bool | JNum int | JStr string | JArr "json list"
  | JObj "(string \<times> json) list" | JInvalid string

record Response =
  resp_Error :: "string option"
  resp_Output :: json

record 'x KuboAPI =
  cid_Decode :: "string \<Rightarrow> string + string"
  cid_String :: "string \<Rightarrow> string"
  NewMultiaddr :: "string \<Rightarrow> string + string"
  kuborpc_NewApi :: "string \<Rightarrow> string + unit"
  Key_Self :: "'x \<Rightarrow> (string + string) \<times> 'x"
  Unixfs_Get :: "string \<Rightarrow> 'x \<Rightarrow> (string + unode) \<times> 'x"
  Unixfs_Add :: "fnode \<Rightarrow> 'x \<Rightarrow> (string + string) \<times> 'x"
  Pin_Add :: "string \<Rightarrow> 'x \<Rightarrow> (string + unit) \<times> 'x"
  Pin_Rm :: "string \<Rightarrow> 'x \<Rightarrow> (string + unit) \<times> 'x"
  Request :: "string \<Rightarrow> string list \<Rightarrow> (string \<times> bool) list \<Rightarrow> 'x \<Rightarrow> (string + Response) \<times> 'x"
  files_WriteTo :: "unode \<Rightarrow> string \<Rightarrow> fnode \<Rightarrow> string option \<times> fnode"
  files_NewSerialFile :: "string \<Rightarrow> fnode \<Rightarrow> string + fnode"

section \<open>The interface Client\<close>

record RepoStatResult =
  RepoSize :: uint64
  StorageMax :: uint64
  NumObjects :: uint64

record 'x Client =
  Ping :: "('x world, unit) io"
  StatCID :: "string \<Rightarrow> ('x world, bool) io"
  GetCIDContent :: "string \<Rightarrow> string \<Rightarrow> ('x world, unit) io"
  AddPath :: "string \<Rightarrow> ('x world, string) io"
  PinCID :: "string \<Rightarrow> ('x world, unit) io"
  UnpinCID :: "string \<Rightarrow> ('x world, unit) io"
  MkdirMFS :: "string \<Rightarrow> ('x world, unit) io"
  RmMFS :: "string \<Rightarrow> ('x world, unit) io"
  ExportMFS :: "string \<Rightarrow> string \<Rightarrow> ('x world, unit) io"
  ImportToMFS :: "string \<Rightarrow> string \<Rightarrow> ('x world, unit) io"
  ResolveMFSCID :: "string \<Rightarrow> ('x world, string) io"
  GetRepoStat :: "('x world, RepoStatResult) io"
  ReadCID :: "string \<Rightarrow> ('x world, string) io"

section \<open>Helpers\<close>

text \<open>A call of the API: it changes the daemon's state and may fail with an error text.\<close>

definition api :: "('x \<Rightarrow> (string + 'a) \<times> 'x) \<Rightarrow> ('x world, 'a) io" where
  "api f w = (case f (ext w) of (Inl e, x) \<Rightarrow> (Inl (ExtErr e), w\<lparr>ext := x\<rparr>)
                              | (Inr a, x) \<Rightarrow> (Inr a, w\<lparr>ext := x\<rparr>))"

definition parseCIDPath :: "'x KuboAPI \<Rightarrow> string \<Rightarrow> gerr + string" where
  "parseCIDPath K cidStr =
     (case cid_Decode K cidStr of
        Inl err \<Rightarrow> Inl (ErrorfW ''decode CID %q: %w'' [cidStr] (ExtErr err))
      | Inr c \<Rightarrow> Inr c)"

text \<open>
  \<open>encoding/json\<close> into a struct field: the members whose name equals the field's, up to the case
  of ASCII letters, are stored in turn, so that the last one counts. The field starts with its zero
  value, and null leaves it as it is; a value of another type, or a number out of range, is an error.
\<close>

definition json_field :: "(json \<Rightarrow> 'a \<Rightarrow> string + 'a) \<Rightarrow> 'a \<Rightarrow> string \<Rightarrow> (string \<times> json) list \<Rightarrow> string + 'a" where
  "json_field store zero f ms =
     fold (\<lambda>m r. case r of Inl e \<Rightarrow> Inl e | Inr v \<Rightarrow> store (snd m) v)
       (filter (\<lambda>m. map ascii_lower (fst m) = map ascii_lower f) ms) (Inr zero)"

definition json_string :: "json \<Rightarrow> string \<Rightarrow> string + string" where
  "json_string j v = (case j of JNull \<Rightarrow> Inr v | JStr s \<Rightarrow> Inr s
     | _ \<Rightarrow> Inl ''json: cannot unmarshal into Go struct field of type string'')"

definition json_uint64 :: "json \<Rightarrow> uint64 \<Rightarrow> string + uint64" where
  "json_uint64 j v = (case j of JNull \<Rightarrow> Inr v
     | JNum n \<Rightarrow> if 0 \<le> n \<and> n < 2 ^ 64 then Inr (word_of_int n)
                 else Inl ''json: cannot unmarshal number into Go struct field of type uint64''
     | _ \<Rightarrow> Inl ''json: cannot unmarshal into Go struct field of type uint64'')"

record mfsStatResult =
  Hash :: string
  Size :: uint64
  Type :: string

definition decode_mfsStat :: "json \<Rightarrow> string + mfsStatResult" where
  "decode_mfsStat j = (case j of
       JInvalid e \<Rightarrow> Inl e
     | JNull \<Rightarrow> Inr \<lparr>Hash = '''', Size = 0, Type = ''''\<rparr>
     | JObj ms \<Rightarrow>
         (case json_field json_string '''' ''Hash'' ms of Inl e \<Rightarrow> Inl e | Inr h \<Rightarrow>
         (case json_field json_uint64 0 ''Size'' ms of Inl e \<Rightarrow> Inl e | Inr s \<Rightarrow>
         (case json_field json_string '''' ''Type'' ms of Inl e \<Rightarrow> Inl e | Inr t \<Rightarrow>
            Inr \<lparr>Hash = h, Size = s, Type = t\<rparr>)))
     | _ \<Rightarrow> Inl ''json: cannot unmarshal into Go value'')"

definition decode_repoStat :: "json \<Rightarrow> string + RepoStatResult" where
  "decode_repoStat j = (case j of
       JInvalid e \<Rightarrow> Inl e
     | JNull \<Rightarrow> Inr \<lparr>RepoSize = 0, StorageMax = 0, NumObjects = 0\<rparr>
     | JObj ms \<Rightarrow>
         (case json_field json_uint64 0 ''RepoSize'' ms of Inl e \<Rightarrow> Inl e | Inr r \<Rightarrow>
         (case json_field json_uint64 0 ''StorageMax'' ms of Inl e \<Rightarrow> Inl e | Inr s \<Rightarrow>
         (case json_field json_uint64 0 ''NumObjects'' ms of Inl e \<Rightarrow> Inl e | Inr n \<Rightarrow>
            Inr \<lparr>RepoSize = r, StorageMax = s, NumObjects = n\<rparr>)))
     | _ \<Rightarrow> Inl ''json: cannot unmarshal into Go value'')"

text \<open>A request whose response carries an error field: the two ways it can fail.\<close>

definition request ::
  "'x KuboAPI \<Rightarrow> string \<Rightarrow> string list \<Rightarrow> (string \<times> bool) list \<Rightarrow>
   (gerr \<Rightarrow> gerr) \<Rightarrow> (gerr \<Rightarrow> gerr) \<Rightarrow> ('x world, json) io" where
  "request K cmd args opts sendErr execErr =
     bindE (mapErr sendErr (api (Request K cmd args opts))) (\<lambda>resp.
       case resp_Error resp of
         Some err \<Rightarrow> throw (execErr (ExtErr err))
       | None \<Rightarrow> ret (resp_Output resp))"

section \<open>The client's methods\<close>

definition client_Ping :: "'x KuboAPI \<Rightarrow> ('x world, unit) io" where
  "client_Ping K =
     bindE (mapErr (ErrorfW ''check IPFS daemon health: %w'' []) (api (Key_Self K))) (\<lambda>key. ret ())"

definition client_StatCID :: "'x KuboAPI \<Rightarrow> string \<Rightarrow> ('x world, bool) io" where
  "client_StatCID K cidStr =
     (case parseCIDPath K cidStr of
        Inl err \<Rightarrow> throw (ErrorfW ''parse CID path for stat: %w'' [] err)
      | Inr p \<Rightarrow>
          (\<lambda>w. case Unixfs_Get K p (ext w) of
             (Inl err, x) \<Rightarrow>
               if Contains (map ascii_lower err) ''not found'' then (Inr False, w\<lparr>ext := x\<rparr>)
               else (Inl (ErrorfW ''stat CID %s: %w'' [cidStr] (ExtErr err)), w\<lparr>ext := x\<rparr>)
           | (Inr nd, x) \<Rightarrow> (Inr True, w\<lparr>ext := x\<rparr>)))"

text \<open>\<open>files.WriteTo\<close> of boxo, on the host's tree.\<close>

definition write_to :: "'x KuboAPI \<Rightarrow> unode \<Rightarrow> string \<Rightarrow> ('x world, unit) io" where
  "write_to K nd p w =
     (case files_WriteTo K nd p (hfs w) of
        (None, t) \<Rightarrow> (Inr (), w\<lparr>hfs := t\<rparr>)
      | (Some err, t) \<Rightarrow> (Inl (ExtErr err), w\<lparr>hfs := t\<rparr>))"

fun write_children :: "'x KuboAPI \<Rightarrow> string \<Rightarrow> (string \<times> unode) list \<Rightarrow> ('x world, unit) io" where
  "write_children K destPath [] = ret ()"
| "write_children K destPath ((childName, childNode) # es) =
     (let childPath = filepath_Join [destPath, childName]
      in bindE (mapErr (ErrorfW ''write child %s to %s: %w'' [childName, childPath])
                  (write_to K childNode childPath))
           (\<lambda>_. write_children K destPath es))"

definition writeNodeToDir :: "'x KuboAPI \<Rightarrow> unode \<Rightarrow> string \<Rightarrow> ('x world, unit) io" where
  "writeNodeToDir K nd destPath =
     (case nd of
        UDir es iterErr \<Rightarrow>
          bindE (write_children K destPath es) (\<lambda>_.
            case iterErr of
              Some err \<Rightarrow> throw (ErrorfW ''iterate directory entries: %w'' [] (ExtErr err))
            | None \<Rightarrow> ret ())
      | UFile b \<Rightarrow> write_to K nd (filepath_Join [destPath, ''data''])
      | UOther \<Rightarrow> throw (Errorf ''unsupported IPFS node type %T'' []))"

definition client_GetCIDContent :: "'x KuboAPI \<Rightarrow> string \<Rightarrow> string \<Rightarrow> ('x world, unit) io" where
  "client_GetCIDContent K cidStr destPath =
     (case parseCIDPath K cidStr of
        Inl err \<Rightarrow> throw (ErrorfW ''parse CID path for download: %w'' [] err)
      | Inr p \<Rightarrow>
          bindE (mapErr (ErrorfW ''fetch CID %s from IPFS: %w'' [cidStr]) (api (Unixfs_Get K p)))
            (\<lambda>nd. mapErr (ErrorfW ''write CID %s content to %s: %w'' [cidStr, destPath])
                    (writeNodeToDir K nd destPath)))"

definition client_PinCID :: "'x KuboAPI \<Rightarrow> string \<Rightarrow> ('x world, unit) io" where
  "client_PinCID K cidStr =
     (case parseCIDPath K cidStr of
        Inl err \<Rightarrow> throw (ErrorfW ''parse CID path for pin: %w'' [] err)
      | Inr p \<Rightarrow> mapErr (ErrorfW ''pin CID %s: %w'' [cidStr]) (api (Pin_Add K p)))"

definition client_UnpinCID :: "'x KuboAPI \<Rightarrow> string \<Rightarrow> ('x world, unit) io" where
  "client_UnpinCID K cidStr =
     (case parseCIDPath K cidStr of
        Inl err \<Rightarrow> throw (ErrorfW ''parse CID path for unpin: %w'' [] err)
      | Inr p \<Rightarrow> mapErr (ErrorfW ''unpin CID %s: %w'' [cidStr]) (api (Pin_Rm K p)))"

definition client_MkdirMFS :: "'x KuboAPI \<Rightarrow> string \<Rightarrow> ('x world, unit) io" where
  "client_MkdirMFS K mfsPath =
     bindE (request K ''files/mkdir'' [mfsPath] [(''parents'', True)]
              (ErrorfW ''send MFS mkdir for %s: %w'' [mfsPath])
              (ErrorfW ''execute MFS mkdir %s: %w'' [mfsPath]))
       (\<lambda>out. ret ())"

definition client_RmMFS :: "'x KuboAPI \<Rightarrow> string \<Rightarrow> ('x world, unit) io" where
  "client_RmMFS K mfsPath =
     bindE (request K ''files/rm'' [mfsPath] [(''recursive'', True)]
              (ErrorfW ''send MFS rm for %s: %w'' [mfsPath])
              (ErrorfW ''execute MFS rm %s: %w'' [mfsPath]))
       (\<lambda>out. ret ())"

definition statMFS :: "'x KuboAPI \<Rightarrow> string \<Rightarrow> ('x world, mfsStatResult) io" where
  "statMFS K mfsPath =
     bindE (request K ''files/stat'' [mfsPath] []
              (ErrorfW ''send MFS stat for %s: %w'' [mfsPath])
              (ErrorfW ''execute MFS stat %s: %w'' [mfsPath]))
       (\<lambda>out. case decode_mfsStat out of
          Inl err \<Rightarrow> throw (ErrorfW ''decode MFS stat response for %s: %w'' [mfsPath] (ExtErr err))
        | Inr result \<Rightarrow> ret result)"

definition cpMFS :: "'x KuboAPI \<Rightarrow> string \<Rightarrow> string \<Rightarrow> ('x world, unit) io" where
  "cpMFS K src dst =
     bindE (request K ''files/cp'' [src, dst] []
              (ErrorfW ''send MFS cp %s -> %s: %w'' [src, dst])
              (ErrorfW ''execute MFS cp %s -> %s: %w'' [src, dst]))
       (\<lambda>out. ret ())"

definition client_ExportMFS :: "'x KuboAPI \<Rightarrow> string \<Rightarrow> string \<Rightarrow> ('x world, unit) io" where
  "client_ExportMFS K mfsPath localPath =
     bindE (mapErr (ErrorfW ''resolve MFS path %s for export: %w'' [mfsPath]) (statMFS K mfsPath))
       (\<lambda>stat. mapErr (ErrorfW ''download MFS content %s (CID %s) to %s: %w'' [mfsPath, Hash stat, localPath])
                 (client_GetCIDContent K (Hash stat) localPath))"

definition client_ResolveMFSCID :: "'x KuboAPI \<Rightarrow> string \<Rightarrow> ('x world, string) io" where
  "client_ResolveMFSCID K mfsPath =
     bindE (mapErr (ErrorfW ''resolve CID for MFS path %s: %w'' [mfsPath]) (statMFS K mfsPath))
       (\<lambda>stat. ret (Hash stat))"

definition client_GetRepoStat :: "'x KuboAPI \<Rightarrow> ('x world, RepoStatResult) io" where
  "client_GetRepoStat K =
     bindE (request K ''repo/stat'' [] []
              (ErrorfW ''request IPFS repo stat: %w'' [])
              (ErrorfW ''execute IPFS repo stat: %w'' []))
       (\<lambda>out. case decode_repoStat out of
          Inl err \<Rightarrow> throw (ErrorfW ''decode repo stat response: %w'' [] (ExtErr err))
        | Inr stat \<Rightarrow> ret stat)"

text \<open>\<open>ReadCID\<close> returns the stream of a file node; the model gives the bytes it yields.\<close>

definition client_ReadCID :: "'x KuboAPI \<Rightarrow> string \<Rightarrow> ('x world, string) io" where
  "client_ReadCID K cidStr =
     (case parseCIDPath K cidStr of
        Inl err \<Rightarrow> throw (ErrorfW ''parse CID path for read: %w'' [] err)
      | Inr p \<Rightarrow>
          bindE (mapErr (ErrorfW ''fetch CID %s for read: %w'' [cidStr]) (api (Unixfs_Get K p)))
            (\<lambda>nd. case nd of
               UFile b \<Rightarrow> ret b
             | _ \<Rightarrow> throw (Errorf ''CID %s is a directory, not a readable file'' [cidStr])))"

text \<open>The file branch of \<open>AddPath\<close>: open the file inside its directory, then drop the directory.\<close>

definition open_for_add :: "'x OS \<Rightarrow> string \<Rightarrow> fnode \<Rightarrow> ('x world, fnode) io" where
  "open_for_add E localPath n =
     (let rootDir = filepath_Dir localPath in
      bindE (mapErr (ErrorfW ''open root %s for IPFS add: %w'' [rootDir]) (os_OpenRoot E rootDir)) (\<lambda>_.
      bindE (attempt (root_Open E (filepath_Base localPath) n)) (\<lambda>f.
        case f of
          Inl err \<Rightarrow>
            (let openErr = ErrorfW ''open file %s for IPFS add: %w'' [localPath] err in
             bindE (attempt (os_Close E ''closeroot'' rootDir)) (\<lambda>c.
               case c of
                 Inl closeErr \<Rightarrow>
                   throw (ErrorsJoin [openErr, ErrorfW ''close root %s for IPFS add: %w'' [rootDir] closeErr])
               | Inr _ \<Rightarrow> throw openErr))
        | Inr content \<Rightarrow>
            bindE (attempt (os_Close E ''closeroot'' rootDir)) (\<lambda>c.
              case c of
                Inl rootCloseErr \<Rightarrow>
                  bindE (attempt (os_Close E ''closefile'' localPath)) (\<lambda>fc.
                    case fc of
                      Inl fileCloseErr \<Rightarrow>
                        throw (ErrorfW ''close file %s for IPFS add after root close failure: %w'' [localPath] fileCloseErr)
                    | Inr _ \<Rightarrow>
                        throw (ErrorfW ''close root %s after IPFS add open: %w'' [rootDir] rootCloseErr))
              | Inr _ \<Rightarrow> ret (FFile content)))))"

definition client_AddPath :: "'x KuboAPI \<Rightarrow> 'x OS \<Rightarrow> string \<Rightarrow> ('x world, string) io" where
  "client_AddPath K E localPath =
     bindE (mapErr (ErrorfW ''stat %s before IPFS add: %w'' [localPath]) (os_Stat E localPath)) (\<lambda>stat.
     bindE
       (case stat of
          FDir es \<Rightarrow>
            (case files_NewSerialFile K localPath stat of
               Inl err \<Rightarrow> throw (ErrorfW ''create file node for directory %s: %w'' [localPath] (ExtErr err))
             | Inr nd \<Rightarrow> ret nd)
        | FFile b \<Rightarrow> open_for_add E localPath stat
        | FOther r \<Rightarrow> open_for_add E localPath stat) (\<lambda>nd.
     bindE (mapErr (ErrorfW ''add %s to IPFS: %w'' [localPath]) (api (Unixfs_Add K nd)))
       (\<lambda>resolved. ret (cid_String K resolved))))"

text \<open>The callback of \<open>ImportToMFS\<close>'s walk.\<close>

definition import_visit :: "'x KuboAPI \<Rightarrow> 'x OS \<Rightarrow> string \<Rightarrow> string \<Rightarrow> 'x walk_fn" where
  "import_visit K E localPath mfsPath p info walkErr =
     (case walkErr of
        Some err \<Rightarrow> throw (ErrorfW ''walk %s: %w'' [p] err)
      | None \<Rightarrow>
        (case filepath_Rel localPath p of
           None \<Rightarrow> throw (ErrorfW ''compute relative path %s from %s: %w'' [p, localPath] (ExtErr ''Rel''))
         | Some relPath \<Rightarrow>
             if relPath = ''.'' then ret ()
             else
               let mfsTarget = filepath_Join [mfsPath, relPath] in
               (case info of
                  None \<Rightarrow> ret ()
                | Some (FDir es) \<Rightarrow>
                    mapErr (ErrorfW ''create MFS subdirectory %s: %w'' [mfsTarget])
                      (client_MkdirMFS K mfsTarget)
                | Some n \<Rightarrow>
                    bindE (mapErr (ErrorfW ''open %s for import: %w'' [p]) (root_Open E relPath n)) (\<lambda>content.
                    bindE (mapErr (ErrorfW ''add %s to IPFS during import: %w'' [p])
                             (api (Unixfs_Add K (FFile content)))) (\<lambda>resolved.
                    let addedCID = cid_String K resolved in
                    mapErr (ErrorfW ''copy CID %s to MFS %s: %w'' [addedCID, mfsTarget])
                      (cpMFS K (''/ipfs/'' @ addedCID) mfsTarget))))))"

definition client_ImportToMFS :: "'x KuboAPI \<Rightarrow> 'x OS \<Rightarrow> string \<Rightarrow> string \<Rightarrow> ('x world, unit) io" where
  "client_ImportToMFS K E localPath mfsPath =
     bindE (ignoreErr (client_RmMFS K mfsPath)) (\<lambda>_.
     bindE (mapErr (ErrorfW ''recreate MFS directory %s for import: %w'' [mfsPath])
              (client_MkdirMFS K mfsPath)) (\<lambda>_.
     bindE (mapErr (ErrorfW ''open root %s for MFS import: %w'' [localPath])
              (os_OpenRoot E localPath)) (\<lambda>_.
     mapErr (ErrorfW ''import %s to MFS %s: %w'' [localPath, mfsPath])
       (filepath_Walk E (import_visit K E localPath mfsPath) localPath))))"

definition client :: "'x KuboAPI \<Rightarrow> 'x OS \<Rightarrow> 'x Client" where
  "client K E =
     \<lparr>Ping = client_Ping K,
      StatCID = client_StatCID K,
      GetCIDContent = client_GetCIDContent K,
      AddPath = client_AddPath K E,
      PinCID = client_PinCID K,
      UnpinCID = client_UnpinCID K,
      MkdirMFS = client_MkdirMFS K,
      RmMFS = client_RmMFS K,
      ExportMFS = client_ExportMFS K,
      ImportToMFS = client_ImportToMFS K E,
      ResolveMFSCID = client_ResolveMFSCID K,
      GetRepoStat = client_GetRepoStat K,
      ReadCID = client_ReadCID K\<rparr>"

definition NewClient :: "'x KuboAPI \<Rightarrow> 'x OS \<Rightarrow> string \<Rightarrow> gerr + 'x Client" where
  "NewClient K E apiAddr =
     (if apiAddr = '''' then Inl ErrEmptyAddress
      else case NewMultiaddr K apiAddr of
             Inl err \<Rightarrow> Inl (ErrorfW ''parse API multiaddr %q: %w'' [apiAddr] (ExtErr err))
           | Inr ma \<Rightarrow>
               (case kuborpc_NewApi K ma of
                  Inl err \<Rightarrow> Inl (ErrorfW ''create kubo RPC client for %s: %w'' [apiAddr] (ExtErr err))
                | Inr httpAPI \<Rightarrow> Inr (client K E)))"

end
