(* ===== verification/Driver.thy ===== *)
theory Driver
  imports Stores IpfsClient
begin

text \<open>
  \<open>pkg/driver/driver.go\<close> and \<open>pkg/driver/identity.go\<close>: the configuration, the \<open>Driver\<close>
  value with the interfaces it calls, its constructor, the identity RPCs, and the way every
  controller operation takes its lock (\<open>TryAcquire\<close>, then a deferred \<open>Release\<close>).
  The lock set itself is a field of the shared state \<open>world\<close>, since the handlers change it.
\<close>

section \<open>Configuration and construction\<close>

definition pinFailurePolicyStrict :: string where "pinFailurePolicyStrict = ''strict''"
definition pinFailurePolicyBestEffort :: string where "pinFailurePolicyBestEffort = ''best-effort''"

record Config =
  DriverName :: string
  NodeID :: string
  Version :: string
  MountDir :: string
  MFSRoot :: string
  PinFailurePolicy :: string

text \<open>\<open>k8s.io/mount-utils\<close>, which the node service calls.\<close>

record 'x Mounter =
  IsLikelyNotMountPoint :: "string \<Rightarrow> ('x world, bool) io"
  Mount :: "string \<Rightarrow> string \<Rightarrow> string \<Rightarrow> string list \<Rightarrow> ('x world, unit) io"
  CleanupMountPoint :: "string \<Rightarrow> ('x world, unit) io"

record 'x Driver =
  cfg :: Config
  ipfsClient :: "'x Client"
  volumeStore :: "'x world VolumeStore"
  snapshotStore :: "'x world SnapshotStore option"
  osEnv :: "'x OS"
  mounter :: "'x Mounter"

text \<open>
  The constructor fills in the strict policy, validates the configuration and starts with an
  empty lock set.
\<close>

definition NewDriver ::
  "Config \<Rightarrow> 'x Client \<Rightarrow> 'x world VolumeStore \<Rightarrow> 'x world SnapshotStore option \<Rightarrow> 'x OS \<Rightarrow> 'x Mounter
   \<Rightarrow> gerr + 'x Driver \<times> VolumeLocks" where
  "NewDriver c cl vs ss E m =
     (if DriverName c = '''' then Inl ErrEmptyDriverName
      else if NodeID c = '''' then Inl ErrEmptyNodeID
      else
        let c = (if PinFailurePolicy c = '''' then c\<lparr>PinFailurePolicy := pinFailurePolicyStrict\<rparr> else c)
        in if PinFailurePolicy c \<noteq> pinFailurePolicyStrict \<and> PinFailurePolicy c \<noteq> pinFailurePolicyBestEffort
           then Inl ErrInvalidPinFailurePolicy
           else Inr (\<lparr>cfg = c, ipfsClient = cl, volumeStore = vs, snapshotStore = ss, osEnv = E, mounter = m\<rparr>,
                     NewVolumeLocks))"

section \<open>Identity service\<close>

record GetPluginInfoResponse =
  pi_Name :: string
  pi_VendorVersion :: string

datatype PluginCapability = ServiceCONTROLLER_SERVICE | ServiceOther string

definition GetPluginInfo :: "'x Driver \<Rightarrow> ('x world, GetPluginInfoResponse) io" where
  "GetPluginInfo d =
     (if DriverName (cfg d) = '''' then throw (StatusErr Unavailable ''driver name not configured'' [] None)
      else ret \<lparr>pi_Name = DriverName (cfg d), pi_VendorVersion = Version (cfg d)\<rparr>)"

definition GetPluginCapabilities :: "'x Driver \<Rightarrow> ('x world, PluginCapability list) io" where
  "GetPluginCapabilities d = ret [ServiceCONTROLLER_SERVICE]"

text \<open>\<open>Probe\<close> never fails: its answer is whether the IPFS API can be reached.\<close>

definition Probe :: "'x Driver \<Rightarrow> ('x world, bool) io" where
  "Probe d = bindE (attempt (Ping (ipfsClient d)))
     (\<lambda>r. case r of Inl err \<Rightarrow> ret False | Inr _ \<Rightarrow> ret True)"

section \<open>Locked operations\<close>

definition tryAcquire :: "string \<Rightarrow> ('x world, bool) io" where
  "tryAcquire key w =
     (case TryAcquire key (volumeLocks w) of (acquired, vl) \<Rightarrow> (Inr acquired, w\<lparr>volumeLocks := vl\<rparr>))"

definition releaseLock :: "string \<Rightarrow> 'x world \<Rightarrow> 'x world" where
  "releaseLock key w = w\<lparr>volumeLocks := Release key (volumeLocks w)\<rparr>"

definition with_lock :: "string \<Rightarrow> gerr \<Rightarrow> ('x world, 'a) io \<Rightarrow> ('x world, 'a) io" where
  "with_lock key aborted body =
     bindE (tryAcquire key) (\<lambda>acquired.
       if \<not> acquired then throw aborted else deferring (releaseLock key) body)"

section \<open>Lemmas\<close>

lemma wpE_tryAcquire [wp]:
  "wpE (tryAcquire k) Q E = (\<lambda>w.
     if k \<in> locks (volumeLocks w) then Q False w
     else Q True (w\<lparr>volumeLocks := volumeLocks w\<lparr>locks := insert k (locks (volumeLocks w))\<rparr>\<rparr>))"
  by (simp add: fun_eq_iff wpE_def tryAcquire_def TryAcquire_def)

lemma with_lock_held:
  "k \<in> locks (volumeLocks w) \<Longrightarrow> with_lock k e body w = (Inl e, w)"
  by (simp add: with_lock_def bindE_def tryAcquire_def vlock.acquire_held throw_def)

lemma with_lock_free:
  "k \<notin> locks (volumeLocks w) \<Longrightarrow>
   with_lock k e body w =
     (case body (w\<lparr>volumeLocks := volumeLocks w\<lparr>locks := insert k (locks (volumeLocks w))\<rparr>\<rparr>) of
        (r, w') \<Rightarrow> (r, releaseLock k w'))"
  by (simp add: with_lock_def bindE_def tryAcquire_def TryAcquire_def deferring_def)

section \<open>Wiring\<close>

text \<open>
  The informer caches are part of the state outside the process: a lister reads \<open>ext\<close> only.
  \<open>informed d L S\<close> says that the driver's stores are built over the cache of
  PersistentVolumes \<open>L\<close> and, if the snapshot API is installed, of VolumeSnapshotContents
  \<open>S\<close>, as \<open>main\<close> builds them.
\<close>

definition ext_PVLister :: "'x PVLister \<Rightarrow> 'x world PVLister" where
  "ext_PVLister L = \<lparr>pvl_Get = (\<lambda>n w. pvl_Get L n (ext w)), pvl_List = (\<lambda>w. pvl_List L (ext w))\<rparr>"

definition ext_VSCLister :: "'x VSCLister \<Rightarrow> 'x world VSCLister" where
  "ext_VSCLister S = \<lparr>vscl_List = (\<lambda>w. vscl_List S (ext w))\<rparr>"

definition informed :: "'x Driver \<Rightarrow> 'x PVLister \<Rightarrow> 'x VSCLister option \<Rightarrow> bool" where
  "informed d L S \<longleftrightarrow>
     volumeStore d = NewVolumeStoreFromPVLister (ext_PVLister L) \<and>
     snapshotStore d = NewSnapshotStoreFromVSCLister (map_option ext_VSCLister S)"

lemma ext_lister_sel [simp]:
  "pvl_Get (ext_PVLister L) n w = pvl_Get L n (ext w)"
  "pvl_List (ext_PVLister L) w = pvl_List L (ext w)"
  "vscl_List (ext_VSCLister S) w = vscl_List S (ext w)"
  by (simp_all add: ext_PVLister_def ext_VSCLister_def)

lemma ext_PVLister_simps [simp]:
  "lister_ok (ext_PVLister L) w = lister_ok L (ext w)"
  "pv_vols (ext_PVLister L) w = pv_vols L (ext w)"
  "pvStore_GetVolumeAttributes (ext_PVLister L) v w = pvStore_GetVolumeAttributes L v (ext w)"
  "pvStore_ListVolumes (ext_PVLister L) d w = pvStore_ListVolumes L d (ext w)"
  by (simp_all add: lister_ok_def pv_vols_def pvStore_GetVolumeAttributes_def
      pv_list_lookup_def pvStore_ListVolumes_def split: sum.split)

lemma ext_VSCLister_simps [simp]:
  "vsc_lister_ok (ext_VSCLister S) w = vsc_lister_ok S (ext w)"
  "vsc_snaps (ext_VSCLister S) w = vsc_snaps S (ext w)"
  "vscStore_ListSnapshots (ext_VSCLister S) d f s w = vscStore_ListSnapshots S d f s (ext w)"
  by (simp_all add: vsc_lister_ok_def vsc_snaps_def vscStore_ListSnapshots_def)

lemma informed_volumeStore [simp]:
  "informed d L S \<Longrightarrow> GetVolumeAttributes (volumeStore d) v w = pvStore_GetVolumeAttributes L v (ext w)"
  "informed d L S \<Longrightarrow> ListVolumes (volumeStore d) n w = pvStore_ListVolumes L n (ext w)"
  by (simp_all add: informed_def NewVolumeStoreFromPVLister_def)

section \<open>Properties\<close>

text \<open>
  \<open>NewDriver\<close> accepts exactly the configurations with a driver name, a node identifier and a
  known pin policy (none counts as strict). The driver it returns has one of the two policies and
  starts with no lock held, and its \<open>GetPluginInfo\<close> answers with the configured name.
\<close>

lemma NewDriver_spec:
  "case NewDriver c cl vs ss E m of
     Inr (d, l) \<Rightarrow>
       DriverName c \<noteq> '''' \<and> NodeID c \<noteq> '''' \<and> locks l = {} \<and>
       PinFailurePolicy (cfg d) \<in> {pinFailurePolicyStrict, pinFailurePolicyBestEffort} \<and>
       PinFailurePolicy c \<in> {'''', PinFailurePolicy (cfg d)} \<and>
       (PinFailurePolicy c = '''' \<longleftrightarrow> PinFailurePolicy c \<noteq> PinFailurePolicy (cfg d)) \<and>
       GetPluginInfo d w = (Inr \<lparr>pi_Name = DriverName c, pi_VendorVersion = Version c\<rparr>, w)
   | Inl e \<Rightarrow>
       DriverName c = '''' \<and> e = ErrEmptyDriverName \<or>
       DriverName c \<noteq> '''' \<and> NodeID c = '''' \<and> e = ErrEmptyNodeID \<or>
       PinFailurePolicy c \<notin> {'''', pinFailurePolicyStrict, pinFailurePolicyBestEffort} \<and> e = ErrInvalidPinFailurePolicy"
  by (auto simp: NewDriver_def Let_def NewVolumeLocks_def pinFailurePolicyStrict_def
      pinFailurePolicyBestEffort_def GetPluginInfo_def ret_def)

end
