(* ===== verification/Controller.thy ===== *)
theory Controller
  imports Driver
begin

text \<open>
  \<open>pkg/driver/controller.go\<close> and the controller's helpers in \<open>pkg/driver/utils.go\<close>: every
  RPC of the CSI controller service as a function of the request and the shared state.
  Logging is left out; every check, early return, call and deferred call is in the order of
  the source.
\<close>

section \<open>Requests and responses\<close>

text \<open>The oneof of a content source; a snapshot source may be nil.\<close>

datatype VolumeContentSource = SourceSnapshot "string option" | SourceVolume | SourceUnset

record CreateVolumeRequest =
  cv_Name :: string
  cv_CapacityRange :: "CapacityRange option"
  cv_Parameters :: gomap
  cv_VolumeContentSource :: "VolumeContentSource option"

record Volume =
  VolumeId :: string
  CapacityBytes :: int64
  VolumeContext :: gomap
  ContentSource :: "VolumeContentSource option"

datatype AccessMode = UNKNOWN | SINGLE_NODE_WRITER | SINGLE_NODE_READER_ONLY | MULTI_NODE_READER_ONLY
  | MULTI_NODE_SINGLE_WRITER | MULTI_NODE_MULTI_WRITER
  | SINGLE_NODE_SINGLE_WRITER | SINGLE_NODE_MULTI_WRITER

record VolumeCapability =
  vc_AccessMode :: "AccessMode option"
  vc_MountFlags :: "string list option"

text \<open>The confirmed capabilities, if any, or a message that names an unsupported mode.\<close>

datatype ValidateResponse = Confirmed "VolumeCapability list option" | Unsupported AccessMode

record ListVolumesResponse =
  lv_Entries :: "Volume list"
  lv_NextToken :: string

record Snapshot =
  sn_SnapshotId :: string
  sn_SourceVolumeId :: string
  sn_CreationTime :: int64
  sn_ReadyToUse :: bool
  sn_SizeBytes :: int64

record ExpandResponse =
  ex_CapacityBytes :: int64
  ex_NodeExpansionRequired :: bool

section \<open>CreateVolume\<close>

definition snapshotSourceID :: "VolumeContentSource option \<Rightarrow> gerr + string" where
  "snapshotSourceID contentSource =
     (case contentSource of
        None \<Rightarrow> Inr ''''
      | Some (SourceSnapshot s) \<Rightarrow>
          (case s of
             None \<Rightarrow> Inl (StatusErr InvalidArgument ''snapshot content source requires snapshot ID'' [] None)
           | Some snapshotId \<Rightarrow>
               if snapshotId = ''''
               then Inl (StatusErr InvalidArgument ''snapshot content source requires snapshot ID'' [] None)
               else Inr snapshotId)
      | Some SourceVolume \<Rightarrow>
          Inl (StatusErr InvalidArgument ''volume content source is not supported'' [] None)
      | Some SourceUnset \<Rightarrow>
          Inl (StatusErr InvalidArgument ''unsupported volume content source'' [] None))"

definition restoreSnapshotToMFS :: "'x Driver \<Rightarrow> string \<Rightarrow> string \<Rightarrow> ('x world, unit) io" where
  "restoreSnapshotToMFS d snapshotID mfsPath =
     bindE (mapErr (\<lambda>err. StatusErr Internal ''stat snapshot CID in IPFS: %v'' [] (Some err))
              (StatCID (ipfsClient d) snapshotID)) (\<lambda>exists.
     if \<not> exists then throw (StatusErr NotFound ''snapshot CID not found in IPFS'' [] None)
     else
       bindE (mapErr (\<lambda>err. StatusErr Internal ''create temporary restore directory: %v'' [] (Some err))
                (os_MkdirTemp (osEnv d) ''csi-ipfs-restore-'')) (\<lambda>tmpDir.
       deferring (\<lambda>w. snd (os_RemoveAll (osEnv d) tmpDir w))
         (bindE (mapErr (\<lambda>err. StatusErr Internal ''download snapshot CID content: %v'' [] (Some err))
                   (GetCIDContent (ipfsClient d) snapshotID tmpDir)) (\<lambda>_.
          mapErr (\<lambda>err. StatusErr Internal ''restore snapshot content to MFS: %v'' [] (Some err))
            (ImportToMFS (ipfsClient d) tmpDir mfsPath)))))"

text \<open>The read-only branch: the content must exist, and is pinned unless pinning is off.\<close>

definition provision_cid :: "'x Driver \<Rightarrow> string \<Rightarrow> bool \<Rightarrow> ('x world, unit) io" where
  "provision_cid d cid pinning =
     bindE (mapErr (\<lambda>err. StatusErr Internal ''stat CID in IPFS: %v'' [] (Some err))
              (StatCID (ipfsClient d) cid)) (\<lambda>exists.
     if \<not> exists then throw (StatusErr NotFound ''CID not found in IPFS'' [] None)
     else if pinning then
       bindE (attempt (PinCID (ipfsClient d) cid)) (\<lambda>r.
         case r of
           Inl err \<Rightarrow>
             if PinFailurePolicy (cfg d) = pinFailurePolicyBestEffort then ret ()
             else throw (StatusErr Internal ''pin CID in IPFS: %v'' [] (Some err))
         | Inr _ \<Rightarrow> ret ())
     else ret ())"

text \<open>A read-write branch: the normalised path is created in MFS.\<close>

definition provision_mfs :: "'x Driver \<Rightarrow> string \<Rightarrow> ('x world, string) io" where
  "provision_mfs d rawPath =
     (case normalizeMFSPath rawPath (MFSRoot (cfg d)) of
        Inl err \<Rightarrow> throw (StatusErr InvalidArgument ''%v'' [] (Some err))
      | Inr mfsPath \<Rightarrow>
          bindE (mapErr (\<lambda>err. StatusErr Internal ''make MFS directory in IPFS: %v'' [] (Some err))
                   (MkdirMFS (ipfsClient d) mfsPath)) (\<lambda>_. ret mfsPath))"

text \<open>The switch over the kind of volume: the MFS path of the volume, and whether it is read-only.\<close>

definition provision :: "'x Driver \<Rightarrow> string \<Rightarrow> string \<Rightarrow> string \<Rightarrow> bool \<Rightarrow> ('x world, string \<times> bool) io" where
  "provision d name cid mfsPath pinning =
     (if cid \<noteq> '''' then bindE (provision_cid d cid pinning) (\<lambda>_. ret (mfsPath, True))
      else if mfsPath \<noteq> '''' then bindE (provision_mfs d mfsPath) (\<lambda>p. ret (p, False))
      else bindE (provision_mfs d (MFSRoot (cfg d) @ ''/'' @ sanitizeVolumeID name)) (\<lambda>p. ret (p, False)))"

definition volumeIDFor :: "string \<Rightarrow> string" where
  "volumeIDFor name = ''ipfs-volume-'' @ sanitizeVolumeID name"

definition CreateVolume :: "'x Driver \<Rightarrow> CreateVolumeRequest \<Rightarrow> ('x world, Volume) io" where
  "CreateVolume d req =
     (let name = cv_Name req in
      if name = '''' then throw (StatusErr InvalidArgument ''volume name is required'' [] None)
      else
      let params = cv_Parameters req;
          sizeBytes = parseCapacityFromRequest (cv_CapacityRange req) defaultCapacityBytes;
          cid = mget params paramCID;
          mfsPath = mget params paramMFSPath;
          pinning = (mget params paramPinning \<noteq> ''false'');
          volumeID = volumeIDFor name
      in
      case snapshotSourceID (cv_VolumeContentSource req) of
        Inl contentSourceErr \<Rightarrow> throw contentSourceErr
      | Inr snapID \<Rightarrow>
        if snapID \<noteq> '''' \<and> cid \<noteq> '''' then
          throw (StatusErr InvalidArgument ''cid parameter cannot be combined with snapshot content source'' [] None)
        else
        with_lock volumeID
          (StatusErr Aborted ''an operation with the given volume id %q already exists'' [volumeID] None)
          (bindE (provision d name cid mfsPath pinning) (\<lambda>(mfsPath, readOnly).
           bindE (if snapID \<noteq> '''' then restoreSnapshotToMFS d snapID mfsPath else ret ()) (\<lambda>_.
           ret \<lparr>VolumeId = volumeID,
                CapacityBytes = sizeBytes,
                VolumeContext = params(paramCID \<mapsto> cid, paramMFSPath \<mapsto> mfsPath,
                                       paramReadOnly \<mapsto> (if readOnly then ''true'' else ''false'')),
                ContentSource = (if snapID \<noteq> '''' then Some (SourceSnapshot (Some snapID)) else None)\<rparr>))))"

section \<open>References to a content identifier\<close>

text \<open>
  The loop over the listed volumes. The source also skips nil pointers; \<open>pvStore\<close> never
  returns one, and the model's lists have none.
\<close>

fun count_volume_refs :: "string \<Rightarrow> string \<Rightarrow> VolumeAttributes list \<Rightarrow> nat" where
  "count_volume_refs cid excludedVolumeID [] = 0"
| "count_volume_refs cid excludedVolumeID (v # vs) =
     (if VolumeID v = excludedVolumeID then count_volume_refs cid excludedVolumeID vs
      else if mget (Attributes v) paramCID \<noteq> cid \<or> \<not> isPinningEnabled (Attributes v)
      then count_volume_refs cid excludedVolumeID vs
      else Suc (count_volume_refs cid excludedVolumeID vs))"

definition cidReferenceUsage ::
  "'x Driver \<Rightarrow> string \<Rightarrow> string \<Rightarrow> bool \<Rightarrow> 'x world \<Rightarrow> gerr + nat \<times> nat" where
  "cidReferenceUsage d cid excludedVolumeID excludeOneSnapshot w =
     (case ListVolumes (volumeStore d) (DriverName (cfg d)) w of
        Inl err \<Rightarrow> Inl (ErrorfW ''list volumes for CID %s: %w'' [cid] err)
      | Inr volumes \<Rightarrow>
          let volumeRefs = count_volume_refs cid excludedVolumeID volumes in
          (case snapshotStore d of
             None \<Rightarrow> if excludeOneSnapshot then Inl ErrSnapshotStoreUnavailable else Inr (volumeRefs, 0)
           | Some ss \<Rightarrow>
               (case ListSnapshots ss (DriverName (cfg d)) cid '''' w of
                  Inl err \<Rightarrow> Inl (ErrorfW ''list snapshots for CID %s: %w'' [cid] err)
                | Inr snapshots \<Rightarrow>
                    let snapshotRefs = length snapshots;
                        snapshotRefs = (if excludeOneSnapshot \<and> snapshotRefs > 0
                                        then snapshotRefs - 1 else snapshotRefs)
                    in Inr (volumeRefs, snapshotRefs))))"

section \<open>DeleteVolume\<close>

definition cleanupVolumeInIPFS :: "'x Driver \<Rightarrow> VolumeAttributes \<Rightarrow> ('x world, unit) io" where
  "cleanupVolumeInIPFS d attrs =
     (let cid = mget (Attributes attrs) paramCID;
          mfsPath = mget (Attributes attrs) paramMFSPath;
          readOnly = (mget (Attributes attrs) paramReadOnly = ''true'');
          pinning = isPinningEnabled (Attributes attrs)
      in
      bindE
        (if cid \<noteq> '''' \<and> pinning then
           bindE (reads (cidReferenceUsage d cid (VolumeID attrs) False)) (\<lambda>r.
             case r of
               Inl err \<Rightarrow> ret ()
             | Inr (volumeRefs, snapshotRefs) \<Rightarrow>
                 if volumeRefs > 0 \<or> snapshotRefs > 0 then ret ()
                 else ignoreErr (UnpinCID (ipfsClient d) cid))
         else ret ()) (\<lambda>_.
      if mfsPath \<noteq> '''' \<and> \<not> readOnly then ignoreErr (RmMFS (ipfsClient d) mfsPath) else ret ()))"

definition DeleteVolume :: "'x Driver \<Rightarrow> string \<Rightarrow> ('x world, unit) io" where
  "DeleteVolume d volumeID =
     (if volumeID = '''' then throw (StatusErr InvalidArgument ''volume ID is required'' [] None)
      else
      with_lock volumeID
        (StatusErr Aborted ''an operation with the given volume id %q already exists'' [volumeID] None)
        (bindE (reads (GetVolumeAttributes (volumeStore d) volumeID)) (\<lambda>r.
           case r of
             Inl err \<Rightarrow>
               if errors_Is err ErrPVNotFound then ret ()
               else throw (StatusErr Internal ''get volume attributes: %v'' [] (Some err))
           | Inr attrs \<Rightarrow> cleanupVolumeInIPFS d attrs)))"

section \<open>ValidateVolumeCapabilities, ControllerGetCapabilities\<close>

definition mode_supported :: "AccessMode \<Rightarrow> bool" where
  "mode_supported mode \<longleftrightarrow>
     mode = MULTI_NODE_READER_ONLY \<or> mode = SINGLE_NODE_WRITER \<or> mode = SINGLE_NODE_READER_ONLY"

fun validate_loop ::
  "VolumeCapability list \<Rightarrow> VolumeCapability list \<Rightarrow> VolumeCapability list option \<Rightarrow> ValidateResponse" where
  "validate_loop all [] confirmed = Confirmed confirmed"
| "validate_loop all (c # cs) confirmed =
     (case vc_AccessMode c of
        None \<Rightarrow> validate_loop all cs confirmed
      | Some mode \<Rightarrow>
          if mode_supported mode then validate_loop all cs (Some all) else Unsupported mode)"

definition ValidateVolumeCapabilities ::
  "'x Driver \<Rightarrow> string \<Rightarrow> VolumeCapability list \<Rightarrow> ('x world, ValidateResponse) io" where
  "ValidateVolumeCapabilities d volumeID caps =
     (if volumeID = '''' then throw (StatusErr InvalidArgument ''volume ID is required'' [] None)
      else if length caps = 0 then throw (StatusErr InvalidArgument ''volume capabilities are required'' [] None)
      else
      bindE (reads (GetVolumeAttributes (volumeStore d) volumeID)) (\<lambda>r.
        case r of
          Inl err \<Rightarrow>
            if errors_Is err ErrPVNotFound then throw (StatusErr NotFound ''volume %s not found'' [volumeID] None)
            else throw (StatusErr Internal ''get volume attributes: %v'' [] (Some err))
        | Inr attrs \<Rightarrow> ret (validate_loop caps caps None)))"

definition ControllerGetCapabilities :: "'x Driver \<Rightarrow> ('x world, ControllerServiceCapability list) io" where
  "ControllerGetCapabilities d = ret buildControllerCapabilities"

section \<open>ListVolumes, GetCapacity\<close>

definition volumeEntry :: "VolumeAttributes \<Rightarrow> Volume" where
  "volumeEntry v =
     \<lparr>VolumeId = VolumeID v, CapacityBytes = Capacity v, VolumeContext = Attributes v, ContentSource = None\<rparr>"

text \<open>The page of a sorted entry list that a starting token and a limit select.\<close>

definition page_entries :: "Volume list \<Rightarrow> string \<Rightarrow> int \<Rightarrow> gerr + ListVolumesResponse" where
  "page_entries entries token reqMax =
     (let n = int (length entries);
          invalid = Inl (StatusErr InvalidArgument ''invalid starting token %q'' [token] None);
          start = (if token = '''' then Some 0
                   else case Atoi token of
                          None \<Rightarrow> None
                        | Some startIdx \<Rightarrow> if startIdx < 0 \<or> startIdx > n then None else Some startIdx)
      in case start of
           None \<Rightarrow> invalid
         | Some start \<Rightarrow>
             let maxEntries = (if reqMax \<le> 0 then n - start else reqMax);
                 end' = start + maxEntries;
                 end' = (if end' > n then n else end');
                 nextToken = (if end' < n then Itoa end' else '''')
             in Inr \<lparr>lv_Entries = take (nat (end' - start)) (drop (nat start) entries),
                     lv_NextToken = nextToken\<rparr>)"

definition Driver_ListVolumes :: "'x Driver \<Rightarrow> string \<Rightarrow> int \<Rightarrow> ('x world, ListVolumesResponse) io" where
  "Driver_ListVolumes d startingToken maxEntries =
     bindE (mapErr (\<lambda>err. StatusErr Internal ''list volumes: %v'' [] (Some err))
              (readsE (ListVolumes (volumeStore d) (DriverName (cfg d))))) (\<lambda>volumes.
     let entries = sort_Slice VolumeId (map volumeEntry volumes) in
     readsE (\<lambda>_. page_entries entries startingToken maxEntries))"

definition GetCapacity :: "'x Driver \<Rightarrow> ('x world, int64) io" where
  "GetCapacity d =
     bindE (mapErr (\<lambda>err. StatusErr Internal ''get repo stat in IPFS: %v'' [] (Some err))
              (GetRepoStat (ipfsClient d))) (\<lambda>repoStat.
     let available = (if StorageMax repoStat \<le> RepoSize repoStat then 0
                      else StorageMax repoStat - RepoSize repoStat) :: uint64
     in ret (sint available))"

section \<open>ControllerPublishVolume, ControllerUnpublishVolume\<close>

definition ControllerPublishVolume :: "('x world, unit) io" where
  "ControllerPublishVolume = throw (StatusErr Unimplemented ''ControllerPublishVolume not supported'' [] None)"

definition ControllerUnpublishVolume :: "('x world, unit) io" where
  "ControllerUnpublishVolume = throw (StatusErr Unimplemented ''ControllerUnpublishVolume not supported'' [] None)"

section \<open>Snapshots\<close>

definition CreateSnapshot :: "'x Driver \<Rightarrow> string \<Rightarrow> string \<Rightarrow> ('x world, Snapshot) io" where
  "CreateSnapshot d name sourceVolumeID =
     (if name = '''' then throw (StatusErr InvalidArgument ''snapshot name is required'' [] None)
      else if sourceVolumeID = '''' then throw (StatusErr InvalidArgument ''source volume ID is required'' [] None)
      else
      let lockKey = ''snapshot-'' @ name in
      with_lock lockKey
        (StatusErr Aborted ''an operation for snapshot %q already exists'' [name] None)
        (bindE (reads (GetVolumeAttributes (volumeStore d) sourceVolumeID)) (\<lambda>r.
           case r of
             Inl err \<Rightarrow>
               if errors_Is err ErrPVNotFound
               then throw (StatusErr NotFound ''source volume %s not found'' [sourceVolumeID] None)
               else throw (StatusErr Internal ''get source volume: %v'' [] (Some err))
           | Inr attrs \<Rightarrow>
               let mfsPath = mget (Attributes attrs) paramMFSPath in
               if mfsPath = '''' then
                 throw (StatusErr InvalidArgument
                   ''source volume has no MFS path (read-only by CID volumes cannot be snapshotted)'' [] None)
               else
               bindE (mapErr (\<lambda>err. StatusErr Internal ''resolve MFS CID: %v'' [] (Some err))
                        (ResolveMFSCID (ipfsClient d) mfsPath)) (\<lambda>cid.
               bindE (ignoreErr (PinCID (ipfsClient d) cid)) (\<lambda>_.
               let sizeBytes = Capacity attrs;
                   sizeBytes = (if sizeBytes = 0 then 1 * 1024 * 1024 * 1024 else sizeBytes)
               in bindE (reads clock) (\<lambda>now.
                  ret \<lparr>sn_SnapshotId = cid, sn_SourceVolumeId = sourceVolumeID, sn_CreationTime = now,
                       sn_ReadyToUse = True, sn_SizeBytes = sizeBytes\<rparr>))))))"

definition DeleteSnapshot :: "'x Driver \<Rightarrow> string \<Rightarrow> ('x world, unit) io" where
  "DeleteSnapshot d snapshotID =
     (if snapshotID = '''' then throw (StatusErr InvalidArgument ''snapshot ID is required'' [] None)
      else
      let lockKey = ''delete-snapshot-'' @ snapshotID in
      with_lock lockKey
        (StatusErr Aborted ''an operation for snapshot %q already exists'' [snapshotID] None)
        (bindE (reads (cidReferenceUsage d snapshotID '''' True)) (\<lambda>r.
           case r of
             Inl err \<Rightarrow>
               if errors_Is err ErrSnapshotStoreUnavailable
               then throw (StatusErr FailedPrecondition
                      ''snapshot reference checks are unavailable (snapshot store disabled)'' [] None)
               else throw (StatusErr Internal ''check snapshot references: %v'' [] (Some err))
           | Inr (volumeRefs, snapshotRefs) \<Rightarrow>
               if volumeRefs > 0 \<or> snapshotRefs > 0 then ret ()
               else ignoreErr (UnpinCID (ipfsClient d) snapshotID))))"

text \<open>The zero \<open>time.Time\<close> is the first second of year 1, in Unix seconds.\<close>

definition zeroTime :: int64 where
  "zeroTime = - 62135596800"

definition snapshotEntryToCSI :: "SnapshotEntry \<Rightarrow> Snapshot" where
  "snapshotEntryToCSI e =
     \<lparr>sn_SnapshotId = SnapshotID e, sn_SourceVolumeId = SourceVolumeID e,
      sn_CreationTime = (if CreationTime e > 0 then CreationTime e else zeroTime),
      sn_ReadyToUse = ReadyToUse e, sn_SizeBytes = SizeBytes e\<rparr>"

definition Driver_ListSnapshots ::
  "'x Driver \<Rightarrow> string \<Rightarrow> string \<Rightarrow> int \<Rightarrow> ('x world, Snapshot list) io" where
  "Driver_ListSnapshots d snapshotId sourceVolumeId reqMax =
     (case snapshotStore d of
        None \<Rightarrow> ret []
      | Some ss \<Rightarrow>
          bindE (mapErr (\<lambda>err. StatusErr Internal ''list snapshots: %v'' [] (Some err))
                   (readsE (ListSnapshots ss (DriverName (cfg d)) snapshotId sourceVolumeId))) (\<lambda>entries.
          let maxEntries = (if reqMax \<le> 0 then int (length entries) else reqMax);
              entries = (if int (length entries) > maxEntries then take (nat maxEntries) entries else entries)
          in ret (map snapshotEntryToCSI entries)))"

section \<open>ControllerExpandVolume, ControllerGetVolume, ControllerModifyVolume\<close>

definition ControllerExpandVolume ::
  "'x Driver \<Rightarrow> string \<Rightarrow> CapacityRange option \<Rightarrow> ('x world, ExpandResponse) io" where
  "ControllerExpandVolume d volumeID capRange =
     (if volumeID = '''' then throw (StatusErr InvalidArgument ''volume ID is required'' [] None)
      else
      let sizeBytes = parseCapacityFromRequest capRange 0 in
      if sizeBytes \<le> 0
      then throw (StatusErr InvalidArgument ''capacity range is required and must be positive'' [] None)
      else ret \<lparr>ex_CapacityBytes = sizeBytes, ex_NodeExpansionRequired = True\<rparr>)"

definition ControllerGetVolume :: "'x Driver \<Rightarrow> string \<Rightarrow> ('x world, Volume) io" where
  "ControllerGetVolume d volumeID =
     (if volumeID = '''' then throw (StatusErr InvalidArgument ''volume ID is required'' [] None)
      else
      bindE (reads (GetVolumeAttributes (volumeStore d) volumeID)) (\<lambda>r.
        case r of
          Inl err \<Rightarrow>
            if errors_Is err ErrPVNotFound then throw (StatusErr NotFound ''volume %s not found'' [volumeID] None)
            else throw (StatusErr Internal ''get volume: %v'' [] (Some err))
        | Inr attrs \<Rightarrow> ret (volumeEntry attrs)))"

definition ControllerModifyVolume :: "'x Driver \<Rightarrow> string \<Rightarrow> ('x world, unit) io" where
  "ControllerModifyVolume d volumeID =
     (if volumeID = '''' then throw (StatusErr InvalidArgument ''volume ID is required'' [] None)
      else ret ())"

end
