(* ===== verification/Node.thy ===== *)
theory Node
  imports Controller
begin

text \<open>
  \<open>pkg/driver/node.go\<close>: the CSI node service. Volume content is materialised into a host
  directory when a volume is staged (or published without a staging path), bind-mounted into
  the pod when it is published, and written back to MFS when it is unstaged. The host's files
  are the tree of \<open>HostFS\<close>; the mount helpers of \<open>k8s.io/mount-utils\<close> are the record
  \<open>Mounter\<close> of the driver.
\<close>

section \<open>Fetching content\<close>

fun remove_entries :: "'x OS \<Rightarrow> string \<Rightarrow> string list \<Rightarrow> ('x world, unit) io" where
  "remove_entries E p [] = ret ()"
| "remove_entries E p (entry # entries) =
     (let entryPath = filepath_Join [p, entry]
      in bindE (mapErr (ErrorfW ''remove existing entry %s: %w'' [entryPath]) (os_RemoveAll E entryPath))
           (\<lambda>_. remove_entries E p entries))"

definition ensureEmptyDirectory :: "'x OS \<Rightarrow> string \<Rightarrow> ('x world, unit) io" where
  "ensureEmptyDirectory E p =
     bindE (mapErr (ErrorfW ''create directory %s: %w'' [p]) (os_MkdirAll E p)) (\<lambda>_.
     bindE (mapErr (ErrorfW ''read directory %s: %w'' [p]) (os_ReadDir E p)) (\<lambda>entries.
     remove_entries E p entries))"

definition fetchContentToPath :: "'x Driver \<Rightarrow> gomap option \<Rightarrow> string \<Rightarrow> ('x world, unit) io" where
  "fetchContentToPath d volumeContext destPath =
     (case volumeContext of
        None \<Rightarrow> ret ()
      | Some vc \<Rightarrow>
          let cid = mget vc paramCID;
              mfsPath = mget vc paramMFSPath
          in
          if cid \<noteq> '''' then
            bindE (mapErr (\<lambda>err. StatusErr Internal ''prepare destination directory: %v'' [] (Some err))
                     (ensureEmptyDirectory (osEnv d) destPath)) (\<lambda>_.
            mapErr (\<lambda>err. StatusErr Internal ''get CID content from IPFS: %v'' [] (Some err))
              (GetCIDContent (ipfsClient d) cid destPath))
          else if mfsPath \<noteq> '''' then
            bindE (mapErr (\<lambda>err. StatusErr Internal ''prepare destination directory: %v'' [] (Some err))
                     (ensureEmptyDirectory (osEnv d) destPath)) (\<lambda>_.
            mapErr (\<lambda>err. StatusErr Internal ''export MFS from IPFS: %v'' [] (Some err))
              (ExportMFS (ipfsClient d) mfsPath destPath))
          else ret ())"

section \<open>Stage and unstage\<close>

definition NodeStageVolume ::
  "'x Driver \<Rightarrow> string \<Rightarrow> string \<Rightarrow> gomap option \<Rightarrow> ('x world, unit) io" where
  "NodeStageVolume d volumeID stagingPath volumeContext =
     (if volumeID = '''' then throw (StatusErr InvalidArgument ''volume ID is required'' [] None)
      else if stagingPath = '''' then throw (StatusErr InvalidArgument ''staging target path is required'' [] None)
      else
      bindE (mapErr (\<lambda>err. StatusErr Internal ''make staging directory: %v'' [] (Some err))
               (os_MkdirAll (osEnv d) stagingPath)) (\<lambda>_.
      fetchContentToPath d volumeContext stagingPath))"

definition NodeUnstageVolume :: "'x Driver \<Rightarrow> string \<Rightarrow> string \<Rightarrow> ('x world, unit) io" where
  "NodeUnstageVolume d volumeID stagingPath =
     (if volumeID = '''' then throw (StatusErr InvalidArgument ''volume ID is required'' [] None)
      else if stagingPath = '''' then throw (StatusErr InvalidArgument ''staging target path is required'' [] None)
      else
      bindE (reads (GetVolumeAttributes (volumeStore d) volumeID)) (\<lambda>r.
      let mfsPath = (case r of Inl err \<Rightarrow> '''' | Inr attrs \<Rightarrow> mget (Attributes attrs) paramMFSPath);
          readOnly = (case r of Inl err \<Rightarrow> False | Inr attrs \<Rightarrow> mget (Attributes attrs) paramReadOnly = ''true'')
      in
      bindE (if \<not> readOnly \<and> mfsPath \<noteq> '''' then
               mapErr (\<lambda>err. StatusErr Internal ''import to MFS from IPFS: %v'' [] (Some err))
                 (ImportToMFS (ipfsClient d) stagingPath mfsPath)
             else ret ()) (\<lambda>_.
      ignoreErr (CleanupMountPoint (mounter d) stagingPath))))"

section \<open>Publish and unpublish\<close>

record NodePublishVolumeRequest =
  np_VolumeId :: string
  np_TargetPath :: string
  np_StagingTargetPath :: string
  np_Readonly :: bool
  np_VolumeContext :: "gomap option"
  np_VolumeCapability :: "VolumeCapability option"

fun add_flags :: "string list \<Rightarrow> string set \<Rightarrow> string list \<Rightarrow> string list" where
  "add_flags options seen [] = options"
| "add_flags options seen (flag # flags) =
     (if flag = '''' then add_flags options seen flags
      else if flag \<in> seen then add_flags options seen flags
      else add_flags (options @ [flag]) (insert flag seen) flags)"

definition buildMountOptions :: "NodePublishVolumeRequest \<Rightarrow> string list" where
  "buildMountOptions req =
     (let options = [''bind''];
          seen = {''bind''};
          options' = (if np_Readonly req then options @ [''ro''] else options);
          seen' = (if np_Readonly req then insert ''ro'' seen else seen)
      in case Option.bind (np_VolumeCapability req) vc_MountFlags of
           None \<Rightarrow> options'
         | Some flags \<Rightarrow> add_flags options' seen' flags)"

definition os_IsNotExist :: "gerr \<Rightarrow> bool" where
  "os_IsNotExist e \<longleftrightarrow> (case e of NotExist p \<Rightarrow> True | _ \<Rightarrow> False)"

definition NodePublishVolume :: "'x Driver \<Rightarrow> NodePublishVolumeRequest \<Rightarrow> ('x world, unit) io" where
  "NodePublishVolume d req =
     (let volumeID = np_VolumeId req;
          targetPath = np_TargetPath req;
          stagingPath = np_StagingTargetPath req;
          makeTarget = mapErr (\<lambda>err. StatusErr Internal ''make target directory: %v'' [] (Some err))
                         (os_MkdirAll (osEnv d) targetPath)
      in
      if volumeID = '''' then throw (StatusErr InvalidArgument ''volume ID is required'' [] None)
      else if targetPath = '''' then throw (StatusErr InvalidArgument ''target path is required'' [] None)
      else
      bindE
        (if stagingPath = '''' then
           (let sourcePath = filepath_Join [MountDir (cfg d), volumeID] in
            bindE (mapErr (\<lambda>err. StatusErr Internal ''make source directory: %v'' [] (Some err))
                     (os_MkdirAll (osEnv d) sourcePath)) (\<lambda>_.
            bindE (fetchContentToPath d (np_VolumeContext req) sourcePath) (\<lambda>_. ret sourcePath)))
         else ret stagingPath) (\<lambda>sourcePath.
      bindE makeTarget (\<lambda>_.
      bindE (attempt (IsLikelyNotMountPoint (mounter d) targetPath)) (\<lambda>r.
      bindE
        (case r of
           Inl err \<Rightarrow>
             if os_IsNotExist err then bindE makeTarget (\<lambda>_. ret True)
             else throw (StatusErr Internal ''check mount point: %v'' [] (Some err))
         | Inr notMnt \<Rightarrow> ret notMnt) (\<lambda>notMnt.
      if \<not> notMnt then ret ()
      else mapErr (\<lambda>err. StatusErr Internal ''mount: %v'' [] (Some err))
             (Mount (mounter d) sourcePath targetPath '''' (buildMountOptions req)))))))"

definition NodeUnpublishVolume :: "'x Driver \<Rightarrow> string \<Rightarrow> string \<Rightarrow> ('x world, unit) io" where
  "NodeUnpublishVolume d volumeID targetPath =
     (if volumeID = '''' then throw (StatusErr InvalidArgument ''volume ID is required'' [] None)
      else if targetPath = '''' then throw (StatusErr InvalidArgument ''target path is required'' [] None)
      else mapErr (\<lambda>err. StatusErr Internal ''cleanup target path: %v'' [] (Some err))
             (CleanupMountPoint (mounter d) targetPath))"

section \<open>Information, statistics, expansion\<close>

datatype NodeRPC = STAGE_UNSTAGE_VOLUME | GET_VOLUME_STATS | NODE_EXPAND_VOLUME | VOLUME_CONDITION

datatype NodeServiceCapability = NodeCapRpc NodeRPC

definition buildNodeCapabilities :: "NodeServiceCapability list" where
  "buildNodeCapabilities =
     foldl (\<lambda>caps t. caps @ [NodeCapRpc t]) []
       [STAGE_UNSTAGE_VOLUME, GET_VOLUME_STATS, NODE_EXPAND_VOLUME]"

definition NodeGetInfo :: "'x Driver \<Rightarrow> ('x world, string) io" where
  "NodeGetInfo d = ret (NodeID (cfg d))"

definition NodeGetCapabilities :: "'x Driver \<Rightarrow> ('x world, NodeServiceCapability list) io" where
  "NodeGetCapabilities d = ret buildNodeCapabilities"

datatype UsageUnit = BYTES | INODES

record VolumeUsage =
  Available :: int64
  Total :: int64
  Used :: int64
  Unit :: UsageUnit

definition NodeGetVolumeStats :: "'x Driver \<Rightarrow> string \<Rightarrow> string \<Rightarrow> ('x world, VolumeUsage list) io" where
  "NodeGetVolumeStats d volumeID volumePath =
     (if volumeID = '''' then throw (StatusErr InvalidArgument ''volume ID is required'' [] None)
      else if volumePath = '''' then throw (StatusErr InvalidArgument ''volume path is required'' [] None)
      else
      bindE (mapErr (\<lambda>err. StatusErr Internal ''get volume stats: %v'' [] (Some err))
               (readsE (\<lambda>w. getVolumeStats (os_Statfs (osEnv d) w) volumePath))) (\<lambda>stats.
      ret [\<lparr>Available = availableBytes stats, Total = totalBytes stats, Used = usedBytes stats, Unit = BYTES\<rparr>,
           \<lparr>Available = availableInodes stats, Total = totalInodes stats, Used = usedInodes stats, Unit = INODES\<rparr>]))"

definition NodeExpandVolume :: "'x Driver \<Rightarrow> string \<Rightarrow> CapacityRange option \<Rightarrow> ('x world, int64) io" where
  "NodeExpandVolume d volumePath capRange =
     (if volumePath = '''' then throw (StatusErr InvalidArgument ''volume path is required'' [] None)
      else ret (parseCapacityFromRequest capRange defaultCapacityBytes))"

end
