(* ===== verification/Examples.thy ===== *)
theory Examples
  imports Node
begin

text \<open>
  A concrete driver to evaluate the operations on: an IPFS client that answers every call and
  appends it to a log (the state \<open>ext\<close>), a host that refuses nothing, a mounter that does
  the same as the client, and the example caches of theory \<open>Stores\<close>.
\<close>

definition logs :: "string \<Rightarrow> 'a \<Rightarrow> (string list world, 'a) io" where
  "logs s a w = (Inr a, w\<lparr>ext := ext w @ [s]\<rparr>)"

definition example_client :: "string list Client" where
  "example_client =
     \<lparr>Ping = logs ''ping'' (),
      StatCID = (\<lambda>c. logs (''stat '' @ c) True),
      GetCIDContent = (\<lambda>c p. logs (''get '' @ c) ()),
      AddPath = (\<lambda>p. logs (''add '' @ p) ''Qm9''),
      PinCID = (\<lambda>c. logs (''pin '' @ c) ()),
      UnpinCID = (\<lambda>c. logs (''unpin '' @ c) ()),
      MkdirMFS = (\<lambda>p. logs (''mkdir '' @ p) ()),
      RmMFS = (\<lambda>p. logs (''rm '' @ p) ()),
      ExportMFS = (\<lambda>m p. logs (''export '' @ m) ()),
      ImportToMFS = (\<lambda>p m. logs (''import '' @ m) ()),
      ResolveMFSCID = (\<lambda>p. logs (''resolve '' @ p) ''Qm9''),
      GetRepoStat = logs ''repo'' \<lparr>RepoSize = 10, StorageMax = 30, NumObjects = 1\<rparr>,
      ReadCID = (\<lambda>c. logs (''read '' @ c) '''')\<rparr>"

text \<open>A daemon that answers every request, for the client of the repository itself.\<close>

definition example_Kubo :: "string list KuboAPI" where
  "example_Kubo =
     \<lparr>cid_Decode = Inr, cid_String = id, NewMultiaddr = Inr, kuborpc_NewApi = (\<lambda>a. Inr ()),
      Key_Self = (\<lambda>x. (Inr ''self'', x)),
      Unixfs_Get = (\<lambda>c x. (Inr (UFile c), x @ [''get'', c])),
      Unixfs_Add = (\<lambda>n x. (Inr ''Qm9'', x @ [''add''])),
      Pin_Add = (\<lambda>c x. (Inr (), x @ [''pin'', c])),
      Pin_Rm = (\<lambda>c x. (Inr (), x @ [''unpin'', c])),
      Request = (\<lambda>cmd args opts x.
        (Inr \<lparr>resp_Error = None, resp_Output = JObj [(''Hash'', JStr ''Qm9'')]\<rparr>, x @ cmd # args)),
      files_WriteTo = (\<lambda>n p t. (None, t)),
      files_NewSerialFile = (\<lambda>p n. Inr n)\<rparr>"

definition example_OS :: "'x OS" where
  "example_OS = \<lparr>os_fault = (\<lambda>op p w. None), os_TempDir = ''/tmp'', os_rand = nat_digits,
     os_Statfs = (\<lambda>w p. Inl ''no such file''), os_IsSocket = (\<lambda>w p. p = ''/csi.sock'')\<rparr>"

definition example_mounter :: "string list Mounter" where
  "example_mounter =
     \<lparr>IsLikelyNotMountPoint = (\<lambda>p. logs (''check '' @ p) True),
      Mount = (\<lambda>src dst t opts. logs (''mount '' @ src @ '' '' @ dst) ()),
      CleanupMountPoint = (\<lambda>p. logs (''cleanup '' @ p) ())\<rparr>"

definition example_cfg :: Config where
  "example_cfg = \<lparr>DriverName = DefaultDriverName, NodeID = ''node-1'', Version = ''1'',
     MountDir = ''/mnt'', MFSRoot = ''/csi'', PinFailurePolicy = pinFailurePolicyStrict\<rparr>"

definition example_driver :: "string list Driver" where
  "example_driver =
     \<lparr>cfg = example_cfg, ipfsClient = example_client,
      volumeStore = NewVolumeStoreFromPVLister (ext_PVLister example_PVLister),
      snapshotStore = NewSnapshotStoreFromVSCLister (Some (ext_VSCLister example_VSCLister)),
      osEnv = example_OS, mounter = example_mounter\<rparr>"

definition example_world :: "string list world" where
  "example_world = \<lparr>ext = [], hfs = FDir [(''tmp'', FDir [])], volumeLocks = NewVolumeLocks, clock = 1000, seqno = 0\<rparr>"

lemma example_informed: "informed example_driver example_PVLister (Some example_VSCLister)"
  by (simp add: informed_def example_driver_def)

lemma example_driver_sel [simp]:
  "cfg example_driver = example_cfg" "ipfsClient example_driver = example_client"
  "osEnv example_driver = example_OS" "mounter example_driver = example_mounter"
  "DriverName example_cfg = DefaultDriverName"
  by (simp_all add: example_driver_def example_cfg_def)

lemma example_world_sel [simp]:
  "ext example_world = []" "locks (volumeLocks example_world) = {}"
  "hfs example_world = FDir [(''tmp'', FDir [])]" "clock example_world = 1000"
  by (simp_all add: example_world_def NewVolumeLocks_def)

end
