(* ===== verification/HostTree.thy ===== *)
theory HostTree
  imports HostFS
begin

text \<open>
  Facts about the trees of \<open>HostFS\<close>: well-formedness, and what the operations on trees do at,
  below and beside a path. \<open>update_at\<close> is the general update of the node at a path; removal,
  creation and storing are instances of it. The second part relates canonical absolute paths
  to their lists of elements.
\<close>

section \<open>Directory listings\<close>

text \<open>Every directory lists its entries once and in order, under plain names.\<close>

fun tree_ok :: "fnode \<Rightarrow> bool" where
  "tree_ok (FFile b) \<longleftrightarrow> True"
| "tree_ok (FOther r) \<longleftrightarrow> True"
| "tree_ok (FDir es) \<longleftrightarrow> sorted (map fst es) \<and> distinct (map fst es) \<and>
     (\<forall>e \<in> set es. plain_elem (fst e) \<and> tree_ok (snd e))"

lemma map_of_put_entry [simp]: "map_of (put_entry c n es) k = (if k = c then Some n else map_of es k)"
  by (induction c n es rule: put_entry.induct) auto

lemma map_of_del_entry [simp]: "map_of (del_entry c es) k = (if k = c then None else map_of es k)"
  by (induction es) (auto simp: del_entry_def)

lemma put_entry_twice [simp]: "put_entry c x (put_entry c y es) = put_entry c x es"
  by (induction c y es rule: put_entry.induct) auto

lemma put_entry_same: "sorted (map fst es) \<Longrightarrow> map_of es c = Some m \<Longrightarrow> put_entry c m es = es"
  by (induction c m es rule: put_entry.induct) (force dest: map_of_SomeD)+

lemma put_entry_last: "\<forall>d \<in> set (map fst es). d < c \<Longrightarrow> put_entry c n es = es @ [(c, n)]"
  by (induction c n es rule: put_entry.induct) auto

lemma set_put_entry: "distinct (map fst es) \<Longrightarrow> sorted (map fst es) \<Longrightarrow>
    set (put_entry c n es) = insert (c, n) {e \<in> set es. fst e \<noteq> c}"
  by (induction c n es rule: put_entry.induct) force+

lemma put_entry_names: "fst ` set (put_entry c n es) = insert c (fst ` set es)"
  by (induction c n es rule: put_entry.induct) auto

lemma sorted_put_entry:
  "sorted (map fst es) \<Longrightarrow> distinct (map fst es) \<Longrightarrow>
   sorted (map fst (put_entry c n es)) \<and> distinct (map fst (put_entry c n es))"
  by (induction c n es rule: put_entry.induct) (auto simp: put_entry_names image_iff dest: less_imp_le)

lemma tree_ok_put:
  "tree_ok (FDir es) \<Longrightarrow> plain_elem c \<Longrightarrow> tree_ok n \<Longrightarrow> tree_ok (FDir (put_entry c n es))"
  using sorted_put_entry [of es c n] by (auto simp: set_put_entry)

lemma tree_ok_del: "tree_ok (FDir es) \<Longrightarrow> tree_ok (FDir (del_entry c es))"
  by (auto simp: del_entry_def sorted_filter distinct_map_filter)

lemma tree_ok_sub: "tree_ok (FDir es) \<Longrightarrow> map_of es c = Some m \<Longrightarrow> tree_ok m \<and> plain_elem c"
  by (auto dest: map_of_SomeD)

section \<open>Updates at a path\<close>

fun update_at :: "string list \<Rightarrow> (fnode \<Rightarrow> fnode) \<Rightarrow> fnode \<Rightarrow> fnode" where
  "update_at [] f n = f n"
| "update_at (c # cs) f (FDir es) =
     (case map_of es c of None \<Rightarrow> FDir es | Some m \<Rightarrow> FDir (put_entry c (update_at cs f m) es))"
| "update_at (c # cs) f n = n"

text \<open>Changes of one entry of a directory.\<close>

fun put_name :: "string \<Rightarrow> fnode \<Rightarrow> fnode \<Rightarrow> fnode" where
  "put_name c n (FDir es) = FDir (put_entry c n es)"
| "put_name c n m = m"

fun del_name :: "string \<Rightarrow> fnode \<Rightarrow> fnode" where
  "del_name c (FDir es) = FDir (del_entry c es)"
| "del_name c m = m"

lemma lookup_append: "lookup t (p @ q) = Option.bind (lookup t p) (\<lambda>n. lookup n q)"
  by (induction t p rule: lookup.induct) (auto split: option.splits)

lemma lookup_update_below:
  "lookup t p = Some n \<Longrightarrow> lookup (update_at p f t) (p @ q) = lookup (f n) q"
  by (induction p f t rule: update_at.induct) (auto split: option.splits)

lemma lookup_update [simp]: "lookup t p = Some n \<Longrightarrow> lookup (update_at p f t) p = Some (f n)"
  using lookup_update_below [of t p n f "[]"] by simp

text \<open>Two paths of which none leads through the other.\<close>

definition apart :: "string list \<Rightarrow> string list \<Rightarrow> bool" where
  "apart p q \<longleftrightarrow> take (length p) q \<noteq> p \<and> take (length q) p \<noteq> q"

lemma apart_Cons [simp]: "apart (c # p) (d # q) \<longleftrightarrow> c \<noteq> d \<or> apart p q"
  by (auto simp: apart_def)

lemma apart_Nil [simp]: "\<not> apart [] q" "\<not> apart p []"
  by (simp_all add: apart_def)

lemma lookup_update_apart: "apart p q \<Longrightarrow> lookup (update_at p f t) q = lookup t q"
  by (induction p f t arbitrary: q rule: update_at.induct)
    (case_tac q; auto split: option.splits)+

lemma update_update: "update_at p f (update_at p g t) = update_at p (f \<circ> g) t"
  by (induction p g t rule: update_at.induct) (auto split: option.splits)

lemma update_cong: "lookup t p = Some n \<Longrightarrow> f n = g n \<Longrightarrow> update_at p f t = update_at p g t"
  by (induction p f t rule: update_at.induct) (auto split: option.splits)

lemma update_same: "tree_ok t \<Longrightarrow> lookup t p = Some n \<Longrightarrow> f n = n \<Longrightarrow> update_at p f t = t"
proof (induction p f t rule: update_at.induct)
  case (2 c cs f es)
  then obtain m where m: "map_of es c = Some m" "lookup m cs = Some n" by (auto split: option.splits)
  with 2 tree_ok_sub [of es c m] have "update_at cs f m = m" by blast
  with 2 m show ?case by (simp add: put_entry_same del: map_of_eq_Some_iff)
qed auto

lemma tree_ok_lookup: "tree_ok t \<Longrightarrow> lookup t p = Some n \<Longrightarrow> tree_ok n \<and> list_all plain_elem p"
proof (induction t p rule: lookup.induct)
  case (2 es c cs)
  then show ?case using tree_ok_sub [of es c] by (auto split: option.splits)
qed auto

lemma tree_ok_update:
  "tree_ok t \<Longrightarrow> (\<And>n. lookup t p = Some n \<Longrightarrow> tree_ok (f n)) \<Longrightarrow> tree_ok (update_at p f t)"
proof (induction p f t rule: update_at.induct)
  case (2 c cs f es)
  show ?case
  proof (cases "map_of es c")
    case (Some m)
    have "tree_ok m" "plain_elem c" using tree_ok_sub [OF "2.prems"(1) Some] by auto
    moreover have "tree_ok (update_at cs f m)"
      using Some "2.prems"(2) \<open>tree_ok m\<close> by (intro "2.IH") auto
    ultimately show ?thesis using Some "2.prems"(1) by (simp add: tree_ok_put del: tree_ok.simps)
  qed (use "2.prems" in simp)
qed auto

section \<open>The operations as updates\<close>

lemma removeAt_snoc: "removeAt (p @ [c]) t = update_at p (del_name c) t"
proof (induction p "del_name c" t rule: update_at.induct)
  case (1 n)
  then show ?case by (cases n) auto
next
  case (2 d ds es)
  then show ?case by (cases ds) (auto split: option.splits)
qed auto

lemma mkdirs_dir: "tree_ok t \<Longrightarrow> lookup t p = Some (FDir es) \<Longrightarrow> mkdirs p t = Some t"
proof (induction p t rule: mkdirs.induct)
  case (2 c cs fs)
  then obtain m where m: "map_of fs c = Some m" "lookup m cs = Some (FDir es)" by (auto split: option.splits)
  with 2 tree_ok_sub [of fs c m] have "mkdirs cs m = Some m" by simp
  with 2 m show ?case by (simp add: put_entry_same del: map_of_eq_Some_iff)
qed (auto elim: lookup.elims)

lemma mkdirs_child:
  "lookup t p = Some (FDir es) \<Longrightarrow> map_of es c = None \<Longrightarrow>
   mkdirs (p @ [c]) t = Some (update_at p (put_name c (FDir [])) t)"
proof (induction p t rule: mkdirs.induct)
  case (2 d ds fs)
  then show ?case by (auto split: option.splits)
qed (auto elim: lookup.elims)

lemma mkdirs_lookup:
  "mkdirs p t = Some t' \<Longrightarrow>
   \<exists>es. lookup t' p = Some (FDir es) \<and> (lookup t p = Some (FDir es) \<or> lookup t p = None \<and> es = [])"
proof (induction p t arbitrary: t' rule: mkdirs.induct)
  case (2 c cs es)
  then obtain m where m: "mkdirs cs (case map_of es c of None \<Rightarrow> FDir [] | Some m \<Rightarrow> m) = Some m"
    and t': "t' = FDir (put_entry c m es)" by auto
  have nil: "lookup (FDir []) cs = Some (FDir fs) \<Longrightarrow> fs = []" for fs by (cases cs) auto
  from "2.IH" [OF m] t' nil show ?case by (auto split: option.splits)
qed auto

lemma mkdirs_apart: "mkdirs p t = Some t' \<Longrightarrow> apart p q \<Longrightarrow> lookup t' q = lookup t q"
proof (induction p t arbitrary: t' q rule: mkdirs.induct)
  case (2 c cs es)
  then obtain m where m: "mkdirs cs (case map_of es c of None \<Rightarrow> FDir [] | Some m \<Rightarrow> m) = Some m"
    and t': "t' = FDir (put_entry c m es)" by auto
  obtain d ds where q: "q = d # ds" using "2.prems"(2) by (cases q) auto
  have nil: "lookup (FDir []) ds = None" if "apart cs ds" using that by (cases ds) auto
  show ?case
    using "2.IH" [OF m, of ds] "2.prems"(2) t' q nil by (auto split: option.splits)
qed auto

lemma tree_ok_mkdirs: "mkdirs p t = Some t' \<Longrightarrow> tree_ok t \<Longrightarrow> list_all plain_elem p \<Longrightarrow> tree_ok t'"
proof (induction p t arbitrary: t' rule: mkdirs.induct)
  case (2 c cs es)
  then obtain m where m: "mkdirs cs (case map_of es c of None \<Rightarrow> FDir [] | Some m \<Rightarrow> m) = Some m"
    and t': "t' = FDir (put_entry c m es)" by auto
  have "tree_ok (case map_of es c of None \<Rightarrow> FDir [] | Some m \<Rightarrow> m)"
    using tree_ok_sub [OF "2.prems"(2)] by (auto split: option.splits)
  with "2.IH" [OF m] "2.prems" t' show ?case by (simp add: tree_ok_put del: tree_ok.simps)
qed auto

section \<open>Canonical paths\<close>

definition abs_path :: "string list \<Rightarrow> string" where
  "abs_path es = CHR ''/'' # join_slash es"

lemma abs_path_ne [simp]: "abs_path es \<noteq> ''''"
  by (simp add: abs_path_def)

lemma IsAbs_abs_path [simp]: "IsAbs (abs_path es)"
  by (simp add: abs_path_def IsAbs_def)

lemma path_Clean_abs [simp]: "list_all plain_elem es \<Longrightarrow> path_Clean (abs_path es) = abs_path es"
  using clean_elems_split_join [of True es] by (simp add: abs_path_def path_Clean_rooted)

lemma rel_elems_abs: "list_all plain_elem es \<Longrightarrow> rel_elems (abs_path es) = es"
proof -
  assume es: "list_all plain_elem es"
  have p: "path_elems (join_slash es) = es"
    using es by (intro path_elems_join) (auto simp: list_all_iff plain_elem_def)
  have "rel_elems (abs_path es) = filter (\<lambda>c. c \<noteq> ''.'') (path_elems (abs_path es))"
    using es by (simp add: rel_elems_def path_elems_def conj_commute)
  also have "\<dots> = es"
    using es p by (auto simp: abs_path_def filter_id_conv list_all_iff plain_elem_def)
  finally show ?thesis .
qed

lemma fs_path_abs [simp]: "list_all plain_elem es \<Longrightarrow> fs_path (abs_path es) = es"
  using clean_elems_split_join [of True es] by (simp add: fs_path_def abs_path_def clean_elems_drop_empty)

lemma fs_path_plain [simp]: "list_all plain_elem (fs_path p)"
  using clean_elems_split_form [of True p] by (simp add: fs_path_def)

text \<open>Every absolute path has a canonical form.\<close>

lemma fs_path_rooted:
  "fs_path (CHR ''/'' # q) = clean_elems True (split_slash q) \<and>
   path_Clean (CHR ''/'' # q) = abs_path (clean_elems True (split_slash q))"
  by (simp add: fs_path_def abs_path_def path_Clean_rooted clean_elems_drop_empty)

lemma path_Clean_canonical:
  "IsAbs p \<Longrightarrow> path_Clean p = abs_path (fs_path p) \<and> list_all plain_elem (fs_path p)"
  using clean_elems_split_form [of True "tl p"] by (auto simp: IsAbs_iff fs_path_rooted)

lemma Join_abs:
  assumes "list_all plain_elem es" "list_all plain_elem rs" "rs \<noteq> []"
  shows "filepath_Join [abs_path es, join_slash rs] = abs_path (es @ rs)"
proof -
  have rs: "split_slash (join_slash rs) = rs"
    using assms(2,3) by (intro split_join_slash) (auto simp: list_all_iff plain_elem_def)
  have "filepath_Join [abs_path es, join_slash rs] = path_Clean (abs_path es @ CHR ''/'' # join_slash rs)"
    by (simp add: filepath_Join_def)
  also have "\<dots> = CHR ''/'' # join_slash (clean_elems True (split_slash (join_slash es) @ rs))"
    by (simp add: abs_path_def path_Clean_rooted split_slash_append rs)
  also have "clean_elems True (split_slash (join_slash es) @ rs) = es @ rs"
    using assms(1,2) clean_elems_split_join [of True es] by (simp add: clean_elems_append_plain)
  finally show ?thesis by (simp add: abs_path_def)
qed

lemma Join_child [simp]:
  "list_all plain_elem es \<Longrightarrow> plain_elem c \<Longrightarrow> filepath_Join [abs_path es, c] = abs_path (es @ [c])"
  using Join_abs [of es "[c]"] by simp

lemma Join_child_fs:
  assumes "IsAbs p" "plain_elem c"
  shows "fs_path (filepath_Join [p, c]) = fs_path p @ [c]"
proof -
  from assms(1) obtain q where q: "p = CHR ''/'' # q" by (auto simp: IsAbs_iff)
  have c: "split_slash c = [c]" using assms(2) by (simp add: split_slash_single plain_elem_def)
  have "filepath_Join [p, c] = path_Clean (p @ CHR ''/'' # c)" using q by (simp add: filepath_Join_def)
  also have "\<dots> = abs_path (fs_path p @ [c])"
    using assms(2) c by (simp add: q fs_path_rooted split_slash_append clean_elems_append_plain)
  finally show ?thesis using path_Clean_canonical [OF assms(1)] assms(2) by simp
qed

lemma drop_common_append [simp]: "drop_common b (b @ r) = ([], r)"
  by (induction b) simp_all

lemma abs_path_inj:
  "list_all plain_elem es \<Longrightarrow> list_all plain_elem fs \<Longrightarrow> abs_path es = abs_path fs \<longleftrightarrow> es = fs"
  by (metis fs_path_abs)

lemma Rel_abs:
  assumes "list_all plain_elem b" "list_all plain_elem r"
  shows "filepath_Rel (abs_path b) (abs_path (b @ r)) = Some (if r = [] then ''.'' else join_slash r)"
  using assms by (simp add: filepath_Rel_def abs_path_inj rel_elems_abs)

lemma update_append: "update_at (p @ q) f t = update_at p (update_at q f) t"
  by (induction p f t arbitrary: q rule: update_at.induct) (auto split: option.splits)

lemma update_child: "map_of es c = Some m \<Longrightarrow> update_at [c] f (FDir es) = FDir (put_entry c (f m) es)"
  by simp

lemma join_slash_not_dot: "list_all plain_elem r \<Longrightarrow> r \<noteq> [] \<Longrightarrow> join_slash r \<noteq> ''.''"
proof -
  assume r: "list_all plain_elem r" "r \<noteq> []"
  have "path_elems (join_slash r) = r"
    using r by (intro path_elems_join) (auto simp: list_all_iff plain_elem_def)
  moreover have "path_elems ''.'' = [''.'']" by (simp add: path_elems_def)
  ultimately show ?thesis using r by (auto simp: plain_elem_def)
qed

lemma tree_ok_empty: "tree_ok (FDir [])"
  by simp


lemma lookup_update_None: "lookup t p = None \<Longrightarrow> lookup (update_at p f t) p = None"
  by (induction p f t rule: update_at.induct) (auto split: option.splits)

lemma lookup_removeAt: "lookup (removeAt (p @ [c]) t) (p @ [c]) = None"
proof (cases "lookup t p")
  case None
  then show ?thesis by (simp add: removeAt_snoc lookup_append lookup_update_None)
next
  case (Some n)
  moreover have "lookup (del_name c n) [c] = None" by (cases n) auto
  ultimately show ?thesis by (simp add: removeAt_snoc lookup_update_below)
qed

lemma lookup_removeAt_apart: "apart p q \<Longrightarrow> lookup (removeAt p t) q = lookup t q"
  by (induction p t arbitrary: q rule: removeAt.induct) (case_tac q; auto split: option.splits)+

lemma tree_ok_removeAt:
  assumes "tree_ok t"
  shows "tree_ok (removeAt (p @ [c]) t)"
proof -
  have "tree_ok (del_name c n)" if "lookup t p = Some n" for n
    using tree_ok_lookup [OF assms that] tree_ok_del by (cases n) (auto simp del: tree_ok.simps)
  with assms show ?thesis unfolding removeAt_snoc by (rule tree_ok_update)
qed

lemma storeAt_snoc:
  "storeAt (p @ [c]) n t = Some t' \<Longrightarrow> (\<exists>es. lookup t p = Some (FDir es)) \<and> t' = update_at p (put_name c n) t"
proof (induction p arbitrary: t t')
  case Nil
  then show ?case by (cases t) auto
next
  case (Cons d ds)
  obtain es where es: "t = FDir es" using Cons.prems by (cases t; cases ds) auto
  then obtain m m' where "map_of es d = Some m" "storeAt (ds @ [c]) n m = Some m'" "t' = FDir (put_entry d m' es)"
    using Cons.prems by (cases ds) (auto split: option.splits)
  with Cons.IH [of m m'] es show ?case by simp
qed

lemma del_put_entry: "map_of es c = None \<Longrightarrow> del_entry c (put_entry c n es) = es"
  by (induction c n es rule: put_entry.induct) (force simp: del_entry_def filter_id_conv map_of_eq_None_iff)+

text \<open>A new entry that is filled and then removed leaves no trace.\<close>

lemma remove_stored:
  assumes "tree_ok t" "lookup t p = Some (FDir es)" "map_of es c = None"
  shows "removeAt (p @ [c]) (update_at (p @ [c]) f (update_at p (put_name c n) t)) = t"
proof -
  have "(del_name c \<circ> update_at [c] f \<circ> put_name c n) (FDir es) = FDir es"
    using assms(3) by (simp add: del_put_entry)
  then have "update_at p (del_name c \<circ> update_at [c] f \<circ> put_name c n) t = t"
    by (rule update_same [OF assms(1,2)])
  then show ?thesis by (simp add: removeAt_snoc update_append update_update comp_assoc)
qed

lemma tree_ok_remove: "tree_ok t \<Longrightarrow> tree_ok (removeAt p t)"
  by (cases p rule: rev_cases) (simp_all add: tree_ok_removeAt)

lemma tree_ok_store:
  assumes "tree_ok t" "tree_ok n" "list_all plain_elem p" "storeAt p n t = Some t'"
  shows "tree_ok t'"
proof (cases p rule: rev_cases)
  case (snoc q c)
  with storeAt_snoc [of q c n t t'] assms(4) have "t' = update_at q (put_name c n) t" by auto
  moreover have "tree_ok (put_name c n m)" if "lookup t q = Some m" for m
    using tree_ok_lookup [OF assms(1) that] assms(2,3) snoc tree_ok_put
    by (cases m) (auto simp del: tree_ok.simps)
  ultimately show ?thesis using tree_ok_update [OF assms(1)] by blast
qed (use assms in simp)

end
