(* ===== verification/Frame.thy ===== *)
theory Frame
  imports Examples HostTree
begin

text \<open>
  What every operation keeps, whatever it returns. \<open>stays R m\<close> says that the states before and
  after a call of \<open>m\<close> are related by \<open>R\<close>. The locale \<open>state_frame\<close> has the rules for the control
  flow, for any reflexive and transitive \<open>R\<close>; \<open>read_frame\<close> extends it to the calls of package
  \<open>os\<close> that only read, \<open>import_frame\<close> to the methods of the client of \<open>pkg/ipfs\<close> that write no
  file of the host, \<open>lock_frame\<close> to locked operations, \<open>host_frame\<close> to all of package \<open>os\<close>, \<open>kubo_frame\<close> to
  the whole client, \<open>client_frame\<close> to the
  controller and \<open>node_frame\<close> to the node service (unpinning is added by \<open>kubo_unpin_frame\<close> and
  \<open>client_unpin_frame\<close>), each with what \<open>R\<close> has to allow as its
  assumptions. They are interpreted here for the lock set, which no operation of the controller
  changes for good, and for the well-formedness of the host's tree together with the lock set; in
  theory \<open>Staging\<close> an \<open>import_frame\<close> for all files of the host, and in theory \<open>Pinning\<close> for the pins of the daemon, without unpinning.
\<close>

section \<open>Control flow\<close>

definition stays :: "('w \<Rightarrow> 'w \<Rightarrow> bool) \<Rightarrow> ('w, 'a) io \<Rightarrow> bool" where
  "stays R m \<longleftrightarrow> (\<forall>w. R w (snd (m w)))"

named_theorems stays \<open>calls that keep a relation between states\<close>

lemma staysI: "(\<And>w. R w (snd (m w))) \<Longrightarrow> stays R m"
  by (simp add: stays_def)

lemma staysD: "stays R m \<Longrightarrow> R w (snd (m w))"
  by (simp add: stays_def)

lemma stays_pair: "stays R m \<Longrightarrow> m w = (r, w') \<Longrightarrow> R w w'"
  by (metis stays_def snd_conv)

lemma stays_if [stays]: "(b \<Longrightarrow> stays R m) \<Longrightarrow> (\<not> b \<Longrightarrow> stays R n) \<Longrightarrow> stays R (if b then m else n)"
  by simp

lemma stays_Let [stays]: "(\<And>x. stays R (f x)) \<Longrightarrow> stays R (let x = v in f x)"
  by simp

lemma stays_case_sum [stays]:
  "(\<And>a. stays R (f a)) \<Longrightarrow> (\<And>b. stays R (g b)) \<Longrightarrow> stays R (case x of Inl a \<Rightarrow> f a | Inr b \<Rightarrow> g b)"
  by (cases x) auto

lemma stays_case_option [stays]:
  "stays R f \<Longrightarrow> (\<And>b. stays R (g b)) \<Longrightarrow> stays R (case x of None \<Rightarrow> f | Some b \<Rightarrow> g b)"
  by (cases x) auto

lemma stays_case_prod [stays]: "(\<And>a b. stays R (f a b)) \<Longrightarrow> stays R (case x of (a, b) \<Rightarrow> f a b)"
  by (cases x) auto

lemma stays_case_fnode [stays]:
  "(\<And>b. stays R (f b)) \<Longrightarrow> (\<And>es. stays R (g es)) \<Longrightarrow> (\<And>r. stays R (h r)) \<Longrightarrow>
   stays R (case n of FFile b \<Rightarrow> f b | FDir es \<Rightarrow> g es | FOther r \<Rightarrow> h r)"
  by (cases n) auto

lemma stays_case_unode [stays]:
  "(\<And>b. stays R (f b)) \<Longrightarrow> (\<And>es e. stays R (g es e)) \<Longrightarrow> stays R h \<Longrightarrow>
   stays R (case n of UFile b \<Rightarrow> f b | UDir es e \<Rightarrow> g es e | UOther \<Rightarrow> h)"
  by (cases n) auto

lemma stays_mapErr [stays]: "stays R m \<Longrightarrow> stays R (mapErr g m)"
  by (rule staysI) (auto simp: mapErr_def split: prod.split sum.split dest: stays_pair)

lemma stays_attempt [stays]: "stays R m \<Longrightarrow> stays R (attempt m)"
  by (rule staysI) (auto simp: attempt_def split: prod.split dest: stays_pair)

lemma stays_ignoreErr [stays]: "stays R m \<Longrightarrow> stays R (ignoreErr m)"
  by (simp add: stays_def ignoreErr_def)

text \<open>A call of the API of the daemon changes \<open>ext\<close> only.\<close>

lemma api_state: "snd (api f w) = w\<lparr>ext := snd (f (ext w))\<rparr>"
  by (simp add: api_def split: prod.split sum.split)

lemma stays_api: "(\<And>w x. R w (w\<lparr>ext := x\<rparr>)) \<Longrightarrow> stays R (api f)"
  by (simp add: stays_def api_state)

locale state_frame =
  fixes R :: "'w \<Rightarrow> 'w \<Rightarrow> bool"
  assumes refl: "R w w" and trans: "R u v \<Longrightarrow> R v w \<Longrightarrow> R u w"
begin

lemma stays_ret [stays]: "stays R (ret a)"
  by (simp add: stays_def ret_def refl)

lemma stays_throw [stays]: "stays R (throw e)"
  by (simp add: stays_def throw_def refl)

lemma stays_reads [stays]: "stays R (reads f)"
  by (simp add: stays_def reads_def refl)

lemma stays_readsE [stays]: "stays R (readsE f)"
  by (simp add: stays_def readsE_def refl)

lemma stays_bindE [stays]:
  assumes "stays R m" "\<And>a. stays R (f a)"
  shows "stays R (bindE m f)"
proof (rule staysI)
  fix w
  obtain r w' where m: "m w = (r, w')" by fastforce
  with assms(1) have "R w w'" by (rule stays_pair)
  moreover have "R w' (snd (f a w'))" for a using assms(2) by (rule staysD)
  ultimately show "R w (snd (bindE m f w))"
    using m by (auto simp: bindE_def split: sum.split intro: trans)
qed

lemma stays_deferring [stays]: "stays R m \<Longrightarrow> (\<And>w. R w (c w)) \<Longrightarrow> stays R (deferring c m)"
  by (rule staysI) (auto simp: deferring_def split: prod.split dest: stays_pair intro: trans)

end

section \<open>The host\<close>

text \<open>
  Calls of package \<open>os\<close> that read: whatever the host does when it refuses one is allowed.
\<close>

locale read_frame = state_frame R for R :: "'x world \<Rightarrow> 'x world \<Rightarrow> bool" +
  fixes E :: "'x OS"
  assumes change_fault: "os_fault E op p w = Some (e, t) \<Longrightarrow> R w (w\<lparr>hfs := t\<rparr>)"
begin

lemma stays_os_call [stays]: "stays R m \<Longrightarrow> stays R (os_call E op p m)"
  by (auto simp: stays_def os_call_def change_fault split: option.splits)

lemma stays_os_guard [stays]: "(\<And>e. stays R (h e)) \<Longrightarrow> stays R m \<Longrightarrow> stays R (os_guard E' op p h m)"
  by (auto simp: stays_def os_guard_def split: option.splits)

lemma stays_os_reads [stays]:
  "stays R (os_ReadDir E p)" "stays R (os_Stat E p)" "stays R (os_OpenRoot E p)"
  "stays R (root_Open E p n)" "stays R (os_Close E k p)"
  unfolding os_ReadDir_def os_Stat_def os_OpenRoot_def root_Open_def os_Close_def
  by (intro stays)+

lemma stays_walk:
  assumes "\<And>p i e. stays R (fn p i e)"
  shows "stays R (walk E fn p n)" and "stays R (walk_entries E fn p es)"
  using assms
  by (induction E fn p n and E fn p es rule: walk_walk_entries.induct) (auto intro!: stays)

lemma stays_filepath_Walk [stays]:
  "(\<And>p i e. stays R (fn p i e)) \<Longrightarrow> stays R (filepath_Walk E fn p)"
  unfolding filepath_Walk_def by (intro stays stays_walk)

end

text \<open>What a locked operation needs: the body runs with the key acquired.\<close>

locale lock_frame = state_frame R for R :: "'x world \<Rightarrow> 'x world \<Rightarrow> bool" +
  assumes locked: "k \<notin> locks (volumeLocks w) \<Longrightarrow>
      R (w\<lparr>volumeLocks := volumeLocks w\<lparr>locks := insert k (locks (volumeLocks w))\<rparr>\<rparr>) w' \<Longrightarrow> R w (releaseLock k w')"
begin

lemma stays_with_lock [stays]:
  assumes "stays R body"
  shows "stays R (with_lock k e body)"
proof (rule staysI)
  fix w
  show "R w (snd (with_lock k e body w))"
  proof (cases "k \<in> locks (volumeLocks w)")
    case True
    then show ?thesis by (simp add: with_lock_held refl)
  next
    case False
    then show ?thesis
      by (auto simp: with_lock_free split: prod.split intro!: locked dest: stays_pair [OF assms])
  qed
qed

end

text \<open>
  Calls of package \<open>os\<close> that change the tree; whatever they do to a well-formed tree leaves it
  well-formed.
\<close>

locale host_frame = read_frame R E + lock_frame R for R :: "'x world \<Rightarrow> 'x world \<Rightarrow> bool" and E +
  assumes change_seqno: "R w (w\<lparr>seqno := n\<rparr>)"
    and change_tree: "(tree_ok (hfs w) \<Longrightarrow> tree_ok t) \<Longrightarrow> R w (w\<lparr>hfs := t\<rparr>)"
begin

lemma stays_os_MkdirAll [stays]: "stays R (os_MkdirAll E p)"
  unfolding os_MkdirAll_def
  by (rule stays_os_call)
    (auto simp: stays_def refl split: option.splits intro!: change_tree elim: tree_ok_mkdirs)

lemma stays_os_RemoveAll [stays]: "stays R (os_RemoveAll E p)"
  unfolding os_RemoveAll_def
  by (rule stays_os_call) (auto simp: stays_def intro!: change_tree elim: tree_ok_remove)

lemma removed: "R w (snd (os_RemoveAll E p w))"
  by (rule staysD [OF stays_os_RemoveAll])

lemma mkdirTemp_try_stays: "R w (snd (mkdirTemp_try E prefix n w))"
proof (induction n arbitrary: w)
  case (Suc n)
  have tree: "R w (w\<lparr>seqno := k, hfs := t\<rparr>)" if "R w (w\<lparr>hfs := t\<rparr>)" for k t
  proof -
    have "w\<lparr>seqno := k, hfs := t\<rparr> = w\<lparr>hfs := t, seqno := k\<rparr>" by simp
    with trans [OF that change_seqno [of _ k]] show ?thesis by metis
  qed
  have fault: "R w (w\<lparr>seqno := k, hfs := t\<rparr>)" if "os_fault E op p w = Some (e, t)" for k op p e t
    by (rule tree [OF change_fault [OF that]])
  have store: "R w (w\<lparr>seqno := k, hfs := t\<rparr>)" if "storeAt (fs_path p) (FDir []) (hfs w) = Some t" for k p t
    by (rule tree, rule change_tree, rule tree_ok_store [OF _ tree_ok_empty fs_path_plain that])
  have "R w (snd (mkdirTemp_try E prefix n (w\<lparr>seqno := k\<rparr>)))" for k
    by (rule trans [OF change_seqno Suc.IH])
  then show ?case
    by (simp add: Let_def change_seqno fault store split: option.split)
qed (simp add: refl)

lemma stays_os_MkdirTemp [stays]: "stays R (os_MkdirTemp E prefix)"
  by (simp add: os_MkdirTemp_def stays_def mkdirTemp_try_stays)

end

section \<open>The kubo client\<close>

text \<open>The commands of the daemon that the client sends itself.\<close>

definition client_commands :: "string list" where
  "client_commands = [''files/mkdir'', ''files/rm'', ''files/stat'', ''files/cp'', ''repo/stat'']"

text \<open>The part of the client that reads the host's files, if it uses them at all.\<close>

locale import_frame = read_frame R E for R :: "'x world \<Rightarrow> 'x world \<Rightarrow> bool" and E +
  fixes K :: "'x KuboAPI"
  assumes api_stays [stays]:
      "stays R (api (Key_Self K))" "stays R (api (Unixfs_Get K c))" "stays R (api (Unixfs_Add K n))"
      "stays R (api (Pin_Add K c))" "cmd \<in> set client_commands \<Longrightarrow> stays R (api (Request K cmd args opts))"
begin

lemma stays_request: "c \<in> set client_commands \<Longrightarrow> stays R (request K c a opts s x)"
  unfolding request_def by (intro stays)

lemma stays_requests [stays]:
  "stays R (request K ''files/mkdir'' a opts s x)" "stays R (request K ''files/rm'' a opts s x)"
  "stays R (request K ''files/stat'' a opts s x)" "stays R (request K ''files/cp'' a opts s x)"
  "stays R (request K ''repo/stat'' a opts s x)"
  by (simp_all add: stays_request client_commands_def)

lemma stays_StatCID [stays]: "stays R (client_StatCID K c)"
proof (rule staysI)
  fix w
  have "R w (w\<lparr>ext := snd (Unixfs_Get K k (ext w))\<rparr>)" for k
    using staysD [OF api_stays(2), of w k] by (simp add: api_state)
  then show "R w (snd (client_StatCID K c w))"
    by (auto simp: client_StatCID_def throw_def refl split: prod.split sum.split) (metis snd_conv)+
qed

lemma stays_statMFS [stays]: "stays R (statMFS K p)"
  unfolding statMFS_def by (intro stays)

lemma stays_client_plain [stays]:
  "stays R (client_Ping K)" "stays R (client_PinCID K c)"
  "stays R (client_MkdirMFS K p)" "stays R (client_RmMFS K p)" "stays R (cpMFS K p q)"
  "stays R (client_GetRepoStat K)" "stays R (client_ReadCID K c)"
  "stays R (client_ResolveMFSCID K p)"
  unfolding client_Ping_def client_PinCID_def client_MkdirMFS_def
    client_RmMFS_def cpMFS_def client_GetRepoStat_def client_ReadCID_def client_ResolveMFSCID_def
  by (intro stays)+

lemma stays_open_for_add [stays]: "stays R (open_for_add E p n)"
  unfolding open_for_add_def by (intro stays)

lemma stays_AddPath [stays]: "stays R (client_AddPath K E p)"
  unfolding client_AddPath_def by (intro stays)

lemma stays_import_visit [stays]: "stays R (import_visit K E l m p i e)"
  unfolding import_visit_def by (intro stays)

lemma stays_ImportToMFS [stays]: "stays R (client_ImportToMFS K E l m)"
  unfolding client_ImportToMFS_def by (intro stays)

end

locale kubo_frame = host_frame R E + import_frame R E K for R :: "'x world \<Rightarrow> 'x world \<Rightarrow> bool" and E K +
  assumes change_write: "files_WriteTo K nd p (hfs w) = (r, t) \<Longrightarrow> R w (w\<lparr>hfs := t\<rparr>)"
begin

lemma stays_write_to [stays]: "stays R (write_to K nd p)"
  by (auto simp: stays_def write_to_def split: prod.splits option.splits intro!: change_write)

lemma stays_write_children: "stays R (write_children K p es)"
proof (induction es arbitrary: p)
  case (Cons e es)
  then show ?case by (cases e) (auto intro!: stays)
qed (simp add: stays)

lemma stays_writeNodeToDir [stays]: "stays R (writeNodeToDir K nd p)"
  unfolding writeNodeToDir_def by (intro stays stays_write_children)

lemma stays_GetCIDContent [stays]: "stays R (client_GetCIDContent K c p)"
  unfolding client_GetCIDContent_def by (intro stays)

lemma stays_ExportMFS [stays]: "stays R (client_ExportMFS K p q)"
  unfolding client_ExportMFS_def by (intro stays)

end

text \<open>Unpinning is kept apart: the relation may forbid it.\<close>

locale kubo_unpin_frame = kubo_frame R E K for R :: "'x world \<Rightarrow> 'x world \<Rightarrow> bool" and E K +
  assumes unpin_stays [stays]: "stays R (api (Pin_Rm K c))"
begin

lemma stays_UnpinCID [stays]: "stays R (client_UnpinCID K c)"
  unfolding client_UnpinCID_def by (intro stays)

end

section \<open>The services\<close>

locale client_frame = host_frame R E for R :: "'x world \<Rightarrow> 'x world \<Rightarrow> bool" and E +
  fixes C :: "'x Client"
  assumes client_stays [stays]:
    "stays R (Ping C)" "stays R (StatCID C c)" "stays R (GetCIDContent C c p)"
    "stays R (PinCID C c)" "stays R (MkdirMFS C p)"
    "stays R (RmMFS C p)" "stays R (ExportMFS C p q)" "stays R (ImportToMFS C p q)"
    "stays R (ResolveMFSCID C p)" "stays R (GetRepoStat C)"
begin

lemma stays_identity:
  assumes "ipfsClient d = C"
  shows "stays R (GetPluginInfo d)" "stays R (GetPluginCapabilities d)" "stays R (Probe d)"
  unfolding GetPluginInfo_def GetPluginCapabilities_def Probe_def assms by (intro stays)+

lemma stays_restore:
  assumes "ipfsClient d = C" "osEnv d = E"
  shows "stays R (restoreSnapshotToMFS d s m)"
  unfolding restoreSnapshotToMFS_def assms by (intro stays removed)

lemma stays_CreateVolume:
  assumes "ipfsClient d = C" "osEnv d = E"
  shows "stays R (CreateVolume d req)"
  unfolding CreateVolume_def provision_def provision_cid_def provision_mfs_def assms(1)
  by (intro stays stays_restore [OF assms])

lemma stays_CreateSnapshot:
  assumes "ipfsClient d = C"
  shows "stays R (CreateSnapshot d n v)"
  unfolding CreateSnapshot_def assms by (intro stays)

lemma stays_controller_reads:
  assumes "ipfsClient d = C"
  shows "stays R (ValidateVolumeCapabilities d v caps)" "stays R (ControllerGetCapabilities d)"
    "stays R (Driver_ListVolumes d t i)" "stays R (GetCapacity d)"
    "stays R ControllerPublishVolume" "stays R ControllerUnpublishVolume"
    "stays R (Driver_ListSnapshots d s v i)" "stays R (ControllerExpandVolume d v cr)"
    "stays R (ControllerGetVolume d v)" "stays R (ControllerModifyVolume d v)"
  unfolding ValidateVolumeCapabilities_def ControllerGetCapabilities_def Driver_ListVolumes_def
    GetCapacity_def ControllerPublishVolume_def ControllerUnpublishVolume_def Driver_ListSnapshots_def
    ControllerExpandVolume_def ControllerGetVolume_def ControllerModifyVolume_def assms
  by (intro stays)+

end

locale client_unpin_frame = client_frame R E C for R :: "'x world \<Rightarrow> 'x world \<Rightarrow> bool" and E C +
  assumes client_unpin_stays [stays]: "stays R (UnpinCID C c)"
begin

lemma stays_cleanup:
  assumes "ipfsClient d = C"
  shows "stays R (cleanupVolumeInIPFS d a)"
  unfolding cleanupVolumeInIPFS_def assms by (intro stays)

lemma stays_DeleteVolume:
  assumes "ipfsClient d = C"
  shows "stays R (DeleteVolume d v)"
  unfolding DeleteVolume_def by (intro stays stays_cleanup [OF assms])

lemma stays_DeleteSnapshot:
  assumes "ipfsClient d = C"
  shows "stays R (DeleteSnapshot d s)"
  unfolding DeleteSnapshot_def assms by (intro stays)

end

locale node_frame = client_frame R E C for R :: "'x world \<Rightarrow> 'x world \<Rightarrow> bool" and E C +
  fixes M :: "'x Mounter"
  assumes mounter_stays [stays]:
    "stays R (IsLikelyNotMountPoint M p)" "stays R (Mount M p q f opts)" "stays R (CleanupMountPoint M p)"
begin

lemma stays_remove_entries: "stays R (remove_entries E p es)"
  by (induction es) (auto intro!: stays)

lemma stays_ensureEmptyDirectory: "stays R (ensureEmptyDirectory E p)"
  unfolding ensureEmptyDirectory_def by (intro stays stays_remove_entries)

lemma stays_fetch:
  assumes "ipfsClient d = C" "osEnv d = E"
  shows "stays R (fetchContentToPath d vc p)"
  unfolding fetchContentToPath_def assms by (intro stays stays_ensureEmptyDirectory)

lemma stays_node:
  assumes "ipfsClient d = C" "osEnv d = E" "mounter d = M"
  shows "stays R (NodeStageVolume d v p vc)" "stays R (NodeUnstageVolume d v p)"
    "stays R (NodePublishVolume d req)" "stays R (NodeUnpublishVolume d v p)"
    "stays R (NodeGetInfo d)" "stays R (NodeGetCapabilities d)"
    "stays R (NodeGetVolumeStats d v p)" "stays R (NodeExpandVolume d p cr)"
  unfolding NodeStageVolume_def NodeUnstageVolume_def NodePublishVolume_def NodeUnpublishVolume_def
    NodeGetInfo_def NodeGetCapabilities_def NodeGetVolumeStats_def NodeExpandVolume_def Let_def assms
  by (intro stays stays_fetch [OF assms(1,2)])+

end

sublocale kubo_frame \<subseteq> kubo: client_frame R E "client K E"
  by unfold_locales (simp_all add: client_def stays)

sublocale kubo_unpin_frame \<subseteq> kubo: client_unpin_frame R E "client K E"
  by unfold_locales (simp_all add: client_def stays)

section \<open>The lock set\<close>

definition same_locks :: "'x world \<Rightarrow> 'x world \<Rightarrow> bool" where
  "same_locks w w' \<longleftrightarrow> volumeLocks w' = volumeLocks w"

lemma release_same: "k \<notin> locks (volumeLocks w) \<Longrightarrow>
  volumeLocks w' = volumeLocks w\<lparr>locks := insert k (locks (volumeLocks w))\<rparr> \<Longrightarrow>
  volumeLocks (releaseLock k w') = volumeLocks w"
  by (auto simp: releaseLock_def Release_def intro: VolumeLocks_eqI)

interpretation kubo_locks: kubo_unpin_frame same_locks E K for E K
  by unfold_locales (auto simp: same_locks_def release_same intro!: stays_api)

lemma same_locksD: "stays same_locks m \<Longrightarrow> volumeLocks (snd (m w)) = volumeLocks w"
  by (auto dest: staysD simp: same_locks_def)

section \<open>The tree of the host\<close>

text \<open>
  What the development relies on for the host's tree: directories list distinct plain names also
  after a refused call, after a write by boxo, and after the mount helpers, which do not touch
  the locks of the driver.
\<close>

definition host_laws :: "'x KuboAPI \<Rightarrow> 'x OS \<Rightarrow> 'x Mounter \<Rightarrow> bool" where
  "host_laws K E M \<longleftrightarrow>
     (\<forall>op p w e t. os_fault E op p w = Some (e, t) \<longrightarrow> tree_ok (hfs w) \<longrightarrow> tree_ok t) \<and>
     (\<forall>nd p t. tree_ok t \<longrightarrow> tree_ok (snd (files_WriteTo K nd p t))) \<and>
     (\<forall>p q f opts w.
        (tree_ok (hfs w) \<longrightarrow> tree_ok (hfs (snd (IsLikelyNotMountPoint M p w))) \<and>
           tree_ok (hfs (snd (Mount M p q f opts w))) \<and> tree_ok (hfs (snd (CleanupMountPoint M p w)))) \<and>
        volumeLocks (snd (IsLikelyNotMountPoint M p w)) = volumeLocks w \<and>
        volumeLocks (snd (Mount M p q f opts w)) = volumeLocks w \<and>
        volumeLocks (snd (CleanupMountPoint M p w)) = volumeLocks w)"

definition kept :: "'x KuboAPI \<Rightarrow> 'x OS \<Rightarrow> 'x Mounter \<Rightarrow> 'x world \<Rightarrow> 'x world \<Rightarrow> bool" where
  "kept K E M w w' \<longleftrightarrow>
     (host_laws K E M \<longrightarrow> tree_ok (hfs w) \<longrightarrow> tree_ok (hfs w') \<and> volumeLocks w' = volumeLocks w)"

lemma host_laws_fault:
  "host_laws K E M \<Longrightarrow> os_fault E op p w = Some (e, t) \<Longrightarrow> tree_ok (hfs w) \<Longrightarrow> tree_ok t"
  by (simp add: host_laws_def)

lemma host_laws_write:
  "host_laws K E M \<Longrightarrow> files_WriteTo K nd p t = (r, t') \<Longrightarrow> tree_ok t \<Longrightarrow> tree_ok t'"
  unfolding host_laws_def by (metis snd_conv)

lemma tree_ok_releaseLock [simp]: "hfs (releaseLock k w) = hfs w"
  by (simp add: releaseLock_def)

interpretation kubo_kept: kubo_unpin_frame "kept K E M" E K for K E M
  by unfold_locales
    (auto simp: kept_def release_same intro: host_laws_fault host_laws_write intro!: stays_api)

interpretation host_kept: node_frame "kept K E M" E "client K E" M for K E M
  by unfold_locales (auto simp: stays_def kept_def host_laws_def)

lemma example_host_laws: "host_laws example_Kubo example_OS example_mounter"
  by (simp add: host_laws_def example_OS_def example_Kubo_def example_mounter_def logs_def)

lemma keptD:
  "stays (kept K E M) m \<Longrightarrow> host_laws K E M \<Longrightarrow> tree_ok (hfs w) \<Longrightarrow>
   tree_ok (hfs (snd (m w))) \<and> volumeLocks (snd (m w)) = volumeLocks w"
  by (auto dest!: staysD [of _ m w] simp: kept_def)

end
