(* ===== verification/References.thy ===== *)
theory References
  imports Frame
begin

text \<open>
  Content is shared: several volumes and snapshots may name the same CID, and the pin that
  keeps it alive in IPFS is one. This theory relates the reference count of the driver to the
  objects of the cluster (a refinement), and shows what \<open>DeleteVolume\<close> and \<open>DeleteSnapshot\<close>
  do to a pin and to MFS. That an operation does not call a method of the IPFS client is stated
  as independence: replacing the method by any other changes nothing.
\<close>

section \<open>What the cluster says\<close>

text \<open>The driver's other volumes that hold a pinned reference to a CID, and its snapshots of it.\<close>

definition volume_refs ::
  "(string \<times> string \<times> VolumeAttributes) list \<Rightarrow> string \<Rightarrow> string \<Rightarrow> string \<Rightarrow> VolumeAttributes list" where
  "volume_refs vols driver cid excluded =
     [a. (v, d, a) \<leftarrow> vols, d = driver \<and> VolumeID a \<noteq> excluded \<and>
         mget (Attributes a) paramCID = cid \<and> isPinningEnabled (Attributes a)]"

definition snapshot_refs :: "(string \<times> SnapshotEntry) list \<Rightarrow> string \<Rightarrow> string \<Rightarrow> SnapshotEntry list" where
  "snapshot_refs snaps driver cid = [e. (d, e) \<leftarrow> snaps, d = driver \<and> SnapshotID e = cid]"

text \<open>The snapshots of a cluster whose snapshot API may be missing.\<close>

definition cluster_snaps :: "'x VSCLister option \<Rightarrow> 'x \<Rightarrow> (string \<times> SnapshotEntry) list" where
  "cluster_snaps S x = (case S of None \<Rightarrow> [] | Some S \<Rightarrow> vsc_snaps S x)"

definition caches_ok :: "'x PVLister \<Rightarrow> 'x VSCLister option \<Rightarrow> 'x \<Rightarrow> bool" where
  "caches_ok L S x \<longleftrightarrow> lister_ok L x \<and> (case S of None \<Rightarrow> True | Some S \<Rightarrow> vsc_lister_ok S x)"

section \<open>The reference count\<close>

lemma count_volume_refs_eq:
  "count_volume_refs cid ex vs =
     length (filter (\<lambda>a. VolumeID a \<noteq> ex \<and> mget (Attributes a) paramCID = cid \<and>
                         isPinningEnabled (Attributes a)) vs)"
  by (induction vs) auto

lemma length_volume_refs:
  "length (volume_refs vols driver cid ex) =
     count_volume_refs cid ex (map (snd \<circ> snd) (filter (\<lambda>x. fst (snd x) = driver) vols))"
  by (induction vols) (auto simp: volume_refs_def)

lemma length_snapshot_refs:
  "length (snapshot_refs snaps driver cid) = length (filter (\<lambda>(d, e). d = driver \<and> SnapshotID e = cid) snaps)"
  by (induction snaps) (auto simp: snapshot_refs_def split: if_splits)

text \<open>
  The interface between the count and the stores: a driver whose stores keep the contracts
  \<open>volume_store\<close> and \<open>snapshot_store\<close>.
\<close>

locale counted_stores =
  vol: volume_store "GetVolumeAttributes (volumeStore d)" "ListVolumes (volumeStore d)" vols vok +
  snap: snapshot_store "ListSnapshots ss" snaps sok
  for d :: "'x Driver" and ss :: "'x world SnapshotStore" and vols vok snaps sok +
  assumes ss: "snapshotStore d = Some ss"
begin

lemma usage:
  assumes "vok w" "sok w" "cid \<noteq> ''''"
  shows "cidReferenceUsage d cid ex one w =
    Inr (length (volume_refs (vols w) (DriverName (cfg d)) cid ex),
         length (snapshot_refs (snaps w) (DriverName (cfg d)) cid) - (if one then 1 else 0))"
proof -
  obtain es where es: "ListSnapshots ss (DriverName (cfg d)) cid '''' w = Inr es"
    using snap.list_ok [OF assms(2)] by blast
  with snap.list_by_id [OF assms(2,3) es] assms(1) show ?thesis
    by (simp add: cidReferenceUsage_def ss vol.list_ok length_volume_refs length_snapshot_refs Let_def)
qed

end

interpretation k8s: counted_stores
  "d\<lparr>volumeStore := NewVolumeStoreFromPVLister (ext_PVLister L),
     snapshotStore := Some \<lparr>ListSnapshots = vscStore_ListSnapshots (ext_VSCLister S)\<rparr>\<rparr>"
  "\<lparr>ListSnapshots = vscStore_ListSnapshots (ext_VSCLister S)\<rparr>"
  "pv_vols (ext_PVLister L)" "lister_ok (ext_PVLister L)" "vsc_snaps (ext_VSCLister S)" "vsc_lister_ok (ext_VSCLister S)"
  for d :: "'x Driver" and L S
proof -
  have "volume_store (GetVolumeAttributes (NewVolumeStoreFromPVLister (ext_PVLister L)))
      (ListVolumes (NewVolumeStoreFromPVLister (ext_PVLister L)))
      (pv_vols (ext_PVLister L)) (lister_ok (ext_PVLister L))"
    by (simp add: NewVolumeStoreFromPVLister_def pvs.volume_store_axioms)
  moreover have "snapshot_store (ListSnapshots \<lparr>ListSnapshots = vscStore_ListSnapshots (ext_VSCLister S)\<rparr>)
      (vsc_snaps (ext_VSCLister S)) (vsc_lister_ok (ext_VSCLister S))"
    by (simp add: vscs.snapshot_store_axioms)
  ultimately show "counted_stores
      (d\<lparr>volumeStore := NewVolumeStoreFromPVLister (ext_PVLister L),
         snapshotStore := Some \<lparr>ListSnapshots = vscStore_ListSnapshots (ext_VSCLister S)\<rparr>\<rparr>)
      \<lparr>ListSnapshots = vscStore_ListSnapshots (ext_VSCLister S)\<rparr>
      (pv_vols (ext_PVLister L)) (lister_ok (ext_PVLister L)) (vsc_snaps (ext_VSCLister S))
      (vsc_lister_ok (ext_VSCLister S))"
    by (simp add: counted_stores_def counted_stores_axioms_def)
qed

lemma informed_usage:
  assumes inf: "informed d L S" and ok: "caches_ok L S (ext w)" and cid: "cid \<noteq> ''''"
  shows "cidReferenceUsage d cid ex one w =
    (if one \<and> S = None then Inl ErrSnapshotStoreUnavailable
     else Inr (length (volume_refs (pv_vols L (ext w)) (DriverName (cfg d)) cid ex),
               length (snapshot_refs (cluster_snaps S (ext w)) (DriverName (cfg d)) cid) - (if one then 1 else 0)))"
proof (cases S)
  case None
  with inf ok show ?thesis
    by (simp add: cidReferenceUsage_def caches_ok_def pvs.list_ok length_volume_refs cluster_snaps_def
        snapshot_refs_def informed_def NewVolumeStoreFromPVLister_def NewSnapshotStoreFromVSCLister_def Let_def)
next
  case (Some T)
  with inf have "d\<lparr>volumeStore := NewVolumeStoreFromPVLister (ext_PVLister L),
      snapshotStore := Some \<lparr>ListSnapshots = vscStore_ListSnapshots (ext_VSCLister T)\<rparr>\<rparr> = d"
    by (cases d) (simp add: informed_def NewSnapshotStoreFromVSCLister_def)
  with k8s.usage [of L w T cid d ex one] ok cid Some show ?thesis
    by (simp add: caches_ok_def cluster_snaps_def)
qed

section \<open>Deletion\<close>

text \<open>The state in which the body of an operation runs: its key is held.\<close>

abbreviation locked :: "string \<Rightarrow> 'x world \<Rightarrow> 'x world" where
  "locked k w \<equiv> w\<lparr>volumeLocks := volumeLocks w\<lparr>locks := insert k (locks (volumeLocks w))\<rparr>\<rparr>"

lemma release_locked [simp]:
  "k \<notin> locks (volumeLocks w) \<Longrightarrow> releaseLock k (locked k w) = w"
  by (cases w) (simp add: releaseLock_def Release_def)

lemma ignoreErr_Inr: "fst (ignoreErr m w) = Inr ()"
  by (simp add: ignoreErr_def)

lemma cleanup_Inr: "fst (cleanupVolumeInIPFS d a w) = Inr ()"
proof -
  have "wpE (cleanupVolumeInIPFS d a) (\<lambda>_ _. True) (\<lambda>_ _. False) w"
    unfolding cleanupVolumeInIPFS_def
    by (simp add: wp Let_def split: sum.split prod.split)
  from wpE_no_error [OF this] show ?thesis by simp
qed

lemma DeleteVolume_unlocked:
  assumes "informed d L S" "v \<noteq> ''''" "v \<notin> locks (volumeLocks w)"
  shows "DeleteVolume d v w =
    (case pvStore_GetVolumeAttributes L v (ext w) of
       Inl err \<Rightarrow>
         (if errors_Is err ErrPVNotFound then (Inr (), w)
          else (Inl (StatusErr Internal ''get volume attributes: %v'' [] (Some err)), w))
     | Inr a \<Rightarrow> (Inr (), releaseLock v (snd (cleanupVolumeInIPFS d a (locked v w)))))"
  using assms cleanup_Inr [of d _ "locked v w"]
  by (auto simp: DeleteVolume_def with_lock_free bindE_def reads_def ret_def throw_def
      split: sum.splits prod.splits) (metis prod.sel)+

lemma DeleteSnapshot_unlocked:
  assumes "s \<noteq> ''''" "''delete-snapshot-'' @ s \<notin> locks (volumeLocks w)"
  shows "DeleteSnapshot d s w =
    (case cidReferenceUsage d s '''' True (locked (''delete-snapshot-'' @ s) w) of
       Inl err \<Rightarrow>
         (if errors_Is err ErrSnapshotStoreUnavailable
          then (Inl (StatusErr FailedPrecondition ''snapshot reference checks are unavailable (snapshot store disabled)'' [] None), w)
          else (Inl (StatusErr Internal ''check snapshot references: %v'' [] (Some err)), w))
     | Inr (volumeRefs, snapshotRefs) \<Rightarrow>
         if volumeRefs > 0 \<or> snapshotRefs > 0 then (Inr (), w)
         else (Inr (), releaseLock (''delete-snapshot-'' @ s)
                 (snd (UnpinCID (ipfsClient d) s (locked (''delete-snapshot-'' @ s) w)))))"
proof -
  define k where "k = ''delete-snapshot-'' @ s"
  have "k \<notin> locks (volumeLocks w)" using assms(2) by (simp add: k_def)
  then show ?thesis
    unfolding DeleteSnapshot_def Let_def k_def [symmetric]
    using assms(1)
    by (auto simp: with_lock_free bindE_def reads_def ret_def throw_def ignoreErr_def split: sum.split)
qed

text \<open>What the example caches say.\<close>

lemma example_caches: "caches_ok example_PVLister (Some example_VSCLister) x"
  by (simp add: caches_ok_def example_PVLister_ok vsc_lister_ok_def)

lemma example_get:
  "pvStore_GetVolumeAttributes example_PVLister ''h-a'' x = pvToAttributes (example_pv ''a'' DefaultDriverName ''Qm1'')"
  "pvStore_GetVolumeAttributes example_PVLister ''h-e'' x = pvToAttributes (example_pv ''e'' DefaultDriverName ''Qm2'')"
  by (simp_all add: pvStore_GetVolumeAttributes_def pv_list_lookup_def example_PVLister_def
      example_PVs_def example_pv_def has_handle_def)

lemmas example_get_a = example_get(1) [unfolded pvToAttributes_def example_pv_def, simplified]
lemmas example_get_e = example_get(2) [unfolded pvToAttributes_def example_pv_def, simplified]

lemma example_view [simp]:
  "volume_refs (pv_vols example_PVLister x) DefaultDriverName ''Qm1'' ''h-a'' \<noteq> []"
  "length (volume_refs (pv_vols example_PVLister x) DefaultDriverName ''Qm1'' ''h-a'') = 1"
  "volume_refs (pv_vols example_PVLister x) DefaultDriverName ''Qm2'' ''h-e'' = []"
  "snapshot_refs (cluster_snaps (Some example_VSCLister) x) DefaultDriverName ''Qm1'' = []"
  "snapshot_refs (cluster_snaps (Some example_VSCLister) x) DefaultDriverName ''Qm2'' = []"
  "volume_refs (pv_vols example_PVLister x) DefaultDriverName ''Qm3'' '''' = []"
  "length (snapshot_refs (cluster_snaps (Some example_VSCLister) x) DefaultDriverName ''Qm3'') = 1"
  by (simp_all add: volume_refs_def pv_vols_def example_PVs_def example_pv_def pv_view_def pvToAttributes_def
      snapshot_refs_def cluster_snaps_def vsc_snaps_def vsc_view_def vscToSnapshotEntry_def vsc_handle_def
      example_VSC_def deref_def isPinningEnabled_def param_defs DefaultDriverName_def)

lemma cleanup_shared:
  assumes "informed d L S" "caches_ok L S (ext w)" "mget (Attributes a) paramCID = cid"
    and "volume_refs (pv_vols L (ext w)) (DriverName (cfg d)) cid (VolumeID a) \<noteq> [] \<or>
         snapshot_refs (cluster_snaps S (ext w)) (DriverName (cfg d)) cid \<noteq> []"
  shows "cleanupVolumeInIPFS d a w =
    (if mget (Attributes a) paramMFSPath \<noteq> '''' \<and> mget (Attributes a) paramReadOnly \<noteq> ''true''
     then ignoreErr (RmMFS (ipfsClient d) (mget (Attributes a) paramMFSPath)) w else (Inr (), w))"
  using assms informed_usage [OF assms(1,2), of cid "VolumeID a" False]
  by (auto simp: cleanupVolumeInIPFS_def Let_def bindE_def reads_def ret_def split: sum.splits)

lemma cleanup_last:
  assumes "informed d L S" "caches_ok L S (ext w)" "mget (Attributes a) paramCID = cid" "cid \<noteq> ''''"
    and "isPinningEnabled (Attributes a)"
    and "volume_refs (pv_vols L (ext w)) (DriverName (cfg d)) cid (VolumeID a) = []"
    and "snapshot_refs (cluster_snaps S (ext w)) (DriverName (cfg d)) cid = []"
  shows "cleanupVolumeInIPFS d a w =
    (if mget (Attributes a) paramMFSPath \<noteq> '''' \<and> mget (Attributes a) paramReadOnly \<noteq> ''true''
     then ignoreErr (RmMFS (ipfsClient d) (mget (Attributes a) paramMFSPath)) (snd (UnpinCID (ipfsClient d) cid w))
     else (Inr (), snd (UnpinCID (ipfsClient d) cid w)))"
  using assms informed_usage [OF assms(1,2,4), of "VolumeID a" False]
  by (simp add: cleanupVolumeInIPFS_def Let_def bindE_def reads_def ret_def ignoreErr_def)

lemma informed_client [simp]: "informed (d\<lparr>ipfsClient := c\<rparr>) L S = informed d L S"
  by (simp add: informed_def)

lemma cidReferenceUsage_client [simp]: "cidReferenceUsage (d\<lparr>ipfsClient := c\<rparr>) = cidReferenceUsage d"
  by (simp add: fun_eq_iff cidReferenceUsage_def Let_def
      cong del: if_weak_cong sum.case_cong_weak option.case_cong_weak)

lemma DeleteVolume_early:
  "v = '''' \<or> v \<in> locks (volumeLocks w) \<Longrightarrow> DeleteVolume (d\<lparr>ipfsClient := c\<rparr>) v w = DeleteVolume d v w"
  by (auto simp: DeleteVolume_def with_lock_held)

lemma caches_okD: "caches_ok L S x \<Longrightarrow> lister_ok L x"
  by (simp add: caches_ok_def)

text \<open>
  (C15) The reference count is that of the cluster: the number of the driver's other volumes with
  this CID and pinning on, and the number of its snapshots with this handle (less the one that is
  being deleted, when asked). Only a snapshot deletion without a snapshot API is an error.
\<close>

theorem cidReferenceUsage_refines:
  assumes "informed d L S" "caches_ok L S (ext w)" "cid \<noteq> ''''"
  shows "cidReferenceUsage d cid excluded one w =
    (if one \<and> S = None then Inl ErrSnapshotStoreUnavailable
     else Inr (length (volume_refs (pv_vols L (ext w)) (DriverName (cfg d)) cid excluded),
               length (snapshot_refs (cluster_snaps S (ext w)) (DriverName (cfg d)) cid) - (if one then 1 else 0)))"
  by (rule informed_usage [OF assms])

theorem cidReferenceUsage_refines_witness:
  "cidReferenceUsage example_driver ''Qm1'' ''h-a'' False example_world = Inr (1, 0)"
  by (subst cidReferenceUsage_refines [OF example_informed example_caches])
    simp_all

text \<open>
  (C4) A shared pin is kept. While another volume of the driver holds a pinned reference to the
  CID, or a snapshot of it exists, deleting a volume does not unpin it: whatever \<open>UnpinCID\<close>
  would do, the call ends with the same result and in the same state.
\<close>

theorem DeleteVolume_keeps_shared_pin:
  assumes "informed d L S" "caches_ok L S (ext w)" "pvStore_GetVolumeAttributes L v (ext w) = Inr a"
    and "volume_refs (pv_vols L (ext w)) (DriverName (cfg d)) (mget (Attributes a) paramCID) v \<noteq> [] \<or>
         snapshot_refs (cluster_snaps S (ext w)) (DriverName (cfg d)) (mget (Attributes a) paramCID) \<noteq> []"
  shows "DeleteVolume (d\<lparr>ipfsClient := (ipfsClient d)\<lparr>UnpinCID := u\<rparr>\<rparr>) v w = DeleteVolume d v w"
proof (cases "v = '''' \<or> v \<in> locks (volumeLocks w)")
  case True
  then show ?thesis by (rule DeleteVolume_early)
next
  case False
  then have "VolumeID a = v" using assms pvs.get_VolumeID by (metis caches_okD)
  with False assms show ?thesis
    by (simp add: DeleteVolume_unlocked [of _ L S] cleanup_shared [of _ L S])
qed

theorem DeleteVolume_keeps_shared_pin_witness:
  "DeleteVolume (example_driver\<lparr>ipfsClient := (ipfsClient example_driver)\<lparr>UnpinCID := (\<lambda>c. throw ErrEmptyAddress)\<rparr>\<rparr>)
     ''h-a'' example_world = DeleteVolume example_driver ''h-a'' example_world"
  by (rule DeleteVolume_keeps_shared_pin [OF example_informed _ example_get_a])
    (simp_all add: example_caches)

text \<open>
  (C18) The last reference is given up. If no other volume and no snapshot refers to the CID of a
  read-only volume with pinning on, deleting the volume unpins the CID, once, with the volume's
  lock held, and does nothing else; the result is success even if the unpin fails.
\<close>

theorem DeleteVolume_unpins_last:
  assumes "informed d L S" "caches_ok L S (ext w)" "pvStore_GetVolumeAttributes L v (ext w) = Inr a"
    and "v \<noteq> ''''" "v \<notin> locks (volumeLocks w)"
    and "mget (Attributes a) paramCID = cid" "cid \<noteq> ''''" "isPinningEnabled (Attributes a)"
    and "mget (Attributes a) paramReadOnly = ''true''"
    and "volume_refs (pv_vols L (ext w)) (DriverName (cfg d)) cid v = []"
    and "snapshot_refs (cluster_snaps S (ext w)) (DriverName (cfg d)) cid = []"
  shows "DeleteVolume d v w = (Inr (), releaseLock v (snd (UnpinCID (ipfsClient d) cid (locked v w))))"
proof -
  have "VolumeID a = v" using assms(2-4) pvs.get_VolumeID by (metis caches_okD)
  with assms show ?thesis
    by (simp add: DeleteVolume_unlocked [of _ L S] cleanup_last [of _ L S])
qed

theorem DeleteVolume_unpins_last_witness:
  "ext (snd (DeleteVolume example_driver ''h-e'' example_world)) = [''unpin Qm2'']"
  by (subst DeleteVolume_unpins_last [OF example_informed _ example_get_e, of _ "''Qm2''"])
    (simp_all add: example_caches isPinningEnabled_def releaseLock_def
      example_client_def logs_def)

text \<open>
  Deletion is idempotent. When no PersistentVolume has the handle, \<open>DeleteVolume\<close> succeeds
  and changes nothing.
\<close>

lemma DeleteVolume_gone:
  assumes "informed d L S" "lister_ok L (ext w)" "pvl_List L (ext w) = Inr pvs"
    and "v \<noteq> ''''" "v \<notin> locks (volumeLocks w)" "\<And>pv. pv \<in> set pvs \<Longrightarrow> \<not> has_handle v pv"
  shows "DeleteVolume d v w = (Inr (), w)"
proof (cases "pvStore_GetVolumeAttributes L v (ext w)")
  case (Inl e)
  with pvs.get_error [OF assms(2) Inl] show ?thesis
    by (simp add: DeleteVolume_unlocked [OF assms(1,4,5)])
next
  case (Inr a)
  from pvs.get_found [OF assms(2) Inr] assms(3,6) show ?thesis
    by (auto simp: pv_vols_def dest: pv_view_mem)
qed

text \<open>
  (C24) Every outcome of \<open>DeleteVolume\<close> over a synced cache: an empty identifier is an invalid
  argument, a volume another operation works on is refused with \<open>Aborted\<close>, and every other call
  succeeds; no failure of IPFS is reported. The lock set is as before, in all cases.
\<close>

theorem DeleteVolume_outcome:
  assumes "informed d L S" "lister_ok L (ext w)" "ipfsClient d = client K (osEnv d)"
  shows "result_Code (fst (DeleteVolume d v w)) =
           (if v = '''' then InvalidArgument else if v \<in> locks (volumeLocks w) then Aborted else OK) \<and>
         volumeLocks (snd (DeleteVolume d v w)) = volumeLocks w"
proof
  consider "v = ''''" | "v \<noteq> ''''" "v \<in> locks (volumeLocks w)" | "v \<noteq> ''''" "v \<notin> locks (volumeLocks w)" by blast
  then show "result_Code (fst (DeleteVolume d v w)) =
      (if v = '''' then InvalidArgument else if v \<in> locks (volumeLocks w) then Aborted else OK)"
  proof cases
    case 3
    with pvs.get_error [OF assms(2)] show ?thesis
      by (simp add: DeleteVolume_unlocked [OF assms(1)] split: sum.split)
  qed (simp_all add: DeleteVolume_def with_lock_held throw_def)
  show "volumeLocks (snd (DeleteVolume d v w)) = volumeLocks w"
    by (rule same_locksD [OF kubo_locks.kubo.stays_DeleteVolume [OF assms(3)]])
qed

theorem DeleteVolume_outcome_witness:
  "result_Code (fst (DeleteVolume (example_driver\<lparr>ipfsClient := client example_Kubo example_OS\<rparr>) ''h-e'' example_world)) = OK"
  by (simp add: DeleteVolume_outcome [of _ example_PVLister "Some example_VSCLister" _ example_Kubo]
      example_informed example_PVLister_ok)

text \<open>
  The MFS directory of a read-only volume is never removed by \<open>DeleteVolume\<close>, whatever path
  its attributes name.
\<close>

lemma DeleteVolume_keeps_readonly_MFS:
  assumes "informed d L S" "pvStore_GetVolumeAttributes L v (ext w) = Inr a"
    and "mget (Attributes a) paramReadOnly = ''true''"
  shows "DeleteVolume (d\<lparr>ipfsClient := (ipfsClient d)\<lparr>RmMFS := r\<rparr>\<rparr>) v w = DeleteVolume d v w"
proof (cases "v = '''' \<or> v \<in> locks (volumeLocks w)")
  case True
  then show ?thesis by (rule DeleteVolume_early)
next
  case False
  have "cleanupVolumeInIPFS (d\<lparr>ipfsClient := (ipfsClient d)\<lparr>RmMFS := r\<rparr>\<rparr>) a = cleanupVolumeInIPFS d a"
    using assms(3)
    by (simp add: cleanupVolumeInIPFS_def Let_def
        cong del: if_weak_cong sum.case_cong_weak prod.case_cong_weak)
  with False assms(1,2) show ?thesis by (simp add: DeleteVolume_unlocked [of _ L S])
qed

text \<open>
  (C17) \<open>DeleteSnapshot\<close>, in every case over a synced cache. Without a snapshot API it refuses
  with \<open>FailedPrecondition\<close> and changes nothing. Otherwise it succeeds, and unpins the CID exactly
  when no volume of the driver has a pinned reference to it and at most one snapshot content (the
  one that is being deleted) names it.
\<close>

theorem DeleteSnapshot_spec:
  assumes "informed d L S" "caches_ok L S (ext w)" "s \<noteq> ''''" "''delete-snapshot-'' @ s \<notin> locks (volumeLocks w)"
  shows "DeleteSnapshot d s w =
    (if S = None then
       (Inl (StatusErr FailedPrecondition ''snapshot reference checks are unavailable (snapshot store disabled)'' [] None), w)
     else if volume_refs (pv_vols L (ext w)) (DriverName (cfg d)) s '''' = [] \<and>
             length (snapshot_refs (cluster_snaps S (ext w)) (DriverName (cfg d)) s) \<le> 1
     then (Inr (), releaseLock (''delete-snapshot-'' @ s)
                     (snd (UnpinCID (ipfsClient d) s (locked (''delete-snapshot-'' @ s) w))))
     else (Inr (), w))"
  using assms informed_usage [OF assms(1) _ assms(3), of "locked (''delete-snapshot-'' @ s) w" "''''" True]
  by (auto simp: DeleteSnapshot_unlocked)

theorem DeleteSnapshot_spec_witness:
  "ext (snd (DeleteSnapshot example_driver ''Qm3'' example_world)) = [''unpin Qm3'']"
  by (subst DeleteSnapshot_spec [OF example_informed])
    (simp_all add: example_caches releaseLock_def example_client_def logs_def)


end
