(* ===== verification/Provisioning.thy ===== *)
theory Provisioning
  imports References
begin

text \<open>
  What \<open>CreateVolume\<close> promises: the response, the place of the volume in MFS, the pin, the error
  codes, and the identifiers it gives out.
\<close>

section \<open>The provisioning branches\<close>

text \<open>What each branch does on success, and which errors it can return.\<close>

lemma provision_cid_wp:
  "wpE (provision_cid d cid pinning)
     (\<lambda>_ w'. \<exists>w1. StatCID (ipfsClient d) cid w = (Inr True, w1) \<and>
        (if pinning then \<exists>r. PinCID (ipfsClient d) cid w1 = (r, w') \<and>
            (PinFailurePolicy (cfg d) = pinFailurePolicyBestEffort \<or> r = Inr ())
         else w' = w1))
     (\<lambda>e _. status_Code e \<in> {Internal, NotFound}) w"
  unfolding provision_cid_def
  by (auto simp: wpE_def bindE_def mapErr_def attempt_def ret_def throw_def split: prod.split sum.split)

lemma provision_mfs_wp:
  "wpE (provision_mfs d raw)
     (\<lambda>p w'. normalizeMFSPath raw (MFSRoot (cfg d)) = Inr p \<and> MkdirMFS (ipfsClient d) p w = (Inr (), w'))
     (\<lambda>e w'. status_Code e = InvalidArgument \<and> w' = w \<or> status_Code e = Internal) w"
  unfolding provision_mfs_def
  by (auto simp: wpE_def bindE_def mapErr_def ret_def throw_def split: prod.split sum.split)

lemma restore_wp:
  "wpE (restoreSnapshotToMFS d s m) (\<lambda>_ _. True) (\<lambda>e _. status_Code e \<in> {Internal, NotFound}) w"
  unfolding restoreSnapshotToMFS_def by (simp add: wp cong del: if_weak_cong)

text \<open>
  The whole call, from the branches. \<open>created d req vol w w'\<close> relates the response and the
  state to the branch that was taken.
\<close>

definition requested_path :: "'x Driver \<Rightarrow> CreateVolumeRequest \<Rightarrow> string" where
  "requested_path d req =
     (if mget (cv_Parameters req) paramMFSPath \<noteq> '''' then mget (cv_Parameters req) paramMFSPath
      else MFSRoot (cfg d) @ ''/'' @ sanitizeVolumeID (cv_Name req))"

definition response_ok :: "'x Driver \<Rightarrow> CreateVolumeRequest \<Rightarrow> Volume \<Rightarrow> bool" where
  "response_ok d req vol \<longleftrightarrow>
     VolumeId vol = volumeIDFor (cv_Name req) \<and>
     CapacityBytes vol = parseCapacityFromRequest (cv_CapacityRange req) defaultCapacityBytes \<and>
     ContentSource vol = (case snapshotSourceID (cv_VolumeContentSource req) of
        Inr s \<Rightarrow> if s = '''' then None else Some (SourceSnapshot (Some s)) | Inl e \<Rightarrow> None) \<and>
     (\<forall>k. k \<noteq> paramCID \<longrightarrow> k \<noteq> paramMFSPath \<longrightarrow> k \<noteq> paramReadOnly \<longrightarrow> VolumeContext vol k = cv_Parameters req k) \<and>
     mget (VolumeContext vol) paramCID = mget (cv_Parameters req) paramCID \<and>
     mget (VolumeContext vol) paramReadOnly = (if mget (cv_Parameters req) paramCID \<noteq> '''' then ''true'' else ''false'') \<and>
     (if mget (cv_Parameters req) paramCID \<noteq> ''''
      then mget (VolumeContext vol) paramMFSPath = mget (cv_Parameters req) paramMFSPath
      else normalizeMFSPath (requested_path d req) (MFSRoot (cfg d)) = Inr (mget (VolumeContext vol) paramMFSPath))"

lemma wpE_with_lock [wp]:
  "wpE (with_lock k e body) Q E = (\<lambda>w.
     if k \<in> locks (volumeLocks w) then E e w
     else wpE body (\<lambda>a w'. Q a (releaseLock k w')) (\<lambda>e w'. E e (releaseLock k w')) (locked k w))"
  by (simp add: fun_eq_iff with_lock_def wp)

lemma snapshotSourceID_error: "snapshotSourceID c = Inl e \<Longrightarrow> status_Code e = InvalidArgument"
  by (auto simp: snapshotSourceID_def split: option.splits VolumeContentSource.splits if_splits)

lemma provision_wp:
  assumes "cid = mget (cv_Parameters req) paramCID" "mfsPath = mget (cv_Parameters req) paramMFSPath"
  shows "wpE (provision d (cv_Name req) cid mfsPath pinning)
     (\<lambda>(p, ro) _. ro = (cid \<noteq> '''') \<and>
        (if cid \<noteq> '''' then p = mfsPath else normalizeMFSPath (requested_path d req) (MFSRoot (cfg d)) = Inr p))
     (\<lambda>e w'. status_Code e = InvalidArgument \<and> w' = w \<or> status_Code e \<in> {Internal, NotFound}) w"
proof -
  have mfs: "wpE (provision_mfs d (requested_path d req))
      (\<lambda>p _. normalizeMFSPath (requested_path d req) (MFSRoot (cfg d)) = Inr p)
      (\<lambda>e w'. status_Code e = InvalidArgument \<and> w' = w \<or> status_Code e \<in> {Internal, NotFound}) w"
    by (rule wpE_mono [OF provision_mfs_wp]) auto
  have cid: "wpE (provision_cid d cid pinning) (\<lambda>_ _. True)
      (\<lambda>e w'. status_Code e = InvalidArgument \<and> w' = w \<or> status_Code e \<in> {Internal, NotFound}) w"
    by (rule wpE_mono [OF provision_cid_wp]) auto
  show ?thesis
    using mfs cid assms(2) by (simp add: provision_def wp requested_path_def split: if_splits)
qed

text \<open>A request that passes the checks before the lock is taken, and the locked part of the call.\<close>

definition valid_request :: "CreateVolumeRequest \<Rightarrow> string \<Rightarrow> bool" where
  "valid_request req s \<longleftrightarrow> cv_Name req \<noteq> '''' \<and> snapshotSourceID (cv_VolumeContentSource req) = Inr s \<and>
     (s = '''' \<or> mget (cv_Parameters req) paramCID = '''')"

definition response :: "CreateVolumeRequest \<Rightarrow> string \<Rightarrow> string \<times> bool \<Rightarrow> Volume" where
  "response req s x = (case x of (p, ro) \<Rightarrow>
     \<lparr>VolumeId = volumeIDFor (cv_Name req),
      CapacityBytes = parseCapacityFromRequest (cv_CapacityRange req) defaultCapacityBytes,
      VolumeContext = (cv_Parameters req)(paramCID \<mapsto> mget (cv_Parameters req) paramCID, paramMFSPath \<mapsto> p,
                                          paramReadOnly \<mapsto> (if ro then ''true'' else ''false'')),
      ContentSource = (if s \<noteq> '''' then Some (SourceSnapshot (Some s)) else None)\<rparr>)"

definition create_body :: "'x Driver \<Rightarrow> CreateVolumeRequest \<Rightarrow> string \<Rightarrow> ('x world, Volume) io" where
  "create_body d req s =
     bindE (provision d (cv_Name req) (mget (cv_Parameters req) paramCID) (mget (cv_Parameters req) paramMFSPath)
              (mget (cv_Parameters req) paramPinning \<noteq> ''false'')) (\<lambda>x.
     bindE (if s \<noteq> '''' then restoreSnapshotToMFS d s (fst x) else ret ()) (\<lambda>_. ret (response req s x)))"

lemma CreateVolume_valid:
  assumes "valid_request req s"
  shows "CreateVolume d req =
    with_lock (volumeIDFor (cv_Name req))
      (StatusErr Aborted ''an operation with the given volume id %q already exists'' [volumeIDFor (cv_Name req)] None)
      (create_body d req s)"
  using assms by (auto simp: valid_request_def CreateVolume_def Let_def create_body_def response_def case_prod_unfold)

lemma CreateVolume_invalid:
  assumes "\<And>s. \<not> valid_request req s"
  shows "\<exists>e. CreateVolume d req w = (Inl e, w) \<and> status_Code e = InvalidArgument"
  using assms snapshotSourceID_error
  by (cases "snapshotSourceID (cv_VolumeContentSource req)")
    (auto simp: valid_request_def CreateVolume_def Let_def throw_def)

lemma create_body_wp:
  assumes "valid_request req s"
  shows "wpE (create_body d req s) (\<lambda>vol _. response_ok d req vol)
    (\<lambda>e w'. status_Code e = InvalidArgument \<and> w' = w \<or> status_Code e \<in> {Internal, NotFound}) w"
proof -
  let ?ok = "\<lambda>(p, ro). ro = (mget (cv_Parameters req) paramCID \<noteq> '''') \<and>
        (if mget (cv_Parameters req) paramCID \<noteq> '''' then p = mget (cv_Parameters req) paramMFSPath
         else normalizeMFSPath (requested_path d req) (MFSRoot (cfg d)) = Inr p)"
  have resp: "response_ok d req (response req s x)" if "?ok x" for x
    using that assms by (auto simp: response_ok_def response_def valid_request_def)
  have restore: "wpE (if s \<noteq> '''' then restoreSnapshotToMFS d s p else ret ()) (\<lambda>_ _. True)
      (\<lambda>e w'. status_Code e = InvalidArgument \<and> w' = w \<or> status_Code e \<in> {Internal, NotFound}) w1" for p w1
    by (auto simp: wp intro!: wpE_mono [OF restore_wp])
  have step: "wpE (if s \<noteq> '''' then restoreSnapshotToMFS d s (fst x) else ret ())
      (\<lambda>a. wpE (ret (response req s x)) (\<lambda>vol _. response_ok d req vol)
             (\<lambda>e w'. status_Code e = InvalidArgument \<and> w' = w \<or> status_Code e \<in> {Internal, NotFound}))
      (\<lambda>e w'. status_Code e = InvalidArgument \<and> w' = w \<or> status_Code e \<in> {Internal, NotFound}) w1"
    if "?ok x" for x w1
    unfolding wpE_ret by (intro wpE_mono [OF restore] resp [OF that])
  show ?thesis
    unfolding create_body_def wpE_bindE
    by (rule wpE_mono [OF provision_wp [OF refl refl]], rule step) (simp_all add: case_prod_unfold)
qed

lemma CreateVolume_wp:
  "wpE (CreateVolume d req) (\<lambda>vol _. response_ok d req vol)
     (\<lambda>e w'. status_Code e \<in> {InvalidArgument, Aborted} \<and> w' = w \<or> status_Code e \<in> {Internal, NotFound}) w"
proof (cases "\<exists>s. valid_request req s")
  case True
  then obtain s where s: "valid_request req s" by blast
  have "wpE (create_body d req s) (\<lambda>vol _. response_ok d req vol)
      (\<lambda>e w'. status_Code e \<in> {InvalidArgument, Aborted} \<and> releaseLock k w' = w \<or> status_Code e \<in> {Internal, NotFound})
      (locked k w)" if "k \<notin> locks (volumeLocks w)" for k
    using that by (intro wpE_mono [OF create_body_wp [OF s]]) auto
  then show ?thesis by (simp add: CreateVolume_valid [OF s] wp)
next
  case False
  with CreateVolume_invalid [of req d w] show ?thesis by (auto simp: wpE_def)
qed

section \<open>Properties\<close>

text \<open>A minimal request, for examples.\<close>

definition example_request :: "gomap \<Rightarrow> CreateVolumeRequest" where
  "example_request params =
     \<lparr>cv_Name = ''PVC_1'', cv_CapacityRange = Some \<lparr>RequiredBytes = 7, LimitBytes = 0\<rparr>,
      cv_Parameters = params, cv_VolumeContentSource = None\<rparr>"

lemma example_valid: "valid_request (example_request m) ''''"
  by (simp add: valid_request_def example_request_def snapshotSourceID_def)

lemma example_request_sel [simp]:
  "cv_Name (example_request m) = ''PVC_1''" "cv_Parameters (example_request m) = m"
  by (simp_all add: example_request_def)

lemma example_create_cid:
  "CreateVolume example_driver (example_request [paramCID \<mapsto> ''Qm1'']) example_world =
     (Inr (response (example_request [paramCID \<mapsto> ''Qm1'']) '''' ('''', True)),
      example_world\<lparr>ext := [''stat Qm1'', ''pin Qm1'']\<rparr>)"
proof -
  have "releaseLock k (locked k example_world\<lparr>ext := x\<rparr>) = example_world\<lparr>ext := x\<rparr>" for k x
    by (simp add: example_world_def releaseLock_def Release_def NewVolumeLocks_def)
  then show ?thesis
    by (simp add: CreateVolume_valid [OF example_valid] with_lock_free create_body_def provision_def
        provision_cid_def bindE_def mapErr_def attempt_def ret_def example_client_def logs_def)
qed

lemma example_create_mfs:
  "CreateVolume example_driver (example_request [paramMFSPath \<mapsto> ''/csi/x/../y'']) example_world =
     (Inr (response (example_request [paramMFSPath \<mapsto> ''/csi/x/../y'']) '''' (''/csi/y'', False)),
      example_world\<lparr>ext := [''mkdir /csi/y'']\<rparr>)"
proof -
  have "releaseLock k (locked k example_world\<lparr>ext := x\<rparr>) = example_world\<lparr>ext := x\<rparr>" for k x
    by (simp add: example_world_def releaseLock_def Release_def NewVolumeLocks_def)
  moreover have "normalizeMFSPath ''/csi/x/../y'' (MFSRoot example_cfg) = Inr ''/csi/y''"
    by code_simp
  ultimately show ?thesis
    by (simp add: CreateVolume_valid [OF example_valid] with_lock_free create_body_def provision_def
        provision_mfs_def bindE_def mapErr_def ret_def example_client_def logs_def)
qed

text \<open>
  (C22) The response of a successful \<open>CreateVolume\<close>: the identifier is derived from the name, the
  capacity from the range, the parameters are passed on, and the three keys the driver sets say
  what the volume is: its CID, whether it is read-only (exactly when it has a CID), and for a
  read-write volume the normalised form of the requested, or default, MFS path.
\<close>

theorem CreateVolume_response:
  assumes "CreateVolume d req w = (Inr vol, w')"
  shows "response_ok d req vol \<and> 0 < CapacityBytes vol"
  using wpE_Inr [OF CreateVolume_wp assms]
  by (simp add: response_ok_def parseCapacity_pos defaultCapacityBytes_def)

theorem CreateVolume_response_witness:
  "response_ok example_driver (example_request [paramCID \<mapsto> ''Qm1''])
     (response (example_request [paramCID \<mapsto> ''Qm1'']) '''' ('''', True))"
  using CreateVolume_response [OF example_create_cid] by simp

text \<open>
  (C12) A read-write volume lives under the configured root: with an absolute MFS root, the path
  in the context of a volume created without a CID has the elements of the root first, then plain
  ones. (The path of a volume with a CID is not checked: see \<open>cid_volume_snapshot\<close> in theory
  \<open>Lifecycle\<close>.)
\<close>

theorem CreateVolume_confined:
  assumes "CreateVolume d req w = (Inr vol, w')" "mget (cv_Parameters req) paramCID = ''''"
    and "IsAbs (MFSRoot (cfg d))"
  shows "\<exists>rest. path_elems (mget (VolumeContext vol) paramMFSPath)
           = path_elems (path_Clean (MFSRoot (cfg d))) @ rest \<and> list_all plain_elem rest"
proof -
  have "normalizeMFSPath (requested_path d req) (MFSRoot (cfg d)) = Inr (mget (VolumeContext vol) paramMFSPath)"
    using wpE_Inr [OF CreateVolume_wp assms(1)] assms(2) by (simp add: response_ok_def)
  from normalizeMFSPath_elems [OF assms(3) this] show ?thesis by auto
qed

theorem CreateVolume_confined_witness:
  "\<exists>rest. path_elems ''/csi/y'' = path_elems (path_Clean ''/csi'') @ rest \<and> list_all plain_elem rest"
  using CreateVolume_confined [OF example_create_mfs]
  by (simp add: response_def example_cfg_def IsAbs_def)

text \<open>
  The errors of \<open>CreateVolume\<close>. A failed call has one of four codes; a call that is refused
  as an invalid argument, or because the volume is busy, has changed nothing, in IPFS or anywhere.
\<close>

lemma CreateVolume_errors:
  assumes "CreateVolume d req w = (Inl e, w')"
  shows "status_Code e \<in> {InvalidArgument, Aborted} \<and> w' = w \<or> status_Code e \<in> {Internal, NotFound}"
  by (rule wpE_Inl [OF CreateVolume_wp assms])

text \<open>
  Operations on one volume exclude each other. \<open>CreateVolume\<close> for a name and
  \<open>DeleteVolume\<close> for the identifier made from it use the same lock: while it is held, a valid
  creation and a deletion are both refused with \<open>Aborted\<close> and without any effect.
\<close>

lemma volume_busy:
  assumes "volumeIDFor (cv_Name req) \<in> locks (volumeLocks w)" "valid_request req s"
  shows "\<exists>e e'. CreateVolume d req w = (Inl e, w) \<and> status_Code e = Aborted \<and>
                DeleteVolume d (volumeIDFor (cv_Name req)) w = (Inl e', w) \<and> status_Code e' = Aborted"
  using assms(1) by (simp add: CreateVolume_valid [OF assms(2)] DeleteVolume_def with_lock_held volumeIDFor_def)

text \<open>
  Pinned before it is reported. When a volume with a CID is created with pinning on and the
  strict policy, the CID was found in IPFS and then pinned without an error, both while the
  volume's lock was held, and nothing else was done.
\<close>

lemma CreateVolume_pins:
  assumes "CreateVolume d req w = (Inr vol, w')" "mget (cv_Parameters req) paramCID = cid" "cid \<noteq> ''''"
    and "mget (cv_Parameters req) paramPinning \<noteq> ''false''"
    and "PinFailurePolicy (cfg d) = pinFailurePolicyStrict"
  shows "\<exists>w1 w2. StatCID (ipfsClient d) cid (locked (volumeIDFor (cv_Name req)) w) = (Inr True, w1) \<and>
    PinCID (ipfsClient d) cid w1 = (Inr (), w2) \<and> w' = releaseLock (volumeIDFor (cv_Name req)) w2"
proof -
  define k where "k = volumeIDFor (cv_Name req)"
  obtain s where s: "valid_request req s" using CreateVolume_invalid [of req d w] assms(1) by fastforce
  then have "s = ''''" using assms(2,3) by (simp add: valid_request_def)
  have k: "k \<notin> locks (volumeLocks w)"
    using assms(1) by (auto simp: CreateVolume_valid [OF s] k_def with_lock_held)
  have "wpE (create_body d req s) (\<lambda>_ w2. \<exists>w1. StatCID (ipfsClient d) cid (locked k w) = (Inr True, w1) \<and>
      PinCID (ipfsClient d) cid w1 = (Inr (), w2)) (\<lambda>_ _. True) (locked k w)"
    unfolding create_body_def provision_def using assms(2-5) \<open>s = ''''\<close>
    by (simp add: wp) (rule wpE_mono [OF provision_cid_wp],
      auto simp: pinFailurePolicyStrict_def pinFailurePolicyBestEffort_def)
  then show ?thesis
    using assms(1) k unfolding k_def [symmetric] CreateVolume_valid [OF s]
    by (auto simp: with_lock_free wpE_def split: prod.splits sum.splits)
qed

text \<open>
  Identifiers separate names that are identifiers already: two names of at most 128
  lower-case letters, digits and hyphens (such as the names the external provisioner generates)
  never share a volume identifier, nor a lock.
\<close>

lemma volumeIDFor_injective:
  assumes "list_all id_char n" "length n \<le> 128" "list_all id_char m" "length m \<le> 128"
    and "volumeIDFor n = volumeIDFor m"
  shows "n = m"
  using assms by (simp add: volumeIDFor_def sanitizeVolumeID_fixed)

text \<open>
  Other names can collide: names that differ only in case, in punctuation, or after their
  128th character get the same volume identifier, and so the same lock and default MFS path.
\<close>

lemma volumeIDFor_collisions:
  "volumeIDFor ''Vol.A'' = volumeIDFor ''vol_a'' \<and>
   volumeIDFor (replicate 128 (CHR ''x'') @ ''-1'') = volumeIDFor (replicate 128 (CHR ''x'') @ ''-2'')"
proof
  show "volumeIDFor ''Vol.A'' = volumeIDFor ''vol_a''" by code_simp
  show "volumeIDFor (replicate 128 (CHR ''x'') @ ''-1'') = volumeIDFor (replicate 128 (CHR ''x'') @ ''-2'')"
    unfolding volumeIDFor_def by (subst (1 2) sanitizeVolumeID_ascii) (auto simp: list_all_iff)
qed

text \<open>
  The pin of a new volume can be lost. A volume is counted as a reference once its
  PersistentVolume is in the cache, which is after \<open>CreateVolume\<close> has returned: a deletion of
  another volume with the same CID in between removes the pin the new volume was given.
\<close>

lemma pin_lost_before_cached:
  "case CreateVolume example_driver (example_request [paramCID \<mapsto> ''Qm2'']) example_world of
     (Inr vol, w1) \<Rightarrow> mget (VolumeContext vol) paramCID = ''Qm2'' \<and>
       (case DeleteVolume example_driver ''h-e'' w1 of
          (Inr _, w2) \<Rightarrow> ext w2 = [''stat Qm2'', ''pin Qm2'', ''unpin Qm2''] | _ \<Rightarrow> False)
   | _ \<Rightarrow> False"
  by code_simp

text \<open>
  In the same way a pin can leak: two volumes with one CID that are deleted while both are still
  in the cache are references for each other, and neither deletion removes the pin.
\<close>

lemma pin_leaked_when_both_deleted:
  "case DeleteVolume example_driver ''h-a'' example_world of
     (Inr _, w1) \<Rightarrow> (case DeleteVolume example_driver ''h-c'' w1 of (Inr _, w2) \<Rightarrow> ext w2 = [] | _ \<Rightarrow> False)
   | _ \<Rightarrow> False"
  by code_simp

text \<open>
  No key leaks. With the kubo client, each of the controller's locking operations leaves the
  lock set exactly as it found it, whatever it returns.
\<close>

lemma controller_keeps_locks:
  assumes "ipfsClient d = client K (osEnv d)"
  shows "volumeLocks (snd (CreateVolume d req w)) = volumeLocks w \<and>
         volumeLocks (snd (DeleteVolume d v w)) = volumeLocks w \<and>
         volumeLocks (snd (CreateSnapshot d n v w)) = volumeLocks w \<and>
         volumeLocks (snd (DeleteSnapshot d s w)) = volumeLocks w"
  by (intro conjI same_locksD kubo_locks.kubo.stays_CreateVolume [OF assms refl]
      kubo_locks.kubo.stays_DeleteVolume [OF assms] kubo_locks.kubo.stays_CreateSnapshot [OF assms]
      kubo_locks.kubo.stays_DeleteSnapshot [OF assms])

end
