(* ===== verification/Listing.thy ===== *)
theory Listing
  imports Provisioning
begin

text \<open>
  The read-only operations of the controller: pages of \<open>ListVolumes\<close> (complete, stable, with
  exactly the malformed tokens refused), \<open>ControllerGetVolume\<close>, \<open>GetCapacity\<close>,
  \<open>ValidateVolumeCapabilities\<close>, and the snapshot operations.
\<close>

section \<open>Pages\<close>

text \<open>The index a starting token stands for, if it is valid for \<open>n\<close> entries.\<close>

definition token_index :: "string \<Rightarrow> nat \<Rightarrow> nat option" where
  "token_index token n =
     (if token = '''' then Some 0
      else case Atoi token of None \<Rightarrow> None
           | Some i \<Rightarrow> if 0 \<le> i \<and> i \<le> int n then Some (nat i) else None)"

text \<open>The number of entries a page has when \<open>m\<close> are left.\<close>

definition page_size :: "int \<Rightarrow> nat \<Rightarrow> nat" where
  "page_size reqMax m = (if reqMax \<le> 0 then m else min m (nat reqMax))"

lemma token_index_le: "token_index t n = Some k \<Longrightarrow> k \<le> n"
  by (auto simp: token_index_def split: if_splits option.splits)

lemma page_entries_eq:
  "page_entries es token reqMax =
     (case token_index token (length es) of
        None \<Rightarrow> Inl (StatusErr InvalidArgument ''invalid starting token %q'' [token] None)
      | Some k \<Rightarrow>
          let e = k + page_size reqMax (length es - k) in
          Inr \<lparr>lv_Entries = take (page_size reqMax (length es - k)) (drop k es),
               lv_NextToken = (if e < length es then Itoa (int e) else '''')\<rparr>)"
proof (cases "token_index token (length es)")
  case None
  then show ?thesis
    by (auto simp: page_entries_def token_index_def Let_def split: if_splits option.splits)
next
  case (Some k)
  have k: "k \<le> length es" by (rule token_index_le [OF Some])
  have start: "(if token = '''' then Some 0
      else case Atoi token of None \<Rightarrow> None
           | Some i \<Rightarrow> if i < 0 \<or> i > int (length es) then None else Some i) = Some (int k)"
    using Some by (auto simp: token_index_def split: if_splits option.splits)
  have e: "nat ((if int k + m > int (length es) then int (length es) else int k + m) - int k)
      = page_size reqMax (length es - k)"
    and e': "(if int k + m > int (length es) then int (length es) else int k + m)
      = int (k + page_size reqMax (length es - k))"
    if "m = (if reqMax \<le> 0 then int (length es) - int k else reqMax)" for m
    using that k by (auto simp: page_size_def min_def)
  show ?thesis
    unfolding page_entries_def start Let_def
    using Some e [OF refl] e' [OF refl] by simp
qed

text \<open>A caller that follows the tokens; \<open>None\<close> if a page fails or the fuel is used up.\<close>

fun follow_pages :: "nat \<Rightarrow> 'x Driver \<Rightarrow> int \<Rightarrow> string \<Rightarrow> 'x world \<Rightarrow> Volume list option" where
  "follow_pages 0 d reqMax token w = None"
| "follow_pages (Suc n) d reqMax token w =
     (case Driver_ListVolumes d token reqMax w of
        (Inl e, w') \<Rightarrow> None
      | (Inr r, w') \<Rightarrow>
          if lv_NextToken r = '''' then Some (lv_Entries r)
          else map_option ((@) (lv_Entries r)) (follow_pages n d reqMax (lv_NextToken r) w'))"

lemma Driver_ListVolumes_eq:
  assumes "ListVolumes (volumeStore d) (DriverName (cfg d)) w = Inr vs"
  shows "Driver_ListVolumes d token reqMax w =
    (page_entries (sort_Slice VolumeId (map volumeEntry vs)) token reqMax, w)"
  using assms by (simp add: Driver_ListVolumes_def bindE_def mapErr_def readsE_def Let_def)

lemma follow_pages_from:
  assumes vs: "ListVolumes (volumeStore d) (DriverName (cfg d)) w = Inr vs"
    and es: "es = sort_Slice VolumeId (map volumeEntry vs)" and len: "length es < 2 ^ 63"
  shows "token_index token (length es) = Some k \<Longrightarrow> length es - k < fuel \<Longrightarrow>
    follow_pages fuel d reqMax token w = Some (drop k es)"
proof (induction fuel arbitrary: token k)
  case (Suc fuel)
  let ?p = "page_size reqMax (length es - k)"
  have page: "Driver_ListVolumes d token reqMax w =
      (Inr \<lparr>lv_Entries = take ?p (drop k es),
            lv_NextToken = (if k + ?p < length es then Itoa (int (k + ?p)) else '''')\<rparr>, w)"
    using Suc.prems(1) by (simp add: Driver_ListVolumes_eq [OF vs] page_entries_eq Let_def flip: es)
  show ?case
  proof (cases "k + ?p < length es")
    case True
    then have next_p: "0 < ?p" by (auto simp: page_size_def split: if_splits)
    have "token_index (Itoa (int (k + ?p))) (length es) = Some (k + ?p)"
      using True len by (simp add: token_index_def Itoa_not_empty Atoi_Itoa)
    with Suc.IH Suc.prems(2) next_p True
    have "follow_pages fuel d reqMax (Itoa (int (k + ?p))) w = Some (drop (k + ?p) es)" by simp
    with page True show ?thesis
      by (simp add: Itoa_not_empty) (metis add.commute append_take_drop_id drop_drop)
  next
    case False
    with page show ?thesis by simp
  qed
qed simp
section \<open>Capabilities\<close>

lemma validate_loop_eq:
  "validate_loop all cs conf =
     (case List.find (\<lambda>m. \<not> mode_supported m) (List.map_filter vc_AccessMode cs) of
        Some m \<Rightarrow> Unsupported m
      | None \<Rightarrow> Confirmed (if List.map_filter vc_AccessMode cs = [] then conf else Some all))"
  by (induction cs arbitrary: conf) (auto split: option.splits)

section \<open>Reading back\<close>

lemma collect_volumes_mem:
  "a \<in> set (collect_volumes d pvs) \<Longrightarrow>
     \<exists>pv csi. pv \<in> set pvs \<and> pv_CSI pv = Some csi \<and> pvToAttributes pv = Inr a"
  by (induction pvs) (auto split: option.splits sum.splits if_splits)

text \<open>A word read as a signed number.\<close>

lemma sint_cases: "sint v = (if uint v < 2 ^ 63 then uint v else uint v - 2 ^ 64)" for v :: uint64
proof (cases "uint v < 2 ^ 63")
  case True
  then show ?thesis using sint_small [of v] by (simp add: MaxInt64_def)
next
  case False
  have lt: "uint v < 2 ^ 64" using uint_lt2p [of v] by simp
  with False have "uint v div 2 ^ 63 = 1" by simp
  with False lt have "signed_take_bit 63 (uint v) = uint v - 2 ^ 64"
    by (simp add: signed_take_bit_int_eq_self_iff signed_take_bit_eq_take_bit_minus take_bit_int_eq_self bit_iff_odd)
  with False show ?thesis by (simp add: sint_uint)
qed

section \<open>Properties\<close>

text \<open>
  (C14) Pagination is complete. A caller that starts without a token and follows the tokens of the
  responses, with any page size, gets every volume exactly once, in the order of identifiers;
  no token it is given is refused, and it needs at most one more call than there are volumes.
\<close>

theorem ListVolumes_pages_complete:
  assumes "ListVolumes (volumeStore d) (DriverName (cfg d)) w = Inr vs" "length vs < 2 ^ 63" "length vs < fuel"
  shows "follow_pages fuel d reqMax '''' w = Some (sort_Slice VolumeId (map volumeEntry vs)) \<and>
    mset (sort_Slice VolumeId (map volumeEntry vs)) = mset (map volumeEntry vs)"
  using follow_pages_from [OF assms(1) refl, of "''''" 0 fuel reqMax] assms(2,3)
  by (simp add: token_index_def)

theorem ListVolumes_pages_complete_witness:
  "\<exists>vs. ListVolumes (volumeStore example_driver) DefaultDriverName example_world = Inr vs \<and>
     map VolumeID vs = [''h-a'', ''h-c'', ''h-e''] \<and>
     follow_pages 9 example_driver 2 '''' example_world = Some (sort_Slice VolumeId (map volumeEntry vs))"
proof -
  obtain vs where vs: "ListVolumes (volumeStore example_driver) DefaultDriverName example_world = Inr vs"
    and ids: "map VolumeID vs = [''h-a'', ''h-c'', ''h-e'']"
    by (simp add: informed_volumeStore [OF example_informed] pvStore_ListVolumes_def example_PVs_def
        example_pv_def pvToAttributes_def DefaultDriverName_def)
  then have "length vs = 3" using length_map [of VolumeID vs] by simp
  then show ?thesis
    using ListVolumes_pages_complete [of example_driver example_world vs 9 2] vs ids by simp
qed



text \<open>
  (C31) Exactly the malformed tokens are refused: a request fails, as an invalid argument, if and
  only if its token is not empty and not the decimal form of an index between zero and the number
  of volumes. Otherwise the page has the entries from that index on, as many as asked for and left.
\<close>

theorem ListVolumes_token:
  assumes "ListVolumes (volumeStore d) (DriverName (cfg d)) w = Inr vs"
  shows "case fst (Driver_ListVolumes d token reqMax w) of
           Inl e \<Rightarrow> status_Code e = InvalidArgument \<and> token_index token (length vs) = None
         | Inr r \<Rightarrow> \<exists>k. token_index token (length vs) = Some k \<and>
             lv_Entries r = take (page_size reqMax (length vs - k)) (drop k (sort_Slice VolumeId (map volumeEntry vs))) \<and>
             (lv_NextToken r = '''' \<longleftrightarrow> k + length (lv_Entries r) = length vs)"
proof (cases "token_index token (length vs)")
  case None
  then show ?thesis by (simp add: Driver_ListVolumes_eq [OF assms] page_entries_eq)
next
  case (Some k)
  have "page_size reqMax (length vs - k) \<le> length vs - k" by (simp add: page_size_def)
  with token_index_le [OF Some] Some show ?thesis
    by (auto simp: Driver_ListVolumes_eq [OF assms] page_entries_eq Let_def Itoa_not_empty min_absorb1)
qed

theorem ListVolumes_token_witness:
  "\<exists>e. fst (Driver_ListVolumes (example_driver\<lparr>volumeStore := \<lparr>GetVolumeAttributes = (\<lambda>_ _. Inl ErrPVNotFound),
        ListVolumes = (\<lambda>_ _. Inr [])\<rparr>\<rparr>) ''7'' 0 example_world) = Inl e \<and> status_Code e = InvalidArgument"
proof -
  have "token_index ''7'' 0 = None" by code_simp
  then show ?thesis
    using ListVolumes_token [of "example_driver\<lparr>volumeStore := \<lparr>GetVolumeAttributes = (\<lambda>_ _. Inl ErrPVNotFound),
        ListVolumes = (\<lambda>_ _. Inr [])\<rparr>\<rparr>" example_world "[]" "''7''" 0]
    by (auto split: sum.splits)
qed

text \<open>
  (C32) What is listed can be read back: over a cache whose CSI volumes have distinct, non-empty
  handles, \<open>ControllerGetVolume\<close> of the identifier of a listed volume returns that volume.
\<close>

theorem ListVolumes_GetVolume_agree:
  assumes "informed d L S" "lister_ok L (ext w)" "pvl_List L (ext w) = Inr pvs"
    and "distinct (map csi_VolumeHandle (List.map_filter pv_CSI pvs))"
    and "list_all (\<lambda>csi. csi_VolumeHandle csi \<noteq> '''') (List.map_filter pv_CSI pvs)"
    and "fst (Driver_ListVolumes d token reqMax w) = Inr r" "e \<in> set (lv_Entries r)"
  shows "ControllerGetVolume d (VolumeId e) w = (Inr e, w)"
proof -
  have vs: "ListVolumes (volumeStore d) (DriverName (cfg d)) w = Inr (collect_volumes (DriverName (cfg d)) pvs)"
    using assms(1,3) by (simp add: pvStore_ListVolumes_def)
  obtain a where a: "a \<in> set (collect_volumes (DriverName (cfg d)) pvs)" "e = volumeEntry a"
    using assms(6,7)
    by (auto simp: Driver_ListVolumes_eq [OF vs] page_entries_eq Let_def split: option.splits
        dest!: in_set_takeD in_set_dropD)
  then obtain pv csi where pv: "pv \<in> set pvs" "pv_CSI pv = Some csi" "pvToAttributes pv = Inr a"
    using collect_volumes_mem by blast
  then have ne: "csi_VolumeHandle csi \<noteq> ''''"
    using assms(5) by (force simp: list_all_iff List.map_filter_def)
  with pv have id: "VolumeID a = csi_VolumeHandle csi" by (auto simp: pvToAttributes_def Let_def)
  then have "has_handle (VolumeID a) pv" using pv by (simp add: has_handle_def)
  with pv assms(2,3,4) have "pvStore_GetVolumeAttributes L (VolumeID a) (ext w) = Inr a"
    by (metis find_by_handle_unique get_by_scan)
  with assms(1) id ne a show ?thesis
    by (simp add: ControllerGetVolume_def volumeEntry_def bindE_def reads_def ret_def)
qed

theorem ListVolumes_GetVolume_agree_witness:
  "ControllerGetVolume example_driver ''h-c'' example_world =
     (Inr \<lparr>VolumeId = ''h-c'', CapacityBytes = 5,
           VolumeContext = [paramCID \<mapsto> ''Qm1'', paramReadOnly \<mapsto> ''true''], ContentSource = None\<rparr>, example_world)"
proof -
  let ?e = "\<lparr>VolumeId = ''h-c'', CapacityBytes = 5,
           VolumeContext = [paramCID \<mapsto> ''Qm1'', paramReadOnly \<mapsto> ''true''], ContentSource = None\<rparr> :: Volume"
  obtain vs where vs: "ListVolumes (volumeStore example_driver) (DriverName (cfg example_driver)) example_world = Inr vs"
    and mem: "?e \<in> set (map volumeEntry vs)"
    by (simp add: informed_volumeStore [OF example_informed] pvStore_ListVolumes_def example_PVs_def
        example_pv_def pvToAttributes_def DefaultDriverName_def volumeEntry_def)
  have "fst (Driver_ListVolumes example_driver '''' 0 example_world) =
      Inr \<lparr>lv_Entries = sort_Slice VolumeId (map volumeEntry vs), lv_NextToken = ''''\<rparr>"
    by (simp add: Driver_ListVolumes_eq [OF vs] page_entries_eq token_index_def page_size_def)
  from ListVolumes_GetVolume_agree [OF example_informed example_PVLister_ok example_PVLister_List _ _ this, of ?e] mem
  show ?thesis by (simp add: example_PVs_def example_pv_def)
qed

text \<open>
  (C34) The capacity that is reported is the free space of the repository (the storage limit minus
  its size, zero if it is over the limit) as long as that is below \<open>2^63\<close>. From there on the
  conversion to \<open>int64\<close> wraps, and a negative number is reported.
\<close>

theorem GetCapacity_exact:
  assumes "GetRepoStat (ipfsClient d) w = (Inr st, w')"
  shows "GetCapacity d w =
    (let free = max 0 (uint (StorageMax st) - uint (RepoSize st))
     in (Inr (if free < 2 ^ 63 then free else free - 2 ^ 64), w'))"
proof -
  let ?a = "if StorageMax st \<le> RepoSize st then 0 else StorageMax st - RepoSize st"
  have "uint ?a = max 0 (uint (StorageMax st) - uint (RepoSize st))"
    using subtractUint64Saturating_eq [of "StorageMax st" "RepoSize st"]
    by (simp add: subtractUint64Saturating_def)
  moreover have "sint v = (if uint v < 2 ^ 63 then uint v else uint v - 2 ^ 64)" for v :: uint64
    by (rule sint_cases)
  ultimately show ?thesis
    using assms by (simp add: GetCapacity_def bindE_def mapErr_def ret_def Let_def)
qed

theorem GetCapacity_exact_witness:
  "GetCapacity (example_driver\<lparr>ipfsClient := example_client\<lparr>GetRepoStat :=
      ret \<lparr>RepoSize = 1, StorageMax = 2 ^ 63 + 1, NumObjects = 0\<rparr>\<rparr>\<rparr>) example_world
   = (Inr (- (2 ^ 63)), example_world)"
  by (subst GetCapacity_exact [of _ _ "\<lparr>RepoSize = 1, StorageMax = 2 ^ 63 + 1, NumObjects = 0\<rparr>" example_world])
    (simp_all add: ret_def)

text \<open>
  (C35) \<open>ValidateVolumeCapabilities\<close> on an existing volume: it names the first unsupported access
  mode, if there is one. Otherwise all the capabilities are confirmed, but only if at least one of
  them names an access mode: without any, the answer confirms nothing.
\<close>

theorem ValidateVolumeCapabilities_spec:
  assumes "GetVolumeAttributes (volumeStore d) v w = Inr a" "v \<noteq> ''''" "caps \<noteq> []"
  shows "ValidateVolumeCapabilities d v caps w =
    (Inr (case List.find (\<lambda>m. \<not> mode_supported m) (List.map_filter vc_AccessMode caps) of
            Some m \<Rightarrow> Unsupported m
          | None \<Rightarrow> Confirmed (if List.map_filter vc_AccessMode caps = [] then None else Some caps)), w)"
  using assms by (simp add: ValidateVolumeCapabilities_def bindE_def reads_def ret_def validate_loop_eq)

theorem ValidateVolumeCapabilities_spec_witness:
  "ValidateVolumeCapabilities example_driver ''h-a''
     [\<lparr>vc_AccessMode = Some SINGLE_NODE_WRITER, vc_MountFlags = None\<rparr>,
      \<lparr>vc_AccessMode = Some MULTI_NODE_MULTI_WRITER, vc_MountFlags = None\<rparr>] example_world
   = (Inr (Unsupported MULTI_NODE_MULTI_WRITER), example_world)"
  by (subst ValidateVolumeCapabilities_spec [OF trans [OF informed_volumeStore(1) [OF example_informed] example_get_a]])
    (simp_all add: mode_supported_def)

text \<open>A driver whose cache has one read-write volume, for examples.\<close>

definition example_mfs_PVLister :: "'w PVLister" where
  "example_mfs_PVLister =
     \<lparr>pvl_Get = (\<lambda>n w. Inl (ExtErr ''not found'')),
      pvl_List = (\<lambda>w. Inr [\<lparr>pv_Name = ''pv-m'',
        pv_CSI = Some \<lparr>csi_Driver = DefaultDriverName, csi_VolumeHandle = ''m'',
                       csi_VolumeAttributes = [paramMFSPath \<mapsto> ''/csi/m'', paramReadOnly \<mapsto> ''false'']\<rparr>,
        pv_Storage = None\<rparr>])\<rparr>"

definition example_mfs_driver :: "string list Driver" where
  "example_mfs_driver =
     example_driver\<lparr>volumeStore := NewVolumeStoreFromPVLister (ext_PVLister example_mfs_PVLister)\<rparr>"

lemma example_mfs_informed: "informed example_mfs_driver example_mfs_PVLister (Some example_VSCLister)"
  by (simp add: informed_def example_mfs_driver_def example_driver_def)

lemma example_mfs_PVLister_ok: "lister_ok example_mfs_PVLister x"
  by (simp add: lister_ok_def example_mfs_PVLister_def)

lemma example_mfs_get:
  "pvStore_GetVolumeAttributes example_mfs_PVLister ''m'' x =
     Inr \<lparr>VolumeID = ''m'', Capacity = 0, Attributes = [paramMFSPath \<mapsto> ''/csi/m'', paramReadOnly \<mapsto> ''false'']\<rparr>"
  by (simp add: pvStore_GetVolumeAttributes_def pv_list_lookup_def example_mfs_PVLister_def has_handle_def
      pvToAttributes_def Let_def)

text \<open>
  \<open>CreateSnapshot\<close>, in every case once its lock is taken. A missing source volume or one
  without an MFS path is refused without any effect. Otherwise the snapshot is the CID the path
  resolves to at that moment, of the size of the volume (one GiB if that is not known), ready to
  use; the CID is pinned, and a pin that fails does not make the snapshot fail.
\<close>

lemma CreateSnapshot_spec:
  assumes "name \<noteq> ''''" "v \<noteq> ''''" "''snapshot-'' @ name \<notin> locks (volumeLocks w)"
    and "informed d L S" "lister_ok L (ext w)"
  shows "case pvStore_GetVolumeAttributes L v (ext w) of
      Inl e \<Rightarrow> \<exists>e'. CreateSnapshot d name v w = (Inl e', w) \<and> status_Code e' = NotFound
    | Inr a \<Rightarrow>
        if mget (Attributes a) paramMFSPath = ''''
        then \<exists>e'. CreateSnapshot d name v w = (Inl e', w) \<and> status_Code e' = InvalidArgument
        else (case ResolveMFSCID (ipfsClient d) (mget (Attributes a) paramMFSPath) (locked (''snapshot-'' @ name) w) of
            (Inl e, w1) \<Rightarrow> \<exists>e'. CreateSnapshot d name v w = (Inl e', releaseLock (''snapshot-'' @ name) w1) \<and>
                                status_Code e' = Internal
          | (Inr cid, w1) \<Rightarrow>
              CreateSnapshot d name v w =
                (Inr \<lparr>sn_SnapshotId = cid, sn_SourceVolumeId = v,
                      sn_CreationTime = clock (snd (PinCID (ipfsClient d) cid w1)), sn_ReadyToUse = True,
                      sn_SizeBytes = (if Capacity a = 0 then 2 ^ 30 else Capacity a)\<rparr>,
                 releaseLock (''snapshot-'' @ name) (snd (PinCID (ipfsClient d) cid w1))))"
proof -
  define k where "k = ''snapshot-'' @ name"
  have k: "k \<notin> locks (volumeLocks w)" using assms(3) by (simp add: k_def)
  show ?thesis
    unfolding CreateSnapshot_def Let_def k_def [symmetric]
    using assms(1,2,4) k pvs.get_error [OF assms(5)]
    by (auto simp: with_lock_free bindE_def reads_def ret_def throw_def mapErr_def ignoreErr_def
        split: sum.split prod.split)
qed

text \<open>
  (C36) \<open>ListSnapshots\<close> over a synced cache returns the snapshot contents of the driver that pass
  the filters, in cache order, cut to the requested number; without a snapshot API the list is
  empty. It changes nothing.
\<close>

theorem ListSnapshots_exact:
  assumes "informed d L S" "caches_ok L S (ext w)"
  shows "Driver_ListSnapshots d f s reqMax w =
    (let es = filter (\<lambda>e. (f = '''' \<or> SnapshotID e = f) \<and> (s = '''' \<or> SourceVolumeID e = s))
                (map snd (filter (\<lambda>(dr, e). dr = DriverName (cfg d)) (cluster_snaps S (ext w))))
     in (Inr (map snapshotEntryToCSI (take (page_size reqMax (length es)) es)), w))"
proof (cases S)
  case None
  with assms show ?thesis
    by (simp add: Driver_ListSnapshots_def informed_def NewSnapshotStoreFromVSCLister_def cluster_snaps_def ret_def)
next
  case (Some T)
  define es where "es = map snd (filter (\<lambda>(dr, e). dr = DriverName (cfg d) \<and> (f = '''' \<or> SnapshotID e = f) \<and>
      (s = '''' \<or> SourceVolumeID e = s)) (vsc_snaps T (ext w)))"
  have "vscStore_ListSnapshots T (DriverName (cfg d)) f s (ext w) = Inr es"
    using assms(2) Some vscs.list_ok [of T "ext w" "DriverName (cfg d)" f s] by (simp add: caches_ok_def es_def)
  moreover have "es = filter (\<lambda>e. (f = '''' \<or> SnapshotID e = f) \<and> (s = '''' \<or> SourceVolumeID e = s))
      (map snd (filter (\<lambda>(dr, e). dr = DriverName (cfg d)) (cluster_snaps S (ext w))))"
    by (simp add: es_def Some cluster_snaps_def filter_map case_prod_unfold o_def conj_ac)
  ultimately show ?thesis
    using assms(1) Some
    by (simp add: Driver_ListSnapshots_def informed_def NewSnapshotStoreFromVSCLister_def bindE_def mapErr_def
        readsE_def ret_def Let_def page_size_def min_def flip: es_def) auto
qed

theorem ListSnapshots_exact_witness:
  "\<exists>e. Driver_ListSnapshots example_driver '''' ''h-a'' 5 example_world = (Inr [e], example_world) \<and>
     sn_SnapshotId e = ''Qm3'' \<and> sn_CreationTime e = 7"
  by (subst ListSnapshots_exact [OF example_informed])
    (simp_all add: example_caches cluster_snaps_def vsc_snaps_def vsc_view_def vscToSnapshotEntry_def
      vsc_handle_def example_VSC_def deref_def snapshotEntryToCSI_def go_quot_def page_size_def)

text \<open>
  Expansion is accepted exactly for a positive size: the controller reports the requested
  size and asks for node expansion, the node reports the same size, and nothing is changed. Other
  requests are invalid arguments.
\<close>

lemma ExpandVolume_spec:
  assumes "v \<noteq> ''''" "path \<noteq> ''''"
  shows "case ControllerExpandVolume d v c w of
      (Inr r, w') \<Rightarrow> w' = w \<and> 0 < ex_CapacityBytes r \<and> ex_NodeExpansionRequired r \<and>
                    NodeExpandVolume d path c w = (Inr (ex_CapacityBytes r), w)
    | (Inl e, w') \<Rightarrow> w' = w \<and> status_Code e = InvalidArgument \<and> parseCapacityFromRequest c 0 = 0"
  using assms parseCapacity_nonneg [of 0 c]
  by (auto simp: ControllerExpandVolume_def NodeExpandVolume_def Let_def throw_def ret_def
      parseCapacityFromRequest_def split: option.splits)

end
