(* ===== verification/Kubo.thy ===== *)
theory Kubo
  imports IpfsClient HostTree
begin

text \<open>
  The client of \<open>pkg/ipfs/client.go\<close> against a working daemon. The daemon and boxo are not part
  of the repository; what the client relies on is stated as named laws (\<open>law_add\<close> and so on,
  together \<open>kubo_laws\<close>), over a view of the daemon's state as an MFS tree and stored nodes.
  Under these laws, importing a host directory puts exactly its tree into MFS, and exporting or
  fetching a tree writes exactly that tree to the host. A small daemon shows that the laws can
  hold together.
\<close>

section \<open>Regular trees\<close>

text \<open>Only regular files and directories: what MFS can hold.\<close>

fun regular :: "fnode \<Rightarrow> bool" where
  "regular (FFile b) \<longleftrightarrow> True"
| "regular (FDir es) \<longleftrightarrow> (\<forall>e \<in> set es. regular (snd e))"
| "regular (FOther r) \<longleftrightarrow> False"

text \<open>The Unixfs node of such a tree.\<close>

fun to_unode :: "fnode \<Rightarrow> unode" where
  "to_unode (FFile b) = UFile b"
| "to_unode (FDir es) = UDir (map (\<lambda>e. (fst e, to_unode (snd e))) es) None"
| "to_unode (FOther r) = UOther"

section \<open>What the daemon promises\<close>

text \<open>
  The documented behaviour of kubo and boxo that the client relies on, for a daemon that is up:
  \<open>mfs x\<close> is the tree of MFS in the daemon's state \<open>x\<close>, \<open>blk x c\<close> the node that is stored
  under a CID.
  \<^item> A CID that was printed can be decoded, and the CID of stored content is not printed as the
    empty string.
  \<^item> Adding a file stores it under the returned CID; getting a stored CID returns its node.
  \<^item> \<open>files/rm --recursive\<close> removes what is at the path (and may complain if nothing is).
  \<^item> \<open>files/mkdir --parents\<close> creates the directories along a path; what is stored stays.
  \<^item> \<open>files/cp\<close> of a stored file puts it at a new path below an existing directory.
  \<^item> \<open>files/stat\<close> reports the CID of the tree at a path, which can then be fetched.
  \<^item> Getting and pinning change neither MFS nor what is stored.
  \<^item> boxo's \<open>files.WriteTo\<close> writes a node to a new path below an existing directory.
\<close>

definition answers :: "'x KuboAPI \<Rightarrow> string \<Rightarrow> string list \<Rightarrow> (string \<times> bool) list \<Rightarrow> 'x \<Rightarrow> json \<Rightarrow> 'x \<Rightarrow> bool" where
  "answers K cmd args opts x out x' \<longleftrightarrow>
     Request K cmd args opts x = (Inr \<lparr>resp_Error = None, resp_Output = out\<rparr>, x')"

definition law_decode :: "'x KuboAPI \<Rightarrow> ('x \<Rightarrow> string \<Rightarrow> unode option) \<Rightarrow> bool" where
  "law_decode K blk \<longleftrightarrow>
     (\<forall>c. cid_Decode K (cid_String K c) = Inr c) \<and> (\<forall>x c n. blk x c = Some n \<longrightarrow> cid_String K c \<noteq> '''')"

definition law_add :: "'x KuboAPI \<Rightarrow> ('x \<Rightarrow> fnode) \<Rightarrow> ('x \<Rightarrow> string \<Rightarrow> unode option) \<Rightarrow> bool" where
  "law_add K mfs blk \<longleftrightarrow>
     (\<forall>b x. \<exists>c x'. Unixfs_Add K (FFile b) x = (Inr c, x') \<and> blk x' c = Some (UFile b) \<and> mfs x' = mfs x)"

definition law_get :: "'x KuboAPI \<Rightarrow> ('x \<Rightarrow> fnode) \<Rightarrow> ('x \<Rightarrow> string \<Rightarrow> unode option) \<Rightarrow> bool" where
  "law_get K mfs blk \<longleftrightarrow>
     (\<forall>c n x. blk x c = Some n \<longrightarrow> (\<exists>x'. Unixfs_Get K c x = (Inr n, x') \<and> mfs x' = mfs x \<and> blk x' = blk x))"

definition law_rm :: "'x KuboAPI \<Rightarrow> ('x \<Rightarrow> fnode) \<Rightarrow> bool" where
  "law_rm K mfs \<longleftrightarrow>
     (\<forall>p x. list_all plain_elem p \<and> p \<noteq> [] \<longrightarrow>
        mfs (snd (Request K ''files/rm'' [abs_path p] [(''recursive'', True)] x)) = removeAt p (mfs x))"

definition law_mkdir :: "'x KuboAPI \<Rightarrow> ('x \<Rightarrow> fnode) \<Rightarrow> ('x \<Rightarrow> string \<Rightarrow> unode option) \<Rightarrow> bool" where
  "law_mkdir K mfs blk \<longleftrightarrow>
     (\<forall>p x t. list_all plain_elem p \<and> mkdirs p (mfs x) = Some t \<longrightarrow>
        (\<exists>out x'. answers K ''files/mkdir'' [abs_path p] [(''parents'', True)] x out x' \<and> mfs x' = t \<and>
                  (\<forall>c n. blk x c = Some n \<longrightarrow> blk x' c = Some n)))"

definition law_cp :: "'x KuboAPI \<Rightarrow> ('x \<Rightarrow> fnode) \<Rightarrow> ('x \<Rightarrow> string \<Rightarrow> unode option) \<Rightarrow> bool" where
  "law_cp K mfs blk \<longleftrightarrow>
     (\<forall>p n c b x es. list_all plain_elem (p @ [n]) \<and> blk x c = Some (UFile b) \<and>
        lookup (mfs x) p = Some (FDir es) \<and> map_of es n = None \<longrightarrow>
        (\<exists>out x'. answers K ''files/cp'' [''/ipfs/'' @ cid_String K c, abs_path (p @ [n])] [] x out x' \<and>
                  mfs x' = update_at p (put_name n (FFile b)) (mfs x)))"

definition law_stat :: "'x KuboAPI \<Rightarrow> ('x \<Rightarrow> fnode) \<Rightarrow> ('x \<Rightarrow> string \<Rightarrow> unode option) \<Rightarrow> bool" where
  "law_stat K mfs blk \<longleftrightarrow>
     (\<forall>p n x. list_all plain_elem p \<and> lookup (mfs x) p = Some n \<longrightarrow>
        (\<exists>out x' st c. answers K ''files/stat'' [abs_path p] [] x out x' \<and> decode_mfsStat out = Inr st \<and>
                       Hash st = cid_String K c \<and> blk x' c = Some (to_unode n) \<and> mfs x' = mfs x))"

definition law_write :: "'x KuboAPI \<Rightarrow> bool" where
  "law_write K \<longleftrightarrow>
     (\<forall>p n m t es. list_all plain_elem (p @ [n]) \<and> regular m \<and> lookup t p = Some (FDir es) \<and> map_of es n = None \<longrightarrow>
        files_WriteTo K (to_unode m) (abs_path (p @ [n])) t = (None, update_at p (put_name n m) t))"

definition law_pin :: "'x KuboAPI \<Rightarrow> ('x \<Rightarrow> fnode) \<Rightarrow> ('x \<Rightarrow> string \<Rightarrow> unode option) \<Rightarrow> bool" where
  "law_pin K mfs blk \<longleftrightarrow>
     (\<forall>c x. mfs (snd (Pin_Add K c x)) = mfs x \<and> blk (snd (Pin_Add K c x)) = blk x)"

definition kubo_laws :: "'x KuboAPI \<Rightarrow> ('x \<Rightarrow> fnode) \<Rightarrow> ('x \<Rightarrow> string \<Rightarrow> unode option) \<Rightarrow> bool" where
  "kubo_laws K mfs blk \<longleftrightarrow> law_decode K blk \<and> law_add K mfs blk \<and> law_get K mfs blk \<and> law_rm K mfs \<and>
     law_mkdir K mfs blk \<and> law_cp K mfs blk \<and> law_stat K mfs blk \<and> law_write K \<and> law_pin K mfs blk"

text \<open>A host that refuses no call.\<close>

definition calm :: "'x OS \<Rightarrow> bool" where
  "calm E \<longleftrightarrow> (\<forall>op p w. os_fault E op p w = None)"

section \<open>The client's calls under these laws\<close>

lemma request_ok:
  "answers K cmd args opts (ext w) out x' \<Longrightarrow> request K cmd args opts f g w = (Inr out, w\<lparr>ext := x'\<rparr>)"
  by (simp add: request_def answers_def bindE_def mapErr_def api_def ret_def)

lemma MkdirMFS_ok:
  assumes "kubo_laws K mfs blk" "list_all plain_elem p" "mkdirs p (mfs (ext w)) = Some t"
  shows "\<exists>x'. client_MkdirMFS K (abs_path p) w = (Inr (), w\<lparr>ext := x'\<rparr>) \<and> mfs x' = t \<and>
    (\<forall>c n. blk (ext w) c = Some n \<longrightarrow> blk x' c = Some n)"
proof -
  obtain out x' where "answers K ''files/mkdir'' [abs_path p] [(''parents'', True)] (ext w) out x'" "mfs x' = t"
    "\<forall>c n. blk (ext w) c = Some n \<longrightarrow> blk x' c = Some n"
    using assms unfolding kubo_laws_def law_mkdir_def by blast
  then show ?thesis by (auto simp: client_MkdirMFS_def bindE_def ret_def request_ok)
qed

lemma RmMFS_any:
  assumes "kubo_laws K mfs blk" "list_all plain_elem p" "p \<noteq> []"
  shows "\<exists>x'. snd (client_RmMFS K (abs_path p) w) = w\<lparr>ext := x'\<rparr> \<and> mfs x' = removeAt p (mfs (ext w))"
proof -
  have "mfs (snd (Request K ''files/rm'' [abs_path p] [(''recursive'', True)] (ext w))) = removeAt p (mfs (ext w))"
    using assms unfolding kubo_laws_def law_rm_def by blast
  then show ?thesis
    by (auto simp: client_RmMFS_def request_def bindE_def mapErr_def api_def ret_def throw_def
        split: prod.split sum.split option.split)
qed

lemma add_cp_ok:
  assumes "kubo_laws K mfs blk" "list_all plain_elem (p @ [n])"
    and "lookup (mfs (ext w)) p = Some (FDir es)" "map_of es n = None"
  shows "\<exists>c x1 x2. api (Unixfs_Add K (FFile b)) w = (Inr c, w\<lparr>ext := x1\<rparr>) \<and>
    cpMFS K (''/ipfs/'' @ cid_String K c) (abs_path (p @ [n])) (w\<lparr>ext := x1\<rparr>) = (Inr (), w\<lparr>ext := x2\<rparr>) \<and>
    mfs x2 = update_at p (put_name n (FFile b)) (mfs (ext w))"
proof -
  obtain c x1 where add: "Unixfs_Add K (FFile b) (ext w) = (Inr c, x1)" "blk x1 c = Some (UFile b)"
    "mfs x1 = mfs (ext w)"
    using assms(1) unfolding kubo_laws_def law_add_def by meson
  then obtain out x2 where "answers K ''files/cp'' [''/ipfs/'' @ cid_String K c, abs_path (p @ [n])] [] x1 out x2"
    and m: "mfs x2 = update_at p (put_name n (FFile b)) (mfs (ext w))"
    using assms unfolding kubo_laws_def law_cp_def by metis
  then have "cpMFS K (''/ipfs/'' @ cid_String K c) (abs_path (p @ [n])) (w\<lparr>ext := x1\<rparr>) = (Inr (), w\<lparr>ext := x2\<rparr>)"
    by (simp add: cpMFS_def bindE_def ret_def request_ok)
  with add m show ?thesis by (auto simp: api_def)
qed

lemma statMFS_ok:
  assumes "kubo_laws K mfs blk" "list_all plain_elem p" "lookup (mfs (ext w)) p = Some n"
  shows "\<exists>st c x'. statMFS K (abs_path p) w = (Inr st, w\<lparr>ext := x'\<rparr>) \<and> Hash st = cid_String K c \<and>
    blk x' c = Some (to_unode n) \<and> mfs x' = mfs (ext w)"
proof -
  obtain out x' st c where "answers K ''files/stat'' [abs_path p] [] (ext w) out x'" "decode_mfsStat out = Inr st"
    "Hash st = cid_String K c" "blk x' c = Some (to_unode n)" "mfs x' = mfs (ext w)"
    using assms unfolding kubo_laws_def law_stat_def by blast
  then show ?thesis by (auto simp: statMFS_def bindE_def ret_def request_ok)
qed

lemma calm_call [simp]: "calm E \<Longrightarrow> os_call E op p m = m"
  by (simp add: calm_def os_call_def fun_eq_iff)

lemma calm_guard [simp]: "calm E \<Longrightarrow> os_guard E op p h m = m"
  by (simp add: calm_def os_guard_def fun_eq_iff)

section \<open>Import\<close>

text \<open>The two kinds of visits of the walk, on an entry that MFS does not have yet.\<close>

lemma visit_target:
  assumes "list_all plain_elem lp" "list_all plain_elem mp" "list_all plain_elem r" "r \<noteq> []"
  shows "filepath_Rel (abs_path lp) (abs_path (lp @ r)) = Some (join_slash r)"
    and "join_slash r \<noteq> ''.''" and "filepath_Join [abs_path mp, join_slash r] = abs_path (mp @ r)"
  using assms by (simp_all add: Rel_abs join_slash_not_dot Join_abs)

lemma visit_dir:
  assumes "kubo_laws K mfs blk" "list_all plain_elem lp" "list_all plain_elem mp" "list_all plain_elem (r @ [c])"
    and "lookup (mfs (ext w)) (mp @ r) = Some (FDir ds)" "map_of ds c = None"
  shows "\<exists>x'. import_visit K E (abs_path lp) (abs_path mp) (abs_path (lp @ r @ [c])) (Some (FDir es)) None w
    = (Inr (), w\<lparr>ext := x'\<rparr>) \<and> mfs x' = update_at (mp @ r) (put_name c (FDir [])) (mfs (ext w))"
proof -
  have "mkdirs (mp @ r @ [c]) (mfs (ext w)) = Some (update_at (mp @ r) (put_name c (FDir [])) (mfs (ext w)))"
    using mkdirs_child [OF assms(5,6)] by simp
  then obtain x' where "client_MkdirMFS K (abs_path (mp @ r @ [c])) w = (Inr (), w\<lparr>ext := x'\<rparr>)"
    "mfs x' = update_at (mp @ r) (put_name c (FDir [])) (mfs (ext w))"
    using MkdirMFS_ok [OF assms(1)] assms(3,4) by (metis list_all_append)
  then show ?thesis
    using visit_target [OF assms(2-4)] by (auto simp: import_visit_def mapErr_def Let_def)
qed

lemma visit_file:
  assumes "kubo_laws K mfs blk" "calm E" "list_all plain_elem lp" "list_all plain_elem mp" "list_all plain_elem (r @ [c])"
    and "lookup (mfs (ext w)) (mp @ r) = Some (FDir ds)" "map_of ds c = None"
  shows "\<exists>x'. import_visit K E (abs_path lp) (abs_path mp) (abs_path (lp @ r @ [c])) (Some (FFile b)) None w
    = (Inr (), w\<lparr>ext := x'\<rparr>) \<and> mfs x' = update_at (mp @ r) (put_name c (FFile b)) (mfs (ext w))"
proof -
  have "list_all plain_elem ((mp @ r) @ [c])" using assms(4,5) by simp
  from add_cp_ok [OF assms(1) this assms(6,7), of b] obtain k x1 x2
    where "api (Unixfs_Add K (FFile b)) w = (Inr k, w\<lparr>ext := x1\<rparr>)"
      "cpMFS K (''/ipfs/'' @ cid_String K k) (abs_path (mp @ r @ [c])) (w\<lparr>ext := x1\<rparr>) = (Inr (), w\<lparr>ext := x2\<rparr>)"
      "mfs x2 = update_at (mp @ r) (put_name c (FFile b)) (mfs (ext w))"
    by auto
  then show ?thesis
    using visit_target [OF assms(3-5)] assms(2)
    by (auto simp: import_visit_def mapErr_def Let_def bindE_def root_Open_def ret_def)
qed

lemma walk_entries_import:
  assumes "\<And>n c r ds w. n \<in> snd ` set es \<Longrightarrow> list_all plain_elem (r @ [c]) \<Longrightarrow> tree_ok (mfs (ext w)) \<Longrightarrow>
      lookup (mfs (ext w)) (mp @ r) = Some (FDir ds) \<Longrightarrow> map_of ds c = None \<Longrightarrow>
      \<exists>x'. walk E V (abs_path (lp @ r @ [c])) n w = (Inr (), w\<lparr>ext := x'\<rparr>) \<and>
           mfs x' = update_at (mp @ r) (put_name c n) (mfs (ext w))"
    and "calm E" "list_all plain_elem lp" "list_all plain_elem r"
    and "tree_ok (FDir (ds @ es))" "tree_ok (mfs (ext w))" "lookup (mfs (ext w)) (mp @ r) = Some (FDir ds)"
  shows "\<exists>x'. walk_entries E V (abs_path (lp @ r)) es w = (Inr (), w\<lparr>ext := x'\<rparr>) \<and>
    mfs x' = update_at (mp @ r) (\<lambda>_. FDir (ds @ es)) (mfs (ext w))"
  using assms
proof (induction es arbitrary: ds w)
  case Nil
  then show ?case by (auto simp: ret_def update_same intro!: exI [of _ "ext w"])
next
  case (Cons e es)
  obtain c n where e: "e = (c, n)" by (cases e)
  have c: "plain_elem c" "map_of ds c = None" "\<forall>d \<in> set (map fst ds). d < c" and n: "tree_ok n"
    using Cons.prems(5) e by (force simp: sorted_append map_of_eq_None_iff order_less_le)+
  have put: "put_name c n (FDir ds) = FDir (ds @ [(c, n)])" using c(3) by (simp add: put_entry_last)
  obtain x1 where x1: "walk E V (abs_path (lp @ r @ [c])) n w = (Inr (), w\<lparr>ext := x1\<rparr>)"
    "mfs x1 = update_at (mp @ r) (put_name c n) (mfs (ext w))"
    using Cons.prems(1) [of n r c w ds, OF _ _ Cons.prems(6,7) c(2)] Cons.prems(4) c(1) e by auto
  let ?w = "w\<lparr>ext := x1\<rparr>"
  have l1: "lookup (mfs (ext ?w)) (mp @ r) = Some (FDir (ds @ [(c, n)]))"
    using x1(2) Cons.prems(7) put by simp
  have ok1: "tree_ok (mfs (ext ?w))"
    using x1(2) Cons.prems(5-7) put e
    by (auto intro!: tree_ok_update simp: sorted_append simp del: put_name.simps)
  have "\<exists>x'. walk_entries E V (abs_path (lp @ r)) es ?w = (Inr (), ?w\<lparr>ext := x'\<rparr>) \<and>
      mfs x' = update_at (mp @ r) (\<lambda>_. FDir ((ds @ [(c, n)]) @ es)) (mfs (ext ?w))"
    using Cons.prems(1-5) e l1 ok1 by (intro Cons.IH) auto
  then obtain x2 where x2: "walk_entries E V (abs_path (lp @ r)) es ?w = (Inr (), w\<lparr>ext := x2\<rparr>)"
    "mfs x2 = update_at (mp @ r) (\<lambda>_. FDir (ds @ e # es)) (mfs (ext w))"
    using x1(2) e by (auto simp: update_update comp_def)
  show ?case
    using x1(1) x2 e Cons.prems(2-4) c(1) by (auto simp: bindE_def)
qed

lemma walk_import:
  assumes "kubo_laws K mfs blk" "calm E" "list_all plain_elem lp" "list_all plain_elem mp"
    and "regular n" "tree_ok n" "list_all plain_elem (r @ [c])" "tree_ok (mfs (ext w))"
    and "lookup (mfs (ext w)) (mp @ r) = Some (FDir ds)" "map_of ds c = None"
  shows "\<exists>x'. walk E (import_visit K E (abs_path lp) (abs_path mp)) (abs_path (lp @ r @ [c])) n w
      = (Inr (), w\<lparr>ext := x'\<rparr>) \<and> mfs x' = update_at (mp @ r) (put_name c n) (mfs (ext w))"
  using assms(5-10)
proof (induction n arbitrary: r c w ds)
  case (FFile b)
  then show ?case using visit_file [OF assms(1-4)] by simp
next
  case (FDir es)
  let ?V = "import_visit K E (abs_path lp) (abs_path mp)"
  obtain x1 where x1: "?V (abs_path (lp @ r @ [c])) (Some (FDir es)) None w = (Inr (), w\<lparr>ext := x1\<rparr>)"
    "mfs x1 = update_at (mp @ r) (put_name c (FDir [])) (mfs (ext w))"
    using visit_dir [OF assms(1,3,4) FDir.prems(3,5,6)] by blast
  let ?w = "w\<lparr>ext := x1\<rparr>"
  have l1: "lookup (mfs (ext ?w)) (mp @ r @ [c]) = Some (FDir [])"
    using x1(2) lookup_update_below [OF FDir.prems(5), of _ "[c]"] by simp
  have ok1: "tree_ok (mfs (ext ?w))"
    using x1(2) FDir.prems(3-5) tree_ok_lookup [OF FDir.prems(4,5)]
    by (auto intro!: tree_ok_update tree_ok_put tree_ok_empty simp del: tree_ok.simps)
  have "\<exists>x'. walk_entries E ?V (abs_path (lp @ r @ [c])) es ?w = (Inr (), ?w\<lparr>ext := x'\<rparr>) \<and>
      mfs x' = update_at (mp @ r @ [c]) (\<lambda>_. FDir ([] @ es)) (mfs (ext ?w))"
    using l1 ok1 FDir assms(2,3)
    by (intro walk_entries_import) (auto intro!: FDir.IH)
  moreover have "update_at (mp @ r @ [c]) (\<lambda>_. FDir es) (update_at (mp @ r) (put_name c (FDir [])) t)
      = update_at (mp @ r) (put_name c (FDir es)) t" if "lookup t (mp @ r) = Some (FDir ds)" for t
    using update_cong [OF that, of "update_at [c] (\<lambda>_. FDir es) \<circ> put_name c (FDir [])" "put_name c (FDir es)"]
    by (simp add: update_append [of "mp @ r" "[c]", simplified] update_update)
  ultimately show ?case using x1 FDir.prems(5) assms(2) by (auto simp: bindE_def)
qed simp

text \<open>An import first replaces the target by an empty directory.\<close>

lemma ImportToMFS_start:
  assumes "kubo_laws K mfs blk" "list_all plain_elem mp" "mp \<noteq> []"
    and "mkdirs mp (removeAt mp (mfs (ext w))) = Some t"
  shows "\<exists>x. mfs x = t \<and> lookup t mp = Some (FDir []) \<and>
    client_ImportToMFS K E p (abs_path mp) w =
      bindE (mapErr (ErrorfW ''open root %s for MFS import: %w'' [p]) (os_OpenRoot E p)) (\<lambda>_.
        mapErr (ErrorfW ''import %s to MFS %s: %w'' [p, abs_path mp])
          (filepath_Walk E (import_visit K E p (abs_path mp)) p)) (w\<lparr>ext := x\<rparr>)"
proof -
  obtain q c where mp: "mp = q @ [c]" using assms(3) by (cases mp rule: rev_cases) auto
  have t: "lookup t mp = Some (FDir [])"
    using mkdirs_lookup [OF assms(4)] lookup_removeAt [of q c "mfs (ext w)"] mp by auto
  obtain x1 where x1: "snd (client_RmMFS K (abs_path mp) w) = w\<lparr>ext := x1\<rparr>" "mfs x1 = removeAt mp (mfs (ext w))"
    using RmMFS_any [OF assms(1-3)] by blast
  obtain x2 where x2: "client_MkdirMFS K (abs_path mp) (w\<lparr>ext := x1\<rparr>) = (Inr (), w\<lparr>ext := x2\<rparr>)" "mfs x2 = t"
    using MkdirMFS_ok [OF assms(1,2), of "w\<lparr>ext := x1\<rparr>" t] x1(2) assms(4) by auto
  have "client_ImportToMFS K E p (abs_path mp) w =
      bindE (mapErr (ErrorfW ''open root %s for MFS import: %w'' [p]) (os_OpenRoot E p)) (\<lambda>_.
        mapErr (ErrorfW ''import %s to MFS %s: %w'' [p, abs_path mp])
          (filepath_Walk E (import_visit K E p (abs_path mp)) p)) (w\<lparr>ext := x2\<rparr>)"
    unfolding client_ImportToMFS_def using x1(1) x2(1)
    by (simp add: bindE_def [of "ignoreErr _"] bindE_def [of "mapErr _ (client_MkdirMFS _ _)"] ignoreErr_def
        mapErr_def [of _ "client_MkdirMFS _ _"])
  with x2(2) t show ?thesis by blast
qed

lemma ImportToMFS_ok:
  assumes "kubo_laws K mfs blk" "calm E" "list_all plain_elem lp" "list_all plain_elem mp" "mp \<noteq> []"
    and "lookup (hfs w) lp = Some (FDir es)" "regular (FDir es)" "tree_ok (hfs w)" "tree_ok (mfs (ext w))"
    and "mkdirs mp (removeAt mp (mfs (ext w))) = Some t"
  shows "\<exists>x'. client_ImportToMFS K E (abs_path lp) (abs_path mp) w = (Inr (), w\<lparr>ext := x'\<rparr>) \<and>
    mfs x' = update_at mp (\<lambda>_. FDir es) t \<and> lookup t mp = Some (FDir [])"
proof -
  let ?V = "import_visit K E (abs_path lp) (abs_path mp)"
  obtain x2 where x2: "mfs x2 = t" and t: "lookup t mp = Some (FDir [])"
    and run: "client_ImportToMFS K E (abs_path lp) (abs_path mp) w =
      bindE (mapErr (ErrorfW ''open root %s for MFS import: %w'' [abs_path lp]) (os_OpenRoot E (abs_path lp))) (\<lambda>_.
        mapErr (ErrorfW ''import %s to MFS %s: %w'' [abs_path lp, abs_path mp])
          (filepath_Walk E ?V (abs_path lp))) (w\<lparr>ext := x2\<rparr>)"
    using ImportToMFS_start [OF assms(1,4,5,10)] by blast
  have okt: "tree_ok t"
    using tree_ok_mkdirs [OF assms(10) _ assms(4)] tree_ok_remove [OF assms(9)] by simp
  have okes: "tree_ok (FDir es)" using tree_ok_lookup [OF assms(8,6)] by simp
  have "\<exists>x'. walk_entries E ?V (abs_path (lp @ [])) es (w\<lparr>ext := x2\<rparr>) = (Inr (), (w\<lparr>ext := x2\<rparr>)\<lparr>ext := x'\<rparr>) \<and>
      mfs x' = update_at (mp @ []) (\<lambda>_. FDir ([] @ es)) (mfs (ext (w\<lparr>ext := x2\<rparr>)))"
    using assms(2,3,7) okes okt x2 t
    by (intro walk_entries_import) (auto intro!: walk_import [OF assms(1-4)])
  then obtain x3 where x3: "walk_entries E ?V (abs_path lp) es (w\<lparr>ext := x2\<rparr>) = (Inr (), w\<lparr>ext := x3\<rparr>)"
    "mfs x3 = update_at mp (\<lambda>_. FDir es) t"
    using x2 by auto
  have "?V (abs_path lp) (Some (FDir es)) None (w\<lparr>ext := x2\<rparr>) = (Inr (), w\<lparr>ext := x2\<rparr>)"
    using Rel_abs [OF assms(3), of "[]"] by (simp add: import_visit_def ret_def)
  with x3 t assms(2,3,6) show ?thesis
    by (auto simp: run bindE_def mapErr_def os_OpenRoot_def readsE_def filepath_Walk_def reads_def)
qed

text \<open>If the local directory is missing, the import fails, and what the target held is gone.\<close>

lemma ImportToMFS_missing:
  assumes "kubo_laws K mfs blk" "calm E" "list_all plain_elem lp" "list_all plain_elem mp" "mp \<noteq> []"
    and "lookup (hfs w) lp = None" "mkdirs mp (removeAt mp (mfs (ext w))) = Some t"
  shows "\<exists>e x. client_ImportToMFS K E (abs_path lp) (abs_path mp) w = (Inl e, w\<lparr>ext := x\<rparr>) \<and>
    mfs x = t \<and> lookup t mp = Some (FDir [])"
  using ImportToMFS_start [OF assms(1,4,5,7), of E "abs_path lp"] assms(2,3,6)
  by (auto simp: bindE_def mapErr_def os_OpenRoot_def readsE_def)

section \<open>Export\<close>

lemma write_children_ok:
  assumes "law_write K" "list_all plain_elem dp" "regular (FDir es)"
    and "tree_ok (FDir (ds @ es))" "tree_ok (hfs w)" "lookup (hfs w) dp = Some (FDir ds)"
  shows "write_children K (abs_path dp) (map (\<lambda>e. (fst e, to_unode (snd e))) es) w =
    (Inr (), w\<lparr>hfs := update_at dp (\<lambda>_. FDir (ds @ es)) (hfs w)\<rparr>)"
  using assms(3-)
proof (induction es arbitrary: ds w)
  case Nil
  then show ?case by (simp add: ret_def update_same)
next
  case (Cons e es)
  obtain c n where e: "e = (c, n)" by (cases e)
  have c: "plain_elem c" "map_of ds c = None" "\<forall>d \<in> set (map fst ds). d < c" and n: "tree_ok n" "regular n"
    using Cons.prems(1,2) e by (force simp: sorted_append map_of_eq_None_iff order_less_le)+
  have put: "put_name c n (FDir ds) = FDir (ds @ [(c, n)])" using c(3) by (simp add: put_entry_last)
  let ?w = "w\<lparr>hfs := update_at dp (put_name c n) (hfs w)\<rparr>"
  have w1: "files_WriteTo K (to_unode n) (abs_path (dp @ [c])) (hfs w) = (None, update_at dp (put_name c n) (hfs w))"
    using assms(1,2) Cons.prems(4) c n unfolding law_write_def by simp
  have l1: "lookup (hfs ?w) dp = Some (FDir (ds @ [(c, n)]))"
    using Cons.prems(4) put by simp
  have ok1: "tree_ok (hfs ?w)"
    using Cons.prems(2-4) put e
    by (auto intro!: tree_ok_update simp: sorted_append simp del: put_name.simps)
  have "write_children K (abs_path dp) (map (\<lambda>e. (fst e, to_unode (snd e))) es) ?w =
      (Inr (), ?w\<lparr>hfs := update_at dp (\<lambda>_. FDir ((ds @ [(c, n)]) @ es)) (hfs ?w)\<rparr>)"
    using Cons.prems(1,2) e l1 ok1 by (intro Cons.IH) auto
  with w1 assms(2) c(1) e show ?case
    by (simp add: bindE_def mapErr_def write_to_def update_update comp_def Let_def)
qed

lemma GetCIDContent_ok:
  assumes "kubo_laws K mfs blk" "list_all plain_elem dp" "blk (ext w) c = Some (to_unode (FDir es))"
    and "regular (FDir es)" "tree_ok (FDir es)" "tree_ok (hfs w)" "lookup (hfs w) dp = Some (FDir [])"
  shows "\<exists>x'. client_GetCIDContent K (cid_String K c) (abs_path dp) w =
    (Inr (), w\<lparr>ext := x', hfs := update_at dp (\<lambda>_. FDir es) (hfs w)\<rparr>) \<and> mfs x' = mfs (ext w)"
proof -
  obtain x' where x': "Unixfs_Get K c (ext w) = (Inr (to_unode (FDir es)), x')" "mfs x' = mfs (ext w)"
    using assms(1,3) unfolding kubo_laws_def law_get_def by blast
  have dec: "cid_Decode K (cid_String K c) = Inr c"
    using assms(1) by (simp add: kubo_laws_def law_decode_def)
  have "write_children K (abs_path dp) (map (\<lambda>e. (fst e, to_unode (snd e))) es) (w\<lparr>ext := x'\<rparr>) =
      (Inr (), (w\<lparr>ext := x'\<rparr>)\<lparr>hfs := update_at dp (\<lambda>_. FDir ([] @ es)) (hfs (w\<lparr>ext := x'\<rparr>))\<rparr>)"
    using assms by (intro write_children_ok) (auto simp: kubo_laws_def)
  with x' dec show ?thesis
    by (auto simp: client_GetCIDContent_def parseCIDPath_def bindE_def mapErr_def api_def writeNodeToDir_def ret_def)
qed

lemma ExportMFS_ok:
  assumes "kubo_laws K mfs blk" "list_all plain_elem dp" "list_all plain_elem mp"
    and "lookup (mfs (ext w)) mp = Some (FDir es)"
    and "regular (FDir es)" "tree_ok (FDir es)" "tree_ok (hfs w)" "lookup (hfs w) dp = Some (FDir [])"
  shows "\<exists>x'. client_ExportMFS K (abs_path mp) (abs_path dp) w =
    (Inr (), w\<lparr>ext := x', hfs := update_at dp (\<lambda>_. FDir es) (hfs w)\<rparr>) \<and> mfs x' = mfs (ext w)"
proof -
  obtain st c x1 where st: "statMFS K (abs_path mp) w = (Inr st, w\<lparr>ext := x1\<rparr>)" "Hash st = cid_String K c"
    "blk x1 c = Some (to_unode (FDir es))" "mfs x1 = mfs (ext w)"
    using statMFS_ok [OF assms(1,3,4)] by blast
  obtain x2 where "client_GetCIDContent K (cid_String K c) (abs_path dp) (w\<lparr>ext := x1\<rparr>) =
      (Inr (), w\<lparr>ext := x2, hfs := update_at dp (\<lambda>_. FDir es) (hfs w)\<rparr>)" "mfs x2 = mfs (ext w)"
    using GetCIDContent_ok [OF assms(1,2), of "w\<lparr>ext := x1\<rparr>" c es] st(3,4) assms(5-8) by auto
  with st show ?thesis by (auto simp: client_ExportMFS_def bindE_def mapErr_def)
qed

section \<open>Stored content\<close>

lemma StatCID_ok:
  assumes "kubo_laws K mfs blk" "blk (ext w) c = Some n"
  shows "\<exists>x'. client_StatCID K (cid_String K c) w = (Inr True, w\<lparr>ext := x'\<rparr>) \<and> mfs x' = mfs (ext w) \<and> blk x' = blk (ext w)"
proof -
  obtain x' where "Unixfs_Get K c (ext w) = (Inr n, x')" "mfs x' = mfs (ext w)" "blk x' = blk (ext w)"
    using assms unfolding kubo_laws_def law_get_def by blast
  moreover have "cid_Decode K (cid_String K c) = Inr c" using assms(1) by (simp add: kubo_laws_def law_decode_def)
  ultimately show ?thesis by (auto simp: client_StatCID_def parseCIDPath_def)
qed

lemma PinCID_any:
  assumes "kubo_laws K mfs blk"
  shows "\<exists>x'. snd (client_PinCID K c w) = w\<lparr>ext := x'\<rparr> \<and> mfs x' = mfs (ext w) \<and> blk x' = blk (ext w)"
proof (cases "cid_Decode K c")
  case (Inl e)
  then show ?thesis by (auto simp: client_PinCID_def parseCIDPath_def throw_def intro!: exI [of _ "ext w"])
next
  case (Inr k)
  moreover have "mfs (snd (Pin_Add K k (ext w))) = mfs (ext w)" "blk (snd (Pin_Add K k (ext w))) = blk (ext w)"
    using assms by (auto simp: kubo_laws_def law_pin_def)
  ultimately show ?thesis
    by (auto simp: client_PinCID_def parseCIDPath_def mapErr_def api_def split: prod.split sum.split)
qed

section \<open>A daemon that keeps the laws\<close>

text \<open>
  A small daemon, which shows that the laws can hold together: MFS is a tree, the blocks are a
  list of nodes, and a CID is known by a string as long as the node's position in the list, counted from one.
\<close>

record toy =
  toy_mfs :: fnode
  toy_blocks :: "unode list"

definition toy_blk :: "toy \<Rightarrow> string \<Rightarrow> unode option" where
  "toy_blk x c = (if 0 < length c \<and> length c \<le> length (toy_blocks x) then Some (toy_blocks x ! (length c - 1)) else None)"

definition toy_put :: "unode \<Rightarrow> toy \<Rightarrow> string \<times> toy" where
  "toy_put n x = (replicate (Suc (length (toy_blocks x))) CHR ''c'', x\<lparr>toy_blocks := toy_blocks x @ [n]\<rparr>)"

definition toy_reply :: "json \<Rightarrow> toy \<Rightarrow> (string + Response) \<times> toy" where
  "toy_reply out x = (Inr \<lparr>resp_Error = None, resp_Output = out\<rparr>, x)"

definition toy_refuse :: "toy \<Rightarrow> (string + Response) \<times> toy" where
  "toy_refuse x = (Inr \<lparr>resp_Error = Some ''file does not exist'', resp_Output = JNull\<rparr>, x)"

definition toy_request :: "string \<Rightarrow> string list \<Rightarrow> (string \<times> bool) list \<Rightarrow> toy \<Rightarrow> (string + Response) \<times> toy" where
  "toy_request cmd args opts x =
     (if cmd = ''files/rm'' then toy_reply JNull (x\<lparr>toy_mfs := removeAt (fs_path (hd args)) (toy_mfs x)\<rparr>)
      else if cmd = ''files/mkdir'' then
        (case mkdirs (fs_path (hd args)) (toy_mfs x) of
           None \<Rightarrow> toy_refuse x | Some t \<Rightarrow> toy_reply JNull (x\<lparr>toy_mfs := t\<rparr>))
      else if cmd = ''files/cp'' then
        (case toy_blk x (drop 6 (hd args)) of
           Some (UFile b) \<Rightarrow>
             (let p = fs_path (args ! 1) in
              case lookup (toy_mfs x) (butlast p) of
                Some (FDir es) \<Rightarrow> toy_reply JNull (x\<lparr>toy_mfs := update_at (butlast p) (put_name (last p) (FFile b)) (toy_mfs x)\<rparr>)
              | _ \<Rightarrow> toy_refuse x)
         | _ \<Rightarrow> toy_refuse x)
      else if cmd = ''files/stat'' then
        (case lookup (toy_mfs x) (fs_path (hd args)) of
           None \<Rightarrow> toy_refuse x
         | Some n \<Rightarrow> (case toy_put (to_unode n) x of (c, x') \<Rightarrow> toy_reply (JObj [(''Hash'', JStr c)]) x'))
      else toy_refuse x)"

fun of_unode :: "unode \<Rightarrow> fnode" where
  "of_unode (UFile b) = FFile b"
| "of_unode (UDir es err) = FDir (map (\<lambda>e. (fst e, of_unode (snd e))) es)"
| "of_unode UOther = FOther (Inl '''')"

definition toy_Kubo :: "toy KuboAPI" where
  "toy_Kubo =
     \<lparr>cid_Decode = Inr, cid_String = id, NewMultiaddr = Inr, kuborpc_NewApi = (\<lambda>a. Inr ()),
      Key_Self = (\<lambda>x. (Inr ''self'', x)),
      Unixfs_Get = (\<lambda>c x. (case toy_blk x c of None \<Rightarrow> Inl ''block not found'' | Some n \<Rightarrow> Inr n, x)),
      Unixfs_Add = (\<lambda>n x. case toy_put (to_unode n) x of (c, x') \<Rightarrow> (Inr c, x')),
      Pin_Add = (\<lambda>c x. (Inr (), x)), Pin_Rm = (\<lambda>c x. (Inr (), x)),
      Request = toy_request,
      files_WriteTo = (\<lambda>n p t. (None, update_at (butlast (fs_path p)) (put_name (last (fs_path p)) (of_unode n)) t)),
      files_NewSerialFile = (\<lambda>p n. Inr n)\<rparr>"

lemma of_to_unode: "regular n \<Longrightarrow> of_unode (to_unode n) = n"
  by (induction n) (auto intro!: map_idI)

lemma toy_put_blk: "toy_put n x = (c, x') \<Longrightarrow> toy_blk x' c = Some n \<and> toy_mfs x' = toy_mfs x"
  by (auto simp: toy_put_def toy_blk_def)

lemma toy_stat:
  "decode_mfsStat (JObj [(''Hash'', JStr c)]) = Inr \<lparr>Hash = c, Size = 0, Type = ''''\<rparr>"
  by (simp add: decode_mfsStat_def json_field_def json_string_def json_uint64_def ascii_lower_def)

lemma toy_laws: "kubo_laws toy_Kubo toy_mfs toy_blk"
  unfolding kubo_laws_def
proof (intro conjI)
  show "law_decode toy_Kubo toy_blk" by (auto simp: law_decode_def toy_Kubo_def toy_blk_def)
  show "law_add toy_Kubo toy_mfs toy_blk"
    by (auto simp: law_add_def toy_Kubo_def dest: toy_put_blk split: prod.splits)
  show "law_get toy_Kubo toy_mfs toy_blk" by (simp add: law_get_def toy_Kubo_def)
  show "law_rm toy_Kubo toy_mfs" by (simp add: law_rm_def toy_Kubo_def toy_request_def toy_reply_def)
  show "law_mkdir toy_Kubo toy_mfs toy_blk"
    by (auto simp: law_mkdir_def answers_def toy_Kubo_def toy_request_def toy_reply_def toy_blk_def)
  show "law_cp toy_Kubo toy_mfs toy_blk"
    by (auto simp: law_cp_def answers_def toy_Kubo_def toy_request_def toy_reply_def Let_def)
  show "law_stat toy_Kubo toy_mfs toy_blk"
    by (auto simp: law_stat_def answers_def toy_Kubo_def toy_request_def toy_reply_def toy_stat
        dest: toy_put_blk split: prod.splits)
  show "law_write toy_Kubo" by (simp add: law_write_def toy_Kubo_def of_to_unode)
  show "law_pin toy_Kubo toy_mfs toy_blk" by (simp add: law_pin_def toy_Kubo_def)
qed

end
