(* ===== verification/Staging.thy ===== *)
theory Staging
  imports Listing Kubo
begin

text \<open>
  The node service on the host's files. Emptying a directory leaves the rest of the host alone;
  a volume that is unstaged on one node and staged on another comes back as it was; the restore
  of a snapshot reproduces it and leaves nothing behind; bind mounts get the right options.
\<close>

section \<open>Emptying a directory\<close>

lemma fold_del_name: "fold del_name ns (FDir es) = FDir (filter (\<lambda>e. fst e \<notin> set ns) es)"
  by (induction ns arbitrary: es) (auto simp: del_entry_def intro!: filter_cong)

lemma remove_entries_ok:
  assumes "calm E" "list_all plain_elem p" "list_all plain_elem ns"
    and "tree_ok (hfs w)" "lookup (hfs w) p = Some (FDir es)"
  shows "remove_entries E (abs_path p) ns w = (Inr (), w\<lparr>hfs := update_at p (fold del_name ns) (hfs w)\<rparr>)"
  using assms(3-)
proof (induction ns arbitrary: w es)
  case Nil
  then show ?case by (simp add: ret_def update_same)
next
  case (Cons n ns)
  let ?w = "w\<lparr>hfs := update_at p (del_name n) (hfs w)\<rparr>"
  have ok: "tree_ok (hfs ?w)"
    using Cons.prems(2,3) tree_ok_removeAt [of "hfs w" p n] by (simp add: removeAt_snoc)
  have "remove_entries E (abs_path p) ns ?w = (Inr (), ?w\<lparr>hfs := update_at p (fold del_name ns) (hfs ?w)\<rparr>)"
    using Cons.prems ok by (intro Cons.IH) auto
  then show ?case
    using assms(1,2) Cons.prems(1)
    by (simp add: Let_def bindE_def mapErr_def os_RemoveAll_def removeAt_snoc update_update comp_def)
qed

lemma ensureEmptyDirectory_ok:
  assumes "calm E" "list_all plain_elem p" "tree_ok (hfs w)" "mkdirs p (hfs w) = Some t"
  shows "ensureEmptyDirectory E (abs_path p) w = (Inr (), w\<lparr>hfs := update_at p (\<lambda>_. FDir []) t\<rparr>)"
proof -
  obtain es where es: "lookup t p = Some (FDir es)" using mkdirs_lookup [OF assms(4)] by blast
  have ok: "tree_ok t" by (rule tree_ok_mkdirs [OF assms(4,3,2)])
  have names: "list_all plain_elem (map fst es)" using tree_ok_lookup [OF ok es] by (auto simp: list_all_iff)
  have "update_at p (fold del_name (map fst es)) t = update_at p (\<lambda>_. FDir []) t"
    by (rule update_cong [OF es]) (auto simp: fold_del_name filter_empty_conv)
  with remove_entries_ok [OF assms(1,2) names, of "w\<lparr>hfs := t\<rparr>" es] ok es assms
  show ?thesis
    by (simp add: ensureEmptyDirectory_def bindE_def mapErr_def os_MkdirAll_def os_ReadDir_def readsE_def)
qed

text \<open>The tree in which a directory has been created and emptied.\<close>

lemma emptied_tree:
  assumes "list_all plain_elem p" "tree_ok t0" "mkdirs p t0 = Some t"
  shows "tree_ok (update_at p (\<lambda>_. FDir es) t) \<longleftrightarrow> tree_ok (FDir es)"
    and "lookup (update_at p (\<lambda>_. FDir es) t) p = Some (FDir es)"
    and "apart p q \<Longrightarrow> lookup (update_at p (\<lambda>_. FDir es) t) q = lookup t0 q"
proof -
  obtain fs where fs: "lookup t p = Some (FDir fs)" using mkdirs_lookup [OF assms(3)] by blast
  then show l: "lookup (update_at p (\<lambda>_. FDir es) t) p = Some (FDir es)" by simp
  have "tree_ok (FDir es) \<Longrightarrow> tree_ok (update_at p (\<lambda>_. FDir es) t)"
    by (rule tree_ok_update [OF tree_ok_mkdirs [OF assms(3,2,1)]])
  then show "tree_ok (update_at p (\<lambda>_. FDir es) t) \<longleftrightarrow> tree_ok (FDir es)"
    using tree_ok_lookup [OF _ l] by blast
  show "apart p q \<Longrightarrow> lookup (update_at p (\<lambda>_. FDir es) t) q = lookup t0 q"
    using assms(3) by (simp add: lookup_update_apart mkdirs_apart)
qed

section \<open>Stage and unstage\<close>

text \<open>The directory is made and emptied, then the client fetches the content into it.\<close>

definition fetches :: "'x Driver \<Rightarrow> gomap \<Rightarrow> string \<Rightarrow> ('x world, unit) io" where
  "fetches d vc = (if mget vc paramCID \<noteq> '''' then GetCIDContent (ipfsClient d) (mget vc paramCID)
     else ExportMFS (ipfsClient d) (mget vc paramMFSPath))"

lemma fetchContentToPath_ok:
  assumes "calm (osEnv d)" "list_all plain_elem p" "tree_ok (hfs w)" "mkdirs p (hfs w) = Some t"
    and "mget vc paramCID \<noteq> '''' \<or> mget vc paramMFSPath \<noteq> ''''"
    and "fetches d vc (abs_path p) (w\<lparr>hfs := update_at p (\<lambda>_. FDir []) t\<rparr>) =
      (Inr (), w\<lparr>ext := x', hfs := update_at p (\<lambda>_. FDir es) (update_at p (\<lambda>_. FDir []) t)\<rparr>)"
  shows "fetchContentToPath d (Some vc) (abs_path p) (w\<lparr>hfs := t\<rparr>) = (Inr (), w\<lparr>ext := x', hfs := update_at p (\<lambda>_. FDir es) t\<rparr>)"
proof -
  obtain fs where fs: "lookup t p = Some (FDir fs)" using mkdirs_lookup [OF assms(4)] by blast
  have okt: "tree_ok t" by (rule tree_ok_mkdirs [OF assms(4,3,2)])
  have "ensureEmptyDirectory (osEnv d) (abs_path p) (w\<lparr>hfs := t\<rparr>) = (Inr (), w\<lparr>hfs := update_at p (\<lambda>_. FDir []) t\<rparr>)"
    using ensureEmptyDirectory_ok [OF assms(1,2), of "w\<lparr>hfs := t\<rparr>" t] mkdirs_dir [OF okt fs] okt by simp
  with assms(5,6) show ?thesis
    by (auto simp: bindE_def mapErr_def fetchContentToPath_def fetches_def update_update comp_def Let_def)
qed

lemma NodeStageVolume_fetch:
  assumes "calm (osEnv d)" "v \<noteq> ''''" "list_all plain_elem p" "tree_ok (hfs w)" "mkdirs p (hfs w) = Some t"
    and "mget vc paramCID \<noteq> '''' \<or> mget vc paramMFSPath \<noteq> ''''"
    and "fetches d vc (abs_path p) (w\<lparr>hfs := update_at p (\<lambda>_. FDir []) t\<rparr>) =
      (Inr (), w\<lparr>ext := x', hfs := update_at p (\<lambda>_. FDir es) (update_at p (\<lambda>_. FDir []) t)\<rparr>)"
  shows "NodeStageVolume d v (abs_path p) (Some vc) w = (Inr (), w\<lparr>ext := x', hfs := update_at p (\<lambda>_. FDir es) t\<rparr>)"
  using fetchContentToPath_ok [OF assms(1,3-7)] assms(1-3,5)
  by (simp add: NodeStageVolume_def os_MkdirAll_def bindE_def mapErr_def)

lemma fetches_mfs:
  assumes "ipfsClient d = client K (osEnv d)" "kubo_laws K mfs blk" "list_all plain_elem p" "list_all plain_elem mp"
    and "tree_ok (hfs w)" "mkdirs p (hfs w) = Some t" "mget vc paramCID = ''''" "mget vc paramMFSPath = abs_path mp"
    and "lookup (mfs (ext w)) mp = Some (FDir es)" "regular (FDir es)" "tree_ok (FDir es)"
  shows "\<exists>x'. fetches d vc (abs_path p) (w\<lparr>hfs := update_at p (\<lambda>_. FDir []) t\<rparr>) =
      (Inr (), w\<lparr>ext := x', hfs := update_at p (\<lambda>_. FDir es) (update_at p (\<lambda>_. FDir []) t)\<rparr>) \<and> mfs x' = mfs (ext w)"
  using ExportMFS_ok [OF assms(2-4), of "w\<lparr>hfs := update_at p (\<lambda>_. FDir []) t\<rparr>" es]
    emptied_tree [OF assms(3,5,6), of "[]"] assms(1,7-11)
  by (auto simp: tree_ok_empty fetches_def client_def)

lemma NodeStageVolume_mfs:
  assumes "ipfsClient d = client K (osEnv d)" "kubo_laws K mfs blk" "calm (osEnv d)"
    and "v \<noteq> ''''" "list_all plain_elem p" "list_all plain_elem mp" "tree_ok (hfs w)" "mkdirs p (hfs w) = Some t"
    and "mget vc paramCID = ''''" "mget vc paramMFSPath = abs_path mp"
    and "lookup (mfs (ext w)) mp = Some (FDir es)" "regular (FDir es)" "tree_ok (FDir es)"
  shows "\<exists>x'. NodeStageVolume d v (abs_path p) (Some vc) w =
    (Inr (), w\<lparr>ext := x', hfs := update_at p (\<lambda>_. FDir es) t\<rparr>) \<and> mfs x' = mfs (ext w)"
proof -
  obtain x' where x': "fetches d vc (abs_path p) (w\<lparr>hfs := update_at p (\<lambda>_. FDir []) t\<rparr>) =
      (Inr (), w\<lparr>ext := x', hfs := update_at p (\<lambda>_. FDir es) (update_at p (\<lambda>_. FDir []) t)\<rparr>)" "mfs x' = mfs (ext w)"
    using fetches_mfs [OF assms(1,2,5-13)] by blast
  from NodeStageVolume_fetch [OF assms(3,4,5,7,8) _ x'(1)] x'(2) assms(10) show ?thesis by (intro exI [of _ x']) simp
qed

text \<open>What staging a CID writes: the entries of a directory, or a file under the name \<open>data\<close>.\<close>

fun staged_entries :: "fnode \<Rightarrow> (string \<times> fnode) list" where
  "staged_entries (FDir es) = es"
| "staged_entries n = [(''data'', n)]"

lemma GetCIDContent_any:
  assumes "kubo_laws K mfs blk" "list_all plain_elem dp" "blk (ext w) c = Some (to_unode n)"
    and "regular n" "tree_ok n" "tree_ok (hfs w)" "lookup (hfs w) dp = Some (FDir [])"
  shows "\<exists>x'. client_GetCIDContent K (cid_String K c) (abs_path dp) w =
    (Inr (), w\<lparr>ext := x', hfs := update_at dp (\<lambda>_. FDir (staged_entries n)) (hfs w)\<rparr>) \<and> mfs x' = mfs (ext w)"
proof (cases n)
  case (FFile b)
  obtain x' where x': "Unixfs_Get K c (ext w) = (Inr (UFile b), x')" "mfs x' = mfs (ext w)"
    using assms(1,3) FFile unfolding kubo_laws_def law_get_def by force
  have data: "plain_elem ''data''" by (simp add: plain_elem_def)
  have "files_WriteTo K (to_unode n) (abs_path (dp @ [''data''])) (hfs w) = (None, update_at dp (put_name ''data'' n) (hfs w))"
    using assms(1,2,4,7) data unfolding kubo_laws_def law_write_def by simp
  moreover have "update_at dp (put_name ''data'' n) (hfs w) = update_at dp (\<lambda>_. FDir [(''data'', n)]) (hfs w)"
    by (rule update_cong [OF assms(7)]) simp
  moreover have "cid_Decode K (cid_String K c) = Inr c"
    using assms(1) by (simp add: kubo_laws_def law_decode_def)
  ultimately show ?thesis
    using x' data assms(2) FFile
    by (auto simp: client_GetCIDContent_def parseCIDPath_def bindE_def mapErr_def api_def writeNodeToDir_def write_to_def)
next
  case (FDir es)
  with GetCIDContent_ok [OF assms(1,2), of w c es] assms(3-7) show ?thesis by simp
qed (use assms(4) in simp)

lemma NodeStageVolume_cid:
  assumes "ipfsClient d = client K (osEnv d)" "kubo_laws K mfs blk" "calm (osEnv d)"
    and "v \<noteq> ''''" "list_all plain_elem p" "tree_ok (hfs w)" "mkdirs p (hfs w) = Some t"
    and "mget vc paramCID = cid_String K c" "blk (ext w) c = Some (to_unode n)" "regular n" "tree_ok n"
  shows "\<exists>x'. NodeStageVolume d v (abs_path p) (Some vc) w =
    (Inr (), w\<lparr>ext := x', hfs := update_at p (\<lambda>_. FDir (staged_entries n)) t\<rparr>) \<and> mfs x' = mfs (ext w)"
proof -
  let ?w = "w\<lparr>hfs := update_at p (\<lambda>_. FDir []) t\<rparr>"
  have c: "cid_String K c \<noteq> ''''" using assms(2,9) by (auto simp: kubo_laws_def law_decode_def)
  obtain x' where x': "client_GetCIDContent K (cid_String K c) (abs_path p) ?w =
      (Inr (), ?w\<lparr>ext := x', hfs := update_at p (\<lambda>_. FDir (staged_entries n)) (hfs ?w)\<rparr>)" "mfs x' = mfs (ext w)"
    using GetCIDContent_any [OF assms(2,5), of ?w c n] emptied_tree [OF assms(5-7), of "[]"] assms(9-11)
    by (auto simp: tree_ok_empty)
  then have "fetches d vc (abs_path p) ?w = 
      (Inr (), w\<lparr>ext := x', hfs := update_at p (\<lambda>_. FDir (staged_entries n)) (update_at p (\<lambda>_. FDir []) t)\<rparr>)"
    using assms(1,8) c by (simp add: fetches_def client_def)
  from NodeStageVolume_fetch [OF assms(3-7) _ this] x'(2) assms(8) c show ?thesis by (intro exI [of _ x']) simp
qed

lemma NodeUnstageVolume_mfs:
  assumes "ipfsClient d = client K (osEnv d)" "kubo_laws K mfs blk" "calm (osEnv d)" "informed d L S"
    and "v \<noteq> ''''" "list_all plain_elem p" "list_all plain_elem mp" "mp \<noteq> []"
    and "pvStore_GetVolumeAttributes L v (ext w) = Inr a" "mget (Attributes a) paramMFSPath = abs_path mp"
    and "mget (Attributes a) paramReadOnly \<noteq> ''true''"
    and "lookup (hfs w) p = Some (FDir es)" "regular (FDir es)" "tree_ok (hfs w)" "tree_ok (mfs (ext w))"
    and "mkdirs mp (removeAt mp (mfs (ext w))) = Some t"
  shows "\<exists>x'. NodeUnstageVolume d v (abs_path p) w =
    (Inr (), snd (CleanupMountPoint (mounter d) (abs_path p) (w\<lparr>ext := x'\<rparr>))) \<and>
    lookup (mfs x') mp = Some (FDir es) \<and> mfs x' = update_at mp (\<lambda>_. FDir es) t"
proof -
  obtain x' where "client_ImportToMFS K (osEnv d) (abs_path p) (abs_path mp) w = (Inr (), w\<lparr>ext := x'\<rparr>)"
    "mfs x' = update_at mp (\<lambda>_. FDir es) t" "lookup t mp = Some (FDir [])"
    using ImportToMFS_ok [OF assms(2,3,6,7,8,12-16)] by blast
  then show ?thesis
    using assms(1,4,5,9-11)
    by (auto simp: NodeUnstageVolume_def bindE_def reads_def mapErr_def ignoreErr_def Let_def client_def)
qed

text \<open>An operation that only reads the host's files leaves them as they are, whatever it returns.\<close>

definition same_files :: "'x OS \<Rightarrow> 'x world \<Rightarrow> 'x world \<Rightarrow> bool" where
  "same_files E w w' \<longleftrightarrow> (calm E \<longrightarrow> hfs w' = hfs w)"

interpretation files_kept: import_frame "same_files E" E K for E K
  by unfold_locales (auto simp: same_files_def calm_def intro!: stays_api)

lemma NodeUnstageVolume_error:
  assumes "ipfsClient d = client K (osEnv d)" "calm (osEnv d)" "NodeUnstageVolume d v p w = (Inl e, w')"
  shows "hfs w' = hfs w"
proof -
  have "hfs w' = hfs w" if "client_ImportToMFS K (osEnv d) p mp w = (r, w')" for mp r
    using stays_pair [OF files_kept.stays_ImportToMFS that] assms(2) by (simp add: same_files_def)
  with assms(1,3) show ?thesis
    by (auto simp: NodeUnstageVolume_def bindE_def reads_def throw_def ret_def mapErr_def ignoreErr_def Let_def client_def
        split: if_splits sum.splits prod.splits)
qed

section \<open>Temporary directories\<close>

lemma mkdirTemp_try_ok:
  assumes "calm E"
  shows "mkdirTemp_try E prefix n w = (Inr name, w1) \<Longrightarrow>
    \<exists>k t. w1 = w\<lparr>seqno := k, hfs := t\<rparr> \<and> lookup (hfs w) (fs_path name) = None \<and>
          storeAt (fs_path name) (FDir []) (hfs w) = Some t"
proof (induction n arbitrary: w)
  case (Suc n)
  let ?name = "temp_prefix E prefix @ os_rand E (seqno w)"
  have fault: "os_fault E ''mkdir'' ?name w = None" using assms by (simp add: calm_def)
  show ?case
  proof (cases "lookup (hfs w) (fs_path ?name)")
    case None
    with Suc.prems fault show ?thesis by (auto simp: Let_def split: option.splits)
  next
    case (Some m)
    with Suc.prems fault have "mkdirTemp_try E prefix n (w\<lparr>seqno := Suc (seqno w)\<rparr>) = (Inr name, w1)"
      by (simp add: Let_def)
    from Suc.IH [OF this] show ?thesis by auto
  qed
qed simp

text \<open>A new temporary directory is empty, and the host is otherwise as it was.\<close>

lemma MkdirTemp_ok:
  assumes calm: "calm E" and tmp: "os_MkdirTemp E pat w = (Inr (abs_path (p @ [n])), w')"
    and q: "list_all plain_elem (p @ [n])" and ok: "tree_ok (hfs w)"
  obtains k t ds where "w' = w\<lparr>seqno := k, hfs := t\<rparr>" "t = update_at p (put_name n (FDir [])) (hfs w)"
    "lookup (hfs w) p = Some (FDir ds)" "map_of ds n = None" "lookup t (p @ [n]) = Some (FDir [])" "tree_ok t"
proof -
  obtain k t where w': "w' = w\<lparr>seqno := k, hfs := t\<rparr>" "lookup (hfs w) (p @ [n]) = None"
    "storeAt (p @ [n]) (FDir []) (hfs w) = Some t"
    using mkdirTemp_try_ok [OF calm tmp [unfolded os_MkdirTemp_def]] q by auto
  from storeAt_snoc [OF w'(3)] obtain ds where ds: "lookup (hfs w) p = Some (FDir ds)"
    and t: "t = update_at p (put_name n (FDir [])) (hfs w)" by blast
  have n: "map_of ds n = None" using w'(2) ds by (auto simp: lookup_append split: option.splits)
  have l: "lookup t (p @ [n]) = Some (FDir [])" using ds by (simp add: t lookup_update_below)
  have "tree_ok t"
    unfolding t using ds q tree_ok_lookup [OF ok ds]
    by (intro tree_ok_update [OF ok]) (auto intro!: tree_ok_put tree_ok_empty simp del: tree_ok.simps)
  with w'(1) t ds n l show thesis by (rule that)
qed

text \<open>
  The restore of a snapshot: content is fetched into a new temporary directory, imported into
  MFS, and the directory is removed.
\<close>

lemma restore_ok:
  assumes d: "ipfsClient d = client K (osEnv d)" and laws: "kubo_laws K mfs blk" and calm: "calm (osEnv d)"
    and mp: "list_all plain_elem mp" "mp \<noteq> []"
    and blk: "blk (ext w) c = Some (to_unode (FDir es))" "regular (FDir es)" "tree_ok (FDir es)"
    and ok: "tree_ok (hfs w)" "tree_ok (mfs (ext w))" "mkdirs mp (removeAt mp (mfs (ext w))) = Some t"
    and tmp: "\<And>x. fst (os_MkdirTemp (osEnv d) ''csi-ipfs-restore-'' (w\<lparr>ext := x\<rparr>)) = Inr (abs_path (p @ [n]))"
    and q: "list_all plain_elem (p @ [n])"
  shows "\<exists>x' k. restoreSnapshotToMFS d (cid_String K c) (abs_path mp) w = (Inr (), w\<lparr>ext := x', seqno := k\<rparr>) \<and>
    mfs x' = update_at mp (\<lambda>_. FDir es) t \<and> lookup t mp = Some (FDir [])"
proof -
  let ?q = "p @ [n]"
  obtain x0 where x0: "client_StatCID K (cid_String K c) w = (Inr True, w\<lparr>ext := x0\<rparr>)"
    "mfs x0 = mfs (ext w)" "blk x0 = blk (ext w)"
    using StatCID_ok [OF laws blk(1)] by blast
  obtain w1 where tmp1: "os_MkdirTemp (osEnv d) ''csi-ipfs-restore-'' (w\<lparr>ext := x0\<rparr>) = (Inr (abs_path ?q), w1)"
    using tmp [of x0] by (metis prod.collapse)
  obtain k t1 ds where w1: "w1 = w\<lparr>ext := x0, seqno := k, hfs := t1\<rparr>"
    and t1: "t1 = update_at p (put_name n (FDir [])) (hfs w)"
    and ds: "lookup (hfs w) p = Some (FDir ds)" and n: "map_of ds n = None"
    and l1: "lookup t1 ?q = Some (FDir [])" and ok1: "tree_ok t1"
    by (rule MkdirTemp_ok [OF calm tmp1 q]) (use ok(1) in auto)
  obtain x1 where x1: "client_GetCIDContent K (cid_String K c) (abs_path ?q) w1 =
      (Inr (), w1\<lparr>ext := x1, hfs := update_at ?q (\<lambda>_. FDir es) t1\<rparr>)" "mfs x1 = mfs (ext w)"
    using GetCIDContent_ok [OF laws q, of w1 c es] blk ok1 l1 w1 x0(2,3) by auto
  let ?w2 = "w1\<lparr>ext := x1, hfs := update_at ?q (\<lambda>_. FDir es) t1\<rparr>"
  have ok2: "tree_ok (hfs ?w2)" "lookup (hfs ?w2) ?q = Some (FDir es)"
    using l1 tree_ok_update [OF ok1, of ?q "\<lambda>_. FDir es"] blk(3) by simp_all
  obtain x2 where x2: "client_ImportToMFS K (osEnv d) (abs_path ?q) (abs_path mp) ?w2 = (Inr (), ?w2\<lparr>ext := x2\<rparr>)"
    "mfs x2 = update_at mp (\<lambda>_. FDir es) t" "lookup t mp = Some (FDir [])"
    using ImportToMFS_ok [OF laws calm q mp ok2(2) blk(2) ok2(1)] x1(2) ok(2,3) by auto
  have "removeAt ?q (update_at ?q (\<lambda>_. FDir es) t1) = hfs w"
    unfolding t1 by (rule remove_stored [OF ok(1) ds n])
  then have "restoreSnapshotToMFS d (cid_String K c) (abs_path mp) w = (Inr (), w\<lparr>ext := x2, seqno := k\<rparr>)"
    using x0(1) x1(1) x2(1) tmp1 q calm d w1
    by (simp add: restoreSnapshotToMFS_def bindE_def mapErr_def deferring_def client_def os_RemoveAll_def)
  with x2(2,3) show ?thesis by blast
qed

section \<open>Two nodes and the small daemon, for examples\<close>

definition toy_mounter :: "toy Mounter" where
  "toy_mounter = \<lparr>IsLikelyNotMountPoint = (\<lambda>p. ret True), Mount = (\<lambda>s t f opts. ret ()), CleanupMountPoint = (\<lambda>p. ret ())\<rparr>"

definition toy_driver :: "toy Driver" where
  "toy_driver =
     \<lparr>cfg = example_cfg, ipfsClient = client toy_Kubo example_OS,
      volumeStore = NewVolumeStoreFromPVLister (ext_PVLister example_mfs_PVLister),
      snapshotStore = NewSnapshotStoreFromVSCLister (Some (ext_VSCLister example_VSCLister)),
      osEnv = example_OS, mounter = toy_mounter\<rparr>"

definition toy_files :: "(string \<times> fnode) list" where
  "toy_files = [(''a'', FFile ''1''), (''d'', FDir [(''b'', FFile ''2'')])]"

definition toy_world :: "toy world" where
  "toy_world =
     \<lparr>ext = \<lparr>toy_mfs = FDir [(''csi'', FDir [(''m'', FDir toy_files)])], toy_blocks = []\<rparr>,
      hfs = FDir [(''stage'', FDir toy_files), (''tmp'', FDir [])],
      volumeLocks = NewVolumeLocks, clock = 1, seqno = 0\<rparr>"

lemma toy_facts:
  "informed toy_driver example_mfs_PVLister (Some example_VSCLister)"
  "ipfsClient toy_driver = client toy_Kubo (osEnv toy_driver)" "calm (osEnv toy_driver)"
  "mfs (ext (snd (CleanupMountPoint (mounter toy_driver) q u))) = mfs (ext u)"
  by (simp_all add: informed_def toy_driver_def calm_def example_OS_def toy_mounter_def ret_def)

lemma toy_trees:
  "tree_ok (FDir toy_files)" "regular (FDir toy_files)" "tree_ok (hfs toy_world)" "tree_ok (toy_mfs (ext toy_world))"
  "lookup (hfs toy_world) [''stage''] = Some (FDir toy_files)"
  "lookup (toy_mfs (ext toy_world)) [''csi'', ''m''] = Some (FDir toy_files)"
  "mkdirs [''csi'', ''m''] (removeAt [''csi'', ''m''] (toy_mfs (ext toy_world))) \<noteq> None"
  "mkdirs [''csi'', ''n''] (toy_mfs (ext toy_world)) \<noteq> None"
  by code_simp+

lemma toy_paths:
  "list_all plain_elem [''stage'']" "list_all plain_elem [''csi'', ''m'']" "list_all plain_elem [''csi'', ''n'']"
  "list_all plain_elem [''var'', ''x'']" "list_all plain_elem ([''tmp''] @ [''csi-ipfs-restore-0''])"
  by code_simp+

text \<open>The driver while its daemon refuses every copy into MFS.\<close>

definition failing_driver :: "toy Driver" where
  "failing_driver = toy_driver\<lparr>ipfsClient := client
     (toy_Kubo\<lparr>Request := (\<lambda>cmd args opts x.
        if cmd = ''files/cp'' then toy_refuse x else Request toy_Kubo cmd args opts x)\<rparr>) example_OS\<rparr>"

lemma failing_unstage:
  "case NodeUnstageVolume failing_driver ''m'' (abs_path [''stage'']) toy_world of
     (Inr _, w1) \<Rightarrow> False
   | (Inl e, w1) \<Rightarrow> lookup (toy_mfs (ext w1)) [''csi'', ''m''] = Some (FDir []) \<and> tree_ok (toy_mfs (ext w1)) \<and>
       mkdirs [''csi'', ''m''] (removeAt [''csi'', ''m''] (toy_mfs (ext w1))) \<noteq> None"
  by code_simp

lemma mkdirTemp_first:
  assumes "calm E" "name = temp_prefix E prefix @ os_rand E (seqno w)"
    and "lookup (hfs w) (fs_path name) = None" "storeAt (fs_path name) (FDir []) (hfs w) \<noteq> None"
  shows "fst (os_MkdirTemp E prefix w) = Inr name"
proof -
  have "os_fault E ''mkdir'' name w = None" using assms(1) by (simp add: calm_def)
  then have "fst (mkdirTemp_try E prefix (Suc n) w) = Inr name" for n
    using assms(3,4) by (auto simp: Let_def simp flip: assms(2))
  from this [of 9999] show ?thesis by (simp add: os_MkdirTemp_def)
qed

lemma toy_temp:
  "fst (os_MkdirTemp (osEnv toy_driver) ''csi-ipfs-restore-'' (toy_world\<lparr>volumeLocks := l, ext := x\<rparr>))
     = Inr (abs_path ([''tmp''] @ [''csi-ipfs-restore-0'']))"
proof (rule mkdirTemp_first)
  have "nat_digits 0 = ''0''" by code_simp
  then show name: "abs_path ([''tmp''] @ [''csi-ipfs-restore-0''])
      = temp_prefix (osEnv toy_driver) ''csi-ipfs-restore-'' @ os_rand (osEnv toy_driver) (seqno (toy_world\<lparr>volumeLocks := l, ext := x\<rparr>))"
    by (simp add: abs_path_def temp_prefix_def toy_driver_def example_OS_def toy_world_def)
qed (simp_all only: fs_path_abs [OF toy_paths(5)], simp_all add: toy_facts toy_world_def toy_files_def)

section \<open>Properties\<close>

text \<open>
  (C27) \<open>ensureEmptyDirectory\<close> on a host that refuses nothing creates the directory if needed,
  leaves it empty, and changes nothing that is not on the way to it or below it.
\<close>

theorem ensureEmptyDirectory_empties:
  assumes "calm E" "list_all plain_elem p" "tree_ok (hfs w)" "mkdirs p (hfs w) \<noteq> None"
  shows "\<exists>t. ensureEmptyDirectory E (abs_path p) w = (Inr (), w\<lparr>hfs := t\<rparr>) \<and> tree_ok t \<and>
    lookup t p = Some (FDir []) \<and> (\<forall>q. apart p q \<longrightarrow> lookup t q = lookup (hfs w) q)"
proof -
  from assms(4) obtain t where t: "mkdirs p (hfs w) = Some t" by blast
  show ?thesis
    by (intro exI [of _ "update_at p (\<lambda>_. FDir []) t"] conjI allI impI ensureEmptyDirectory_ok [OF assms(1-3) t]
        emptied_tree(2,3) [OF assms(2,3) t])
      (simp_all only: emptied_tree(1) [OF assms(2,3) t] tree_ok_empty)
qed

theorem ensureEmptyDirectory_empties_witness:
  "\<exists>t. ensureEmptyDirectory example_OS (abs_path [''tmp'']) example_world = (Inr (), example_world\<lparr>hfs := t\<rparr>) \<and>
     lookup t [''tmp''] = Some (FDir [])"
  using ensureEmptyDirectory_empties [of example_OS "[''tmp'']" example_world]
  by (auto simp: calm_def example_OS_def plain_elem_def)

text \<open>
  (C1) A volume survives its move to another node. When a read-write volume is unstaged on one node,
  its files and directories are written to MFS; when it is then staged on any node whose daemon
  sees that MFS, the staging directory there has exactly the same tree, whatever it held before,
  and the rest of that host is untouched.
\<close>

theorem unstage_stage_roundtrip:
  assumes "kubo_laws K mfs blk" "informed d L S" "v \<noteq> ''''"
    and "ipfsClient d = client K (osEnv d)" "calm (osEnv d)" "ipfsClient d' = client K (osEnv d')" "calm (osEnv d')"
    and "list_all plain_elem p" "list_all plain_elem p'" "list_all plain_elem mp" "mp \<noteq> []"
    and "pvStore_GetVolumeAttributes L v (ext w) = Inr a" "mget (Attributes a) paramMFSPath = abs_path mp"
    and "mget (Attributes a) paramReadOnly \<noteq> ''true''" "mget (Attributes a) paramCID = ''''"
    and "tree_ok (hfs w)" "lookup (hfs w) p = Some (FDir es)" "regular (FDir es)"
    and "tree_ok (mfs (ext w))" "mkdirs mp (removeAt mp (mfs (ext w))) \<noteq> None"
    and "\<And>q u. mfs (ext (snd (CleanupMountPoint (mounter d) q u))) = mfs (ext u)"
    and "tree_ok (hfs w')" "mkdirs p' (hfs w') \<noteq> None"
    and "mfs (ext w') = mfs (ext (snd (NodeUnstageVolume d v (abs_path p) w)))"
  shows "fst (NodeUnstageVolume d v (abs_path p) w) = Inr () \<and>
    (\<exists>w''. NodeStageVolume d' v (abs_path p') (Some (Attributes a)) w' = (Inr (), w'') \<and>
           lookup (hfs w'') p' = Some (FDir es) \<and>
           (\<forall>q. apart p' q \<longrightarrow> lookup (hfs w'') q = lookup (hfs w') q))"
proof -
  obtain t t' where t: "mkdirs mp (removeAt mp (mfs (ext w))) = Some t" "mkdirs p' (hfs w') = Some t'"
    using assms(20,23) by blast
  obtain x1 where x1: "NodeUnstageVolume d v (abs_path p) w =
      (Inr (), snd (CleanupMountPoint (mounter d) (abs_path p) (w\<lparr>ext := x1\<rparr>)))"
    "lookup (mfs x1) mp = Some (FDir es)"
    using NodeUnstageVolume_mfs [OF assms(4,1,5,2,3,8,10-14,17,18,16,19) t(1)] by blast
  have "lookup (mfs (ext w')) mp = Some (FDir es)" using assms(21,24) x1 by simp
  moreover have "tree_ok (FDir es)" using tree_ok_lookup [OF assms(16,17)] by simp
  ultimately obtain x2 where
    "NodeStageVolume d' v (abs_path p') (Some (Attributes a)) w' = (Inr (), w'\<lparr>ext := x2, hfs := update_at p' (\<lambda>_. FDir es) t'\<rparr>)"
    using NodeStageVolume_mfs [OF assms(6,1,7,3,9,10,22) t(2) assms(15,13) _ assms(18)] by blast
  with x1(1) emptied_tree [OF assms(9,22) t(2)] show ?thesis by auto
qed

theorem unstage_stage_roundtrip_witness:
  "\<exists>w''. NodeStageVolume toy_driver ''m'' (abs_path [''var'', ''x''])
       (Some [paramMFSPath \<mapsto> ''/csi/m'', paramReadOnly \<mapsto> ''false''])
       ((snd (NodeUnstageVolume toy_driver ''m'' (abs_path [''stage'']) toy_world))\<lparr>hfs := FDir []\<rparr>) = (Inr (), w'') \<and>
     lookup (hfs w'') [''var'', ''x''] = Some (FDir toy_files)"
proof -
  have mp: "abs_path [''csi'', ''m''] = ''/csi/m''" by (simp add: abs_path_def)
  let ?w = "(snd (NodeUnstageVolume toy_driver ''m'' (abs_path [''stage'']) toy_world))\<lparr>hfs := FDir []\<rparr>"
  from unstage_stage_roundtrip [OF toy_laws toy_facts(1) _ toy_facts(2,3,2,3) toy_paths(1,4,2) _ example_mfs_get
      _ _ _ toy_trees(3,5,2,4,7) toy_facts(4), where w' = ?w]
  show ?thesis by (auto simp: mp)
qed

text \<open>
  (C6) A failed unstage can be repeated. Whatever the daemon did to make \<open>NodeUnstageVolume\<close> fail, all
  files are still on the node; once the daemon works, the repeated call succeeds, and MFS then has
  exactly the tree that was staged, also if the failed call had stored a part of it.
\<close>

theorem NodeUnstageVolume_retry:
  assumes "NodeUnstageVolume d v (abs_path p) w = (Inl e, w1)" "ipfsClient d = client K (osEnv d)" "calm (osEnv d)"
    and "lookup (hfs w) p = Some (FDir es)" "regular (FDir es)" "tree_ok (hfs w)"
    and "kubo_laws K' mfs blk" "ipfsClient d' = client K' (osEnv d')" "calm (osEnv d')" "informed d' L S"
    and "v \<noteq> ''''" "list_all plain_elem p" "list_all plain_elem mp" "mp \<noteq> []"
    and "pvStore_GetVolumeAttributes L v (ext w2) = Inr a" "mget (Attributes a) paramMFSPath = abs_path mp"
    and "mget (Attributes a) paramReadOnly \<noteq> ''true''"
    and "hfs w2 = hfs w1" "tree_ok (mfs (ext w2))" "mkdirs mp (removeAt mp (mfs (ext w2))) \<noteq> None"
  shows "hfs w1 = hfs w \<and>
    (\<exists>x. NodeUnstageVolume d' v (abs_path p) w2 =
           (Inr (), snd (CleanupMountPoint (mounter d') (abs_path p) (w2\<lparr>ext := x\<rparr>))) \<and>
         lookup (mfs x) mp = Some (FDir es))"
proof -
  have "hfs w1 = hfs w" by (rule NodeUnstageVolume_error [OF assms(2,3,1)])
  moreover obtain t where "mkdirs mp (removeAt mp (mfs (ext w2))) = Some t" using assms(20) by blast
  ultimately show ?thesis
    using NodeUnstageVolume_mfs [OF assms(8,7,9-17) _ assms(5) _ assms(19)] assms(4,6,18) by auto
qed

theorem NodeUnstageVolume_retry_witness:
  "\<exists>e w1 w2. NodeUnstageVolume failing_driver ''m'' (abs_path [''stage'']) toy_world = (Inl e, w1) \<and>
     lookup (toy_mfs (ext w1)) [''csi'', ''m''] = Some (FDir []) \<and>
     NodeUnstageVolume toy_driver ''m'' (abs_path [''stage'']) w1 = (Inr (), w2) \<and>
     lookup (toy_mfs (ext w2)) [''csi'', ''m''] = Some (FDir toy_files)"
proof -
  obtain e w1 where w1: "NodeUnstageVolume failing_driver ''m'' (abs_path [''stage'']) toy_world = (Inl e, w1)"
    "lookup (toy_mfs (ext w1)) [''csi'', ''m''] = Some (FDir [])" "tree_ok (toy_mfs (ext w1))"
    "mkdirs [''csi'', ''m''] (removeAt [''csi'', ''m''] (toy_mfs (ext w1))) \<noteq> None"
    using failing_unstage by (auto split: prod.splits sum.splits)
  have mp: "abs_path [''csi'', ''m''] = ''/csi/m''" by (simp add: abs_path_def)
  have "ipfsClient failing_driver = client (toy_Kubo\<lparr>Request := (\<lambda>cmd args opts x.
        if cmd = ''files/cp'' then toy_refuse x else Request toy_Kubo cmd args opts x)\<rparr>) (osEnv failing_driver)"
    "calm (osEnv failing_driver)"
    using toy_facts(3) by (simp_all add: failing_driver_def toy_driver_def)
  from NodeUnstageVolume_retry [OF w1(1) this toy_trees(5,2,3) toy_laws toy_facts(2,3,1) _ toy_paths(1,2) _ example_mfs_get
      _ _ refl w1(3,4)] mp
  obtain x where "NodeUnstageVolume toy_driver ''m'' (abs_path [''stage'']) w1
      = (Inr (), snd (CleanupMountPoint (mounter toy_driver) (abs_path [''stage'']) (w1\<lparr>ext := x\<rparr>)))"
    "lookup (toy_mfs x) [''csi'', ''m''] = Some (FDir toy_files)"
    by auto
  with w1(1,2) toy_facts(4) [where mfs = toy_mfs] show ?thesis by fastforce
qed

text \<open>
  (C21) \<open>NodeUnstageVolume\<close> must not be repeated: if the staging directory of a read-write volume is
  gone, as it is after an earlier call that succeeded, the call fails with \<open>Internal\<close>, and the
  volume's directory in MFS, which held its files, is left empty.
\<close>

theorem NodeUnstageVolume_missing_dir:
  assumes "kubo_laws K mfs blk" "ipfsClient d = client K (osEnv d)" "calm (osEnv d)" "informed d L S" "v \<noteq> ''''"
    and "list_all plain_elem p" "list_all plain_elem mp" "mp \<noteq> []"
    and "pvStore_GetVolumeAttributes L v (ext w) = Inr a" "mget (Attributes a) paramMFSPath = abs_path mp"
    and "mget (Attributes a) paramReadOnly \<noteq> ''true''"
    and "lookup (hfs w) p = None" "mkdirs mp (removeAt mp (mfs (ext w))) \<noteq> None"
  shows "\<exists>e w'. NodeUnstageVolume d v (abs_path p) w = (Inl e, w') \<and> status_Code e = Internal \<and>
    lookup (mfs (ext w')) mp = Some (FDir [])"
proof -
  obtain t where t: "mkdirs mp (removeAt mp (mfs (ext w))) = Some t" using assms(13) by blast
  obtain e x where "client_ImportToMFS K (osEnv d) (abs_path p) (abs_path mp) w = (Inl e, w\<lparr>ext := x\<rparr>)"
    "mfs x = t" "lookup t mp = Some (FDir [])"
    using ImportToMFS_missing [OF assms(1,3,6-8,12) t] by blast
  then show ?thesis
    using assms(2,4,5,9-11)
    by (auto simp: NodeUnstageVolume_def bindE_def reads_def mapErr_def Let_def client_def)
qed

theorem NodeUnstageVolume_missing_dir_witness:
  "lookup (toy_mfs (ext toy_world)) [''csi'', ''m''] = Some (FDir toy_files) \<and>
   (\<exists>e w'. NodeUnstageVolume toy_driver ''m'' (abs_path [''stage'']) (toy_world\<lparr>hfs := FDir []\<rparr>) = (Inl e, w') \<and>
     status_Code e = Internal \<and> lookup (toy_mfs (ext w')) [''csi'', ''m''] = Some (FDir []))"
proof -
  have mp: "abs_path [''csi'', ''m''] = ''/csi/m''" by (simp add: abs_path_def)
  from NodeUnstageVolume_missing_dir [OF toy_laws toy_facts(2,3,1) _ toy_paths(1,2) _ example_mfs_get,
      where w = "toy_world\<lparr>hfs := FDir []\<rparr>"] toy_trees(6,7)
  show ?thesis by (auto simp: mp)
qed

text \<open>
  (C26) A read-only volume is never written back: unstaging it does not import anything into MFS,
  whatever path its attributes name. The same holds, for every volume, when its PersistentVolume
  cannot be read: the call then succeeds and the files of the staging directory are not saved.
\<close>

theorem NodeUnstageVolume_no_import:
  assumes "case GetVolumeAttributes (volumeStore d) v w of
      Inl e \<Rightarrow> True | Inr a \<Rightarrow> mget (Attributes a) paramReadOnly = ''true'' \<or> mget (Attributes a) paramMFSPath = ''''"
    and "v \<noteq> ''''" "path \<noteq> ''''"
  shows "NodeUnstageVolume d v path w = (Inr (), snd (CleanupMountPoint (mounter d) path w))"
  using assms
  by (auto simp: NodeUnstageVolume_def bindE_def reads_def ignoreErr_def ret_def Let_def split: sum.splits)

theorem NodeUnstageVolume_no_import_witness:
  "NodeUnstageVolume example_driver ''h-a'' ''/s'' example_world = (Inr (), example_world\<lparr>ext := [''cleanup /s'']\<rparr>)"
  by (subst NodeUnstageVolume_no_import)
    (simp_all add: informed_volumeStore [OF example_informed] example_get_a example_mounter_def logs_def)

section \<open>Snapshots of a volume\<close>

text \<open>
  The identifier of a new snapshot is the CID of what the volume's directory held when it was taken.
\<close>

lemma CreateSnapshot_stores:
  assumes "kubo_laws K mfs blk" "ipfsClient d = client K (osEnv d)" "informed d L S"
    and "name \<noteq> ''''" "v \<noteq> ''''" "''snapshot-'' @ name \<notin> locks (volumeLocks w)"
    and "pvStore_GetVolumeAttributes L v (ext w) = Inr a" "mget (Attributes a) paramMFSPath = abs_path sp"
    and "list_all plain_elem sp" "lookup (mfs (ext w)) sp = Some m"
  shows "\<exists>sn c. fst (CreateSnapshot d name v w) = Inr sn \<and> sn_SnapshotId sn = cid_String K c \<and>
    blk (ext (snd (CreateSnapshot d name v w))) c = Some (to_unode m)"
proof -
  define k where "k = ''snapshot-'' @ name"
  have k: "k \<notin> locks (volumeLocks w)" using assms(6) by (simp add: k_def)
  obtain st c x1 where st: "statMFS K (abs_path sp) (locked k w) = (Inr st, (locked k w)\<lparr>ext := x1\<rparr>)"
    "Hash st = cid_String K c" "blk x1 c = Some (to_unode m)"
    using statMFS_ok [OF assms(1,9), of "locked k w" m] assms(10) by auto
  obtain x2 where x2: "snd (client_PinCID K (cid_String K c) ((locked k w)\<lparr>ext := x1\<rparr>)) = (locked k w)\<lparr>ext := x2\<rparr>"
    "blk x2 = blk x1"
    using PinCID_any [OF assms(1), of "cid_String K c" "(locked k w)\<lparr>ext := x1\<rparr>"] by auto
  have "\<exists>sn. fst (CreateSnapshot d name v w) = Inr sn \<and> sn_SnapshotId sn = cid_String K c"
    "ext (snd (CreateSnapshot d name v w)) = x2"
    unfolding CreateSnapshot_def Let_def k_def [symmetric]
    using assms(2-5,7,8) k st x2
    by (auto simp: with_lock_free bindE_def reads_def ret_def mapErr_def ignoreErr_def client_def
        client_ResolveMFSCID_def releaseLock_def)
  with st(3) x2(2) show ?thesis by auto
qed

section \<open>Publishing\<close>

text \<open>The first occurrences of a list's elements, in order.\<close>

definition dedup :: "'a list \<Rightarrow> 'a list" where
  "dedup xs = rev (remdups (rev xs))"

lemma dedup_snoc: "dedup (xs @ [x]) = (if x \<in> set xs then dedup xs else dedup xs @ [x])"
  by (simp add: dedup_def)

lemma dedup_id: "distinct xs \<Longrightarrow> dedup xs = xs"
  by (simp add: dedup_def distinct_remdups_id)

lemma hd_dedup: "hd (dedup (x # xs)) = x"
proof (induction xs rule: rev_induct)
  case (snoc y xs)
  have "dedup (x # xs) \<noteq> []" by (simp add: dedup_def)
  with snoc show ?case using dedup_snoc [of "x # xs" y] by (simp add: hd_append)
qed (simp add: dedup_def)

lemma distinct_dedup: "distinct (dedup xs)"
  by (simp add: dedup_def)

lemma add_flags_dedup:
  "seen = set opts \<Longrightarrow> opts = dedup all \<Longrightarrow> set all = set opts \<Longrightarrow>
   add_flags opts seen flags = dedup (all @ filter (\<lambda>f. f \<noteq> '''') flags)"
proof (induction opts seen flags arbitrary: all rule: add_flags.induct)
  case (2 opts seen flag flags)
  consider "flag = ''''" | "flag \<noteq> ''''" "flag \<in> seen" | "flag \<noteq> ''''" "flag \<notin> seen" by blast
  then show ?case
  proof cases
    case 1
    then show ?thesis using 2 by simp
  next
    case dup: 2
    then show ?thesis
      using "2.IH"(2) [of "all @ [flag]"] "2.prems" by (auto simp: dedup_snoc insert_absorb)
  next
    case 3
    then show ?thesis
      using "2.IH"(3) [of "all @ [flag]"] "2.prems" by (auto simp: dedup_snoc)
  qed
qed simp

text \<open>
  (C37) The options of a bind mount: \<open>bind\<close> first, then \<open>ro\<close> for a read-only publication, then the
  mount flags of the capability in their order, without empty ones; every option appears once, at
  its first place.
\<close>

theorem buildMountOptions_exact:
  "buildMountOptions req =
     dedup (''bind'' # (if np_Readonly req then [''ro''] else []) @
            filter (\<lambda>f. f \<noteq> '''') (case Option.bind (np_VolumeCapability req) vc_MountFlags of None \<Rightarrow> [] | Some fs \<Rightarrow> fs))
   \<and> distinct (buildMountOptions req) \<and> hd (buildMountOptions req) = ''bind''"
proof -
  let ?o = "''bind'' # (if np_Readonly req then [''ro''] else [])"
  have "buildMountOptions req = dedup (?o @ filter (\<lambda>f. f \<noteq> '''')
      (case Option.bind (np_VolumeCapability req) vc_MountFlags of None \<Rightarrow> [] | Some fs \<Rightarrow> fs))"
    using add_flags_dedup [of "{''bind'', ''ro''}" "[''bind'', ''ro'']" "[''bind'', ''ro'']"]
      add_flags_dedup [of "{''bind''}" "[''bind'']" "[''bind'']"]
    by (auto simp: buildMountOptions_def Let_def dedup_id insert_commute split: option.split)
  then show ?thesis by (simp add: distinct_dedup hd_dedup)
qed

text \<open>
  Publishing a staged volume. The target directory is created; if something is mounted there
  already the call succeeds and mounts nothing; if not, the staging directory is bind-mounted
  there, once, with the options of the request, and the call succeeds exactly if the mount does.
\<close>

lemma NodePublishVolume_staged:
  assumes "np_VolumeId req \<noteq> ''''" "np_TargetPath req \<noteq> ''''" "np_StagingTargetPath req \<noteq> ''''"
    and "os_MkdirAll (osEnv d) (np_TargetPath req) w = (Inr (), w1)"
    and "IsLikelyNotMountPoint (mounter d) (np_TargetPath req) w1 = (Inr notMnt, w2)"
  shows "NodePublishVolume d req w =
    (if notMnt
     then mapErr (\<lambda>err. StatusErr Internal ''mount: %v'' [] (Some err))
            (Mount (mounter d) (np_StagingTargetPath req) (np_TargetPath req) '''' (buildMountOptions req)) w2
     else (Inr (), w2))"
  using assms by (simp add: NodePublishVolume_def Let_def bindE_def ret_def mapErr_def attempt_def)

section \<open>Publishing without a staging path\<close>

text \<open>What a publication does once the directory to mount is there.\<close>

definition mount_at :: "'x Driver \<Rightarrow> NodePublishVolumeRequest \<Rightarrow> string \<Rightarrow> ('x world, unit) io" where
  "mount_at d req sourcePath =
     (let makeTarget = mapErr (\<lambda>err. StatusErr Internal ''make target directory: %v'' [] (Some err))
            (os_MkdirAll (osEnv d) (np_TargetPath req)) in
      bindE makeTarget (\<lambda>_.
      bindE (attempt (IsLikelyNotMountPoint (mounter d) (np_TargetPath req))) (\<lambda>r.
      bindE
        (case r of
           Inl err \<Rightarrow>
             if os_IsNotExist err then bindE makeTarget (\<lambda>_. ret True)
             else throw (StatusErr Internal ''check mount point: %v'' [] (Some err))
         | Inr notMnt \<Rightarrow> ret notMnt) (\<lambda>notMnt.
      if \<not> notMnt then ret ()
      else mapErr (\<lambda>err. StatusErr Internal ''mount: %v'' [] (Some err))
             (Mount (mounter d) sourcePath (np_TargetPath req) '''' (buildMountOptions req))))))"

lemma NodePublishVolume_unstaged:
  assumes "np_VolumeId req \<noteq> ''''" "np_TargetPath req \<noteq> ''''" "np_StagingTargetPath req = ''''"
    and "filepath_Join [MountDir (cfg d), np_VolumeId req] = s"
    and "os_MkdirAll (osEnv d) s w = (Inr (), w1)" "fetchContentToPath d (np_VolumeContext req) s w1 = (Inr (), w2)"
  shows "NodePublishVolume d req w = mount_at d req s w2"
  using assms by (simp add: NodePublishVolume_def mount_at_def Let_def bindE_def mapErr_def ret_def)

definition same_at :: "string list \<Rightarrow> 'x world \<Rightarrow> 'x world \<Rightarrow> bool" where
  "same_at p u v \<longleftrightarrow> lookup (hfs v) p = lookup (hfs u) p"

interpretation at_path: state_frame "same_at p" for p
  by unfold_locales (simp_all add: same_at_def)

text \<open>The mount helpers leave the directory that is mounted as it is.\<close>

definition mounts_beside :: "string list \<Rightarrow> 'x Mounter \<Rightarrow> bool" where
  "mounts_beside p M \<longleftrightarrow> (\<forall>a b f opts. stays (same_at p) (IsLikelyNotMountPoint M a) \<and> stays (same_at p) (Mount M a b f opts))"

lemma stays_mount_at:
  assumes "calm (osEnv d)" "np_TargetPath req = abs_path q" "list_all plain_elem q" "apart q p" "mounts_beside p (mounter d)"
  shows "stays (same_at p) (mount_at d req s)"
proof -
  have "stays (same_at p) (os_MkdirAll (osEnv d) (np_TargetPath req))"
    using assms(1-4) mkdirs_apart
    by (auto simp: stays_def same_at_def os_MkdirAll_def throw_def split: option.split)
  with assms(5) show ?thesis
    unfolding mount_at_def Let_def by (intro stays) (auto simp: mounts_beside_def)
qed

text \<open>
  (C20) A repeated publication without a staging path discards what was written. Such a request fetches the
  volume into a directory of the driver and mounts that; when it is repeated for a read-write volume,
  the directory is emptied and filled from MFS again before the driver looks whether it is mounted
  already, so that, whatever the call returns, what pods have written since the first one is gone.
\<close>

theorem NodePublishVolume_discards:
  assumes "ipfsClient d = client K (osEnv d)" "kubo_laws K mfs blk" "calm (osEnv d)"
    and "np_VolumeId req \<noteq> ''''" "np_StagingTargetPath req = ''''" "np_VolumeContext req = Some vc"
    and "filepath_Join [MountDir (cfg d), np_VolumeId req] = abs_path p" "list_all plain_elem p" "tree_ok (hfs w)"
    and "lookup (hfs w) p = Some (FDir written)"
    and "mget vc paramCID = ''''" "mget vc paramMFSPath = abs_path mp" "list_all plain_elem mp"
    and "lookup (mfs (ext w)) mp = Some (FDir es)" "regular (FDir es)" "tree_ok (FDir es)"
    and "np_TargetPath req = abs_path q" "list_all plain_elem q" "apart q p" "mounts_beside p (mounter d)"
  shows "lookup (hfs (snd (NodePublishVolume d req w))) p = Some (FDir es)"
proof -
  have t: "mkdirs p (hfs w) = Some (hfs w)" by (rule mkdirs_dir [OF assms(9,10)])
  obtain x' where x': "fetches d vc (abs_path p) (w\<lparr>hfs := update_at p (\<lambda>_. FDir []) (hfs w)\<rparr>) =
      (Inr (), w\<lparr>ext := x', hfs := update_at p (\<lambda>_. FDir es) (update_at p (\<lambda>_. FDir []) (hfs w))\<rparr>)"
    using fetches_mfs [OF assms(1,2,8,13,9) t assms(11,12,14-16)] by blast
  let ?w = "w\<lparr>ext := x', hfs := update_at p (\<lambda>_. FDir es) (hfs w)\<rparr>"
  have "fetchContentToPath d (np_VolumeContext req) (abs_path p) w = (Inr (), ?w)"
    using fetchContentToPath_ok [OF assms(3,8,9) t _ x'] assms(6,12) by simp
  moreover have "os_MkdirAll (osEnv d) (abs_path p) w = (Inr (), w)"
    using assms(3,8) t by (simp add: os_MkdirAll_def)
  ultimately have "NodePublishVolume d req w = mount_at d req (abs_path p) ?w"
    using assms(4,5,7,17) by (intro NodePublishVolume_unstaged) auto
  moreover have "same_at p ?w (snd (mount_at d req (abs_path p) ?w))"
    by (rule staysD [OF stays_mount_at [OF assms(3,17-20)]])
  ultimately show ?thesis using assms(10) by (simp add: same_at_def)
qed

theorem NodePublishVolume_discards_witness:
  "let req = \<lparr>np_VolumeId = ''m'', np_TargetPath = ''/pod'', np_StagingTargetPath = '''', np_Readonly = False,
         np_VolumeContext = Some [paramMFSPath \<mapsto> ''/csi/m''], np_VolumeCapability = None\<rparr>;
       w = toy_world\<lparr>hfs := FDir [(''mnt'', FDir [(''m'', FDir [(''new'', FFile ''x'')])]), (''pod'', FDir [])]\<rparr>
   in lookup (hfs (snd (NodePublishVolume toy_driver req w))) [''mnt'', ''m''] = Some (FDir toy_files)"
proof -
  have ret: "stays (same_at p) (ret a)" for p and a by (rule at_path.stays_ret)
  have join: "filepath_Join [''/mnt'', ''m''] = ''/mnt/m''" by code_simp
  have vc: "mget [paramMFSPath \<mapsto> ''/csi/m''] paramCID = ''''" "mget [paramMFSPath \<mapsto> ''/csi/m''] paramMFSPath = ''/csi/m''"
    by (simp_all add: mget_def param_defs)
  have mounts: "mounts_beside p (mounter toy_driver)" for p
    by (simp add: mounts_beside_def toy_driver_def toy_mounter_def ret)
  show ?thesis
    unfolding Let_def
    by (rule NodePublishVolume_discards [OF toy_facts(2) toy_laws toy_facts(3) _ _ _ _ _ _ _ vc(1) _ toy_paths(2) _ toy_trees(2,1)
        _ _ _ mounts, where q = "[''pod'']"])
      (simp_all add: vc(2) abs_path_def plain_elem_def join toy_driver_def example_cfg_def apart_def toy_trees(6))
qed

end
