(* ===== verification/Lifecycle.thy ===== *)
theory Lifecycle
  imports Staging
begin

text \<open>
  The controller, the client and the node together, over the life of a volume: a volume that is
  created from a snapshot of another one is staged with the files that one had, one that is made
  from a CID with its content, and deleting a read-write volume removes its directory from MFS and
  nothing else. Last, what the unchecked MFS path of a volume with a CID can be used for.
\<close>

section \<open>Creating a volume from a snapshot\<close>

text \<open>A directory that was created can be removed and created again.\<close>

lemma mkdirs_again:
  assumes "mkdirs mp t0 = Some t" "mp \<noteq> []" "tree_ok t0" "list_all plain_elem mp"
  shows "\<exists>t'. mkdirs mp (removeAt mp t) = Some t'"
proof -
  obtain q c where mp: "mp = q @ [c]" using assms(2) by (cases mp rule: rev_cases) auto
  obtain es where "lookup t mp = Some (FDir es)" using mkdirs_lookup [OF assms(1)] by blast
  then obtain m where m: "lookup t q = Some m" "lookup m [c] = Some (FDir es)"
    by (auto simp: mp lookup_append bind_eq_Some_conv)
  then obtain ds where "lookup t q = Some (FDir ds)" by (cases m) auto
  then have "lookup (removeAt mp t) q = Some (FDir (del_entry c ds))" by (simp add: mp removeAt_snoc)
  from mkdirs_child [OF this, of c] show ?thesis by (simp add: mp)
qed

lemma provision_rw:
  assumes "kubo_laws K mfs blk" "ipfsClient d = client K (osEnv d)"
    and "normalizeMFSPath (requested_path d req) (MFSRoot (cfg d)) = Inr (abs_path mp)"
    and "mget (cv_Parameters req) paramCID = ''''" "list_all plain_elem mp" "mkdirs mp (mfs (ext w)) = Some t"
  shows "\<exists>x. provision d (cv_Name req) '''' (mget (cv_Parameters req) paramMFSPath) pin w
      = (Inr (abs_path mp, False), w\<lparr>ext := x\<rparr>) \<and> mfs x = t \<and> (\<forall>c n. blk (ext w) c = Some n \<longrightarrow> blk x c = Some n)"
proof -
  obtain x where x: "client_MkdirMFS K (abs_path mp) w = (Inr (), w\<lparr>ext := x\<rparr>)" "mfs x = t"
    "\<forall>c n. blk (ext w) c = Some n \<longrightarrow> blk x c = Some n"
    using MkdirMFS_ok [OF assms(1,5,6)] by blast
  then show ?thesis
    using assms(2-4)
    by (auto simp: provision_def provision_mfs_def requested_path_def bindE_def mapErr_def ret_def client_def
        split: if_splits)
qed

definition from_snapshot :: "Snapshot \<Rightarrow> CreateVolumeRequest \<Rightarrow> CreateVolumeRequest" where
  "from_snapshot sn req = req\<lparr>cv_VolumeContentSource := Some (SourceSnapshot (Some (sn_SnapshotId sn)))\<rparr>"

lemma from_snapshot_sel [simp]:
  "cv_Name (from_snapshot sn req) = cv_Name req" "cv_Parameters (from_snapshot sn req) = cv_Parameters req"
  "requested_path d (from_snapshot sn req) = requested_path d req"
  by (simp_all add: from_snapshot_def requested_path_def)

lemma CreateVolume_from_snapshot:
  assumes laws: "kubo_laws K mfs blk" and d: "ipfsClient d = client K (osEnv d)" "calm (osEnv d)"
    and req: "cv_Name req \<noteq> ''''" "mget (cv_Parameters req) paramCID = ''''"
      "normalizeMFSPath (requested_path d req) (MFSRoot (cfg d)) = Inr (abs_path mp)" "list_all plain_elem mp" "mp \<noteq> []"
    and free: "volumeIDFor (cv_Name req) \<notin> locks (volumeLocks w)"
    and sn: "sn_SnapshotId sn = cid_String K c" "blk (ext w) c = Some (to_unode (FDir es))" "regular (FDir es)" "tree_ok (FDir es)"
    and ok: "tree_ok (hfs w)" "tree_ok (mfs (ext w))" "mkdirs mp (mfs (ext w)) = Some t"
    and tmp: "\<And>x. fst (os_MkdirTemp (osEnv d) ''csi-ipfs-restore-'' ((locked (volumeIDFor (cv_Name req)) w)\<lparr>ext := x\<rparr>))
      = Inr (abs_path (p @ [n]))" "list_all plain_elem (p @ [n])"
  shows "\<exists>x k. CreateVolume d (from_snapshot sn req) w =
      (Inr (response (from_snapshot sn req) (sn_SnapshotId sn) (abs_path mp, False)), w\<lparr>ext := x, seqno := k\<rparr>) \<and>
    lookup (mfs x) mp = Some (FDir es) \<and>
    (\<exists>t'. mkdirs mp (removeAt mp t) = Some t' \<and> mfs x = update_at mp (\<lambda>_. FDir es) t')"
proof -
  define k where "k = volumeIDFor (cv_Name req)"
  have s: "sn_SnapshotId sn \<noteq> ''''" using laws sn(1,2) by (auto simp: kubo_laws_def law_decode_def)
  then have valid: "valid_request (from_snapshot sn req) (sn_SnapshotId sn)"
    using req(1,2) by (simp add: valid_request_def snapshotSourceID_def from_snapshot_def)
  obtain x1 where x1: "provision d (cv_Name req) '''' (mget (cv_Parameters req) paramMFSPath)
        (mget (cv_Parameters req) paramPinning \<noteq> ''false'') (locked k w)
      = (Inr (abs_path mp, False), (locked k w)\<lparr>ext := x1\<rparr>)" "mfs x1 = t" "blk x1 c = Some (to_unode (FDir es))"
    using provision_rw [OF laws d(1) req(3,2,4), of "locked k w" t] ok(3) sn(2) by fastforce
  obtain t' where t': "mkdirs mp (removeAt mp t) = Some t'" using mkdirs_again [OF ok(3) req(5) ok(2) req(4)] by blast
  obtain x2 j where x2: "restoreSnapshotToMFS d (sn_SnapshotId sn) (abs_path mp) ((locked k w)\<lparr>ext := x1\<rparr>)
      = (Inr (), (locked k w)\<lparr>ext := x2, seqno := j\<rparr>)" "mfs x2 = update_at mp (\<lambda>_. FDir es) t'" "lookup t' mp = Some (FDir [])"
    using restore_ok [OF d(1) laws d(2) req(4,5), of "(locked k w)\<lparr>ext := x1\<rparr>" c es t' p n] sn ok tmp x1 t'
      tree_ok_mkdirs [OF ok(3,2) req(4)] by (auto simp: k_def)
  have "CreateVolume d (from_snapshot sn req) w =
      (Inr (response (from_snapshot sn req) (sn_SnapshotId sn) (abs_path mp, False)), w\<lparr>ext := x2, seqno := j\<rparr>)"
    using free x1(1) x2(1) s req(2)
    by (simp add: CreateVolume_valid [OF valid] with_lock_free create_body_def bindE_def ret_def k_def releaseLock_def
        Release_def)
  with x2(2,3) t' show ?thesis by auto
qed

lemma CreateVolume_rw:
  assumes laws: "kubo_laws K mfs blk" and d: "ipfsClient d = client K (osEnv d)"
    and req: "valid_request req ''''" "mget (cv_Parameters req) paramCID = ''''"
      "normalizeMFSPath (requested_path d req) (MFSRoot (cfg d)) = Inr (abs_path mp)" "list_all plain_elem mp"
    and w: "volumeIDFor (cv_Name req) \<notin> locks (volumeLocks w)" "mkdirs mp (mfs (ext w)) = Some t"
  shows "\<exists>x. CreateVolume d req w = (Inr (response req '''' (abs_path mp, False)), w\<lparr>ext := x\<rparr>) \<and> mfs x = t"
proof -
  define k where "k = volumeIDFor (cv_Name req)"
  obtain x where "provision d (cv_Name req) '''' (mget (cv_Parameters req) paramMFSPath)
        (mget (cv_Parameters req) paramPinning \<noteq> ''false'') (locked k w)
      = (Inr (abs_path mp, False), (locked k w)\<lparr>ext := x\<rparr>)" "mfs x = t"
    using provision_rw [OF laws d req(3,2,4), of "locked k w" t] w(2) by fastforce
  with w(1) req(2) show ?thesis
    by (auto simp: CreateVolume_valid [OF req(1)] with_lock_free create_body_def bindE_def ret_def k_def releaseLock_def
        Release_def)
qed

section \<open>Deleting a volume\<close>

lemma DeleteVolume_mfs:
  assumes "kubo_laws K mfs blk" "ipfsClient d = client K (osEnv d)" "informed d L S"
    and "v \<noteq> ''''" "v \<notin> locks (volumeLocks w)"
    and "pvStore_GetVolumeAttributes L v (ext w) = Inr a" "mget (Attributes a) paramMFSPath = abs_path mp" "mp \<noteq> []"
    and "mget (Attributes a) paramReadOnly \<noteq> ''true''" "mget (Attributes a) paramCID = ''''" "list_all plain_elem mp"
  shows "\<exists>x. DeleteVolume d v w = (Inr (), w\<lparr>ext := x\<rparr>) \<and> mfs x = removeAt mp (mfs (ext w))"
proof -
  obtain x where x: "snd (client_RmMFS K (abs_path mp) (locked v w)) = (locked v w)\<lparr>ext := x\<rparr>"
    "mfs x = removeAt mp (mfs (ext w))"
    using RmMFS_any [OF assms(1,11,8), of "locked v w"] by auto
  then have "DeleteVolume d v w = (Inr (), w\<lparr>ext := x\<rparr>)"
    using assms(2-7,9,10)
    by (simp add: DeleteVolume_def with_lock_free cleanupVolumeInIPFS_def bindE_def reads_def ret_def ignoreErr_def
        Let_def client_def releaseLock_def Release_def)
  with x(2) show ?thesis by blast
qed

section \<open>Properties\<close>

text \<open>
  (C5) A volume can be cloned through a snapshot. A snapshot of a volume whose MFS directory holds
  a tree succeeds. In every later state in which what was stored is still there, whatever has become
  of the volume itself, creating a volume from the snapshot succeeds and leaves no file on the
  controller's host, and staging the new volume, with the context the driver returned for it, on any
  node whose daemon sees that MFS gives exactly the tree of the first volume and leaves the rest of
  that host alone.
\<close>

theorem clone_roundtrip:
  assumes "kubo_laws K mfs blk" "ipfsClient d = client K (osEnv d)" "calm (osEnv d)" "informed d L S"
    and "name \<noteq> ''''" "v \<noteq> ''''" "''snapshot-'' @ name \<notin> locks (volumeLocks w)"
    and "pvStore_GetVolumeAttributes L v (ext w) = Inr a" "mget (Attributes a) paramMFSPath = abs_path sp"
    and "list_all plain_elem sp" "lookup (mfs (ext w)) sp = Some (FDir es)" "regular (FDir es)" "tree_ok (FDir es)"
    and "\<And>c n. blk (ext (snd (CreateSnapshot d name v w))) c = Some n \<Longrightarrow> blk (ext w') c = Some n"
    and "cv_Name req \<noteq> ''''" "mget (cv_Parameters req) paramCID = ''''"
    and "normalizeMFSPath (requested_path d req) (MFSRoot (cfg d)) = Inr (abs_path mp)" "list_all plain_elem mp" "mp \<noteq> []"
    and "volumeIDFor (cv_Name req) \<notin> locks (volumeLocks w')"
    and "tree_ok (hfs w')" "tree_ok (mfs (ext w'))" "mkdirs mp (mfs (ext w')) \<noteq> None"
    and "\<And>x. fst (os_MkdirTemp (osEnv d) ''csi-ipfs-restore-'' ((locked (volumeIDFor (cv_Name req)) w')\<lparr>ext := x\<rparr>))
      = Inr (abs_path (p @ [n]))" "list_all plain_elem (p @ [n])"
  shows "\<exists>sn vol w''. fst (CreateSnapshot d name v w) = Inr sn \<and>
    CreateVolume d (from_snapshot sn req) w' = (Inr vol, w'') \<and> hfs w'' = hfs w' \<and>
    (\<forall>d' q u. ipfsClient d' = client K (osEnv d') \<and> calm (osEnv d') \<and> list_all plain_elem q \<and>
       tree_ok (hfs u) \<and> mkdirs q (hfs u) \<noteq> None \<and> mfs (ext u) = mfs (ext w'') \<longrightarrow>
       (\<exists>u'. NodeStageVolume d' (VolumeId vol) (abs_path q) (Some (VolumeContext vol)) u = (Inr (), u') \<and>
             lookup (hfs u') q = Some (FDir es) \<and> (\<forall>r. apart q r \<longrightarrow> lookup (hfs u') r = lookup (hfs u) r)))"
proof -
  obtain sn c where sn: "fst (CreateSnapshot d name v w) = Inr sn" "sn_SnapshotId sn = cid_String K c"
    "blk (ext w') c = Some (to_unode (FDir es))"
    using CreateSnapshot_stores [OF assms(1,2,4-11)] assms(14) by blast
  obtain t where t: "mkdirs mp (mfs (ext w')) = Some t" using assms(23) by blast
  let ?vol = "response (from_snapshot sn req) (sn_SnapshotId sn) (abs_path mp, False)"
  obtain x k where cv: "CreateVolume d (from_snapshot sn req) w' = (Inr ?vol, w'\<lparr>ext := x, seqno := k\<rparr>)"
    "lookup (mfs x) mp = Some (FDir es)"
    using CreateVolume_from_snapshot [OF assms(1-3,15-20) sn(2,3) assms(12,13,21,22) t assms(24,25)] by blast
  have vol: "VolumeId ?vol \<noteq> ''''" "mget (VolumeContext ?vol) paramCID = ''''"
    "mget (VolumeContext ?vol) paramMFSPath = abs_path mp"
    using assms(16) by (simp_all add: response_def volumeIDFor_def)
  have "\<exists>u'. NodeStageVolume d' (VolumeId ?vol) (abs_path q) (Some (VolumeContext ?vol)) u = (Inr (), u') \<and>
      lookup (hfs u') q = Some (FDir es) \<and> (\<forall>r. apart q r \<longrightarrow> lookup (hfs u') r = lookup (hfs u) r)"
    if u: "ipfsClient d' = client K (osEnv d')" "calm (osEnv d')" "list_all plain_elem q" "tree_ok (hfs u)"
      "mkdirs q (hfs u) = Some tq" "mfs (ext u) = mfs x" for d' q u tq
    using NodeStageVolume_mfs [OF u(1) assms(1) u(2) vol(1) u(3) assms(18) u(4,5) vol(2,3) _ assms(12,13)]
      cv(2) u(6) emptied_tree [OF u(3-5)] by fastforce
  with sn(1) cv show ?thesis by fastforce
qed

theorem clone_roundtrip_witness:
  "\<exists>sn vol w'' u'. fst (CreateSnapshot toy_driver ''s'' ''m'' toy_world) = Inr sn \<and>
     CreateVolume toy_driver (from_snapshot sn (example_request [paramMFSPath \<mapsto> ''/csi/n'']))
       (toy_world\<lparr>ext := (ext toy_world)\<lparr>toy_blocks := toy_blocks (ext (snd (CreateSnapshot toy_driver ''s'' ''m'' toy_world)))\<rparr>\<rparr>)
       = (Inr vol, w'') \<and>
     NodeStageVolume toy_driver (VolumeId vol) (abs_path [''var'', ''x'']) (Some (VolumeContext vol)) (w''\<lparr>hfs := FDir []\<rparr>)
       = (Inr (), u') \<and> lookup (hfs u') [''var'', ''x''] = Some (FDir toy_files)"
proof -
  have mp: "abs_path [''csi'', ''m''] = ''/csi/m''" by (simp add: abs_path_def)
  have norm: "normalizeMFSPath (requested_path toy_driver (example_request [paramMFSPath \<mapsto> ''/csi/n''])) (MFSRoot (cfg toy_driver))
      = Inr (abs_path [''csi'', ''n''])" by code_simp
  let ?x = "(ext toy_world)\<lparr>toy_blocks := toy_blocks (ext (snd (CreateSnapshot toy_driver ''s'' ''m'' toy_world)))\<rparr>"
  let ?w = "toy_world\<lparr>ext := ?x\<rparr>"
  let ?req = "example_request [paramMFSPath \<mapsto> ''/csi/n'']"
  have blk: "toy_blk ?x = toy_blk (ext (snd (CreateSnapshot toy_driver ''s'' ''m'' toy_world)))"
    by (simp add: fun_eq_iff toy_blk_def)
  have free: "k \<notin> locks (volumeLocks toy_world)" for k by (simp add: toy_world_def NewVolumeLocks_def)
  have temp: "fst (os_MkdirTemp (osEnv toy_driver) ''csi-ipfs-restore-'' ((locked k ?w)\<lparr>ext := x\<rparr>))
      = Inr (abs_path ([''tmp''] @ [''csi-ipfs-restore-0'']))" for x k
    using toy_temp [where x = x] by simp
  obtain sn vol w'' where sn: "fst (CreateSnapshot toy_driver ''s'' ''m'' toy_world) = Inr sn"
    "CreateVolume toy_driver (from_snapshot sn ?req) ?w = (Inr vol, w'')"
    "\<forall>d' q u. ipfsClient d' = client toy_Kubo (osEnv d') \<and> calm (osEnv d') \<and> list_all plain_elem q \<and>
       tree_ok (hfs u) \<and> mkdirs q (hfs u) \<noteq> None \<and> toy_mfs (ext u) = toy_mfs (ext w'') \<longrightarrow>
       (\<exists>u'. NodeStageVolume d' (VolumeId vol) (abs_path q) (Some (VolumeContext vol)) u = (Inr (), u') \<and>
             lookup (hfs u') q = Some (FDir toy_files) \<and> (\<forall>r. apart q r \<longrightarrow> lookup (hfs u') r = lookup (hfs u) r))"
    using clone_roundtrip [OF toy_laws toy_facts(2,3,1) _ _ free example_mfs_get _ toy_paths(2) toy_trees(6,2,1) _ _ _ norm
        toy_paths(3) _ _ _ _ _ temp toy_paths(5), where name = "''s''"]
      toy_trees(3,4,8) mp blk free by auto
  have "mkdirs [''var'', ''x''] (FDir []) \<noteq> None" by simp
  with sn(3) [rule_format, of toy_driver "[''var'', ''x'']" "w''\<lparr>hfs := FDir []\<rparr>"] toy_facts(2,3) toy_paths(4)
  obtain u' where "NodeStageVolume toy_driver (VolumeId vol) (abs_path [''var'', ''x'']) (Some (VolumeContext vol)) (w''\<lparr>hfs := FDir []\<rparr>)
       = (Inr (), u')" "lookup (hfs u') [''var'', ''x''] = Some (FDir toy_files)" by (auto simp: tree_ok_empty)
  with sn(1,2) show ?thesis by blast
qed

text \<open>
  (C23) Creation can be repeated. Creating a read-write volume makes its directory, and leaves the
  rest of MFS alone. A later repetition of the same request, as the external provisioner sends it
  after a lost answer, succeeds with the same response and changes nothing in MFS, whatever has been
  written to the volume in the meantime.
\<close>

theorem CreateVolume_repeatable:
  assumes "kubo_laws K mfs blk" "ipfsClient d = client K (osEnv d)"
    and "valid_request req ''''" "mget (cv_Parameters req) paramCID = ''''"
    and "normalizeMFSPath (requested_path d req) (MFSRoot (cfg d)) = Inr (abs_path mp)" "list_all plain_elem mp"
    and "volumeIDFor (cv_Name req) \<notin> locks (volumeLocks w)" "mkdirs mp (mfs (ext w)) \<noteq> None"
    and "volumeIDFor (cv_Name req) \<notin> locks (volumeLocks w')" "tree_ok (mfs (ext w'))"
    and "lookup (mfs (ext w')) mp = Some (FDir es)"
  shows "\<exists>vol x y. CreateVolume d req w = (Inr vol, w\<lparr>ext := x\<rparr>) \<and> (\<exists>ds. lookup (mfs x) mp = Some (FDir ds)) \<and>
    (\<forall>r. apart mp r \<longrightarrow> lookup (mfs x) r = lookup (mfs (ext w)) r) \<and>
    CreateVolume d req w' = (Inr vol, w'\<lparr>ext := y\<rparr>) \<and> mfs y = mfs (ext w')"
proof -
  obtain t where t: "mkdirs mp (mfs (ext w)) = Some t" using assms(8) by blast
  from CreateVolume_rw [OF assms(1-7) t]
    CreateVolume_rw [OF assms(1-6,9) mkdirs_dir [OF assms(10,11)]]
    mkdirs_lookup [OF t] mkdirs_apart [OF t]
  show ?thesis by metis
qed

theorem CreateVolume_repeatable_witness:
  "\<exists>vol w1 w2. CreateVolume toy_driver (example_request [paramMFSPath \<mapsto> ''/csi/m''])
       (toy_world\<lparr>ext := (ext toy_world)\<lparr>toy_mfs := FDir []\<rparr>\<rparr>) = (Inr vol, w1) \<and>
     CreateVolume toy_driver (example_request [paramMFSPath \<mapsto> ''/csi/m'']) toy_world = (Inr vol, w2) \<and>
     lookup (toy_mfs (ext w2)) [''csi'', ''m''] = Some (FDir toy_files)"
proof -
  let ?w = "toy_world\<lparr>ext := (ext toy_world)\<lparr>toy_mfs := FDir []\<rparr>\<rparr>"
  let ?req = "example_request [paramMFSPath \<mapsto> ''/csi/m'']"
  have norm: "normalizeMFSPath (requested_path toy_driver ?req) (MFSRoot (cfg toy_driver))
      = Inr (abs_path [''csi'', ''m''])" by code_simp
  have free: "k \<notin> locks (volumeLocks toy_world)" "k \<notin> locks (volumeLocks ?w)" for k
    by (simp_all add: toy_world_def NewVolumeLocks_def)
  have cid: "mget (cv_Parameters ?req) paramCID = ''''" by (simp add: mget_def param_defs)
  have "mkdirs [''csi'', ''m''] (toy_mfs (ext ?w)) \<noteq> None" by simp
  from CreateVolume_repeatable [OF toy_laws toy_facts(2) example_valid cid norm toy_paths(2) free(2) this free(1) toy_trees(4,6)]
  obtain vol x y where "CreateVolume toy_driver ?req ?w = (Inr vol, ?w\<lparr>ext := x\<rparr>)"
    "CreateVolume toy_driver ?req toy_world = (Inr vol, toy_world\<lparr>ext := y\<rparr>)" "toy_mfs y = toy_mfs (ext toy_world)"
    by metis
  with toy_trees(6) show ?thesis by (intro exI [of _ vol]) (simp add: prod_eq_iff)
qed

text \<open>
  (C7) A volume made from a CID has that content. Every volume \<open>CreateVolume\<close> returns for a request
  with a CID is read-only, and staging it later with the context of the response, on any node
  whose daemon has the content, succeeds and gives exactly that content: the tree of a directory, or
  a directory with the file under the name \<open>data\<close>. The rest of the host and MFS stay as they were.
\<close>

theorem cid_volume_content:
  assumes "CreateVolume d req w = (Inr vol, w1)" "mget (cv_Parameters req) paramCID = cid_String K c"
    and "kubo_laws K mfs blk" "ipfsClient n = client K (osEnv n)" "calm (osEnv n)"
    and "blk (ext w2) c = Some (to_unode m)" "regular m" "tree_ok m"
    and "list_all plain_elem p" "tree_ok (hfs w2)" "mkdirs p (hfs w2) \<noteq> None"
  shows "mget (VolumeContext vol) paramReadOnly = ''true'' \<and>
    (\<exists>x t. NodeStageVolume n (VolumeId vol) (abs_path p) (Some (VolumeContext vol)) w2 = (Inr (), w2\<lparr>ext := x, hfs := t\<rparr>) \<and>
       lookup t p = Some (FDir (staged_entries m)) \<and> (\<forall>q. apart p q \<longrightarrow> lookup t q = lookup (hfs w2) q) \<and>
       mfs x = mfs (ext w2))"
proof -
  have c: "cid_String K c \<noteq> ''''" using assms(3,6) by (auto simp: kubo_laws_def law_decode_def)
  have ok: "response_ok d req vol" using wpE_Inr [OF CreateVolume_wp assms(1)] .
  have id: "VolumeId vol \<noteq> ''''" using ok by (simp add: response_ok_def volumeIDFor_def)
  have ctx: "mget (VolumeContext vol) paramCID = cid_String K c" "mget (VolumeContext vol) paramReadOnly = ''true''"
    using ok assms(2) c by (simp_all add: response_ok_def)
  obtain t where t: "mkdirs p (hfs w2) = Some t" using assms(11) by blast
  from NodeStageVolume_cid [OF assms(4,3,5) id assms(9,10) t ctx(1) assms(6-8)]
    emptied_tree [OF assms(9,10) t] ctx(2) show ?thesis by blast
qed

text \<open>A state in which the files are also stored under a CID, for examples.\<close>

definition stored_world :: "toy world" where
  "stored_world = toy_world\<lparr>ext := (ext toy_world)\<lparr>toy_blocks := [to_unode (FDir toy_files)]\<rparr>\<rparr>"

theorem cid_volume_content_witness:
  "\<exists>vol w1 w2. CreateVolume toy_driver (example_request [paramCID \<mapsto> ''c'']) stored_world = (Inr vol, w1) \<and>
     NodeStageVolume toy_driver (VolumeId vol) (abs_path [''var'', ''x'']) (Some (VolumeContext vol)) stored_world = (Inr (), w2) \<and>
     lookup (hfs w2) [''var'', ''x''] = Some (FDir toy_files)"
proof -
  have "case fst (CreateVolume toy_driver (example_request [paramCID \<mapsto> ''c'']) stored_world) of Inl _ \<Rightarrow> False | Inr _ \<Rightarrow> True"
    by code_simp
  then obtain vol w1 where vol: "CreateVolume toy_driver (example_request [paramCID \<mapsto> ''c'']) stored_world = (Inr vol, w1)"
    by (cases "CreateVolume toy_driver (example_request [paramCID \<mapsto> ''c'']) stored_world") (auto split: sum.splits)
  have stored: "toy_blk (ext stored_world) ''c'' = Some (to_unode (FDir toy_files))"
    "tree_ok (hfs stored_world)" "mkdirs [''var'', ''x''] (hfs stored_world) \<noteq> None"
    using toy_trees(3) by (simp_all add: stored_world_def toy_blk_def) (simp add: toy_world_def)
  have cid: "mget (cv_Parameters (example_request [paramCID \<mapsto> ''c''])) paramCID = cid_String toy_Kubo ''c''"
    by (simp add: mget_def toy_Kubo_def)
  from cid_volume_content [OF vol cid toy_laws toy_facts(2,3) stored(1) toy_trees(2,1) toy_paths(4) stored(2,3)]
  obtain x t where "NodeStageVolume toy_driver (VolumeId vol) (abs_path [''var'', ''x'']) (Some (VolumeContext vol)) stored_world
      = (Inr (), stored_world\<lparr>ext := x, hfs := t\<rparr>)" "lookup t [''var'', ''x''] = Some (FDir toy_files)" by auto
  with vol show ?thesis by fastforce
qed

text \<open>
  (C19) The MFS path of a volume made from a CID is not checked. If the request has a CID and no MFS
  path, a snapshot of the volume is refused as an invalid argument and nothing is changed. If it has
  an MFS path too, which \<open>CreateVolume\<close> passes on without comparing it to the root, a snapshot of the
  read-only volume is taken, and it is not of the content of the volume but of whatever MFS
  has at that path, which can be anywhere and belong to another volume.
\<close>

theorem cid_volume_snapshot:
  assumes "CreateVolume d req w = (Inr vol, w1)" "mget (cv_Parameters req) paramCID \<noteq> ''''"
    and "kubo_laws K mfs blk" "ipfsClient d = client K (osEnv d)" "informed d L S" "lister_ok L (ext w2)"
    and "pvStore_GetVolumeAttributes L (VolumeId vol) (ext w2) = Inr a" "Attributes a = VolumeContext vol"
    and "name \<noteq> ''''" "''snapshot-'' @ name \<notin> locks (volumeLocks w2)"
  shows "mget (VolumeContext vol) paramReadOnly = ''true'' \<and>
    (mget (cv_Parameters req) paramMFSPath = '''' \<longrightarrow>
       (\<exists>e. CreateSnapshot d name (VolumeId vol) w2 = (Inl e, w2) \<and> status_Code e = InvalidArgument)) \<and>
    (\<forall>sp m. mget (cv_Parameters req) paramMFSPath = abs_path sp \<longrightarrow> list_all plain_elem sp \<longrightarrow>
       lookup (mfs (ext w2)) sp = Some m \<longrightarrow>
       (\<exists>sn c. fst (CreateSnapshot d name (VolumeId vol) w2) = Inr sn \<and> sn_SnapshotId sn = cid_String K c \<and>
          blk (ext (snd (CreateSnapshot d name (VolumeId vol) w2))) c = Some (to_unode m)))"
proof -
  have ok: "response_ok d req vol" using wpE_Inr [OF CreateVolume_wp assms(1)] .
  have id: "VolumeId vol \<noteq> ''''" using ok by (simp add: response_ok_def volumeIDFor_def)
  have ro: "mget (VolumeContext vol) paramReadOnly = ''true''"
    and path: "mget (Attributes a) paramMFSPath = mget (cv_Parameters req) paramMFSPath"
    using ok assms(2,8) by (simp_all add: response_ok_def)
  have "\<exists>e. CreateSnapshot d name (VolumeId vol) w2 = (Inl e, w2) \<and> status_Code e = InvalidArgument"
    if "mget (cv_Parameters req) paramMFSPath = ''''"
    using CreateSnapshot_spec [OF assms(9) id assms(10,5,6)] that path assms(7) by simp
  with ro CreateSnapshot_stores [OF assms(3,4,5,9) id assms(10,7)] path show ?thesis by auto
qed

text \<open>A cache with one volume, which has the given attributes, for examples.\<close>

definition one_PVLister :: "string \<Rightarrow> gomap \<Rightarrow> 'w PVLister" where
  "one_PVLister v attrs =
     \<lparr>pvl_Get = (\<lambda>n w. Inl (ExtErr ''not found'')),
      pvl_List = (\<lambda>w. Inr [\<lparr>pv_Name = ''pv-1'', pv_CSI = Some \<lparr>csi_Driver = DefaultDriverName, csi_VolumeHandle = v,
        csi_VolumeAttributes = attrs\<rparr>, pv_Storage = None\<rparr>])\<rparr>"

lemma one_PVLister_get:
  "\<exists>a. pvStore_GetVolumeAttributes (one_PVLister v attrs) v x = Inr a \<and> Attributes a = attrs"
  "lister_ok (one_PVLister v attrs) x"
  by (simp_all add: pvStore_GetVolumeAttributes_def pv_list_lookup_def one_PVLister_def has_handle_def pvToAttributes_def
      Let_def lister_ok_def)

definition with_PVLister :: "'x Driver \<Rightarrow> 'x PVLister \<Rightarrow> 'x Driver" where
  "with_PVLister d L = d\<lparr>volumeStore := NewVolumeStoreFromPVLister (ext_PVLister L)\<rparr>"

text \<open>The root of the volumes is \<open>/csi\<close>; the path of this one is \<open>/other\<close>.\<close>

theorem cid_volume_snapshot_witness:
  "\<exists>vol w1 sn c. let d = with_PVLister toy_driver (one_PVLister (VolumeId vol) (VolumeContext vol));
       w2 = stored_world\<lparr>ext := (ext stored_world)\<lparr>toy_mfs := FDir [(''other'', FFile ''secret'')]\<rparr>\<rparr>
     in CreateVolume d (example_request [paramCID \<mapsto> ''c'', paramMFSPath \<mapsto> ''/other'']) stored_world = (Inr vol, w1) \<and>
        MFSRoot (cfg d) = ''/csi'' \<and> fst (CreateSnapshot d ''s'' (VolumeId vol) w2) = Inr sn \<and> sn_SnapshotId sn = c \<and>
        toy_blk (ext (snd (CreateSnapshot d ''s'' (VolumeId vol) w2))) c = Some (UFile ''secret'')"
proof -
  let ?req = "example_request [paramCID \<mapsto> ''c'', paramMFSPath \<mapsto> ''/other'']"
  let ?vol = "response ?req '''' (''/other'', True)"
  define L :: "toy PVLister" where "L = one_PVLister (VolumeId ?vol) (VolumeContext ?vol)"
  define d where "d = with_PVLister toy_driver L"
  let ?w2 = "stored_world\<lparr>ext := (ext stored_world)\<lparr>toy_mfs := FDir [(''other'', FFile ''secret'')]\<rparr>\<rparr>"
  have d: "ipfsClient d = client toy_Kubo (osEnv d)" "informed d L (Some example_VSCLister)" "cfg d = example_cfg"
    using toy_facts by (simp_all add: d_def with_PVLister_def informed_def toy_driver_def)
  have free: "k \<notin> locks (volumeLocks stored_world)" for k
    by (simp add: stored_world_def toy_world_def NewVolumeLocks_def)
  have "client_StatCID toy_Kubo ''c'' w = (Inr True, w)" if "ext w = ext stored_world" for w :: "toy world"
    using that by (simp add: client_StatCID_def parseCIDPath_def toy_Kubo_def toy_blk_def stored_world_def)
  moreover have "client_PinCID toy_Kubo ''c'' w = (Inr (), w)" for w :: "toy world"
    by (simp add: client_PinCID_def parseCIDPath_def toy_Kubo_def mapErr_def api_def)
  ultimately have vol: "CreateVolume d ?req stored_world = (Inr ?vol, stored_world)"
    using free d(1)
    by (simp add: CreateVolume_valid [OF example_valid] with_lock_free create_body_def provision_def provision_cid_def
        bindE_def mapErr_def attempt_def ret_def client_def mget_def param_defs)
  obtain a where a: "pvStore_GetVolumeAttributes L (VolumeId ?vol) (ext ?w2) = Inr a" "Attributes a = VolumeContext ?vol"
    "lister_ok L (ext ?w2)"
    using one_PVLister_get [of "VolumeId ?vol" "VolumeContext ?vol" "ext ?w2"] unfolding L_def by blast
  have req: "mget (cv_Parameters ?req) paramCID \<noteq> ''''" "mget (cv_Parameters ?req) paramMFSPath = abs_path [''other'']"
    "list_all plain_elem [''other'']" "lookup (toy_mfs (ext ?w2)) [''other''] = Some (FFile ''secret'')"
    by (simp_all add: mget_def param_defs abs_path_def plain_elem_def)
  have name: "''s'' \<noteq> ''''" "''snapshot-'' @ ''s'' \<notin> locks (volumeLocks ?w2)" using free by simp_all
  from cid_volume_snapshot [OF vol req(1) toy_laws d(1,2) a(3,1,2) name,
      THEN conjunct2, THEN conjunct2, rule_format, OF req(2,3,4)]
  obtain sn c where "fst (CreateSnapshot d ''s'' (VolumeId ?vol) ?w2) = Inr sn" "sn_SnapshotId sn = c"
    "toy_blk (ext (snd (CreateSnapshot d ''s'' (VolumeId ?vol) ?w2))) c = Some (UFile ''secret'')"
    by (auto simp: toy_Kubo_def)
  with vol d(3) show ?thesis
    unfolding Let_def d_def L_def by (intro exI conjI) (auto simp: example_cfg_def)
qed

end
