(* ===== verification/Restoring.thy ===== *)
theory Restoring
  imports Lifecycle
begin

text \<open>
  Creating a volume leaves nothing behind on the host of the controller, also when it fails. A
  volume is restored from a snapshot through a temporary directory; whatever the daemon does at any
  call, what was written to that directory is removed, and nothing was written elsewhere.
\<close>

section \<open>What is relied on\<close>

text \<open>
  \<open>files.WriteTo\<close> writes below the directory of its path only, also when it fails. The names of the
  entries of a directory are plain; the code joins them to a path without a check. The names of
  temporary directories are those of a file.
\<close>

definition confined_write :: "'x KuboAPI \<Rightarrow> bool" where
  "confined_write K \<longleftrightarrow> (\<forall>nd p n t es. list_all plain_elem (p @ [n]) \<longrightarrow> lookup t p = Some (FDir es) \<longrightarrow>
     (\<exists>fs. snd (files_WriteTo K nd (abs_path (p @ [n])) t) = update_at p (\<lambda>_. FDir fs) t))"

definition plain_names :: "'x KuboAPI \<Rightarrow> bool" where
  "plain_names K \<longleftrightarrow> (\<forall>c x es err x'. Unixfs_Get K c x = (Inr (UDir es err), x') \<longrightarrow> (\<forall>e \<in> set es. plain_elem (fst e)))"

definition temp_names :: "'x OS \<Rightarrow> bool" where
  "temp_names E \<longleftrightarrow> (\<forall>k. \<exists>p n. temp_prefix E ''csi-ipfs-restore-'' @ os_rand E k = abs_path (p @ [n]) \<and>
     list_all plain_elem (p @ [n]))"

definition restore_laws :: "'x KuboAPI \<Rightarrow> 'x OS \<Rightarrow> bool" where
  "restore_laws K E \<longleftrightarrow> calm E \<and> confined_write K \<and> plain_names K \<and> temp_names E"

section \<open>Writing below a directory\<close>

definition only_below :: "string list \<Rightarrow> 'x world \<Rightarrow> 'x world \<Rightarrow> bool" where
  "only_below p w w' \<longleftrightarrow> (\<forall>es. lookup (hfs w) p = Some (FDir es) \<longrightarrow>
     hfs w' = hfs w \<or> (\<exists>fs. hfs w' = update_at p (\<lambda>_. FDir fs) (hfs w)))"

lemma only_below_trans:
  assumes "only_below p u v" "only_below p v w"
  shows "only_below p u w"
  unfolding only_below_def
proof (intro allI impI)
  fix es
  assume es: "lookup (hfs u) p = Some (FDir es)"
  then consider "hfs v = hfs u" | fs where "hfs v = update_at p (\<lambda>_. FDir fs) (hfs u)"
    using assms(1) by (auto simp: only_below_def)
  then show "hfs w = hfs u \<or> (\<exists>fs. hfs w = update_at p (\<lambda>_. FDir fs) (hfs u))"
  proof cases
    case 1
    with assms(2) es show ?thesis by (simp add: only_below_def)
  next
    case (2 fs)
    with es have "lookup (hfs v) p = Some (FDir fs)" by simp
    with assms(2) 2 show ?thesis by (auto simp: only_below_def update_update comp_def)
  qed
qed

context state_frame
begin

lemma stays_bindE_result:
  assumes "stays R m" "\<And>w a w'. m w = (Inr a, w') \<Longrightarrow> stays R (f a)"
  shows "stays R (bindE m f)"
proof (rule staysI)
  fix w
  obtain r w' where m: "m w = (r, w')" by fastforce
  with assms(1) have "R w w'" by (rule stays_pair)
  moreover have "R w' (snd (f a w'))" if "r = Inr a" for a using assms(2) m that by (blast intro: staysD)
  ultimately show "R w (snd (bindE m f w))"
    using m by (auto simp: bindE_def split: sum.split intro: trans)
qed

end

interpretation below: state_frame "only_below p" for p
  by unfold_locales (simp add: only_below_def, rule only_below_trans)

lemma write_to_below:
  assumes "confined_write K" "list_all plain_elem p" "plain_elem n"
  shows "stays (only_below p) (write_to K nd (abs_path (p @ [n])))"
proof (rule staysI)
  fix w :: "'a world"
  have "hfs (snd (write_to K nd q w)) = snd (files_WriteTo K nd q (hfs w))" for q
    by (simp add: write_to_def split: prod.split option.split)
  moreover have "\<exists>fs. snd (files_WriteTo K nd (abs_path (p @ [n])) (hfs w)) = update_at p (\<lambda>_. FDir fs) (hfs w)"
    if "lookup (hfs w) p = Some (FDir es)" for es
    using assms that unfolding confined_write_def by auto
  ultimately show "only_below p w (snd (write_to K nd (abs_path (p @ [n])) w))"
    unfolding only_below_def by auto
qed

lemma write_children_below:
  assumes "confined_write K" "list_all plain_elem p"
  shows "(\<forall>e \<in> set es. plain_elem (fst e)) \<Longrightarrow> stays (only_below p) (write_children K (abs_path p) es)"
proof (induction es)
  case (Cons e es)
  obtain c n where "e = (c, n)" by (cases e)
  with Cons assms write_to_below [OF assms, of c n] show ?case
    by (auto simp: Let_def intro!: stays)
qed (simp add: stays)

lemma writeNodeToDir_below:
  assumes "confined_write K" "plain_names K" "list_all plain_elem p" "Unixfs_Get K c x = (Inr nd, x')"
  shows "stays (only_below p) (writeNodeToDir K nd (abs_path p))"
proof (cases nd)
  case (UDir es err)
  with assms(2,4) have "\<forall>e \<in> set es. plain_elem (fst e)" unfolding plain_names_def by blast
  from write_children_below [OF assms(1,3) this] show ?thesis
    by (auto simp: UDir writeNodeToDir_def intro!: stays)
next
  case (UFile b)
  have "plain_elem ''data''" by (simp add: plain_elem_def)
  from write_to_below [OF assms(1,3) this] this assms(3) show ?thesis
    by (simp add: UFile writeNodeToDir_def)
qed (auto simp: writeNodeToDir_def intro!: stays)

lemma GetCIDContent_below:
  assumes "confined_write K" "plain_names K" "list_all plain_elem p"
  shows "stays (only_below p) (client_GetCIDContent K cid (abs_path p))"
proof -
  have "stays (only_below p) (mapErr g (writeNodeToDir K nd (abs_path p)))"
    if "mapErr h (api (Unixfs_Get K c)) w = (Inr nd, w')" for g h c nd and w w' :: "'a world"
  proof -
    from that obtain x' where "Unixfs_Get K c (ext w) = (Inr nd, x')"
      by (auto simp: mapErr_def api_def split: prod.splits sum.splits)
    from writeNodeToDir_below [OF assms this] show ?thesis by (rule stays_mapErr)
  qed
  moreover have "stays (only_below p) (mapErr h (api (Unixfs_Get K c)))" for h c
    by (intro stays stays_api) (simp add: only_below_def)
  ultimately show ?thesis
    unfolding client_GetCIDContent_def by (auto split: sum.split intro!: below.stays_bindE_result below.stays_throw)
qed

section \<open>Temporary directories\<close>

lemma mkdirTemp_try_any:
  assumes "calm E"
  shows "(case fst (mkdirTemp_try E prefix n w) of
      Inl e \<Rightarrow> hfs (snd (mkdirTemp_try E prefix n w)) = hfs w
    | Inr name \<Rightarrow> \<exists>k. name = temp_prefix E prefix @ os_rand E k)"
proof (induction n arbitrary: w)
  case (Suc n)
  have "os_fault E ''mkdir'' p w = None" for p using assms by (simp add: calm_def)
  with Suc.IH [of "w\<lparr>seqno := Suc (seqno w)\<rparr>"] show ?case
    by (auto simp: Let_def split: option.split sum.splits)
qed simp

lemma MkdirTemp_error: "calm E \<Longrightarrow> os_MkdirTemp E prefix w = (Inl e, w') \<Longrightarrow> hfs w' = hfs w"
  using mkdirTemp_try_any [of E prefix 10000 w] by (simp add: os_MkdirTemp_def)

lemma MkdirTemp_name:
  assumes "calm E" "temp_names E" "os_MkdirTemp E ''csi-ipfs-restore-'' w = (Inr name, w')"
  obtains p n where "name = abs_path (p @ [n])" "list_all plain_elem (p @ [n])"
proof -
  obtain k where "name = temp_prefix E ''csi-ipfs-restore-'' @ os_rand E k"
    using mkdirTemp_try_any [OF assms(1), of "''csi-ipfs-restore-''" 10000 w] assms(3) by (auto simp: os_MkdirTemp_def)
  with assms(2) that show thesis unfolding temp_names_def by metis
qed

section \<open>Restoring\<close>

definition same_host :: "'x KuboAPI \<Rightarrow> 'x OS \<Rightarrow> 'x world \<Rightarrow> 'x world \<Rightarrow> bool" where
  "same_host K E w w' \<longleftrightarrow> (restore_laws K E \<longrightarrow> tree_ok (hfs w) \<longrightarrow> hfs w' = hfs w)"

interpretation host_same: import_frame "same_host K E" E K for K E
  by unfold_locales (auto simp: same_host_def restore_laws_def calm_def intro!: stays_api)

interpretation host_same_locked: lock_frame "same_host K E" for K E
  by unfold_locales (simp add: same_host_def)

text \<open>Fetching content to a new temporary directory, using it and removing it.\<close>

lemma tmp_body:
  assumes laws: "restore_laws K E" and ok: "tree_ok (hfs w)"
    and tmp: "os_MkdirTemp E ''csi-ipfs-restore-'' w = (Inr name, w1)"
    and body: "\<And>p. name = abs_path p \<Longrightarrow> list_all plain_elem p \<Longrightarrow> stays (only_below p) m"
  shows "hfs (snd (deferring (\<lambda>w. snd (os_RemoveAll E name w)) m w1)) = hfs w"
proof -
  have calm: "calm E" using laws by (simp add: restore_laws_def)
  obtain p n where name: "name = abs_path (p @ [n])" and q: "list_all plain_elem (p @ [n])"
    using MkdirTemp_name [OF calm _ tmp] laws unfolding restore_laws_def by blast
  from tmp name have "os_MkdirTemp E ''csi-ipfs-restore-'' w = (Inr (abs_path (p @ [n])), w1)" by simp
  from MkdirTemp_ok [OF calm this q ok] obtain k t ds where w1: "w1 = w\<lparr>seqno := k, hfs := t\<rparr>"
    and t: "t = update_at p (put_name n (FDir [])) (hfs w)"
    and ds: "lookup (hfs w) p = Some (FDir ds)" "map_of ds n = None"
    and l: "lookup t (p @ [n]) = Some (FDir [])" "tree_ok t" by blast
  obtain r w2 where m: "m w1 = (r, w2)" by fastforce
  have "hfs w2 = update_at (p @ [n]) id t \<or> (\<exists>fs. hfs w2 = update_at (p @ [n]) (\<lambda>_. FDir fs) t)"
    using stays_pair [OF body [OF name q] m] l update_same [OF l(2,1), of id] w1 by (auto simp: only_below_def)
  then have "removeAt (p @ [n]) (hfs w2) = hfs w"
    unfolding t using remove_stored [OF ok ds] by auto
  with m q calm name show ?thesis by (simp add: deferring_def os_RemoveAll_def)
qed

lemma stays_in_temp:
  assumes "\<And>p. restore_laws K E \<Longrightarrow> list_all plain_elem p \<Longrightarrow> stays (only_below p) (m (abs_path p))"
  shows "stays (same_host K E) (bindE (mapErr f (os_MkdirTemp E ''csi-ipfs-restore-''))
    (\<lambda>tmpDir. deferring (\<lambda>w. snd (os_RemoveAll E tmpDir w)) (m tmpDir)))" (is "stays _ ?prog")
proof (rule staysI, unfold same_host_def, intro impI)
  fix w :: "'a world"
  assume *: "restore_laws K E" "tree_ok (hfs w)"
  obtain r w1 where tmp: "os_MkdirTemp E ''csi-ipfs-restore-'' w = (r, w1)" by fastforce
  show "hfs (snd (?prog w)) = hfs w"
  proof (cases r)
    case (Inl e)
    with tmp * show ?thesis by (auto simp: bindE_def mapErr_def restore_laws_def dest: MkdirTemp_error)
  next
    case (Inr name)
    with tmp have name: "os_MkdirTemp E ''csi-ipfs-restore-'' w = (Inr name, w1)" by simp
    show ?thesis
      using tmp_body [OF * name, of "m name"] assms [OF *(1)] name by (auto simp: bindE_def mapErr_def)
  qed
qed

lemma ImportToMFS_below: "calm E \<Longrightarrow> stays (only_below p) (client_ImportToMFS K E l m)"
  using staysD [OF files_kept.stays_ImportToMFS, of E _ K l m]
  by (intro staysI) (simp add: same_files_def only_below_def)

lemma stays_restore_host:
  assumes "ipfsClient d = client K (osEnv d)"
  shows "stays (same_host K (osEnv d)) (restoreSnapshotToMFS d s mp)"
proof -
  have body: "stays (only_below p) (bindE (mapErr g (client_GetCIDContent K s (abs_path p)))
      (\<lambda>_. mapErr h (client_ImportToMFS K (osEnv d) (abs_path p) mp)))"
    if "restore_laws K (osEnv d)" "list_all plain_elem p" for p g h
    using that GetCIDContent_below [of K p] ImportToMFS_below [of "osEnv d" p]
    by (intro stays) (auto simp: restore_laws_def)
  show ?thesis
    unfolding restoreSnapshotToMFS_def assms client_def Client.simps
    by (rule host_same.stays_bindE, intro stays_mapErr host_same.stays_StatCID)
      (intro stays_if host_same.stays_throw stays_in_temp body)
qed

lemma stays_CreateVolume_host:
  assumes "ipfsClient d = client K (osEnv d)"
  shows "stays (same_host K (osEnv d)) (CreateVolume d req)"
proof -
  have cl: "StatCID (ipfsClient d) = client_StatCID K" "PinCID (ipfsClient d) = client_PinCID K"
    "MkdirMFS (ipfsClient d) = client_MkdirMFS K" by (simp_all add: assms client_def)
  show ?thesis
    unfolding CreateVolume_def provision_def provision_cid_def provision_mfs_def cl
    by (intro stays stays_restore_host [OF assms])
qed

text \<open>The name of an entry is joined to the path as it is; one with dot-dot elements leads elsewhere.\<close>

lemma child_path_unchecked:
  "write_children K ''/stage'' [(''../etc/x'', nd)] =
     bindE (mapErr (ErrorfW ''write child %s to %s: %w'' [''../etc/x'', ''/etc/x'']) (write_to K nd ''/etc/x'')) (\<lambda>_. ret ())"
proof -
  have "filepath_Join [''/stage'', ''../etc/x''] = ''/etc/x''" by code_simp
  then show ?thesis by (simp only: write_children.simps Let_def)
qed

section \<open>Properties\<close>

text \<open>
  (C8) \<open>CreateVolume\<close> leaves the host of the controller as it found it. Whatever the request is and
  whatever the daemon answers to each of the calls, and also when the call fails in the middle of
  restoring a snapshot, every file of the host is as before: the temporary directory of a restore is
  removed with all that was written to it, and nothing is written elsewhere. (The host refuses no
  call, and the entries of a directory in IPFS have plain names, which the code does not check.)
\<close>

theorem CreateVolume_leaves_no_files:
  assumes "ipfsClient d = client K (osEnv d)" "restore_laws K (osEnv d)" "tree_ok (hfs w)"
  shows "hfs (snd (CreateVolume d req w)) = hfs w"
  using staysD [OF stays_CreateVolume_host [OF assms(1)], of w req] assms(2,3) by (simp add: same_host_def)

text \<open>A daemon that has content for every CID but refuses to copy it to MFS: the restore fails half-way.\<close>

definition refusing_Kubo :: "toy KuboAPI" where
  "refusing_Kubo = toy_Kubo\<lparr>Unixfs_Get := (\<lambda>c x. (Inr (UDir [(''a'', UFile ''1'')] None), x)),
     Request := (\<lambda>cmd args opts x. if cmd = ''files/cp'' then toy_refuse x else toy_request cmd args opts x)\<rparr>"

definition refusing_driver :: "toy Driver" where
  "refusing_driver = toy_driver\<lparr>ipfsClient := client refusing_Kubo example_OS\<rparr>"

lemma digits_plain: "plain_elem (''csi-ipfs-restore-'' @ nat_digits k)"
proof -
  have "CHR ''/'' \<notin> set (nat_digits k)"
    using nat_digits_digits [of k] by (auto simp: list_all_iff is_digit_def)
  then show ?thesis by (simp add: plain_elem_def)
qed

lemma refusing_laws: "restore_laws refusing_Kubo example_OS"
proof -
  have "confined_write refusing_Kubo"
    unfolding confined_write_def
  proof (intro allI impI)
    fix nd p n t es
    assume q: "list_all plain_elem (p @ [n])" and t: "lookup t p = Some (FDir es)"
    have "update_at p (put_name n (of_unode nd)) t = update_at p (\<lambda>_. FDir (put_entry n (of_unode nd) es)) t"
      by (rule update_cong [OF t]) simp
    with q show "\<exists>fs. snd (files_WriteTo refusing_Kubo nd (abs_path (p @ [n])) t) = update_at p (\<lambda>_. FDir fs) t"
      by (auto simp: refusing_Kubo_def toy_Kubo_def)
  qed
  moreover have "plain_names refusing_Kubo"
    by (auto simp: plain_names_def refusing_Kubo_def plain_elem_def)
  moreover have "temp_names (example_OS :: toy OS)"
    unfolding temp_names_def
  proof
    fix k
    have "temp_prefix (example_OS :: toy OS) ''csi-ipfs-restore-'' @ os_rand (example_OS :: toy OS) k
        = abs_path ([''tmp''] @ [''csi-ipfs-restore-'' @ nat_digits k])"
      by (simp add: temp_prefix_def example_OS_def abs_path_def)
    moreover have "plain_elem ''tmp''" by (simp add: plain_elem_def)
    ultimately show "\<exists>p n. temp_prefix (example_OS :: toy OS) ''csi-ipfs-restore-'' @ os_rand (example_OS :: toy OS) k
        = abs_path (p @ [n]) \<and> list_all plain_elem (p @ [n])"
      using digits_plain [of k]
      by (intro exI [of _ "[''tmp'']"] exI [of _ "''csi-ipfs-restore-'' @ nat_digits k"]) auto
  qed
  ultimately show ?thesis by (simp add: restore_laws_def calm_def example_OS_def)
qed

theorem CreateVolume_leaves_no_files_witness:
  "\<exists>e w'. CreateVolume refusing_driver
       (from_snapshot \<lparr>sn_SnapshotId = ''c'', sn_SourceVolumeId = ''m'', sn_CreationTime = 0, sn_ReadyToUse = True, sn_SizeBytes = 1\<rparr>
          (example_request [paramMFSPath \<mapsto> ''/csi/n''])) toy_world = (Inl e, w') \<and> hfs w' = hfs toy_world"
proof -
  let ?req = "from_snapshot \<lparr>sn_SnapshotId = ''c'', sn_SourceVolumeId = ''m'', sn_CreationTime = 0, sn_ReadyToUse = True,
    sn_SizeBytes = 1\<rparr> (example_request [paramMFSPath \<mapsto> ''/csi/n''])"
  have "case fst (CreateVolume refusing_driver ?req toy_world) of Inl _ \<Rightarrow> True | Inr _ \<Rightarrow> False" by code_simp
  then obtain e w' where *: "CreateVolume refusing_driver ?req toy_world = (Inl e, w')"
    by (cases "CreateVolume refusing_driver ?req toy_world") (auto split: sum.splits)
  have "hfs (snd (CreateVolume refusing_driver ?req toy_world)) = hfs toy_world"
    by (rule CreateVolume_leaves_no_files [of _ refusing_Kubo])
      (simp_all add: refusing_driver_def toy_driver_def refusing_laws toy_trees(3))
  with * show ?thesis by simp
qed

end
