(* ===== verification/Volumes.thy ===== *)
theory Volumes
  imports Lifecycle
begin

text \<open>
  What the driver promises for the data of read-write volumes, as an abstract specification: a
  volume is a cell that holds a tree of files. It is created empty or with the tree of a snapshot, a node that stages it gets what
  it holds, a node that unstages it stores what it has staged, and deleting it gives it up. The
  controller and any number of nodes, with their own hosts and one MFS, are run against this
  specification: every sequence of operations, on all volumes in any order, is one the
  specification allows (a trace refinement).
\<close>

section \<open>The specification\<close>

text \<open>
  What can be seen of an operation: whether it succeeded, for a creation from a snapshot the tree
  that is stored under the snapshot's identifier, for staging the tree that is in the
  staging directory afterwards, and for unstaging the tree that was there before.
\<close>

datatype vevent =
    Created string bool | Restored string bool fnode | Staged string bool "fnode option"
  | Unstaged string bool fnode | Deleted string bool

type_synonym cells = "string \<rightharpoonup> fnode"

fun spec_step :: "vevent \<Rightarrow> cells \<Rightarrow> cells option" where
  "spec_step (Created v ok) m =
     (if \<not> ok then None else Some (case m v of None \<Rightarrow> m(v \<mapsto> FDir []) | Some t \<Rightarrow> m))"
| "spec_step (Restored v ok t) m = (if ok then Some (m(v \<mapsto> t)) else None)"
| "spec_step (Staged v ok t) m = (if ok \<and> t = m v then Some m else None)"
| "spec_step (Unstaged v ok t) m = (if ok then Some (m(v \<mapsto> t)) else None)"
| "spec_step (Deleted v ok) m = (if ok then Some (m(v := None)) else None)"

fun spec_run :: "vevent list \<Rightarrow> cells \<Rightarrow> cells option" where
  "spec_run [] m = Some m"
| "spec_run (e # tr) m = Option.bind (spec_step e m) (spec_run tr)"

lemma spec_run_snoc: "spec_run (tr @ [e]) m = Option.bind (spec_run tr m) (spec_step e)"
  by (induction tr arbitrary: m) (auto split: bind_splits)

section \<open>The machines\<close>

text \<open>
  Every machine runs a driver in its own process and on its own host; they share the daemon. A
  request runs in the world of its machine with the daemon's present state.
\<close>

record 'x fleet =
  daemon :: 'x
  machine :: "nat \<Rightarrow> 'x world"

definition on_machine :: "'x fleet \<Rightarrow> nat \<Rightarrow> 'x world" where
  "on_machine s n = (machine s n)\<lparr>ext := daemon s\<rparr>"

definition left_by :: "'x fleet \<Rightarrow> nat \<Rightarrow> 'x world \<Rightarrow> 'x fleet" where
  "left_by s n w = s\<lparr>daemon := ext w, machine := (machine s)(n := w)\<rparr>"

definition succeeded :: "gerr + 'a \<Rightarrow> bool" where
  "succeeded r \<longleftrightarrow> (case r of Inl e \<Rightarrow> False | Inr a \<Rightarrow> True)"

text \<open>
  \<open>paths\<close> says which directory of MFS a volume has. The requests are those of an orchestrator
  that knows the volumes: the path in the request, the volume context or the PersistentVolume is that
  of the volume, a volume is staged and unstaged between its creation and its deletion, from a
  directory of regular files and directories, and no file is in the way of a new directory. A
  volume is created from a snapshot while the content of the snapshot is stored and a temporary
  directory can be made.
\<close>

inductive fleet_step ::
  "'x KuboAPI \<Rightarrow> (nat \<Rightarrow> 'x Driver) \<Rightarrow> (nat \<Rightarrow> 'x PVLister) \<Rightarrow> ('x \<Rightarrow> fnode) \<Rightarrow>
   ('x \<Rightarrow> string \<Rightarrow> unode option) \<Rightarrow> (string \<rightharpoonup> string list) \<Rightarrow> 'x fleet \<Rightarrow> vevent \<Rightarrow> 'x fleet \<Rightarrow> bool"
  for K D L mfs blk paths where
  step_create:
    "paths (volumeIDFor (cv_Name req)) = Some mp \<Longrightarrow> valid_request req '''' \<Longrightarrow>
     mget (cv_Parameters req) paramCID = '''' \<Longrightarrow>
     normalizeMFSPath (requested_path (D n) req) (MFSRoot (cfg (D n))) = Inr (abs_path mp) \<Longrightarrow>
     mkdirs mp (mfs (daemon s)) \<noteq> None \<Longrightarrow>
     CreateVolume (D n) req (on_machine s n) = (r, w') \<Longrightarrow>
     fleet_step K D L mfs blk paths s (Created (volumeIDFor (cv_Name req)) (succeeded r)) (left_by s n w')"
| step_restore:
    "paths (volumeIDFor (cv_Name req)) = Some mp \<Longrightarrow> cv_Name req \<noteq> '''' \<Longrightarrow> mget (cv_Parameters req) paramCID = '''' \<Longrightarrow>
     normalizeMFSPath (requested_path (D n) req) (MFSRoot (cfg (D n))) = Inr (abs_path mp) \<Longrightarrow>
     mkdirs mp (mfs (daemon s)) \<noteq> None \<Longrightarrow> sn_SnapshotId sn = cid_String K c \<Longrightarrow>
     blk (daemon s) c = Some (to_unode (FDir es)) \<Longrightarrow> regular (FDir es) \<Longrightarrow> tree_ok (FDir es) \<Longrightarrow>
     list_all plain_elem (p @ [b]) \<Longrightarrow>
     (\<And>k x. fst (os_MkdirTemp (osEnv (D n)) ''csi-ipfs-restore-'' ((locked k (on_machine s n))\<lparr>ext := x\<rparr>))
        = Inr (abs_path (p @ [b]))) \<Longrightarrow>
     CreateVolume (D n) (from_snapshot sn req) (on_machine s n) = (r, w') \<Longrightarrow>
     fleet_step K D L mfs blk paths s (Restored (volumeIDFor (cv_Name req)) (succeeded r) (FDir es)) (left_by s n w')"
| step_stage:
    "paths v = Some mp \<Longrightarrow> mget vc paramCID = '''' \<Longrightarrow> mget vc paramMFSPath = abs_path mp \<Longrightarrow>
     lookup (mfs (daemon s)) mp \<noteq> None \<Longrightarrow> list_all plain_elem p \<Longrightarrow> mkdirs p (hfs (machine s n)) \<noteq> None \<Longrightarrow>
     NodeStageVolume (D n) v (abs_path p) (Some vc) (on_machine s n) = (r, w') \<Longrightarrow>
     fleet_step K D L mfs blk paths s (Staged v (succeeded r) (lookup (hfs w') p)) (left_by s n w')"
| step_unstage:
    "paths v = Some mp \<Longrightarrow> pvStore_GetVolumeAttributes (L n) v (daemon s) = Inr a \<Longrightarrow>
     mget (Attributes a) paramMFSPath = abs_path mp \<Longrightarrow> mget (Attributes a) paramReadOnly \<noteq> ''true'' \<Longrightarrow>
     lookup (mfs (daemon s)) mp \<noteq> None \<Longrightarrow> list_all plain_elem p \<Longrightarrow>
     lookup (hfs (machine s n)) p = Some (FDir es) \<Longrightarrow> regular (FDir es) \<Longrightarrow>
     NodeUnstageVolume (D n) v (abs_path p) (on_machine s n) = (r, w') \<Longrightarrow>
     fleet_step K D L mfs blk paths s (Unstaged v (succeeded r) (FDir es)) (left_by s n w')"
| step_delete:
    "paths v = Some mp \<Longrightarrow> pvStore_GetVolumeAttributes (L n) v (daemon s) = Inr a \<Longrightarrow>
     mget (Attributes a) paramMFSPath = abs_path mp \<Longrightarrow> mget (Attributes a) paramReadOnly \<noteq> ''true'' \<Longrightarrow>
     mget (Attributes a) paramCID = '''' \<Longrightarrow>
     DeleteVolume (D n) v (on_machine s n) = (r, w') \<Longrightarrow>
     fleet_step K D L mfs blk paths s (Deleted v (succeeded r)) (left_by s n w')"

text \<open>
  Between the requests pods write to their volumes and everything else on the hosts changes, and
  so does the daemon, apart from its MFS.
\<close>

inductive fleet_run ::
  "'x KuboAPI \<Rightarrow> (nat \<Rightarrow> 'x Driver) \<Rightarrow> (nat \<Rightarrow> 'x PVLister) \<Rightarrow> ('x \<Rightarrow> fnode) \<Rightarrow>
   ('x \<Rightarrow> string \<Rightarrow> unode option) \<Rightarrow> (string \<rightharpoonup> string list) \<Rightarrow> 'x fleet \<Rightarrow> vevent list \<Rightarrow> 'x fleet \<Rightarrow> bool"
  for K D L mfs blk paths s0 where
  run_start: "fleet_run K D L mfs blk paths s0 [] s0"
| run_step: "fleet_run K D L mfs blk paths s0 tr s \<Longrightarrow> fleet_step K D L mfs blk paths s e s' \<Longrightarrow>
     fleet_run K D L mfs blk paths s0 (tr @ [e]) s'"
| run_outside: "fleet_run K D L mfs blk paths s0 tr s \<Longrightarrow> mfs (daemon s') = mfs (daemon s) \<Longrightarrow>
     (\<And>n. tree_ok (hfs (machine s' n)) \<and> volumeLocks (machine s' n) = volumeLocks (machine s n)) \<Longrightarrow>
     fleet_run K D L mfs blk paths s0 tr s'"

section \<open>Abstraction and invariant\<close>

definition contents :: "(string \<rightharpoonup> string list) \<Rightarrow> fnode \<Rightarrow> cells" where
  "contents paths t = (\<lambda>v. Option.bind (paths v) (lookup t))"

text \<open>The directories of the volumes are plain, and neither is inside another.\<close>

definition paths_ok :: "(string \<rightharpoonup> string list) \<Rightarrow> bool" where
  "paths_ok paths \<longleftrightarrow>
     (\<forall>v mp. paths v = Some mp \<longrightarrow> v \<noteq> '''' \<and> mp \<noteq> [] \<and> list_all plain_elem mp) \<and>
     (\<forall>u v mp mq. paths u = Some mp \<longrightarrow> paths v = Some mq \<longrightarrow> u \<noteq> v \<longrightarrow> apart mp mq)"

definition mount_law :: "('x \<Rightarrow> fnode) \<Rightarrow> 'x Mounter \<Rightarrow> bool" where
  "mount_law mfs M \<longleftrightarrow> (\<forall>q u. mfs (ext (snd (CleanupMountPoint M q u))) = mfs (ext u) \<and>
     volumeLocks (snd (CleanupMountPoint M q u)) = volumeLocks u \<and>
     (tree_ok (hfs u) \<longrightarrow> tree_ok (hfs (snd (CleanupMountPoint M q u)))))"

definition drivers_ok ::
  "'x KuboAPI \<Rightarrow> (nat \<Rightarrow> 'x Driver) \<Rightarrow> (nat \<Rightarrow> 'x PVLister) \<Rightarrow> (nat \<Rightarrow> 'x VSCLister option) \<Rightarrow> ('x \<Rightarrow> fnode) \<Rightarrow> bool" where
  "drivers_ok K D L S mfs \<longleftrightarrow> (\<forall>n. ipfsClient (D n) = client K (osEnv (D n)) \<and> calm (osEnv (D n)) \<and>
     informed (D n) (L n) (S n) \<and> mount_law mfs (mounter (D n)))"

definition fleet_ok :: "('x \<Rightarrow> fnode) \<Rightarrow> (string \<rightharpoonup> string list) \<Rightarrow> 'x fleet \<Rightarrow> bool" where
  "fleet_ok mfs paths s \<longleftrightarrow> tree_ok (mfs (daemon s)) \<and>
     (\<forall>v t. contents paths (mfs (daemon s)) v = Some t \<longrightarrow> regular t \<and> (\<exists>es. t = FDir es)) \<and>
     (\<forall>n. tree_ok (hfs (machine s n)) \<and> locks (volumeLocks (machine s n)) = {})"

lemma on_machine_sel [simp]:
  "ext (on_machine s n) = daemon s" "hfs (on_machine s n) = hfs (machine s n)"
  "volumeLocks (on_machine s n) = volumeLocks (machine s n)"
  by (simp_all add: on_machine_def)

lemma left_by_sel [simp]:
  "daemon (left_by s n w) = ext w" "machine (left_by s n w) = (machine s)(n := w)"
  by (simp_all add: left_by_def)

lemma succeeded_simps [simp]: "succeeded (Inl e) \<longleftrightarrow> False" "succeeded (Inr a) \<longleftrightarrow> True"
  by (simp_all add: succeeded_def)

text \<open>An operation on the directory of one volume changes one cell.\<close>

lemma contents_change:
  assumes "paths_ok paths" "paths v = Some mp" "\<And>q. apart mp q \<Longrightarrow> lookup t' q = lookup t q"
  shows "contents paths t' = (contents paths t)(v := lookup t' mp)"
proof
  fix u
  show "contents paths t' u = ((contents paths t)(v := lookup t' mp)) u"
  proof (cases "u = v \<or> paths u = None")
    case False
    then obtain mq where "paths u = Some mq" "apart mp mq"
      using assms(1,2) by (auto simp: paths_ok_def)
    with False assms(3) show ?thesis by (simp add: contents_def)
  qed (auto simp: contents_def assms(2))
qed

lemma paths_okD:
  "paths_ok paths \<Longrightarrow> paths v = Some mp \<Longrightarrow> v \<noteq> '''' \<and> mp \<noteq> [] \<and> list_all plain_elem mp"
  by (simp add: paths_ok_def)

lemma cell: "paths v = Some mp \<Longrightarrow> contents paths t v = lookup t mp"
  by (simp add: contents_def)

lemma fleet_okD:
  assumes "fleet_ok mfs paths s"
  shows "tree_ok (mfs (daemon s))" "tree_ok (hfs (machine s n))" "v \<notin> locks (volumeLocks (machine s n))"
    and "paths v = Some mp \<Longrightarrow> lookup (mfs (daemon s)) mp = Some t \<Longrightarrow> regular t \<and> (\<exists>es. t = FDir es)"
  using assms cell [of paths v mp "mfs (daemon s)"] unfolding fleet_ok_def by auto

lemma drivers_okD:
  assumes "drivers_ok K D L S mfs"
  shows "ipfsClient (D n) = client K (osEnv (D n))" "calm (osEnv (D n))" "informed (D n) (L n) (S n)"
    "mount_law mfs (mounter (D n))"
  using assms by (simp_all add: drivers_ok_def)

section \<open>Simulation\<close>

text \<open>
  A step that leaves the state \<open>w'\<close> on machine \<open>n\<close>, and in MFS the tree that differs from the one
  before in the directory of \<open>v\<close> at most.
\<close>

lemma step_cell:
  assumes "paths_ok paths" "fleet_ok mfs paths s" "paths v = Some mp"
    and "tree_ok (mfs (ext w'))" "\<And>q. apart mp q \<Longrightarrow> lookup (mfs (ext w')) q = lookup (mfs (daemon s)) q"
    and "\<And>t. lookup (mfs (ext w')) mp = Some t \<Longrightarrow> regular t \<and> (\<exists>es. t = FDir es)"
    and "tree_ok (hfs w')" "volumeLocks w' = volumeLocks (machine s n)"
  shows "contents paths (mfs (ext w')) = (contents paths (mfs (daemon s)))(v := lookup (mfs (ext w')) mp)"
    and "fleet_ok mfs paths (left_by s n w')"
proof -
  show *: "contents paths (mfs (ext w')) = (contents paths (mfs (daemon s)))(v := lookup (mfs (ext w')) mp)"
    by (rule contents_change [OF assms(1,3,5)])
  show "fleet_ok mfs paths (left_by s n w')"
    using assms(2,4,6-8) unfolding fleet_ok_def left_by_sel * by auto
qed

lemma create_refines:
  assumes laws: "kubo_laws K mfs blk" "drivers_ok K D L S mfs" and ok: "paths_ok paths" "fleet_ok mfs paths s"
    and req: "paths (volumeIDFor (cv_Name req)) = Some mp" "valid_request req ''''" "mget (cv_Parameters req) paramCID = ''''"
      "normalizeMFSPath (requested_path (D n) req) (MFSRoot (cfg (D n))) = Inr (abs_path mp)"
      "mkdirs mp (mfs (daemon s)) \<noteq> None"
    and run: "CreateVolume (D n) req (on_machine s n) = (r, w')"
  shows "spec_step (Created (volumeIDFor (cv_Name req)) (succeeded r)) (contents paths (mfs (daemon s)))
      = Some (contents paths (mfs (ext w'))) \<and> fleet_ok mfs paths (left_by s n w')"
proof -
  let ?v = "volumeIDFor (cv_Name req)"
  note d = drivers_okD [OF laws(2), of n] and ok' = fleet_okD [OF ok(2)]
  have mp: "list_all plain_elem mp" using paths_okD [OF ok(1) req(1)] by simp
  obtain t where t: "mkdirs mp (mfs (daemon s)) = Some t" using req(5) by blast
  obtain x where x: "CreateVolume (D n) req (on_machine s n) = (Inr (response req '''' (abs_path mp, False)), (on_machine s n)\<lparr>ext := x\<rparr>)"
    "mfs x = t"
    using CreateVolume_rw [OF laws(1) d(1) req(2-4) mp, of "on_machine s n" t] t ok'(3) by auto
  with run have w': "w' = (on_machine s n)\<lparr>ext := x\<rparr>" "succeeded r" by auto
  have new: "lookup t mp = (case lookup (mfs (daemon s)) mp of None \<Rightarrow> Some (FDir []) | Some n \<Rightarrow> Some n)"
    using mkdirs_lookup [OF t] by (auto split: option.splits)
  have cells: "regular u \<and> (\<exists>es. u = FDir es)" if "lookup t mp = Some u" for u
    using that new ok'(4) [OF req(1)] by (auto split: option.splits)
  have "contents paths t = (contents paths (mfs (daemon s)))(?v := lookup t mp)" "fleet_ok mfs paths (left_by s n w')"
    using step_cell [OF ok req(1), of w' n] cells w'(1) x(2) tree_ok_mkdirs [OF t ok'(1) mp] mkdirs_apart [OF t] ok'(2)
    by simp_all
  with w' x(2) new show ?thesis
    by (auto simp: cell [where paths = paths, OF req(1)] fun_upd_idem split: option.split)
qed

lemma restore_refines:
  assumes laws: "kubo_laws K mfs blk" "drivers_ok K D L S mfs" and ok: "paths_ok paths" "fleet_ok mfs paths s"
    and req: "paths (volumeIDFor (cv_Name req)) = Some mp" "cv_Name req \<noteq> ''''" "mget (cv_Parameters req) paramCID = ''''"
      "normalizeMFSPath (requested_path (D n) req) (MFSRoot (cfg (D n))) = Inr (abs_path mp)"
      "mkdirs mp (mfs (daemon s)) \<noteq> None"
    and sn: "sn_SnapshotId sn = cid_String K c" "blk (daemon s) c = Some (to_unode (FDir es))" "regular (FDir es)" "tree_ok (FDir es)"
    and tmp: "list_all plain_elem (p @ [b])"
      "\<And>k x. fst (os_MkdirTemp (osEnv (D n)) ''csi-ipfs-restore-'' ((locked k (on_machine s n))\<lparr>ext := x\<rparr>))
        = Inr (abs_path (p @ [b]))"
    and run: "CreateVolume (D n) (from_snapshot sn req) (on_machine s n) = (r, w')"
  shows "spec_step (Restored (volumeIDFor (cv_Name req)) (succeeded r) (FDir es)) (contents paths (mfs (daemon s)))
      = Some (contents paths (mfs (ext w'))) \<and> fleet_ok mfs paths (left_by s n w')"
proof -
  note d = drivers_okD [OF laws(2), of n] and ok' = fleet_okD [OF ok(2)]
  have mp: "list_all plain_elem mp" "mp \<noteq> []" using paths_okD [OF ok(1) req(1)] by simp_all
  obtain t where t: "mkdirs mp (mfs (daemon s)) = Some t" using req(5) by blast
  obtain x k vol t' where x: "CreateVolume (D n) (from_snapshot sn req) (on_machine s n)
      = (Inr vol, (on_machine s n)\<lparr>ext := x, seqno := k\<rparr>)"
    "mkdirs mp (removeAt mp t) = Some t'" "mfs x = update_at mp (\<lambda>_. FDir es) t'"
    using CreateVolume_from_snapshot [OF laws(1) d(1,2) req(2-4) mp _ sn(1) _ sn(3,4) _ _ _ tmp(2,1), of t] sn(2) t ok'(1-3)
    by auto
  with run have w': "w' = (on_machine s n)\<lparr>ext := x, seqno := k\<rparr>" "succeeded r" by auto
  note mfs' = emptied_tree [OF mp(1) tree_ok_remove [OF tree_ok_mkdirs [OF t ok'(1) mp(1)]] x(2)]
  have "contents paths (mfs (ext w')) = (contents paths (mfs (daemon s)))(volumeIDFor (cv_Name req) := Some (FDir es))"
    "fleet_ok mfs paths (left_by s n w')"
    using step_cell [OF ok req(1), of w' n] w'(1) x(3) mfs' sn(3,4) ok'(2) lookup_removeAt_apart mkdirs_apart [OF t]
    by (simp_all del: tree_ok.simps regular.simps)
  with w'(2) show ?thesis by simp
qed

lemma stage_refines:
  assumes laws: "kubo_laws K mfs blk" "drivers_ok K D L S mfs" and ok: "paths_ok paths" "fleet_ok mfs paths s"
    and vc: "paths v = Some mp" "mget vc paramCID = ''''" "mget vc paramMFSPath = abs_path mp"
      "lookup (mfs (daemon s)) mp \<noteq> None" "list_all plain_elem p" "mkdirs p (hfs (machine s n)) \<noteq> None"
    and run: "NodeStageVolume (D n) v (abs_path p) (Some vc) (on_machine s n) = (r, w')"
  shows "spec_step (Staged v (succeeded r) (lookup (hfs w') p)) (contents paths (mfs (daemon s)))
      = Some (contents paths (mfs (ext w'))) \<and> fleet_ok mfs paths (left_by s n w')"
proof -
  note d = drivers_okD [OF laws(2), of n] and ok' = fleet_okD [OF ok(2)]
  have mp: "v \<noteq> ''''" "list_all plain_elem mp" using paths_okD [OF ok(1) vc(1)] by simp_all
  obtain es where es: "lookup (mfs (daemon s)) mp = Some (FDir es)" "regular (FDir es)"
    using ok'(4) [OF vc(1)] vc(4) by blast
  then have okes: "tree_ok (FDir es)" using tree_ok_lookup ok'(1) by blast
  obtain t where t: "mkdirs p (hfs (machine s n)) = Some t" using vc(6) by blast
  obtain x where x: "NodeStageVolume (D n) v (abs_path p) (Some vc) (on_machine s n)
      = (Inr (), (on_machine s n)\<lparr>ext := x, hfs := update_at p (\<lambda>_. FDir es) t\<rparr>)" "mfs x = mfs (daemon s)"
    using NodeStageVolume_mfs [OF d(1) laws(1) d(2) mp(1) vc(5) mp(2) _ _ vc(2,3), of "on_machine s n" t es] ok'(2) es okes t
    by auto
  with run have w': "w' = (on_machine s n)\<lparr>ext := x, hfs := update_at p (\<lambda>_. FDir es) t\<rparr>" "succeeded r" by auto
  note host = emptied_tree [OF vc(5) ok'(2) t]
  have "fleet_ok mfs paths (left_by s n w')"
    using step_cell(2) [OF ok vc(1), of w' n] ok'(1) ok'(4) [OF vc(1)] host(1) okes w'(1) x(2)
    by (simp del: tree_ok.simps)
  with w' x(2) es host(2) show ?thesis by (simp add: cell [where paths = paths, OF vc(1)])
qed

lemma unstage_refines:
  assumes laws: "kubo_laws K mfs blk" "drivers_ok K D L S mfs" and ok: "paths_ok paths" "fleet_ok mfs paths s"
    and a: "paths v = Some mp" "pvStore_GetVolumeAttributes (L n) v (daemon s) = Inr a"
      "mget (Attributes a) paramMFSPath = abs_path mp" "mget (Attributes a) paramReadOnly \<noteq> ''true''"
      "lookup (mfs (daemon s)) mp \<noteq> None" "list_all plain_elem p"
      "lookup (hfs (machine s n)) p = Some (FDir es)" "regular (FDir es)"
    and run: "NodeUnstageVolume (D n) v (abs_path p) (on_machine s n) = (r, w')"
  shows "spec_step (Unstaged v (succeeded r) (FDir es)) (contents paths (mfs (daemon s)))
      = Some (contents paths (mfs (ext w'))) \<and> fleet_ok mfs paths (left_by s n w')"
proof -
  note d = drivers_okD [OF laws(2), of n] and ok' = fleet_okD [OF ok(2)]
  have mp: "v \<noteq> ''''" "list_all plain_elem mp" "mp \<noteq> []" using paths_okD [OF ok(1) a(1)] by simp_all
  obtain fs where "lookup (mfs (daemon s)) mp = Some (FDir fs)" using ok'(4) [OF a(1)] a(5) by blast
  then obtain t where t: "mkdirs mp (removeAt mp (mfs (daemon s))) = Some t"
    using mkdirs_again [OF mkdirs_dir mp(3) _ mp(2)] ok'(1) by blast
  obtain x where x: "NodeUnstageVolume (D n) v (abs_path p) (on_machine s n) =
      (Inr (), snd (CleanupMountPoint (mounter (D n)) (abs_path p) ((on_machine s n)\<lparr>ext := x\<rparr>)))"
    "mfs x = update_at mp (\<lambda>_. FDir es) t"
    using NodeUnstageVolume_mfs [OF d(1) laws(1) d(2,3) mp(1) a(6) mp(2,3) _ a(3,4) _ a(8), of "on_machine s n" t]
      a(2,7) t ok'(1,2) by auto
  note mfs' = emptied_tree [OF mp(2) tree_ok_remove [OF ok'(1)] t]
  have w': "succeeded r" "mfs (ext w') = update_at mp (\<lambda>_. FDir es) t" "tree_ok (hfs w')"
    "volumeLocks w' = volumeLocks (machine s n)"
    using run x d(4) ok'(2) by (auto simp: mount_law_def)
  have "contents paths (mfs (ext w')) = (contents paths (mfs (daemon s)))(v := Some (FDir es))"
    "fleet_ok mfs paths (left_by s n w')"
    using step_cell [OF ok a(1), of w' n] w' mfs' a(8) tree_ok_lookup [OF ok'(2) a(7)] lookup_removeAt_apart
    by (simp_all del: tree_ok.simps regular.simps)
  with w'(1) show ?thesis by simp
qed

lemma delete_refines:
  assumes laws: "kubo_laws K mfs blk" "drivers_ok K D L S mfs" and ok: "paths_ok paths" "fleet_ok mfs paths s"
    and a: "paths v = Some mp" "pvStore_GetVolumeAttributes (L n) v (daemon s) = Inr a"
      "mget (Attributes a) paramMFSPath = abs_path mp" "mget (Attributes a) paramReadOnly \<noteq> ''true''"
      "mget (Attributes a) paramCID = ''''"
    and run: "DeleteVolume (D n) v (on_machine s n) = (r, w')"
  shows "spec_step (Deleted v (succeeded r)) (contents paths (mfs (daemon s)))
      = Some (contents paths (mfs (ext w'))) \<and> fleet_ok mfs paths (left_by s n w')"
proof -
  note d = drivers_okD [OF laws(2), of n] and ok' = fleet_okD [OF ok(2)]
  have mp: "v \<noteq> ''''" "list_all plain_elem mp" "mp \<noteq> []" using paths_okD [OF ok(1) a(1)] by simp_all
  obtain x where x: "DeleteVolume (D n) v (on_machine s n) = (Inr (), (on_machine s n)\<lparr>ext := x\<rparr>)"
    "mfs x = removeAt mp (mfs (daemon s))"
    using DeleteVolume_mfs [OF laws(1) d(1,3) mp(1) _ _ a(3) mp(3) a(4,5) mp(2), of "on_machine s n"] a(2) ok'(3) by auto
  with run have w': "w' = (on_machine s n)\<lparr>ext := x\<rparr>" "succeeded r" by auto
  have none: "lookup (mfs x) mp = None"
    using mp(3) lookup_removeAt x(2) by (metis append_butlast_last_id)
  have "contents paths (mfs (ext w')) = (contents paths (mfs (daemon s)))(v := None)" "fleet_ok mfs paths (left_by s n w')"
    using step_cell [OF ok a(1), of w' n] w' none x(2) tree_ok_remove [OF ok'(1)] ok'(2) lookup_removeAt_apart
    by (simp_all del: tree_ok.simps)
  with w'(2) show ?thesis by simp
qed

lemma fleet_step_refines:
  assumes "kubo_laws K mfs blk" "drivers_ok K D L S mfs" "paths_ok paths" "fleet_ok mfs paths s"
    and "fleet_step K D L mfs blk paths s e s'"
  shows "spec_step e (contents paths (mfs (daemon s))) = Some (contents paths (mfs (daemon s'))) \<and> fleet_ok mfs paths s'"
  using assms(5)
  by cases (auto simp del: spec_step.simps dest: create_refines [OF assms(1-4)]
      restore_refines [OF assms(1-4)] stage_refines [OF assms(1-4)]
      unstage_refines [OF assms(1-4)] delete_refines [OF assms(1-4)])

lemma fleet_run_refines:
  assumes "kubo_laws K mfs blk" "drivers_ok K D L S mfs" "paths_ok paths" "fleet_ok mfs paths s0"
    and "fleet_run K D L mfs blk paths s0 tr s"
  shows "spec_run tr (contents paths (mfs (daemon s0))) = Some (contents paths (mfs (daemon s))) \<and> fleet_ok mfs paths s"
  using assms(5)
proof induction
  case (run_step tr s e s')
  with fleet_step_refines [OF assms(1-3), of s e s'] show ?case by (simp add: spec_run_snoc)
next
  case run_outside
  then show ?case by (simp add: fleet_ok_def)
qed (simp add: assms(4))

section \<open>Two nodes\<close>

definition toy_paths_of :: "string \<rightharpoonup> string list" where
  "toy_paths_of = [''m'' \<mapsto> [''csi'', ''m'']]"

text \<open>The volume is empty in MFS; node 0 has files in its staging directory, node 1 has none.\<close>

definition toy_fleet :: "toy fleet" where
  "toy_fleet =
     \<lparr>daemon = (ext toy_world)\<lparr>toy_mfs := FDir [(''csi'', FDir [(''m'', FDir [])])]\<rparr>,
      machine = (\<lambda>n. toy_world\<lparr>hfs := (if n = 0 then FDir [(''stage'', FDir toy_files)] else FDir [])\<rparr>)\<rparr>"

lemma toy_fleet_ok:
  "paths_ok toy_paths_of" "drivers_ok toy_Kubo (\<lambda>n. toy_driver) (\<lambda>n. example_mfs_PVLister) (\<lambda>n. Some example_VSCLister) toy_mfs"
  "fleet_ok toy_mfs toy_paths_of toy_fleet"
proof -
  show "paths_ok toy_paths_of" using toy_paths(2) by (auto simp: paths_ok_def toy_paths_of_def split: if_splits)
  show "drivers_ok toy_Kubo (\<lambda>n. toy_driver) (\<lambda>n. example_mfs_PVLister) (\<lambda>n. Some example_VSCLister) toy_mfs"
    using toy_facts by (simp add: drivers_ok_def mount_law_def toy_driver_def toy_mounter_def ret_def)
  show "fleet_ok toy_mfs toy_paths_of toy_fleet"
    by (auto simp: fleet_ok_def toy_fleet_def contents_def toy_paths_of_def toy_world_def NewVolumeLocks_def
        toy_files_def plain_elem_def split: if_splits)
qed

section \<open>Properties\<close>

text \<open>
  (C2) The data of read-write volumes is kept. Whatever sequence of creations, stagings, unstagings and
  deletions the machines serve, one after another and on any volumes whose directories do not contain
  each other, with pods that write anything in between: all of them succeed, a volume is staged with
  exactly what its last unstaging stored (or, if there was none since its creation, empty or with the
  tree of the snapshot it was created from), and no
  operation changes another volume. The trace is one of the specification, and MFS ends up with the
  contents that the specification computes.
\<close>

theorem volumes_refine:
  assumes "kubo_laws K mfs blk" "drivers_ok K D L S mfs" "paths_ok paths" "fleet_ok mfs paths s0"
    and "fleet_run K D L mfs blk paths s0 tr s"
  shows "spec_run tr (contents paths (mfs (daemon s0))) = Some (contents paths (mfs (daemon s)))"
  using fleet_run_refines [OF assms] by blast

theorem volumes_refine_witness:
  "\<exists>ok1 ok2 t s. fleet_run toy_Kubo (\<lambda>n. toy_driver) (\<lambda>n. example_mfs_PVLister) toy_mfs toy_blk toy_paths_of toy_fleet
     [Unstaged ''m'' ok1 (FDir toy_files), Staged ''m'' ok2 t] s \<and> ok1 \<and> ok2 \<and> t = Some (FDir toy_files)"
proof -
  let ?run = "fleet_run toy_Kubo (\<lambda>n. toy_driver) (\<lambda>n. example_mfs_PVLister) toy_mfs toy_blk toy_paths_of toy_fleet"
  have mp: "abs_path [''csi'', ''m''] = ''/csi/m''" by (simp add: abs_path_def)
  obtain r1 w1 where w1: "NodeUnstageVolume toy_driver ''m'' (abs_path [''stage'']) (on_machine toy_fleet 0) = (r1, w1)"
    by fastforce
  define s1 where "s1 = left_by toy_fleet 0 w1"
  have "fleet_step toy_Kubo (\<lambda>n. toy_driver) (\<lambda>n. example_mfs_PVLister) toy_mfs toy_blk toy_paths_of toy_fleet
      (Unstaged ''m'' (succeeded r1) (FDir toy_files)) s1"
    unfolding s1_def
    by (rule step_unstage [where mp = "[''csi'', ''m'']", OF _ example_mfs_get _ _ _ toy_paths(1) _ toy_trees(2) w1])
      (simp_all add: toy_paths_of_def mp toy_fleet_def)
  from run_step [OF run_start this]
  have run1: "?run [Unstaged ''m'' (succeeded r1) (FDir toy_files)] s1" by simp
  from fleet_run_refines [OF toy_laws toy_fleet_ok(2,1,3) run1]
  have "contents toy_paths_of (toy_mfs (daemon s1)) ''m'' = Some (FDir toy_files)"
    by (auto simp del: fun_upd_apply split: if_splits simp: fun_upd_same dest!: sym [of "_(_ \<mapsto> _)"])
  then have m1: "lookup (toy_mfs (daemon s1)) [''csi'', ''m''] \<noteq> None"
    by (simp add: toy_paths_of_def contents_def)
  obtain r2 w2 where w2: "NodeStageVolume toy_driver ''m'' (abs_path [''var'', ''x''])
      (Some [paramMFSPath \<mapsto> ''/csi/m'']) (on_machine s1 1) = (r2, w2)" by fastforce
  have "fleet_step toy_Kubo (\<lambda>n. toy_driver) (\<lambda>n. example_mfs_PVLister) toy_mfs toy_blk toy_paths_of s1
      (Staged ''m'' (succeeded r2) (lookup (hfs w2) [''var'', ''x''])) (left_by s1 1 w2)"
    by (rule step_stage [where mfs = toy_mfs and D = "\<lambda>n. toy_driver", OF _ _ _ m1 toy_paths(4) _ w2])
      (simp_all add: toy_paths_of_def mp mget_def param_defs s1_def toy_fleet_def)
  from run_step [OF run1 this]
  have run2: "?run [Unstaged ''m'' (succeeded r1) (FDir toy_files), Staged ''m'' (succeeded r2) (lookup (hfs w2) [''var'', ''x''])]
      (left_by s1 1 w2)" by simp
  from volumes_refine [OF toy_laws toy_fleet_ok(2,1,3) run2] have "succeeded r1" "succeeded r2"
    "lookup (hfs w2) [''var'', ''x''] = Some (FDir toy_files)"
    by (auto split: if_splits)
  with run2 show ?thesis by blast
qed

end
