(* ===== verification/CommandLine.thy ===== *)
theory CommandLine
  imports Utils
begin

text \<open>
  The command line of \<open>cmd/csi-driver-ipfs/main.go\<close>: the flags it defines with package \<open>flag\<close> of
  the standard library, their defaults, and \<open>flag.Parse\<close> on them. Arguments that spell out a
  setting are parsed back to it; a later occurrence of a flag overrides an earlier one; parsing
  stops, without an error, at the first argument that is not a flag.
\<close>

section \<open>Flags\<close>

text \<open>
  A \<open>float64\<close> is only passed on to client-go; it is kept as the literal that was accepted.
\<close>

record Flags =
  fl_endpoint :: string
  fl_nodeID :: string
  fl_ipfsAPI :: string
  fl_ipfsMFSRoot :: string
  fl_driverName :: string
  fl_mountDir :: string
  fl_logLevel :: string
  fl_logFormat :: string
  fl_grpcReflect :: bool
  fl_pinFailure :: string
  fl_version :: bool
  fl_kubeConfig :: string
  fl_kubeQPS :: string
  fl_kubeBurst :: int

definition defaultKubeQPS :: string where "defaultKubeQPS = ''50.0''"
definition defaultKubeBurst :: int where "defaultKubeBurst = 100"

text \<open>The defaults; that of the kubeconfig is read from the environment.\<close>

definition default_flags :: "string \<Rightarrow> Flags" where
  "default_flags KUBECONFIG =
     \<lparr>fl_endpoint = ''unix:///csi/csi.sock'', fl_nodeID = '''', fl_ipfsAPI = ''/ip4/0.0.0.0/tcp/5001'',
      fl_ipfsMFSRoot = ''/csi-volumes'', fl_driverName = DefaultDriverName, fl_mountDir = ''/var/lib/csi-ipfs'',
      fl_logLevel = ''info'', fl_logFormat = ''text'', fl_grpcReflect = False, fl_pinFailure = ''strict'',
      fl_version = False, fl_kubeConfig = KUBECONFIG, fl_kubeQPS = defaultKubeQPS, fl_kubeBurst = defaultKubeBurst\<rparr>"

definition KubeConfigFlagName :: string where "KubeConfigFlagName = ''kubeconfig''"

datatype flag_value =
    StringFlag "string \<Rightarrow> Flags \<Rightarrow> Flags" | BoolFlag "bool \<Rightarrow> Flags \<Rightarrow> Flags"
  | FloatFlag "string \<Rightarrow> Flags \<Rightarrow> Flags" | IntFlag "int \<Rightarrow> Flags \<Rightarrow> Flags"

definition defined_flags :: "(string \<times> flag_value) list" where
  "defined_flags =
     [(''endpoint'', StringFlag (\<lambda>s f. f\<lparr>fl_endpoint := s\<rparr>)),
      (''nodeid'', StringFlag (\<lambda>s f. f\<lparr>fl_nodeID := s\<rparr>)),
      (''ipfs-api'', StringFlag (\<lambda>s f. f\<lparr>fl_ipfsAPI := s\<rparr>)),
      (''ipfs-mfs-root'', StringFlag (\<lambda>s f. f\<lparr>fl_ipfsMFSRoot := s\<rparr>)),
      (''drivername'', StringFlag (\<lambda>s f. f\<lparr>fl_driverName := s\<rparr>)),
      (''mount-dir'', StringFlag (\<lambda>s f. f\<lparr>fl_mountDir := s\<rparr>)),
      (''log-level'', StringFlag (\<lambda>s f. f\<lparr>fl_logLevel := s\<rparr>)),
      (''log-format'', StringFlag (\<lambda>s f. f\<lparr>fl_logFormat := s\<rparr>)),
      (''grpc-reflection'', BoolFlag (\<lambda>b f. f\<lparr>fl_grpcReflect := b\<rparr>)),
      (''pin-failure-policy'', StringFlag (\<lambda>s f. f\<lparr>fl_pinFailure := s\<rparr>)),
      (''version'', BoolFlag (\<lambda>b f. f\<lparr>fl_version := b\<rparr>)),
      (KubeConfigFlagName, StringFlag (\<lambda>s f. f\<lparr>fl_kubeConfig := s\<rparr>)),
      (''kube-qps'', FloatFlag (\<lambda>s f. f\<lparr>fl_kubeQPS := s\<rparr>)),
      (''kube-burst'', IntFlag (\<lambda>i f. f\<lparr>fl_kubeBurst := i\<rparr>))]"

section \<open>Package strconv\<close>

definition ParseBool :: "string \<Rightarrow> bool option" where
  "ParseBool s =
     (if s \<in> {''1'', ''t'', ''T'', ''TRUE'', ''true'', ''True''} then Some True
      else if s \<in> {''0'', ''f'', ''F'', ''FALSE'', ''false'', ''False''} then Some False
      else None)"

text \<open>
  \<open>strconv.ParseInt\<close> with base 0: a prefix chooses the base (\<open>0b\<close>, \<open>0o\<close> or \<open>0\<close>, \<open>0x\<close>), and
  underscores may separate digits.
\<close>

definition digit_of :: "char \<Rightarrow> nat option" where
  "digit_of c =
     (let n = of_char c in
      if 48 \<le> n \<and> n \<le> 57 then Some (n - 48)
      else if 97 \<le> n \<and> n \<le> 122 then Some (n - 97 + 10)
      else if 65 \<le> n \<and> n \<le> 90 then Some (n - 65 + 10)
      else None)"

fun digits_in :: "nat \<Rightarrow> string \<Rightarrow> nat \<Rightarrow> nat option" where
  "digits_in base [] acc = Some acc"
| "digits_in base (c # cs) acc =
     (if c = CHR ''_'' then digits_in base cs acc
      else case digit_of c of
             None \<Rightarrow> None
           | Some d \<Rightarrow> if d < base then digits_in base cs (acc * base + d) else None)"

definition base_prefix :: "string \<Rightarrow> (nat \<times> string) option" where
  "base_prefix s =
     (case s of
        CHR ''0'' # c # r \<Rightarrow>
          if c \<in> {CHR ''b'', CHR ''B''} \<and> r \<noteq> [] then Some (2, r)
          else if c \<in> {CHR ''o'', CHR ''O''} \<and> r \<noteq> [] then Some (8, r)
          else if c \<in> {CHR ''x'', CHR ''X''} \<and> r \<noteq> [] then Some (16, r)
          else None
      | _ \<Rightarrow> None)"

text \<open>Underscores are between digits, the prefix counting as one; \<open>after\<close> says what came last.\<close>

fun underscores_ok :: "bool \<Rightarrow> bool \<Rightarrow> bool \<Rightarrow> string \<Rightarrow> bool" where
  "underscores_ok hex afterDigit afterUnderscore [] \<longleftrightarrow> \<not> afterUnderscore"
| "underscores_ok hex afterDigit afterUnderscore (c # cs) \<longleftrightarrow>
     (if (case digit_of c of None \<Rightarrow> False | Some d \<Rightarrow> d < 10 \<or> hex \<and> d < 16) then underscores_ok hex True False cs
      else if c = CHR ''_'' then afterDigit \<and> underscores_ok hex False True cs
      else \<not> afterUnderscore \<and> underscores_ok hex False False cs)"

definition ParseUint0 :: "string \<Rightarrow> nat option" where
  "ParseUint0 s =
     (if s = '''' then None
      else
        let (base, digits) = (case base_prefix s of
               Some bd \<Rightarrow> bd
             | None \<Rightarrow> if hd s = CHR ''0'' then (8, tl s) else (10, s));
            ok = (case base_prefix s of
               Some (b, r) \<Rightarrow> underscores_ok (b = 16) True False r
             | None \<Rightarrow> underscores_ok False False False s)
        in if CHR ''_'' \<in> set digits \<and> \<not> ok then None else digits_in base digits 0)"

definition ParseInt0 :: "string \<Rightarrow> int option" where
  "ParseInt0 s =
     (let neg = HasPrefix s ''-'';
          digits = (if neg \<or> HasPrefix s ''+'' then tl s else s)
      in case ParseUint0 digits of
           None \<Rightarrow> None
         | Some n \<Rightarrow>
             if neg then (if n \<le> 2 ^ 63 then Some (- int n) else None)
             else if n < 2 ^ 63 then Some (int n) else None)"

section \<open>Package flag\<close>

text \<open>\<open>Value.Set\<close> of the four kinds of flags; \<open>float_ok\<close> is what \<open>strconv.ParseFloat\<close> accepts.\<close>

fun flag_Set :: "(string \<Rightarrow> bool) \<Rightarrow> flag_value \<Rightarrow> string \<Rightarrow> Flags \<Rightarrow> Flags option" where
  "flag_Set float_ok (StringFlag upd) s f = Some (upd s f)"
| "flag_Set float_ok (BoolFlag upd) s f = map_option (\<lambda>b. upd b f) (ParseBool s)"
| "flag_Set float_ok (FloatFlag upd) s f = (if float_ok s then Some (upd s f) else None)"
| "flag_Set float_ok (IntFlag upd) s f = map_option (\<lambda>i. upd i f) (ParseInt0 s)"

fun is_bool_flag :: "flag_value \<Rightarrow> bool" where
  "is_bool_flag (BoolFlag upd) \<longleftrightarrow> True"
| "is_bool_flag _ \<longleftrightarrow> False"

text \<open>An argument splits into a name and, after the first equals sign, a value. (The name has one character at least.)\<close>

definition split_value :: "string \<Rightarrow> string \<times> string option" where
  "split_value name =
     (case dropWhile (\<lambda>c. c \<noteq> CHR ''='') (tl name) of
        [] \<Rightarrow> (name, None)
      | eq # value \<Rightarrow> (hd name # takeWhile (\<lambda>c. c \<noteq> CHR ''='') (tl name), Some value))"

text \<open>
  The outcome of \<open>flag.Parse\<close>: the flags and the arguments that are left, or the end of the process,
  with status 0 after the usage was asked for and status 2 after an error.
\<close>

datatype flags_result = FlagsParsed Flags "string list" | FlagsHelp | FlagsError gerr

text \<open>How an argument is read: not a flag, the terminator, malformed, or the text after the dashes.\<close>

datatype flag_arg = NoFlag | EndOfFlags | BadSyntax | FlagArg string

definition flag_argument :: "string \<Rightarrow> flag_arg" where
  "flag_argument s =
     (if length s < 2 \<or> hd s \<noteq> CHR ''-'' then NoFlag
      else if s = ''--'' then EndOfFlags
      else let name = (if s ! 1 = CHR ''-'' then drop 2 s else tl s)
           in if hd name = CHR ''-'' \<or> hd name = CHR ''='' then BadSyntax else FlagArg name)"

fun flag_Parse :: "(string \<Rightarrow> bool) \<Rightarrow> string list \<Rightarrow> Flags \<Rightarrow> flags_result" where
  "flag_Parse float_ok [] f = FlagsParsed f []"
| "flag_Parse float_ok (s # args) f =
     (case flag_argument s of
        NoFlag \<Rightarrow> FlagsParsed f (s # args)
      | EndOfFlags \<Rightarrow> FlagsParsed f args
      | BadSyntax \<Rightarrow> FlagsError (Errorf ''bad flag syntax: %s'' [s])
      | FlagArg text \<Rightarrow>
          (case split_value text of (name, value) \<Rightarrow>
           case map_of defined_flags name of
             None \<Rightarrow>
               if name = ''help'' \<or> name = ''h'' then FlagsHelp
               else FlagsError (Errorf ''flag provided but not defined: -%s'' [name])
           | Some flag \<Rightarrow>
               if is_bool_flag flag then
                 (let v = (case value of Some v \<Rightarrow> v | None \<Rightarrow> ''true'') in
                  case flag_Set float_ok flag v f of
                    None \<Rightarrow> FlagsError (Errorf ''invalid boolean value %q for -%s'' [v, name])
                  | Some f' \<Rightarrow> flag_Parse float_ok args f')
               else
                 (case value of
                    Some v \<Rightarrow>
                      (case flag_Set float_ok flag v f of
                         None \<Rightarrow> FlagsError (Errorf ''invalid value %q for flag -%s'' [v, name])
                       | Some f' \<Rightarrow> flag_Parse float_ok args f')
                  | None \<Rightarrow>
                      (case args of
                         [] \<Rightarrow> FlagsError (Errorf ''flag needs an argument: -%s'' [name])
                       | v # rest \<Rightarrow>
                           (case flag_Set float_ok flag v f of
                              None \<Rightarrow> FlagsError (Errorf ''invalid value %q for flag -%s'' [v, name])
                            | Some f' \<Rightarrow> flag_Parse float_ok rest f')))))"

section \<open>Settings as arguments\<close>

text \<open>The arguments that spell out all settings.\<close>

definition flag_text :: "bool \<Rightarrow> string" where
  "flag_text b = (if b then ''true'' else ''false'')"

definition render_flags :: "Flags \<Rightarrow> string list" where
  "render_flags f =
     map (\<lambda>(name, value). ''--'' @ name @ ''='' @ value)
       [(''endpoint'', fl_endpoint f), (''nodeid'', fl_nodeID f), (''ipfs-api'', fl_ipfsAPI f),
        (''ipfs-mfs-root'', fl_ipfsMFSRoot f), (''drivername'', fl_driverName f), (''mount-dir'', fl_mountDir f),
        (''log-level'', fl_logLevel f), (''log-format'', fl_logFormat f), (''grpc-reflection'', flag_text (fl_grpcReflect f)),
        (''pin-failure-policy'', fl_pinFailure f), (''version'', flag_text (fl_version f)),
        (KubeConfigFlagName, fl_kubeConfig f), (''kube-qps'', fl_kubeQPS f), (''kube-burst'', Itoa (fl_kubeBurst f))]"

lemma flag_argument_dashes:
  "name \<noteq> '''' \<Longrightarrow> hd name \<noteq> CHR ''-'' \<Longrightarrow> hd name \<noteq> CHR ''='' \<Longrightarrow> flag_argument (''--'' @ name) = FlagArg name"
  by (cases name) (auto simp: flag_argument_def)

lemma split_value_eq:
  "name \<noteq> '''' \<Longrightarrow> CHR ''='' \<notin> set (tl name) \<Longrightarrow> split_value (name @ ''='' @ val) = (name, Some val)"
  by (cases name) (auto simp: split_value_def takeWhile_append dropWhile_append split: list.split)

text \<open>One argument with a name and a value sets that flag.\<close>

lemma flag_Parse_value:
  assumes "map_of defined_flags name = Some flag" "flag_Set float_ok flag val f = Some f'"
    and "name \<noteq> ''''" "CHR ''='' \<notin> set name" "hd name \<noteq> CHR ''-''"
  shows "flag_Parse float_ok ((''--'' @ name @ ''='' @ val) # args) f = flag_Parse float_ok args f'"
proof -
  have eq: "hd name \<noteq> CHR ''=''" "CHR ''='' \<notin> set (tl name)"
    using assms(3,4) by (auto simp: neq_Nil_conv)
  with assms(3,5) have "flag_argument (''--'' @ name @ ''='' @ val) = FlagArg (name @ ''='' @ val)"
    using flag_argument_dashes [of "name @ ''='' @ val"] by simp
  then show ?thesis
    using assms(1,2) split_value_eq [OF assms(3) eq(2), of val] by (cases flag) (auto simp: Let_def)
qed

lemma ParseBool_text: "ParseBool (flag_text b) = Some b"
  by (simp add: ParseBool_def flag_text_def)

text \<open>Decimal digits with no leading zero are read in base 10.\<close>

lemma digit_of_char: "d < 10 \<Longrightarrow> digit_of (digit_char d) = Some d"
  by (simp add: digit_of_def digit_char_def)

lemma digit_char_plain: "d < 10 \<Longrightarrow> digit_char d \<noteq> CHR ''_''" "d < 10 \<Longrightarrow> digit_char d = CHR ''0'' \<longleftrightarrow> d = 0"
  using of_char_digit [of d] by (auto simp: digit_char_def take_bit_eq_mod char_of_eq_iff)

lemma nat_digits_plain: "CHR ''_'' \<notin> set (nat_digits n)"
proof (induction n rule: nat_digits.induct)
  case (1 n)
  have "digit_char n \<noteq> CHR ''_''" if "n < 10" using digit_char_plain(1) that by blast
  moreover have "digit_char (n mod 10) \<noteq> CHR ''_''" by (rule digit_char_plain(1)) simp
  ultimately show ?case using 1 by (subst nat_digits.simps) auto
qed

lemma digits_in_append:
  "CHR ''_'' \<notin> set s \<Longrightarrow> digits_in b (s @ t) acc = Option.bind (digits_in b s acc) (digits_in b t)"
  by (induction s arbitrary: acc) (auto split: option.split)

lemma digits_in_nat: "digits_in 10 (nat_digits n) 0 = Some n"
proof (induction n rule: nat_digits.induct)
  case (1 n)
  show ?case
  proof (cases "n < 10")
    case True
    then show ?thesis by (subst nat_digits.simps) (simp add: digit_of_char digit_char_plain(1))
  next
    case False
    have d: "digit_of (digit_char (n mod 10)) = Some (n mod 10)" "digit_char (n mod 10) \<noteq> CHR ''_''"
      by (simp_all add: digit_of_char digit_char_plain(1))
    have "digits_in 10 (nat_digits (n div 10) @ [digit_char (n mod 10)]) 0 = Some n"
      using 1 [OF False] d by (simp add: digits_in_append nat_digits_plain)
    with False show ?thesis by (subst nat_digits.simps) simp
  qed
qed

lemma nat_digits_zero: "hd (nat_digits n) = CHR ''0'' \<Longrightarrow> n = 0"
proof (induction n rule: nat_digits.induct)
  case (1 n)
  then show ?case
    by (cases "n < 10") (auto simp: nat_digits.simps [of n] digit_char_plain nat_digits_digits)
qed

lemma ParseUint0_nat: "ParseUint0 (nat_digits n) = Some n"
proof (cases "hd (nat_digits n) = CHR ''0''")
  case True
  then have "n = 0" by (rule nat_digits_zero)
  moreover have "ParseUint0 (nat_digits 0) = Some 0" by code_simp
  ultimately show ?thesis by simp
next
  case False
  obtain c cs where n: "nat_digits n = c # cs" using nat_digits_digits [of n] by (cases "nat_digits n") auto
  with False have "base_prefix (nat_digits n) = None" by (auto simp: base_prefix_def split: char.splits bool.splits list.splits)
  with False n digits_in_nat [of n] nat_digits_plain [of n] show ?thesis by (simp add: ParseUint0_def)
qed

lemma ParseInt0_Itoa:
  assumes "- (2 ^ 63) \<le> i" "i < 2 ^ 63"
  shows "ParseInt0 (Itoa i) = Some i"
  using assms nat_digits_no_sign [of "nat i"] ParseUint0_nat
  by (auto simp: ParseInt0_def Itoa_def)

text \<open>A list of names with values, set one after another.\<close>

definition flag_sets :: "(string \<Rightarrow> bool) \<Rightarrow> (string \<times> string) list \<Rightarrow> Flags \<Rightarrow> Flags option" where
  "flag_sets float_ok ps f =
     foldl (\<lambda>acc (n, v). Option.bind acc (\<lambda>f. Option.bind (map_of defined_flags n) (\<lambda>fl. flag_Set float_ok fl v f))) (Some f) ps"

lemma flag_sets_simps [simp]:
  "flag_sets float_ok [] f = Some f"
  "flag_sets float_ok ((n, v) # ps) f =
     Option.bind (map_of defined_flags n) (\<lambda>fl. Option.bind (flag_Set float_ok fl v f) (flag_sets float_ok ps))"
proof -
  let ?set = "\<lambda>acc (n, v). Option.bind acc (\<lambda>f. Option.bind (map_of defined_flags n) (\<lambda>fl. flag_Set float_ok fl v f))"
  have none: "foldl ?set None ps = None" for ps by (induction ps) auto
  show "flag_sets float_ok [] f = Some f" by (simp add: flag_sets_def)
  show "flag_sets float_ok ((n, v) # ps) f =
     Option.bind (map_of defined_flags n) (\<lambda>fl. Option.bind (flag_Set float_ok fl v f) (flag_sets float_ok ps))"
    by (simp add: flag_sets_def none split: bind_split)
qed

lemma defined_names:
  "map_of defined_flags n = Some fl \<Longrightarrow> n \<noteq> '''' \<and> CHR ''='' \<notin> set n \<and> hd n \<noteq> CHR ''-''"
  by (auto simp: defined_flags_def KubeConfigFlagName_def split: if_splits)

lemma flag_Parse_pairs:
  "flag_sets float_ok ps f = Some g \<Longrightarrow>
   flag_Parse float_ok (map (\<lambda>(n, v). ''--'' @ n @ ''='' @ v) ps @ rest) f = flag_Parse float_ok rest g"
proof (induction ps arbitrary: f)
  case (Cons p ps)
  obtain n v where p: "p = (n, v)" by fastforce
  with Cons.prems obtain fl f' where fl: "map_of defined_flags n = Some fl" "flag_Set float_ok fl v f = Some f'"
    "flag_sets float_ok ps f' = Some g"
    by (auto simp: bind_eq_Some_conv)
  have "flag_Parse float_ok ((''--'' @ n @ ''='' @ v) # args) f = flag_Parse float_ok args f'" for args
    using flag_Parse_value [OF fl(1,2)] defined_names [OF fl(1)] by blast
  with Cons.IH [OF fl(3)] p show ?case by simp
qed simp

section \<open>Properties\<close>

text \<open>
  A flag of type bool does not take the next argument as its value: here reflection is switched
  on, parsing ends, and the node identifier is not set. \<open>main\<close> ignores what is left.
\<close>

lemma bool_flag_ends_parsing:
  "flag_Parse (\<lambda>_. True) [''--grpc-reflection'', ''false'', ''--nodeid'', ''n1''] (default_flags '''') =
     FlagsParsed ((default_flags '''')\<lparr>fl_grpcReflect := True\<rparr>) [''false'', ''--nodeid'', ''n1'']"
  by (simp add: flag_argument_def split_value_def defined_flags_def KubeConfigFlagName_def ParseBool_def)

text \<open>
  Settings survive the command line. The arguments that spell out a configuration of the process,
  in the form \<open>--name=value\<close>, are parsed to exactly that configuration, whatever the defaults or earlier
  arguments have set, and parsing goes on with the arguments after them.
\<close>

lemma flag_Parse_render:
  assumes "float_ok (fl_kubeQPS f)" "- (2 ^ 63) \<le> fl_kubeBurst f" "fl_kubeBurst f < 2 ^ 63"
  shows "flag_Parse float_ok (render_flags f @ rest) g = flag_Parse float_ok rest f"
  unfolding render_flags_def
  by (rule flag_Parse_pairs)
    (simp add: defined_flags_def KubeConfigFlagName_def ParseBool_text ParseInt0_Itoa [OF assms(2,3)] assms(1))

end
