(* ===== verification/Informers.thy ===== *)
theory Informers
  imports Driver
begin

text \<open>
  \<open>pkg/kubernetes\<close>: the clients, the test for the snapshot API, and the \<open>InformerManager\<close>. The
  client-go libraries are the record \<open>ClientGo\<close>, functions of the state outside the process; a
  client is known by a string, and so is its configuration, apart from the rate limits that \<open>main\<close>
  sets in it (the one that is a \<open>float32\<close> as the literal it comes from). An informer is one of the two the manager
  uses, asking a factory for it registers it there, and only registered informers are started.
  The callbacks that are registered do nothing (\<open>main\<close> passes empty functions) and are left out.
\<close>

section \<open>What the package calls\<close>

datatype informer = PVInformer | VSCInformer
datatype factory = CoreFactory | SnapshotFactory

record RestConfig =
  rc_cluster :: string
  rc_QPS :: string
  rc_Burst :: int

record 'x ClientGo =
  BuildConfigFromFlags :: "string \<Rightarrow> 'x \<Rightarrow> (string + RestConfig) \<times> 'x"
  InClusterConfig :: "'x \<Rightarrow> (string + RestConfig) \<times> 'x"
  kube_NewForConfig :: "RestConfig \<Rightarrow> 'x \<Rightarrow> (string + string) \<times> 'x"
  snapshot_NewForConfig :: "RestConfig \<Rightarrow> 'x \<Rightarrow> (string + string) \<times> 'x"
  ServerResourcesForGroupVersion :: "string \<Rightarrow> string \<Rightarrow> 'x \<Rightarrow> (string + unit) \<times> 'x"
  Informer :: "informer \<Rightarrow> 'x \<Rightarrow> 'x"
  AddEventHandler :: "informer \<Rightarrow> 'x \<Rightarrow> (string + unit) \<times> 'x"
  factory_Start :: "factory \<Rightarrow> 'x \<Rightarrow> 'x"
  WaitForCacheSync :: "informer list \<Rightarrow> 'x \<Rightarrow> bool \<times> 'x"
  pv_Indexer :: "'x PVLister"
  vsc_Indexer :: "'x VSCLister"

text \<open>A call that cannot fail.\<close>

definition acts :: "('x \<Rightarrow> 'a \<times> 'x) \<Rightarrow> ('x world, 'a) io" where
  "acts f w = (case f (ext w) of (a, x) \<Rightarrow> (Inr a, w\<lparr>ext := x\<rparr>))"

section \<open>Clients\<close>

definition GetKubeConfig :: "'x ClientGo \<Rightarrow> string \<Rightarrow> ('x world, RestConfig) io" where
  "GetKubeConfig G kubecfgPath =
     (if kubecfgPath \<noteq> '''' then
        mapErr (ErrorfW ''build kube config from flags: %w'' []) (api (BuildConfigFromFlags G kubecfgPath))
      else mapErr (ErrorfW ''get in-cluster kube config: %w'' []) (api (InClusterConfig G)))"

definition NewKubeClient :: "'x ClientGo \<Rightarrow> RestConfig \<Rightarrow> ('x world, string) io" where
  "NewKubeClient G config =
     mapErr (ErrorfW ''create kubernetes client: %w'' []) (api (kube_NewForConfig G config))"

definition NewSnapshotClient :: "'x ClientGo \<Rightarrow> RestConfig \<Rightarrow> ('x world, string) io" where
  "NewSnapshotClient G config =
     mapErr (ErrorfW ''create snapshot client: %w'' []) (api (snapshot_NewForConfig G config))"

definition IsVolumeSnapshotAPIAvailable :: "'x ClientGo \<Rightarrow> RestConfig \<Rightarrow> ('x world, bool) io" where
  "IsVolumeSnapshotAPIAvailable G config =
     bindE (attempt (api (kube_NewForConfig G config))) (\<lambda>cs.
       case cs of
         Inl err \<Rightarrow> ret False
       | Inr c \<Rightarrow> bindE (attempt (api (ServerResourcesForGroupVersion G c ''snapshot.storage.k8s.io/v1''))) (\<lambda>r.
           case r of Inl err \<Rightarrow> ret False | Inr _ \<Rightarrow> ret True))"

section \<open>The informer manager\<close>

text \<open>\<open>pvSynced\<close> and \<open>vscSynced\<close> are the \<open>HasSynced\<close> methods of an informer.\<close>

record InformerManager =
  kubeClient :: string
  snapshotClient :: "string option"
  coreInformerFactory :: factory
  snapshotInformerFactory :: "factory option"
  pvInformer :: "informer option"
  pvSynced :: "informer option"
  vscInformer :: "informer option"
  vscSynced :: "informer option"

definition NewInformerManager :: "string \<Rightarrow> string option \<Rightarrow> InformerManager" where
  "NewInformerManager kc sc =
     \<lparr>kubeClient = kc, snapshotClient = sc, coreInformerFactory = CoreFactory,
      snapshotInformerFactory = (case sc of None \<Rightarrow> None | Some c \<Rightarrow> Some SnapshotFactory),
      pvInformer = None, pvSynced = None, vscInformer = None, vscSynced = None\<rparr>"

definition AddPVListener :: "'x ClientGo \<Rightarrow> InformerManager \<Rightarrow> ('x world, InformerManager) io" where
  "AddPVListener G im =
     bindE (case pvInformer im of
              None \<Rightarrow> bindE (acts (\<lambda>x. ((), Informer G PVInformer x))) (\<lambda>_. ret PVInformer)
            | Some i \<Rightarrow> ret i) (\<lambda>i.
     let im = im\<lparr>pvInformer := Some i, pvSynced := Some i\<rparr> in
     bindE (mapErr (\<lambda>err. Errorf ''add event handler on PersistentVolume listener: %v'' [])
              (api (AddEventHandler G i))) (\<lambda>_. ret im))"

definition AddVSCListener :: "'x ClientGo \<Rightarrow> InformerManager \<Rightarrow> ('x world, InformerManager) io" where
  "AddVSCListener G im =
     (case snapshotInformerFactory im of
        None \<Rightarrow> ret im
      | Some f \<Rightarrow>
          bindE (case vscInformer im of
                   None \<Rightarrow> bindE (acts (\<lambda>x. ((), Informer G VSCInformer x))) (\<lambda>_. ret VSCInformer)
                 | Some i \<Rightarrow> ret i) (\<lambda>i.
          let im = im\<lparr>vscInformer := Some i, vscSynced := Some i\<rparr> in
          bindE (mapErr (\<lambda>err. Errorf ''add event handler on VolumeSnapshotContent listener: %v'' [])
                   (api (AddEventHandler G i))) (\<lambda>_. ret im)))"

text \<open>The listers read the indexer of the shared informer, which asking for them registers.\<close>

definition GetPVLister :: "'x ClientGo \<Rightarrow> InformerManager \<Rightarrow> ('x world, 'x PVLister) io" where
  "GetPVLister G im = bindE (acts (\<lambda>x. ((), Informer G PVInformer x))) (\<lambda>_. ret (pv_Indexer G))"

definition GetVSCLister :: "'x ClientGo \<Rightarrow> InformerManager \<Rightarrow> ('x world, 'x VSCLister option) io" where
  "GetVSCLister G im =
     (case snapshotInformerFactory im of
        None \<Rightarrow> ret None
      | Some f \<Rightarrow> bindE (acts (\<lambda>x. ((), Informer G VSCInformer x))) (\<lambda>_. ret (Some (vsc_Indexer G))))"

definition im_Start :: "'x ClientGo \<Rightarrow> InformerManager \<Rightarrow> ('x world, unit) io" where
  "im_Start G im =
     bindE (acts (\<lambda>x. ((), factory_Start G (coreInformerFactory im) x))) (\<lambda>_.
     bindE (case snapshotInformerFactory im of
              None \<Rightarrow> ret ()
            | Some f \<Rightarrow> acts (\<lambda>x. ((), factory_Start G f x))) (\<lambda>_.
     let cacheSyncs = (case pvSynced im of None \<Rightarrow> [] | Some i \<Rightarrow> [i]) @
                      (case vscSynced im of None \<Rightarrow> [] | Some i \<Rightarrow> [i])
     in if length cacheSyncs = 0 then ret ()
        else bindE (acts (WaitForCacheSync G cacheSyncs)) (\<lambda>synced.
          if \<not> synced then throw (Errorf ''kubernetes informer cache sync incomplete'' []) else ret ())))"

section \<open>Lemmas\<close>

lemma wpE_acts [wp]: "wpE (acts f) Q E = (\<lambda>w. Q (fst (f (ext w))) (w\<lparr>ext := snd (f (ext w))\<rparr>))"
  by (simp add: fun_eq_iff wpE_def acts_def split: prod.split)

lemma wpE_api_ext:
  "(\<And>a. Q a (w\<lparr>ext := snd (f (ext w))\<rparr>)) \<Longrightarrow> (\<And>e. E e (w\<lparr>ext := snd (f (ext w))\<rparr>)) \<Longrightarrow> wpE (api f) Q E w"
  by (auto simp: wpE_def api_def split: prod.split sum.split)

text \<open>
  What the code relies on, over a view of client-go's state: which informers are registered with
  their factory, which are running, and which have synced.
  \<^item> Asking a factory for an informer registers it. Starting a factory runs the informers that are
    registered with it by then.
  \<^item> \<open>WaitForCacheSync\<close> returns true only when all informers it is given have synced.
  \<^item> None of these calls, and no registration of callbacks, undoes any of this.
  \<^item> The cache of an informer that is registered, running and synced can be listed.
\<close>

record 'x informer_view =
  registered :: "'x \<Rightarrow> informer \<Rightarrow> bool"
  running :: "'x \<Rightarrow> informer \<Rightarrow> bool"
  synced :: "'x \<Rightarrow> informer \<Rightarrow> bool"

definition live :: "'x informer_view \<Rightarrow> 'x \<Rightarrow> informer \<Rightarrow> bool" where
  "live V x i \<longleftrightarrow> registered V x i \<and> running V x i \<and> synced V x i"

definition undoes_nothing :: "'x informer_view \<Rightarrow> ('x \<Rightarrow> 'x) \<Rightarrow> bool" where
  "undoes_nothing V f \<longleftrightarrow> (\<forall>x i. (registered V x i \<longrightarrow> registered V (f x) i) \<and>
     (running V x i \<longrightarrow> running V (f x) i) \<and> (synced V x i \<longrightarrow> synced V (f x) i))"

fun factory_of :: "informer \<Rightarrow> factory" where
  "factory_of PVInformer = CoreFactory"
| "factory_of VSCInformer = SnapshotFactory"

definition sync_laws :: "'x ClientGo \<Rightarrow> 'x informer_view \<Rightarrow> bool" where
  "sync_laws G V \<longleftrightarrow>
     (\<forall>x i. registered V (Informer G i x) i) \<and>
     (\<forall>x i. registered V x i \<longrightarrow> running V (factory_Start G (factory_of i) x) i) \<and>
     (\<forall>is x x'. WaitForCacheSync G is x = (True, x') \<longrightarrow> (\<forall>i \<in> set is. synced V x' i)) \<and>
     (\<forall>i. undoes_nothing V (Informer G i)) \<and> (\<forall>i. undoes_nothing V (\<lambda>x. snd (AddEventHandler G i x))) \<and>
     (\<forall>f. undoes_nothing V (factory_Start G f)) \<and> (\<forall>is. undoes_nothing V (\<lambda>x. snd (WaitForCacheSync G is x))) \<and>
     (\<forall>x. live V x PVInformer \<longrightarrow> lister_ok (pv_Indexer G) x) \<and>
     (\<forall>x. live V x VSCInformer \<longrightarrow> vsc_lister_ok (vsc_Indexer G) x)"

lemma undoes_nothingD:
  assumes "undoes_nothing V f"
  shows "registered V x i \<Longrightarrow> registered V (f x) i" "running V x i \<Longrightarrow> running V (f x) i"
    "synced V x i \<Longrightarrow> synced V (f x) i"
  using assms by (simp_all add: undoes_nothing_def)

lemma sync_lawsD:
  assumes "sync_laws G V"
  shows "registered V (Informer G i x) i"
    and "registered V x i \<Longrightarrow> running V (factory_Start G (factory_of i) x) i"
    and "fst (WaitForCacheSync G is x) \<Longrightarrow> i \<in> set is \<Longrightarrow> synced V (snd (WaitForCacheSync G is x)) i"
    and "live V x PVInformer \<Longrightarrow> lister_ok (pv_Indexer G) x"
    and "live V x VSCInformer \<Longrightarrow> vsc_lister_ok (vsc_Indexer G) x"
  using assms unfolding sync_laws_def by (blast, blast, metis prod.collapse, blast, blast)

lemma sync_laws_keep:
  assumes "sync_laws G V"
  shows "undoes_nothing V (Informer G i)" "undoes_nothing V (\<lambda>x. snd (AddEventHandler G i x))"
    "undoes_nothing V (factory_Start G f)" "undoes_nothing V (\<lambda>x. snd (WaitForCacheSync G is x))"
  using assms unfolding sync_laws_def by blast+

lemmas sync_kept = sync_laws_keep [THEN undoes_nothingD(1)] sync_laws_keep [THEN undoes_nothingD(2)]
  sync_laws_keep [THEN undoes_nothingD(3)]

lemma undoes_nothing_live: "undoes_nothing V f \<Longrightarrow> live V x i \<Longrightarrow> live V (f x) i"
  by (simp add: undoes_nothing_def live_def)

text \<open>
  The manager after both listeners were added: what \<open>Start\<close> waits for is what the listers read,
  and it is registered with the factories that \<open>Start\<close> starts.
\<close>

definition listening :: "'x informer_view \<Rightarrow> 'x \<Rightarrow> InformerManager \<Rightarrow> bool" where
  "listening V x im \<longleftrightarrow> pvSynced im = Some PVInformer \<and> registered V x PVInformer \<and> coreInformerFactory im = CoreFactory \<and>
     (case snapshotInformerFactory im of
        None \<Rightarrow> vscSynced im = None
      | Some f \<Rightarrow> vscSynced im = Some VSCInformer \<and> registered V x VSCInformer \<and> f = SnapshotFactory)"

lemma AddPVListener_wp:
  assumes "pvInformer im = None" "sync_laws G V"
  shows "wpE (AddPVListener G im) (\<lambda>im' w'. im' = im\<lparr>pvInformer := Some PVInformer, pvSynced := Some PVInformer\<rparr> \<and>
     registered V (ext w') PVInformer) (\<lambda>_ _. True) w"
  using assms(1) sync_lawsD(1) [OF assms(2)] sync_kept(2) [OF assms(2)]
  by (auto simp: AddPVListener_def wp Let_def intro!: wpE_api_ext)

lemma AddVSCListener_wp:
  assumes "vscInformer im = None" "vscSynced im = None" "pvSynced im = Some PVInformer"
    and "registered V (ext w) PVInformer" "coreInformerFactory im = CoreFactory"
    and "snapshotInformerFactory im \<in> {None, Some SnapshotFactory}" "sync_laws G V"
  shows "wpE (AddVSCListener G im) (\<lambda>im' w'. listening V (ext w') im') (\<lambda>_ _. True) w"
proof (cases "snapshotInformerFactory im")
  case None
  with assms show ?thesis by (simp add: AddVSCListener_def wp listening_def)
next
  case (Some f)
  with assms(1-6) sync_lawsD(1) [OF assms(7)] sync_kept(1,2) [OF assms(7)] show ?thesis
    by (auto simp: AddVSCListener_def wp Let_def listening_def intro!: wpE_api_ext)
qed

lemma im_Start_wp:
  assumes "listening V (ext w) im" "sync_laws G V"
  shows "wpE (im_Start G im) (\<lambda>_ w'. live V (ext w') PVInformer \<and>
     (snapshotInformerFactory im \<noteq> None \<longrightarrow> live V (ext w') VSCInformer)) (\<lambda>_ _. True) w"
  using assms(1) sync_lawsD(2) [OF assms(2), of _ PVInformer] sync_lawsD(2) [OF assms(2), of _ VSCInformer]
    sync_lawsD(3) [OF assms(2)] sync_kept [OF assms(2)]
  by (auto simp: im_Start_def listening_def live_def wp Let_def split: option.splits)

end
