(* ===== verification/Endpoint.thy ===== *)
theory Endpoint
  imports Examples HostTree
begin

text \<open>
  \<open>parseListenAddress\<close> of \<open>cmd/csi-driver-ipfs/main.go\<close>: the address the gRPC server listens on,
  and the removal of a stale socket. The first part is \<open>net/url\<close> as it is used there: \<open>url.Parse\<close>
  with its percent-decoding (errors by their kind; of a URL only scheme, host and path are kept).
  Whether the text between the brackets of a host is an IPv6 address is decided by package
  \<open>net/netip\<close>: it is the argument \<open>ip6\<close>.
\<close>

section \<open>Strings\<close>

text \<open>\<open>strings.Cut\<close> at the first occurrence of a character.\<close>

definition cut :: "char \<Rightarrow> string \<Rightarrow> string \<times> string" where
  "cut c s = (takeWhile (\<lambda>x. x \<noteq> c) s, drop 1 (dropWhile (\<lambda>x. x \<noteq> c) s))"

text \<open>Split at the last occurrence of a character, if there is one.\<close>

definition cut_last :: "char \<Rightarrow> string \<Rightarrow> (string \<times> string) option" where
  "cut_last c s =
     (if c \<in> set s
      then Some (rev (drop 1 (dropWhile (\<lambda>x. x \<noteq> c) (rev s))), rev (takeWhile (\<lambda>x. x \<noteq> c) (rev s)))
      else None)"

definition in_range :: "char \<Rightarrow> char \<Rightarrow> char \<Rightarrow> bool" where
  "in_range lo hi c \<longleftrightarrow> lo \<le> c \<and> c \<le> hi"

definition is_digit :: "char \<Rightarrow> bool" where
  "is_digit = in_range (CHR ''0'') (CHR ''9'')"

definition is_alpha :: "char \<Rightarrow> bool" where
  "is_alpha c \<longleftrightarrow> in_range (CHR ''a'') (CHR ''z'') c \<or> in_range (CHR ''A'') (CHR ''Z'') c"

definition is_hex :: "char \<Rightarrow> bool" where
  "is_hex c \<longleftrightarrow> is_digit c \<or> in_range (CHR ''a'') (CHR ''f'') c \<or> in_range (CHR ''A'') (CHR ''F'') c"

definition unhex :: "char \<Rightarrow> nat" where
  "unhex c = (if is_digit c then of_char c - of_char (CHR ''0'')
              else if in_range (CHR ''a'') (CHR ''f'') c then of_char c - of_char (CHR ''a'') + 10
              else of_char c - of_char (CHR ''A'') + 10)"

section \<open>net/url\<close>

record URL =
  Scheme :: string
  Host :: string
  Path :: string

text \<open>
  Percent-decoding. In a host only bytes from 128 on, and the percent sign itself, may be
  encoded, and ASCII characters outside a fixed set are refused.
\<close>

datatype encoding = encodePath | encodeHost | encodeUserPassword | encodeFragment

definition host_char :: "char \<Rightarrow> bool" where
  "host_char c \<longleftrightarrow> is_alpha c \<or> is_digit c \<or> c \<in> set ''!$&()*+,;=:[]<>-_.~'' \<or>
     c = CHR 0x27 \<or> c = CHR 0x22 \<or> 128 \<le> (of_char c :: nat)"

fun unescape :: "encoding \<Rightarrow> string \<Rightarrow> string + string" where
  "unescape mode [] = Inr []"
| "unescape mode (c # cs) =
     (if c = CHR ''%'' then
        (case cs of
           a # b # rest \<Rightarrow>
             if \<not> (is_hex a \<and> is_hex b) then Inl ''invalid URL escape''
             else if mode = encodeHost \<and> unhex a < 8 \<and> [a, b] \<noteq> ''25'' then Inl ''invalid URL escape''
             else map_sum id ((#) (char_of (unhex a * 16 + unhex b))) (unescape mode rest)
         | _ \<Rightarrow> Inl ''invalid URL escape'')
      else if mode = encodeHost \<and> \<not> host_char c then Inl ''invalid character in host name''
      else map_sum id ((#) c) (unescape mode cs))"

text \<open>
  The scheme is what precedes the first colon, if it starts with a letter and has only letters,
  digits and \<open>+-.\<close>; a colon at the very start is an error.
\<close>

fun getScheme_from :: "string \<Rightarrow> string \<Rightarrow> string \<Rightarrow> string + string \<times> string" where
  "getScheme_from raw pre [] = Inr ('''', raw)"
| "getScheme_from raw pre (c # cs) =
     (if is_alpha c then getScheme_from raw (pre @ [c]) cs
      else if is_digit c \<or> c \<in> set ''+-.'' then
        (if pre = [] then Inr ('''', raw) else getScheme_from raw (pre @ [c]) cs)
      else if c = CHR '':'' then
        (if pre = [] then Inl ''missing protocol scheme'' else Inr (pre, cs))
      else Inr ('''', raw))"

definition getScheme :: "string \<Rightarrow> string + string \<times> string" where
  "getScheme raw = getScheme_from raw [] raw"

definition validOptionalPort :: "string \<Rightarrow> bool" where
  "validOptionalPort port \<longleftrightarrow> port = '''' \<or> (hd port = CHR '':'' \<and> list_all is_digit (tl port))"

text \<open>
  A host is a bracketed IPv6 address, or has at most one colon, before the port.
\<close>

definition parseHost :: "(string \<Rightarrow> bool) \<Rightarrow> string \<Rightarrow> string + string" where
  "parseHost ip6 host =
     (if CHR ''['' \<in> set host then
        (if hd host \<noteq> CHR ''['' \<or> CHR ''['' \<in> set (tl host) then Inl ''invalid IP-literal''
         else case cut_last (CHR '']'') (tl host) of
           None \<Rightarrow> Inl ''missing ']' in host''
         | Some (name, colonPort) \<Rightarrow>
             if \<not> validOptionalPort colonPort then Inl ''invalid port after host''
             else (case unescape encodeHost name of
                     Inl e \<Rightarrow> Inl e
                   | Inr n \<Rightarrow> if ip6 n then Inr (''['' @ n @ '']'' @ colonPort) else Inl ''invalid host''))
      else
        let colonPort = dropWhile (\<lambda>c. c \<noteq> CHR '':'') host in
        if \<not> validOptionalPort colonPort then Inl ''invalid port after host''
        else unescape encodeHost host)"

definition userinfo_char :: "char \<Rightarrow> bool" where
  "userinfo_char c \<longleftrightarrow> is_alpha c \<or> is_digit c \<or> c \<in> set ''-._:~!$&()*+,;=%@'' \<or> c = CHR 0x27"

definition parseAuthority :: "(string \<Rightarrow> bool) \<Rightarrow> string \<Rightarrow> string + string" where
  "parseAuthority ip6 authority =
     (case cut_last (CHR ''@'') authority of
        None \<Rightarrow> parseHost ip6 authority
      | Some (userinfo, host) \<Rightarrow>
          (case parseHost ip6 host of
             Inl e \<Rightarrow> Inl e
           | Inr h \<Rightarrow>
               if \<not> list_all userinfo_char userinfo then Inl ''invalid userinfo''
               else (case unescape encodeUserPassword userinfo of Inl e \<Rightarrow> Inl e | Inr u \<Rightarrow> Inr h)))"

definition is_ctl :: "char \<Rightarrow> bool" where
  "is_ctl c \<longleftrightarrow> (of_char c :: nat) < 32 \<or> c = CHR 0x7F"

definition url_parse :: "(string \<Rightarrow> bool) \<Rightarrow> string \<Rightarrow> string + URL" where
  "url_parse ip6 raw =
     (if list_ex is_ctl raw then Inl ''invalid control character in URL''
      else if raw = ''*'' then Inr \<lparr>Scheme = '''', Host = '''', Path = ''*''\<rparr>
      else case getScheme raw of
        Inl e \<Rightarrow> Inl e
      | Inr (scheme0, rest0) \<Rightarrow>
          let scheme = map ascii_lower scheme0;
              rest = fst (cut (CHR ''?'') rest0)
          in if \<not> HasPrefix rest ''/'' \<and> scheme \<noteq> '''' then Inr \<lparr>Scheme = scheme, Host = '''', Path = ''''\<rparr>
             else if \<not> HasPrefix rest ''/'' \<and> CHR '':'' \<in> set (fst (cut (CHR ''/'') rest))
             then Inl ''first path segment in URL cannot contain colon''
             else
               let hasAuthority = (HasPrefix rest ''//'' \<and> (scheme \<noteq> '''' \<or> \<not> HasPrefix rest ''///''));
                   authority = takeWhile (\<lambda>c. c \<noteq> CHR ''/'') (drop 2 rest);
                   path = (if hasAuthority then dropWhile (\<lambda>c. c \<noteq> CHR ''/'') (drop 2 rest) else rest)
               in (case (if hasAuthority then parseAuthority ip6 authority else Inr '''') of
                     Inl e \<Rightarrow> Inl e
                   | Inr host \<Rightarrow>
                       (case unescape encodePath path of
                          Inl e \<Rightarrow> Inl e
                        | Inr p \<Rightarrow> Inr \<lparr>Scheme = scheme, Host = host, Path = p\<rparr>)))"

definition url_Parse :: "(string \<Rightarrow> bool) \<Rightarrow> string \<Rightarrow> string + URL" where
  "url_Parse ip6 rawURL =
     (let (u, frag) = cut (CHR ''#'') rawURL
      in case url_parse ip6 u of
           Inl e \<Rightarrow> Inl e
         | Inr url \<Rightarrow> (case unescape encodeFragment frag of Inl e \<Rightarrow> Inl e | Inr f \<Rightarrow> Inr url))"

section \<open>parseListenAddress\<close>

text \<open>\<open>os.Lstat\<close>, of which only matters whether the file is a socket, and \<open>os.Remove\<close>.\<close>

definition os_Lstat :: "'x OS \<Rightarrow> string \<Rightarrow> ('x world, bool) io" where
  "os_Lstat E p = os_call E ''lstat'' p
     (readsE (\<lambda>w. case lookup (hfs w) (fs_path p) of
            None \<Rightarrow> Inl (NotExist p)
          | Some (FOther r) \<Rightarrow> Inr (os_IsSocket E w p)
          | Some _ \<Rightarrow> Inr False))"

definition os_Remove :: "'x OS \<Rightarrow> string \<Rightarrow> ('x world, unit) io" where
  "os_Remove E p = os_call E ''remove'' p
     (\<lambda>w. case lookup (hfs w) (fs_path p) of
            None \<Rightarrow> (Inl (NotExist p), w)
          | Some (FDir (e # es)) \<Rightarrow> (Inl (ExtErr ''directory not empty''), w)
          | Some _ \<Rightarrow> (Inr (), w\<lparr>hfs := removeAt (fs_path p) (hfs w)\<rparr>))"

definition parseListenAddress ::
  "(string \<Rightarrow> bool) \<Rightarrow> 'x OS \<Rightarrow> string \<Rightarrow> ('x world, string \<times> string) io" where
  "parseListenAddress ip6 E endpoint =
     (case url_Parse ip6 endpoint of
        Inl err \<Rightarrow> throw (ErrorfW ''parse endpoint: %w'' [] (ExtErr err))
      | Inr u \<Rightarrow>
          if Scheme u = ''unix'' then
            let addr = path_Clean (Path u) in
            bindE (attempt (os_Lstat E addr)) (\<lambda>fi.
            if fi = Inr False then throw (Errorf ''refusing to remove non-socket path: %s'' [addr])
            else
            bindE (attempt (os_Remove E addr)) (\<lambda>removed.
            case removed of
              Inl removeErr \<Rightarrow>
                if \<not> os_IsNotExist removeErr then throw (ErrorfW ''remove unix socket: %w'' [] removeErr)
                else ret (Scheme u, addr)
            | Inr _ \<Rightarrow> ret (Scheme u, addr)))
          else if Scheme u = ''tcp'' then ret (Scheme u, Host u)
          else throw (Errorf ''unsupported protocol scheme: %s'' [Scheme u]))"

section \<open>Lemmas\<close>

text \<open>Characters that stand for themselves in a path, and in a host name.\<close>

definition url_path_char :: "char \<Rightarrow> bool" where
  "url_path_char c \<longleftrightarrow> \<not> is_ctl c \<and> c \<noteq> CHR ''%'' \<and> c \<noteq> CHR ''?'' \<and> c \<noteq> CHR ''#''"

definition host_name_char :: "char \<Rightarrow> bool" where
  "host_name_char c \<longleftrightarrow> is_alpha c \<or> is_digit c \<or> c = CHR ''-'' \<or> c = CHR ''.''"

lemma cut_absent: "c \<notin> set s \<Longrightarrow> cut c s = (s, [])"
  by (induction s) (auto simp: cut_def)

lemma unescape_plain:
  "\<forall>c \<in> set s. c \<noteq> CHR ''%'' \<and> (mode = encodeHost \<longrightarrow> host_char c) \<Longrightarrow> unescape mode s = Inr s"
  by (induction s) auto

lemma path_chars:
  assumes "list_all url_path_char p"
  shows "CHR ''#'' \<notin> set p" "CHR ''?'' \<notin> set p" "\<not> list_ex is_ctl p" "unescape encodePath p = Inr p"
  using assms by (auto simp: list_all_iff list_ex_iff url_path_char_def intro!: unescape_plain)

lemma getScheme_known:
  "getScheme (''unix:'' @ r) = Inr (''unix'', r)" "getScheme (''tcp:'' @ r) = Inr (''tcp'', r)"
  by (simp_all add: getScheme_def in_range_def is_alpha_def is_digit_def less_eq_char_def)

lemma lower_known: "map ascii_lower ''unix'' = ''unix''" "map ascii_lower ''tcp'' = ''tcp''"
  by (simp_all add: ascii_lower_def less_eq_char_def)

lemma char_range_disjoint:
  "is_alpha c \<Longrightarrow> \<not> is_digit c" "is_alpha c \<or> is_digit c \<Longrightarrow> \<not> is_ctl c"
  "is_alpha c \<or> is_digit c \<Longrightarrow> c \<notin> set ''#?/@:[]%''"
  by (auto simp: in_range_def is_alpha_def is_digit_def is_ctl_def less_eq_char_def)

lemma host_name_chars:
  assumes "list_all host_name_char h"
  shows "x \<in> set ''#?/@:[]%'' \<Longrightarrow> x \<notin> set h" "\<not> list_ex is_ctl h" "list_all host_char h"
proof -
  have *: "c \<notin> set ''#?/@:[]%'' \<and> \<not> is_ctl c \<and> host_char c" if "host_name_char c" for c
  proof (cases "is_alpha c \<or> is_digit c")
    case True
    then show ?thesis using char_range_disjoint [of c] by (auto simp: host_char_def)
  next
    case False
    with that have "c = CHR ''-'' \<or> c = CHR ''.''" by (simp add: host_name_char_def)
    then show ?thesis by (auto simp: host_char_def is_ctl_def)
  qed
  show "x \<in> set ''#?/@:[]%'' \<Longrightarrow> x \<notin> set h" "\<not> list_ex is_ctl h" "list_all host_char h"
    using assms * by (auto simp: list_all_iff list_ex_iff)
qed

lemma url_Parse_unix:
  assumes "IsAbs p" "list_all url_path_char p"
  shows "url_Parse ip6 (''unix://'' @ p) = Inr \<lparr>Scheme = ''unix'', Host = '''', Path = p\<rparr>"
proof -
  from assms(1) obtain q where p: "p = CHR ''/'' # q" by (auto simp: IsAbs_iff)
  have "\<not> list_ex is_ctl (''unix://'' @ p)" using path_chars(3) [OF assms(2)] by (simp add: is_ctl_def)
  moreover have "parseAuthority ip6 '''' = Inr ''''"
    by (simp add: parseAuthority_def cut_last_def parseHost_def validOptionalPort_def)
  moreover have "getScheme (''unix://'' @ p) = Inr (''unix'', ''//'' @ p)"
    using getScheme_known(1) [of "''//'' @ p"] by simp
  ultimately have "url_parse ip6 (''unix://'' @ p) = Inr \<lparr>Scheme = ''unix'', Host = '''', Path = p\<rparr>"
    using path_chars [OF assms(2)] lower_known
    by (simp add: url_parse_def cut_absent HasPrefix_def p)
  then show ?thesis
    using path_chars [OF assms(2)] by (simp add: url_Parse_def cut_absent)
qed

lemma url_Parse_authority:
  assumes "parseAuthority ip6 a = Inr host" "\<not> list_ex is_ctl a"
    and "CHR ''#'' \<notin> set a" "CHR ''?'' \<notin> set a" "CHR ''/'' \<notin> set a"
  shows "url_Parse ip6 (''tcp://'' @ a) = Inr \<lparr>Scheme = ''tcp'', Host = host, Path = ''''\<rparr>"
proof -
  have whole: "takeWhile (\<lambda>c. c \<noteq> CHR ''/'') a = a" "dropWhile (\<lambda>c. c \<noteq> CHR ''/'') a = []"
    using assms(5) by (auto simp: takeWhile_eq_all_conv dropWhile_eq_Nil_conv)
  have "\<not> list_ex is_ctl (''tcp://'' @ a)" using assms(2) by (simp add: is_ctl_def)
  moreover have "getScheme (''tcp://'' @ a) = Inr (''tcp'', ''//'' @ a)"
    using getScheme_known(2) [of "''//'' @ a"] by simp
  ultimately have "url_parse ip6 (''tcp://'' @ a) = Inr \<lparr>Scheme = ''tcp'', Host = host, Path = ''''\<rparr>"
    using assms(1,4) lower_known by (simp add: url_parse_def cut_absent HasPrefix_def Let_def whole)
  then show ?thesis using assms(3) by (simp add: url_Parse_def cut_absent)
qed

lemma parseAuthority_port:
  assumes "list_all host_name_char h" "list_all is_digit port"
  shows "parseAuthority ip6 (h @ '':'' @ port) = Inr (h @ '':'' @ port)"
    "x \<in> set ''#?/'' \<Longrightarrow> x \<notin> set (h @ '':'' @ port)" "\<not> list_ex is_ctl (h @ '':'' @ port)"
proof -
  have port: "list_all host_name_char port" using assms(2) by (auto simp: list_all_iff host_name_char_def)
  let ?a = "h @ '':'' @ port"
  note chars = host_name_chars [OF assms(1)] host_name_chars [OF port]
  have no: "x \<in> set ''#?/@[]%'' \<Longrightarrow> x \<notin> set ?a" for x using chars(1,4) [of x] by auto
  have "list_all host_char ?a" using chars(3,6) by (simp add: host_char_def)
  moreover have "CHR ''%'' \<notin> set ?a" by (rule no) simp
  ultimately have "unescape encodeHost ?a = Inr ?a"
    by (intro unescape_plain) (metis list_all_iff)
  moreover have "dropWhile (\<lambda>c. c \<noteq> CHR '':'') ?a = '':'' @ port"
    using chars(1) [of "CHR '':''"] by (subst dropWhile_append2) auto
  ultimately show "parseAuthority ip6 ?a = Inr ?a"
    using no [of "CHR ''@''"] no [of "CHR ''[''"] assms(2)
    by (simp add: parseAuthority_def cut_last_def parseHost_def validOptionalPort_def)
  show "x \<in> set ''#?/'' \<Longrightarrow> x \<notin> set ?a" using no [of x] by auto
  show "\<not> list_ex is_ctl ?a" using chars(2,5) by (simp add: is_ctl_def)
qed

lemma url_Parse_tcp:
  assumes "list_all host_name_char h" "list_all is_digit port"
  shows "url_Parse ip6 (''tcp://'' @ h @ '':'' @ port) = Inr \<lparr>Scheme = ''tcp'', Host = h @ '':'' @ port, Path = ''''\<rparr>"
  using parseAuthority_port [OF assms] by (intro url_Parse_authority) (auto simp del: append_Cons set_append)

text \<open>Only the files of the host change.\<close>

lemma wpE_os_call [wp]:
  "wpE (os_call E op p m) Q Er = (\<lambda>w.
     case os_fault E op p w of Some (err, t) \<Rightarrow> Er (ExtErr err) (w\<lparr>hfs := t\<rparr>) | None \<Rightarrow> wpE m Q Er w)"
  by (auto simp: fun_eq_iff wpE_def os_call_def split: option.split)

lemma os_Lstat_keeps: "wpE (attempt (os_Lstat E p)) (\<lambda>_ w'. ext w' = ext w \<and> volumeLocks w' = volumeLocks w) Er w"
  by (simp add: os_Lstat_def wp split: option.split sum.split fnode.split prod.split)

lemma os_Remove_keeps: "wpE (attempt (os_Remove E p)) (\<lambda>_ w'. ext w' = ext w \<and> volumeLocks w' = volumeLocks w) Er w"
  by (auto simp: os_Remove_def wp wpE_def split: option.split fnode.split prod.split list.split)

lemma parseListenAddress_wp:
  "wpE (parseListenAddress ip6 E endpoint)
     (\<lambda>(scheme, addr) w'. scheme \<in> {''unix'', ''tcp''} \<and> ext w' = ext w \<and> volumeLocks w' = volumeLocks w) (\<lambda>_ _. True) w"
proof (cases "url_Parse ip6 endpoint")
  case (Inr u)
  then show ?thesis
    unfolding parseListenAddress_def Inr sum.case Let_def
    by (auto simp: wpE_ret wpE_throw wpE_bindE wpE_if intro!: wpE_mono [OF os_Lstat_keeps] wpE_mono [OF os_Remove_keeps] split: sum.split)
qed (simp add: parseListenAddress_def wp)

section \<open>Properties\<close>

text \<open>
  (C25) Start-up deletes nothing but a stale socket. On a host that refuses no call, whatever the
  endpoint, the files are left as they are, or exactly the socket at the address is removed; on
  success the scheme is unix or tcp, and a unix address names no file any more.
\<close>

theorem parseListenAddress_safe:
  assumes "\<And>op p u. os_fault E op p u = None" "hfs w = FDir es" "parseListenAddress ip6 E endpoint w = (r, w')"
  shows "(w' = w \<or> (\<exists>addr s. r = Inr (''unix'', addr) \<and> lookup (hfs w) (fs_path addr) = Some (FOther s) \<and>
            os_IsSocket E w addr \<and> w' = w\<lparr>hfs := removeAt (fs_path addr) (hfs w)\<rparr>)) \<and>
    (case r of Inl e \<Rightarrow> w' = w
     | Inr (scheme, addr) \<Rightarrow> scheme = ''tcp'' \<and> w' = w \<or>
         scheme = ''unix'' \<and> lookup (hfs w') (fs_path addr) = None)"
proof -
  have gone: "lookup (removeAt p (hfs w)) p = None" if "lookup (hfs w) p = Some (FOther s)" for p s
    using that assms(2) lookup_removeAt by (cases p rule: rev_cases) auto
  show ?thesis
    using assms(3)
    by (auto simp: parseListenAddress_def os_Lstat_def os_Remove_def os_call_def assms(1) bindE_def attempt_def
        readsE_def throw_def ret_def Let_def os_IsNotExist_def gone
        split: sum.splits option.splits fnode.splits if_splits list.splits)
qed

theorem parseListenAddress_safe_witness:
  "\<exists>e. parseListenAddress (\<lambda>_. False) example_OS ''unix:///tmp'' example_world = (Inl e, example_world)"
proof -
  have "isl (fst (parseListenAddress (\<lambda>_. False) example_OS ''unix:///tmp'' example_world))" by code_simp
  then obtain e w' where *: "parseListenAddress (\<lambda>_. False) example_OS ''unix:///tmp'' example_world = (Inl e, w')"
    by (metis isl_def prod.collapse)
  have "os_fault example_OS op p u = None" for op p and u :: "string list world" by (simp add: example_OS_def)
  from parseListenAddress_safe [OF this example_world_sel(3) *] * show ?thesis by auto
qed

text \<open>
  The usual endpoints are read as meant. A unix endpoint with three slashes stands for the
  cleaned path, if that names nothing or a socket; a tcp endpoint with a host name and a port
  stands for the two. No character of either is dropped or decoded.
\<close>

lemma parseListenAddress_exact:
  assumes "\<And>op p u. os_fault E op p u = None"
    and "IsAbs p" "list_all url_path_char p"
    and "case lookup (hfs w) (fs_path (path_Clean p)) of None \<Rightarrow> True
         | Some (FOther s) \<Rightarrow> os_IsSocket E w (path_Clean p) | Some _ \<Rightarrow> False"
    and "list_all host_name_char h" "list_all is_digit port"
  shows "fst (parseListenAddress ip6 E (''unix://'' @ p) w) = Inr (''unix'', path_Clean p) \<and>
    parseListenAddress ip6 E (''tcp://'' @ h @ '':'' @ port) w = (Inr (''tcp'', h @ '':'' @ port), w)"
proof
  show "fst (parseListenAddress ip6 E (''unix://'' @ p) w) = Inr (''unix'', path_Clean p)"
    unfolding parseListenAddress_def url_Parse_unix [OF assms(2,3)] sum.case Let_def using assms(4)
    by (auto simp: os_Lstat_def os_Remove_def os_call_def assms(1)
        bindE_def attempt_def readsE_def throw_def ret_def os_IsNotExist_def split: option.splits fnode.splits)
  show "parseListenAddress ip6 E (''tcp://'' @ h @ '':'' @ port) w = (Inr (''tcp'', h @ '':'' @ port), w)"
    unfolding parseListenAddress_def url_Parse_tcp [OF assms(5,6)] sum.case by (simp add: ret_def)
qed

end
