(* ===== verification/Server.thy ===== *)
theory Server
  imports Frame Provisioning
begin

text \<open>
  The gRPC server that \<open>cmd/csi-driver-ipfs/main.go\<close> starts: the three CSI services of the driver
  behind the interceptor of \<open>pkg/grpc/middleware/logging.go\<close>. A request is dispatched to the
  driver's method; every method is shown to return its errors as status errors with a documented
  set of codes. Requests that are served one after another, with anything happening outside the
  process in between, keep the host's tree well-formed, never find a lock held and are never
  refused as busy.
\<close>

section \<open>Requests\<close>

datatype request =
    ReqGetPluginInfo | ReqGetPluginCapabilities | ReqProbe
  | ReqCreateVolume CreateVolumeRequest | ReqDeleteVolume string
  | ReqControllerPublishVolume | ReqControllerUnpublishVolume
  | ReqValidateVolumeCapabilities string "VolumeCapability list"
  | ReqListVolumes string int | ReqGetCapacity | ReqControllerGetCapabilities
  | ReqCreateSnapshot string string | ReqDeleteSnapshot string | ReqListSnapshots string string int
  | ReqControllerExpandVolume string "CapacityRange option"
  | ReqControllerGetVolume string | ReqControllerModifyVolume string
  | ReqNodeStageVolume string string "gomap option" | ReqNodeUnstageVolume string string
  | ReqNodePublishVolume NodePublishVolumeRequest | ReqNodeUnpublishVolume string string
  | ReqNodeGetVolumeStats string string | ReqNodeExpandVolume string "CapacityRange option"
  | ReqNodeGetCapabilities | ReqNodeGetInfo

datatype response =
    RespEmpty | RespPluginInfo GetPluginInfoResponse | RespPluginCapabilities "PluginCapability list"
  | RespProbe bool | RespVolume Volume | RespValidate ValidateResponse | RespVolumes ListVolumesResponse
  | RespCapacity int64 | RespControllerCapabilities "ControllerServiceCapability list"
  | RespSnapshot Snapshot | RespSnapshots "Snapshot list" | RespExpand ExpandResponse
  | RespUsage "VolumeUsage list" | RespNodeCapabilities "NodeServiceCapability list" | RespNode string

definition respond :: "('a \<Rightarrow> response) \<Rightarrow> ('w, 'a) io \<Rightarrow> ('w, response) io" where
  "respond f m = bindE m (\<lambda>a. ret (f a))"

text \<open>The registered services: identity, controller and node, all of the same driver.\<close>

fun dispatch :: "'x Driver \<Rightarrow> request \<Rightarrow> ('x world, response) io" where
  "dispatch d ReqGetPluginInfo = respond RespPluginInfo (GetPluginInfo d)"
| "dispatch d ReqGetPluginCapabilities = respond RespPluginCapabilities (GetPluginCapabilities d)"
| "dispatch d ReqProbe = respond RespProbe (Probe d)"
| "dispatch d (ReqCreateVolume req) = respond RespVolume (CreateVolume d req)"
| "dispatch d (ReqDeleteVolume v) = respond (\<lambda>_. RespEmpty) (DeleteVolume d v)"
| "dispatch d ReqControllerPublishVolume = respond (\<lambda>_. RespEmpty) ControllerPublishVolume"
| "dispatch d ReqControllerUnpublishVolume = respond (\<lambda>_. RespEmpty) ControllerUnpublishVolume"
| "dispatch d (ReqValidateVolumeCapabilities v caps) = respond RespValidate (ValidateVolumeCapabilities d v caps)"
| "dispatch d (ReqListVolumes token n) = respond RespVolumes (Driver_ListVolumes d token n)"
| "dispatch d ReqGetCapacity = respond RespCapacity (GetCapacity d)"
| "dispatch d ReqControllerGetCapabilities = respond RespControllerCapabilities (ControllerGetCapabilities d)"
| "dispatch d (ReqCreateSnapshot n v) = respond RespSnapshot (CreateSnapshot d n v)"
| "dispatch d (ReqDeleteSnapshot s) = respond (\<lambda>_. RespEmpty) (DeleteSnapshot d s)"
| "dispatch d (ReqListSnapshots s v n) = respond RespSnapshots (Driver_ListSnapshots d s v n)"
| "dispatch d (ReqControllerExpandVolume v r) = respond RespExpand (ControllerExpandVolume d v r)"
| "dispatch d (ReqControllerGetVolume v) = respond RespVolume (ControllerGetVolume d v)"
| "dispatch d (ReqControllerModifyVolume v) = respond (\<lambda>_. RespEmpty) (ControllerModifyVolume d v)"
| "dispatch d (ReqNodeStageVolume v p vc) = respond (\<lambda>_. RespEmpty) (NodeStageVolume d v p vc)"
| "dispatch d (ReqNodeUnstageVolume v p) = respond (\<lambda>_. RespEmpty) (NodeUnstageVolume d v p)"
| "dispatch d (ReqNodePublishVolume req) = respond (\<lambda>_. RespEmpty) (NodePublishVolume d req)"
| "dispatch d (ReqNodeUnpublishVolume v p) = respond (\<lambda>_. RespEmpty) (NodeUnpublishVolume d v p)"
| "dispatch d (ReqNodeGetVolumeStats v p) = respond RespUsage (NodeGetVolumeStats d v p)"
| "dispatch d (ReqNodeExpandVolume p r) = respond RespCapacity (NodeExpandVolume d p r)"
| "dispatch d ReqNodeGetCapabilities = respond RespNodeCapabilities (NodeGetCapabilities d)"
| "dispatch d ReqNodeGetInfo = respond RespNode (NodeGetInfo d)"

section \<open>The interceptor\<close>

text \<open>
  The log lines around a call: the address of the peer (unknown if the context has no peer, or
  the peer no address), the called method, and afterwards the status code. The duration is left out.
\<close>

datatype log_line = StartUnaryCall string string | FinishUnaryCall string string code

definition LoggingUnaryServerInterceptor ::
  "string option option \<Rightarrow> string \<Rightarrow> ('q \<Rightarrow> ('w, 'a) io) \<Rightarrow> 'q \<Rightarrow> 'w \<Rightarrow> log_line list \<times> (gerr + 'a) \<times> 'w" where
  "LoggingUnaryServerInterceptor peer fullMethod handler req w =
     (let addr = (case peer of Some (Some a) \<Rightarrow> a | _ \<Rightarrow> ''unknown'');
          (r, w') = handler req w
      in ([StartUnaryCall addr fullMethod, FinishUnaryCall addr fullMethod (result_Code r)], r, w'))"

definition serve ::
  "'x Driver \<Rightarrow> string option option \<Rightarrow> string \<Rightarrow> request \<Rightarrow> 'x world \<Rightarrow>
   log_line list \<times> (gerr + response) \<times> 'x world" where
  "serve d peer fullMethod = LoggingUnaryServerInterceptor peer fullMethod (dispatch d)"

section \<open>Status codes\<close>

text \<open>The codes of the errors of each method, apart from \<open>Aborted\<close>, and the methods that lock.\<close>

fun rpc_codes :: "request \<Rightarrow> code set" where
  "rpc_codes ReqGetPluginInfo = {Unavailable}"
| "rpc_codes ReqGetPluginCapabilities = {}"
| "rpc_codes ReqProbe = {}"
| "rpc_codes (ReqCreateVolume _) = {InvalidArgument, NotFound, Internal}"
| "rpc_codes (ReqDeleteVolume _) = {InvalidArgument, Internal}"
| "rpc_codes ReqControllerPublishVolume = {Unimplemented}"
| "rpc_codes ReqControllerUnpublishVolume = {Unimplemented}"
| "rpc_codes (ReqValidateVolumeCapabilities _ _) = {InvalidArgument, NotFound, Internal}"
| "rpc_codes (ReqListVolumes _ _) = {InvalidArgument, Internal}"
| "rpc_codes ReqGetCapacity = {Internal}"
| "rpc_codes ReqControllerGetCapabilities = {}"
| "rpc_codes (ReqCreateSnapshot _ _) = {InvalidArgument, NotFound, Internal}"
| "rpc_codes (ReqDeleteSnapshot _) = {InvalidArgument, FailedPrecondition, Internal}"
| "rpc_codes (ReqListSnapshots _ _ _) = {Internal}"
| "rpc_codes (ReqControllerExpandVolume _ _) = {InvalidArgument}"
| "rpc_codes (ReqControllerGetVolume _) = {InvalidArgument, NotFound, Internal}"
| "rpc_codes (ReqControllerModifyVolume _) = {InvalidArgument}"
| "rpc_codes (ReqNodeStageVolume _ _ _) = {InvalidArgument, Internal}"
| "rpc_codes (ReqNodeUnstageVolume _ _) = {InvalidArgument, Internal}"
| "rpc_codes (ReqNodePublishVolume _) = {InvalidArgument, Internal}"
| "rpc_codes (ReqNodeUnpublishVolume _ _) = {InvalidArgument, Internal}"
| "rpc_codes (ReqNodeGetVolumeStats _ _) = {InvalidArgument, Internal}"
| "rpc_codes (ReqNodeExpandVolume _ _) = {InvalidArgument}"
| "rpc_codes ReqNodeGetCapabilities = {}"
| "rpc_codes ReqNodeGetInfo = {}"

fun rpc_locks :: "request \<Rightarrow> bool" where
  "rpc_locks (ReqCreateVolume _) \<longleftrightarrow> True"
| "rpc_locks (ReqDeleteVolume _) \<longleftrightarrow> True"
| "rpc_locks (ReqCreateSnapshot _ _) \<longleftrightarrow> True"
| "rpc_locks (ReqDeleteSnapshot _) \<longleftrightarrow> True"
| "rpc_locks _ \<longleftrightarrow> False"

section \<open>Every error has a code\<close>

text \<open>
  \<open>codes S m\<close>: whatever the state, an error of \<open>m\<close> has a code in \<open>S\<close>. \<open>busy_codes\<close> also allows
  \<open>Aborted\<close>, but only when some key is held at the start.
\<close>

definition codes :: "code set \<Rightarrow> ('w, 'a) io \<Rightarrow> bool" where
  "codes S m \<longleftrightarrow> (\<forall>w. wpE m (\<lambda>_ _. True) (\<lambda>e _. status_Code e \<in> S) w)"

definition busy_codes :: "code set \<Rightarrow> ('x world, 'a) io \<Rightarrow> bool" where
  "busy_codes S m \<longleftrightarrow> (\<forall>w. wpE m (\<lambda>_ _. True)
     (\<lambda>e _. status_Code e \<in> S \<or> status_Code e = Aborted \<and> locks (volumeLocks w) \<noteq> {}) w)"

named_theorems codes \<open>calls whose errors have one of a set of codes\<close>

lemma codes_pure [codes]:
  "codes S (ret a)" "status_Code e \<in> S \<Longrightarrow> codes S (throw e)" "codes S (reads f)"
  by (simp_all add: codes_def wp)

lemma codes_dropped [codes]:
  "codes S (attempt m)" "codes S (ignoreErr n)"
  by (simp_all add: codes_def wp)

lemma codes_mapErr [codes]: "(\<And>e. status_Code (g e) \<in> S) \<Longrightarrow> codes S (mapErr g m)"
  by (simp add: codes_def wp)

lemma codes_readsE [codes]: "(\<And>w e. f w = Inl e \<Longrightarrow> status_Code e \<in> S) \<Longrightarrow> codes S (readsE f)"
  by (simp add: codes_def wp split: sum.split)

lemma codes_bindE [codes]: "codes S m \<Longrightarrow> (\<And>a. codes S (f a)) \<Longrightarrow> codes S (bindE m f)"
  by (auto simp: codes_def wp intro: wpE_mono)

lemma codes_deferring [codes]: "codes S m \<Longrightarrow> codes S (deferring c m)"
  by (simp add: codes_def wp)

lemma codes_if [codes]: "(b \<Longrightarrow> codes S m) \<Longrightarrow> (\<not> b \<Longrightarrow> codes S n) \<Longrightarrow> codes S (if b then m else n)"
  by simp

lemma codes_Let [codes]: "(\<And>x. codes S (f x)) \<Longrightarrow> codes S (let x = v in f x)"
  by simp

lemma codes_case [codes]:
  "(\<And>a. codes S (f a)) \<Longrightarrow> (\<And>b. codes S (g b)) \<Longrightarrow> codes S (case x of Inl a \<Rightarrow> f a | Inr b \<Rightarrow> g b)"
  "codes S n \<Longrightarrow> (\<And>b. codes S (g b)) \<Longrightarrow> codes S (case y of None \<Rightarrow> n | Some b \<Rightarrow> g b)"
  "(\<And>a b. codes S (h a b)) \<Longrightarrow> codes S (case z of (a, b) \<Rightarrow> h a b)"
  by (auto split: sum.split option.split prod.split)

lemma busy_codes_plain: "codes S m \<Longrightarrow> busy_codes S m"
  by (auto simp: codes_def busy_codes_def intro: wpE_mono)

lemma busy_codes_lock:
  assumes "codes S body" "status_Code e = Aborted"
  shows "busy_codes S (with_lock k e body)"
  unfolding busy_codes_def
proof
  fix w
  have "wpE body (\<lambda>_ _. True) (\<lambda>e _. status_Code e \<in> S) (locked k w)"
    using assms(1) by (simp add: codes_def)
  then show "wpE (with_lock k e body) (\<lambda>_ _. True)
      (\<lambda>e _. status_Code e \<in> S \<or> status_Code e = Aborted \<and> locks (volumeLocks w) \<noteq> {}) w"
    using assms(2) by (auto simp: wp intro: wpE_mono)
qed

lemma busy_codes_if: "(b \<Longrightarrow> busy_codes S m) \<Longrightarrow> (\<not> b \<Longrightarrow> busy_codes S n) \<Longrightarrow> busy_codes S (if b then m else n)"
  by simp

lemma busy_codes_respond: "busy_codes S m \<Longrightarrow> busy_codes S (respond f m)"
  by (simp add: busy_codes_def respond_def wp)

subsection \<open>The controller\<close>

lemma codes_restore: "{NotFound, Internal} \<subseteq> S \<Longrightarrow> codes S (restoreSnapshotToMFS d s m)"
  unfolding restoreSnapshotToMFS_def by (intro codes) auto

lemma codes_provision: "{InvalidArgument, NotFound, Internal} \<subseteq> S \<Longrightarrow> codes S (provision d n c m p)"
  unfolding provision_def provision_cid_def provision_mfs_def by (intro codes) auto

lemma codes_CreateVolume: "busy_codes {InvalidArgument, NotFound, Internal} (CreateVolume d req)"
proof (cases "snapshotSourceID (cv_VolumeContentSource req)")
  case (Inl e)
  then show ?thesis
    using snapshotSourceID_error
    by (auto simp: CreateVolume_def Let_def intro!: busy_codes_plain codes)
next
  case (Inr s)
  show ?thesis
    unfolding CreateVolume_def Let_def Inr sum.case
    by (intro busy_codes_if busy_codes_lock busy_codes_plain codes codes_restore codes_provision) auto
qed

lemma codes_DeleteVolume: "busy_codes {InvalidArgument, Internal} (DeleteVolume d v)"
  unfolding DeleteVolume_def cleanupVolumeInIPFS_def
  by (intro busy_codes_if busy_codes_lock busy_codes_plain codes) auto

lemma codes_CreateSnapshot: "busy_codes {InvalidArgument, NotFound, Internal} (CreateSnapshot d n v)"
  unfolding CreateSnapshot_def Let_def
  by (intro busy_codes_if busy_codes_lock busy_codes_plain codes) auto

lemma codes_DeleteSnapshot: "busy_codes {InvalidArgument, FailedPrecondition, Internal} (DeleteSnapshot d s)"
  unfolding DeleteSnapshot_def Let_def
  by (intro busy_codes_if busy_codes_lock busy_codes_plain codes) auto

lemma codes_Driver_ListVolumes: "codes {InvalidArgument, Internal} (Driver_ListVolumes d t n)"
  unfolding Driver_ListVolumes_def
  by (intro codes) (auto simp: page_entries_def Let_def split: option.splits if_splits)

subsection \<open>The node\<close>

lemma codes_fetch: "codes {InvalidArgument, Internal} (fetchContentToPath d vc p)"
  unfolding fetchContentToPath_def by (intro codes) auto

lemma codes_NodePublishVolume: "codes {InvalidArgument, Internal} (NodePublishVolume d req)"
  unfolding NodePublishVolume_def Let_def by (intro codes codes_fetch) auto

lemma codes_dispatch:
  "if rpc_locks r then busy_codes (rpc_codes r) (dispatch d r) else codes (rpc_codes r) (dispatch d r)"
proof (cases "rpc_locks r")
  case True
  then show ?thesis
    by (cases r) (auto intro: busy_codes_respond codes_CreateVolume codes_DeleteVolume
        codes_CreateSnapshot codes_DeleteSnapshot)
next
  case False
  have "codes (rpc_codes r) (dispatch d r)"
    using False codes_Driver_ListVolumes codes_NodePublishVolume codes_fetch
    by (cases r) (auto simp: respond_def GetPluginInfo_def GetPluginCapabilities_def Probe_def
        ControllerPublishVolume_def ControllerUnpublishVolume_def ValidateVolumeCapabilities_def
        GetCapacity_def ControllerGetCapabilities_def Driver_ListSnapshots_def
        ControllerExpandVolume_def ControllerGetVolume_def ControllerModifyVolume_def
        NodeStageVolume_def NodeUnstageVolume_def NodeUnpublishVolume_def NodeGetInfo_def
        NodeGetCapabilities_def NodeGetVolumeStats_def NodeExpandVolume_def Let_def
        intro!: codes)
  with False show ?thesis by simp
qed

lemma dispatch_error:
  assumes "dispatch d r w = (Inl e, w')"
  shows "status_Code e \<in> rpc_codes r \<or> rpc_locks r \<and> status_Code e = Aborted \<and> locks (volumeLocks w) \<noteq> {}"
proof (cases "rpc_locks r")
  case True
  then have "busy_codes (rpc_codes r) (dispatch d r)" using codes_dispatch [of r d] by simp
  then show ?thesis using True assms by (auto simp: busy_codes_def dest!: spec [of _ w] dest: wpE_Inl)
next
  case False
  then have "codes (rpc_codes r) (dispatch d r)" using codes_dispatch [of r d] by simp
  then show ?thesis using assms by (auto simp: codes_def dest!: spec [of _ w] dest: wpE_Inl)
qed

section \<open>Requests one after another\<close>

text \<open>
  The states of a process that serves one request at a time. Between requests anything may happen
  outside the process: to the daemon and the cluster (\<open>ext\<close>), the clock, and the files of the
  host, as long as these are a tree.
\<close>

inductive served :: "'x Driver \<Rightarrow> 'x world \<Rightarrow> bool" for d where
  served_start: "volumeLocks w = NewVolumeLocks \<Longrightarrow> tree_ok (hfs w) \<Longrightarrow> served d w"
| served_request: "served d w \<Longrightarrow> serve d peer fullMethod r w = (lines, res, w') \<Longrightarrow> served d w'"
| served_outside: "served d w \<Longrightarrow> tree_ok t \<Longrightarrow> served d (w\<lparr>ext := x, hfs := t, clock := c\<rparr>)"

lemma stays_dispatch:
  assumes "ipfsClient d = client K (osEnv d)"
  shows "stays (kept K (osEnv d) (mounter d)) (dispatch d r)"
proof -
  note rules = kubo_kept.kubo.stays_identity [OF assms] kubo_kept.kubo.stays_CreateVolume [OF assms refl]
    kubo_kept.kubo.stays_DeleteVolume [OF assms] kubo_kept.kubo.stays_CreateSnapshot [OF assms]
    kubo_kept.kubo.stays_DeleteSnapshot [OF assms] kubo_kept.kubo.stays_controller_reads [OF assms]
    host_kept.stays_node [OF assms refl refl]
  show ?thesis
    by (cases r) (auto simp: respond_def intro!: kubo_kept.stays_bindE kubo_kept.stays_ret rules)
qed

lemma serve_dispatch:
  "serve d peer fullMethod r w = (lines, res, w') \<Longrightarrow>
   dispatch d r w = (res, w') \<and> (\<exists>addr. lines = [StartUnaryCall addr fullMethod, FinishUnaryCall addr fullMethod (result_Code res)])"
  by (auto simp: serve_def LoggingUnaryServerInterceptor_def Let_def split: prod.splits)

lemma served_ok:
  assumes "served d w" "ipfsClient d = client K (osEnv d)" "host_laws K (osEnv d) (mounter d)"
  shows "tree_ok (hfs w) \<and> volumeLocks w = NewVolumeLocks"
  using assms(1)
proof induction
  case (served_request w peer fullMethod r lines res w')
  have "w' = snd (dispatch d r w)" using serve_dispatch [OF served_request.hyps(2)] by simp
  with keptD [OF stays_dispatch [OF assms(2)] assms(3)] served_request.IH show ?case by metis
qed auto

section \<open>Properties\<close>



text \<open>
  (C11) A server that handles its requests one at a time stays sound, whatever they are and
  whatever happens outside the process in between: the files of the host are a well-formed tree,
  no lock is held between requests, and no request is ever refused as busy.
\<close>

theorem served_sound:
  assumes "served d w" "ipfsClient d = client K (osEnv d)" "host_laws K (osEnv d) (mounter d)"
  shows "tree_ok (hfs w) \<and> locks (volumeLocks w) = {} \<and>
    (\<forall>peer fullMethod r lines e w'. serve d peer fullMethod r w = (lines, Inl e, w') \<longrightarrow> status_Code e \<in> rpc_codes r)"
proof -
  have "tree_ok (hfs w)" "locks (volumeLocks w) = {}"
    using served_ok [OF assms] by (simp_all add: NewVolumeLocks_def)
  then show ?thesis using serve_dispatch dispatch_error by metis
qed

theorem served_sound_witness:
  "tree_ok (hfs (snd (snd (serve (example_driver\<lparr>ipfsClient := client example_Kubo example_OS\<rparr>) None ''m''
     (ReqNodeStageVolume ''v'' ''/s'' None) example_world))))"
proof -
  let ?d = "example_driver\<lparr>ipfsClient := client example_Kubo example_OS\<rparr>"
  have laws: "host_laws example_Kubo (osEnv ?d) (mounter ?d)"
    by (simp add: example_driver_def example_host_laws)
  have "served ?d example_world"
    by (rule served_start) (simp_all add: example_world_def plain_elem_def)
  then have "served ?d (snd (snd (serve ?d None ''m'' (ReqNodeStageVolume ''v'' ''/s'' None) example_world)))"
    by (rule served_request) (simp add: prod_eq_iff)
  from served_sound [OF this _ laws] show ?thesis by (simp add: example_driver_def)
qed

end
