(* ===== verification/Logging.thy ===== *)
theory Logging
  imports Prelude
begin

text \<open>
  \<open>pkg/logging\<close>: the level and the encoding the flags ask for, the global logger, its hooks and the
  loggers of the components. The logger library is not part of the repository: of a logger the
  model has how it was configured, and the methods of an event that the hooks call are the record
  \<open>Event_ops\<close>.
\<close>

section \<open>The logger\<close>

definition LogEncodingJSON :: string where "LogEncodingJSON = ''json''"
definition LogEncodingText :: string where "LogEncodingText = ''text''"

definition LogLevelTrace :: string where "LogLevelTrace = ''trace''"
definition LogLevelDebug :: string where "LogLevelDebug = ''debug''"
definition LogLevelInfo :: string where "LogLevelInfo = ''info''"
definition LogLevelWarn :: string where "LogLevelWarn = ''warn''"
definition LogLevelError :: string where "LogLevelError = ''error''"

datatype Level = TraceLevel | DebugLevel | InfoLevel | WarnLevel | ErrorLevel

definition parseLevel :: "string \<Rightarrow> Level" where
  "parseLevel s =
     (if s = LogLevelTrace then TraceLevel
      else if s = LogLevelDebug then DebugLevel
      else if s = LogLevelInfo then InfoLevel
      else if s = LogLevelWarn then WarnLevel
      else if s = LogLevelError then ErrorLevel
      else InfoLevel)"

datatype log_writer = StdoutJSON | ConsoleWriter
datatype log_hook = PIDHook | GIDHook

record Logger =
  lg_Level :: Level
  lg_Writer :: log_writer
  lg_Hooks :: "log_hook list"
  lg_Timestamp :: bool
  lg_Caller :: bool
  lg_Fields :: "(string \<times> string) list"

definition SetupLogger :: "string \<Rightarrow> string \<Rightarrow> Logger" where
  "SetupLogger level encoding =
     \<lparr>lg_Level = parseLevel level,
      lg_Writer = (if encoding = LogEncodingJSON then StdoutJSON else ConsoleWriter),
      lg_Hooks = [PIDHook, GIDHook], lg_Timestamp = True, lg_Caller = True, lg_Fields = []\<rparr>"

definition NewComponentLogger :: "Logger \<Rightarrow> string \<Rightarrow> Logger" where
  "NewComponentLogger log name = log\<lparr>lg_Fields := lg_Fields log @ [(''component'', name)]\<rparr>"

section \<open>Hooks\<close>

record 'e Event_ops =
  ev_Int :: "string \<Rightarrow> int \<Rightarrow> 'e \<Rightarrow> 'e"
  ev_Uint64 :: "string \<Rightarrow> 64 word \<Rightarrow> 'e \<Rightarrow> 'e"

text \<open>What a hook does to an event before it is written, in a process and a goroutine.\<close>

definition PIDHook_Run :: "'e Event_ops \<Rightarrow> int \<Rightarrow> 'e \<Rightarrow> 'e" where
  "PIDHook_Run Z os_Getpid e = ev_Int Z ''pid'' os_Getpid e"

definition GIDHook_Run :: "'e Event_ops \<Rightarrow> 64 word \<Rightarrow> 'e \<Rightarrow> 'e" where
  "GIDHook_Run Z routine_Goid e = ev_Uint64 Z ''gid'' routine_Goid e"

fun hook_Run :: "'e Event_ops \<Rightarrow> int \<Rightarrow> 64 word \<Rightarrow> log_hook \<Rightarrow> 'e \<Rightarrow> 'e" where
  "hook_Run Z pid gid PIDHook = PIDHook_Run Z pid"
| "hook_Run Z pid gid GIDHook = GIDHook_Run Z gid"

text \<open>
  The loggers of the components share the hooks of the global one, so that an event of any of them
  names the process, the goroutine and, last among the logger's own fields, the component.
\<close>

lemma component_event:
  "fold (hook_Run Z pid gid) (lg_Hooks (NewComponentLogger (SetupLogger level encoding) name)) e
     = ev_Uint64 Z ''gid'' gid (ev_Int Z ''pid'' pid e)"
  "last (lg_Fields (NewComponentLogger log name)) = (''component'', name)"
  by (simp_all add: NewComponentLogger_def SetupLogger_def PIDHook_Run_def GIDHook_Run_def)

text \<open>Exactly five names select a level of their own; everything else means info.\<close>

lemma parseLevel_names:
  "parseLevel ''trace'' = TraceLevel" "parseLevel ''debug'' = DebugLevel" "parseLevel ''info'' = InfoLevel"
  "parseLevel ''warn'' = WarnLevel" "parseLevel ''error'' = ErrorLevel"
  "s \<notin> {''trace'', ''debug'', ''warn'', ''error''} \<Longrightarrow> parseLevel s = InfoLevel"
  by (simp_all add: parseLevel_def LogLevelTrace_def LogLevelDebug_def LogLevelInfo_def LogLevelWarn_def
      LogLevelError_def)

end
