(* ===== verification/Startup.thy ===== *)
theory Startup
  imports CommandLine Informers Endpoint Server Logging
begin

text \<open>
  \<open>main\<close> of \<open>cmd/csi-driver-ipfs/main.go\<close>, from the command line to the state in which the gRPC
  server accepts requests. A call of \<open>Fatal\<close>, which ends the process, is an error. Left out: what
  client-go does with its rate limits, the registration of metrics and messages to the log; what
  happens after the start is in theory \<open>Shutdown\<close>. A process that has started serves
  over caches that are synced and with no lock held, which is what the properties of the services
  rely on.
\<close>

text \<open>\<open>utils.FromPtr\<close>: the value a pointer refers to, or the zero value.\<close>

definition FromPtr :: "'a \<Rightarrow> 'a option \<Rightarrow> 'a" where
  "FromPtr zero p = (case p of None \<Rightarrow> zero | Some a \<Rightarrow> a)"

section \<open>main\<close>

text \<open>What \<open>main\<close> calls besides the packages of the repository.\<close>

record 'x Process =
  clientGo :: "'x ClientGo"
  kubo :: "'x KuboAPI"
  os :: "'x OS"
  mount_New :: "'x Mounter"
  os_Hostname :: "'x \<Rightarrow> (string + string) \<times> 'x"
  net_Listen :: "string \<Rightarrow> string \<Rightarrow> 'x \<Rightarrow> (string + unit) \<times> 'x"
  netip_IsAddr6 :: "string \<Rightarrow> bool"

text \<open>What the build sets.\<close>

record BuildInfo =
  driverVersion :: string
  gitCommit :: string
  buildDate :: string

definition version_text :: "BuildInfo \<Rightarrow> string" where
  "version_text b = ''csi-driver-ipfs '' @ driverVersion b @ '' (commit: '' @ gitCommit b @
     '', built: '' @ buildDate b @ '')'' @ [CHR 0x0A]"

datatype 'x started =
    PrintedVersion string
  | Serving (srv_driver: "'x Driver") (srv_scheme: string) (srv_addr: string) (srv_reflection: bool) (srv_log: Logger)

definition fatal :: "string \<Rightarrow> ('w, 'a) io \<Rightarrow> ('w, 'a) io" where
  "fatal msg = mapErr (ErrorfW msg [])"

text \<open>The node identifier defaults to the host name.\<close>

definition resolve_nodeID :: "'x Process \<Rightarrow> string \<Rightarrow> ('x world, string) io" where
  "resolve_nodeID P nodeID = (if nodeID = '''' then fatal ''get hostname'' (api (os_Hostname P)) else ret nodeID)"

text \<open>No snapshot client if it cannot be created or the cluster does not have the snapshot API.\<close>

definition snapshot_client :: "'x Process \<Rightarrow> RestConfig \<Rightarrow> ('x world, string option) io" where
  "snapshot_client P restConfig =
     bindE (attempt (NewSnapshotClient (clientGo P) restConfig)) (\<lambda>sc.
       case sc of
         Inl err \<Rightarrow> ret None
       | Inr c \<Rightarrow> bindE (IsVolumeSnapshotAPIAvailable (clientGo P) restConfig) (\<lambda>available.
           if \<not> available then ret None else ret (Some c)))"

definition install_driver :: "'x Driver \<times> VolumeLocks \<Rightarrow> ('x world, 'x Driver) io" where
  "install_driver dl w = (Inr (fst dl), w\<lparr>volumeLocks := snd dl\<rparr>)"

text \<open>\<open>main\<close> after \<open>flag.Parse\<close>.\<close>

definition main :: "'x Process \<Rightarrow> BuildInfo \<Rightarrow> Flags \<Rightarrow> ('x world, 'x started) io" where
  "main P b fl =
     (if fl_version fl then ret (PrintedVersion (version_text b))
      else
      let log = SetupLogger (FromPtr '''' (Some (fl_logLevel fl))) (FromPtr '''' (Some (fl_logFormat fl))) in
      bindE (resolve_nodeID P (fl_nodeID fl)) (\<lambda>nodeID.
      bindE (fatal ''create IPFS client'' (readsE (\<lambda>_. NewClient (kubo P) (os P) (FromPtr '''' (Some (fl_ipfsAPI fl)))))) (\<lambda>cl.
      bindE (fatal ''get kube config'' (GetKubeConfig (clientGo P) (FromPtr '''' (Some (fl_kubeConfig fl))))) (\<lambda>restConfig.
      let restConfig = restConfig\<lparr>rc_QPS := fl_kubeQPS fl, rc_Burst := fl_kubeBurst fl\<rparr> in
      bindE (fatal ''create kubernetes core client'' (NewKubeClient (clientGo P) restConfig)) (\<lambda>kc.
      bindE (snapshot_client P restConfig) (\<lambda>sc.
      bindE (fatal ''add PersistentVolume listener'' (AddPVListener (clientGo P) (NewInformerManager kc sc))) (\<lambda>im.
      bindE (fatal ''add VolumeSnapshotContent listener'' (AddVSCListener (clientGo P) im)) (\<lambda>im.
      bindE (fatal ''start Kubernetes informers'' (im_Start (clientGo P) im)) (\<lambda>_.
      bindE (GetPVLister (clientGo P) im) (\<lambda>L.
      bindE (GetVSCLister (clientGo P) im) (\<lambda>S.
      let vs = NewVolumeStoreFromPVLister (ext_PVLister L);
          ss = NewSnapshotStoreFromVSCLister (map_option ext_VSCLister S);
          config = \<lparr>DriverName = fl_driverName fl, NodeID = nodeID, Version = driverVersion b,
                    MountDir = fl_mountDir fl, MFSRoot = fl_ipfsMFSRoot fl, PinFailurePolicy = fl_pinFailure fl\<rparr>
      in
      bindE (bindE (fatal ''create CSI driver'' (readsE (\<lambda>_. NewDriver config cl vs ss (os P) (mount_New P)))) install_driver) (\<lambda>d.
      bindE (fatal ''parse endpoint'' (parseListenAddress (netip_IsAddr6 P) (os P) (fl_endpoint fl))) (\<lambda>(scheme, addr).
      bindE (fatal ''create listener'' (api (net_Listen P scheme addr))) (\<lambda>_.
      ret (Serving d scheme addr (fl_grpcReflect fl) (NewComponentLogger log ''grpc-server''))))))))))))))))"

text \<open>
  The whole of \<open>main\<close>, from the arguments and the environment: a process that does not serve has
  ended with an exit status, 2 for a bad command line, 1 after \<open>Fatal\<close>, and otherwise 0. Arguments
  that \<open>flag.Parse\<close> leaves are ignored.
\<close>

definition run_process ::
  "(string \<Rightarrow> bool) \<Rightarrow> 'x Process \<Rightarrow> BuildInfo \<Rightarrow> string \<Rightarrow> string list \<Rightarrow> 'x world \<Rightarrow> (int + 'x started) \<times> 'x world" where
  "run_process float_ok P b KUBECONFIG args w =
     (case flag_Parse float_ok args (default_flags KUBECONFIG) of
        FlagsHelp \<Rightarrow> (Inl 0, w)
      | FlagsError e \<Rightarrow> (Inl 2, w)
      | FlagsParsed fl rest \<Rightarrow>
          (case main P b fl w of
             (Inl e, w') \<Rightarrow> (Inl 1, w')
           | (Inr (PrintedVersion s), w') \<Rightarrow> (Inl 0, w')
           | (Inr r, w') \<Rightarrow> (Inr r, w')))"

section \<open>Lemmas\<close>

lemma wpE_fatal [wp]: "wpE (fatal msg m) Q E = wpE m Q (\<lambda>e. E (ErrorfW msg [] e))"
  by (simp add: fatal_def wp)

lemma wpE_install_driver [wp]:
  "wpE (install_driver dl) Q E = (\<lambda>w. Q (fst dl) (w\<lparr>volumeLocks := snd dl\<rparr>))"
  by (simp add: fun_eq_iff wpE_def install_driver_def)

lemma wpE_any: "(\<And>a w'. Q a w') \<Longrightarrow> wpE m Q (\<lambda>_ _. True) w"
  by (auto simp: wpE_def split: prod.split sum.split)

lemma wpE_thread:
  assumes "wpE m Q (\<lambda>_ _. True) w" "\<And>a w'. Q a w' \<Longrightarrow> Q' a w'"
  shows "wpE m Q' (\<lambda>_ _. True) w"
  by (rule wpE_mono [OF assms]) auto

text \<open>The state from which the listers are handed to the driver.\<close>

definition ready :: "'x informer_view \<Rightarrow> bool \<Rightarrow> 'x world \<Rightarrow> bool" where
  "ready V snapshots w \<longleftrightarrow> live V (ext w) PVInformer \<and> (snapshots \<longrightarrow> live V (ext w) VSCInformer)"

definition serves :: "'x Process \<Rightarrow> 'x informer_view \<Rightarrow> Flags \<Rightarrow> 'x started \<Rightarrow> 'x world \<Rightarrow> bool" where
  "serves P V fl r w \<longleftrightarrow>
     (case r of PrintedVersion v \<Rightarrow> fl_version fl
      | Serving d scheme addr reflection log \<Rightarrow>
          (\<exists>S. S \<in> {None, Some (vsc_Indexer (clientGo P))} \<and> ready V (S \<noteq> None) w \<and> informed d (pv_Indexer (clientGo P)) S \<and>
               caches_ok (pv_Indexer (clientGo P)) S (ext w)) \<and>
          ipfsClient d = client (kubo P) (osEnv d) \<and> osEnv d = os P \<and> mounter d = mount_New P \<and>
          volumeLocks w = NewVolumeLocks \<and>
          DriverName (cfg d) = fl_driverName fl \<and> DriverName (cfg d) \<noteq> '''' \<and> NodeID (cfg d) \<noteq> '''' \<and>
          MFSRoot (cfg d) = fl_ipfsMFSRoot fl \<and>
          PinFailurePolicy (cfg d) \<in> {pinFailurePolicyStrict, pinFailurePolicyBestEffort} \<and>
          scheme \<in> {''unix'', ''tcp''})"

definition listen_law :: "'x Process \<Rightarrow> 'x informer_view \<Rightarrow> bool" where
  "listen_law P V \<longleftrightarrow> (\<forall>s a. undoes_nothing V (\<lambda>x. snd (net_Listen P s a x)))"

lemma main_tail:
  assumes "sync_laws (clientGo P) V" "listen_law P V" "ready V (S \<noteq> None) w"
    and "S \<in> {None, Some (vsc_Indexer (clientGo P))}" "NewClient (kubo P) (os P) addr = Inr cl"
    and d: "NewDriver \<lparr>DriverName = fl_driverName fl, NodeID = nodeID, Version = v,
        MountDir = fl_mountDir fl, MFSRoot = fl_ipfsMFSRoot fl, PinFailurePolicy = fl_pinFailure fl\<rparr> cl
        (NewVolumeStoreFromPVLister (ext_PVLister (pv_Indexer (clientGo P))))
        (NewSnapshotStoreFromVSCLister (map_option ext_VSCLister S)) (os P) (mount_New P) = Inr dl"
  shows "wpE (bindE (fatal ''parse endpoint'' (parseListenAddress (netip_IsAddr6 P) (os P) (fl_endpoint fl))) (\<lambda>(scheme, addr).
      bindE (fatal ''create listener'' (api (net_Listen P scheme addr))) (\<lambda>_.
      ret (Serving (fst dl) scheme addr reflection log)))) (serves P V fl) (\<lambda>_ _. True) (w\<lparr>volumeLocks := snd dl\<rparr>)"
proof -
  have cl: "cl = client (kubo P) (os P)"
    using assms(5) by (auto simp: NewClient_def split: if_splits sum.splits)
  have dr: "serves P V fl (Serving (fst dl) s a reflection log) u"
    if u: "volumeLocks u = snd dl" "ready V (S \<noteq> None) u" "s \<in> {''unix'', ''tcp''}" for s a and u :: "'a world"
  proof -
    have "lister_ok (pv_Indexer (clientGo P)) (ext u)" "S \<noteq> None \<Longrightarrow> vsc_lister_ok (vsc_Indexer (clientGo P)) (ext u)"
      using sync_lawsD(4,5) [OF assms(1)] u(2) by (auto simp: ready_def)
    then have "caches_ok (pv_Indexer (clientGo P)) S (ext u)"
      using assms(4) by (auto simp: caches_ok_def)
    with d u assms(4) cl show ?thesis
      by (auto simp: serves_def NewDriver_def informed_def Let_def split: if_splits intro!: exI [of _ S])
  qed
  have listen: "ready V b (w'\<lparr>ext := snd (net_Listen P s a (ext w'))\<rparr>)" if "ready V b w'" for b s a w'
    using assms(2) that undoes_nothing_live [where f = "\<lambda>x. snd (net_Listen P s a x)"]
    by (auto simp: listen_law_def ready_def)
  have r: "ready V (S \<noteq> None) w'" if "ext w' = ext w" for w' :: "'a world"
    using assms(3) that by (simp add: ready_def)
  show ?thesis
    unfolding wpE_bindE wpE_fatal
  proof (rule wpE_thread [OF parseListenAddress_wp], clarify)
    fix s a and w' :: "'a world"
    assume *: "s \<in> {''unix'', ''tcp''}" "ext w' = ext (w\<lparr>volumeLocks := snd dl\<rparr>)"
      "volumeLocks w' = volumeLocks (w\<lparr>volumeLocks := snd dl\<rparr>)"
    then have "ready V (S \<noteq> None) w'" by (intro r) simp
    from listen [OF this, of s a] *
    show "wpE (bindE (fatal ''create listener'' (api (net_Listen P s a))) (\<lambda>_. ret (Serving (fst dl) s a reflection log)))
        (serves P V fl) (\<lambda>_ _. True) w'"
      using dr [of "w'\<lparr>ext := snd (net_Listen P s a (ext w'))\<rparr>" s a]
      by (auto simp: wp wpE_def api_def split: prod.split sum.split)
  qed
qed

lemma listers_wp:
  assumes "sync_laws (clientGo P) V" "ready V (snapshotInformerFactory im \<noteq> None) w"
    and "\<And>S w'. S \<in> {None, Some (vsc_Indexer (clientGo P))} \<Longrightarrow> ready V (S \<noteq> None) w' \<Longrightarrow>
        wpE (f (pv_Indexer (clientGo P)) S) Q (\<lambda>_ _. True) w'"
  shows "wpE (bindE (GetPVLister (clientGo P) im) (\<lambda>L. bindE (GetVSCLister (clientGo P) im) (f L))) Q (\<lambda>_ _. True) w"
proof -
  have "ready V b (w\<lparr>ext := Informer (clientGo P) PVInformer (ext w)\<rparr>)"
    "ready V b (w\<lparr>ext := Informer (clientGo P) VSCInformer (Informer (clientGo P) PVInformer (ext w))\<rparr>)"
    if "ready V b w" for b
    using that undoes_nothing_live [OF sync_laws_keep(1) [OF assms(1)]] by (simp_all add: ready_def)
  with assms(2,3) show ?thesis
    by (cases "snapshotInformerFactory im") (simp_all add: GetPVLister_def GetVSCLister_def wp)
qed

lemma wpE_bind_any:
  "(\<And>a w'. wpE (f a) Q (\<lambda>_ _. True) w') \<Longrightarrow> wpE (bindE m f) Q (\<lambda>_ _. True) w"
  unfolding wpE_bindE by (rule wpE_any)

lemma wpE_bind_spec:
  "wpE m R (\<lambda>_ _. True) w \<Longrightarrow> (\<And>a w'. R a w' \<Longrightarrow> wpE (f a) Q (\<lambda>_ _. True) w') \<Longrightarrow>
   wpE (bindE (fatal s m) f) Q (\<lambda>_ _. True) w"
  unfolding wpE_bindE wpE_fatal by (rule wpE_thread)

lemma wpE_install:
  "(\<And>dl. r = Inr dl \<Longrightarrow> wpE (f (fst dl)) Q (\<lambda>_ _. True) (w\<lparr>volumeLocks := snd dl\<rparr>)) \<Longrightarrow>
   wpE (bindE (bindE (fatal s (readsE (\<lambda>_. r))) install_driver) f) Q (\<lambda>_ _. True) w"
  by (simp add: wp split: sum.split)

lemma informers_wp:
  assumes "sync_laws (clientGo P) V"
    and "\<And>S w'. S \<in> {None, Some (vsc_Indexer (clientGo P))} \<Longrightarrow> ready V (S \<noteq> None) w' \<Longrightarrow>
        wpE (f (pv_Indexer (clientGo P)) S) Q (\<lambda>_ _. True) w'"
  shows "wpE (bindE (fatal m1 (AddPVListener (clientGo P) (NewInformerManager kc sc))) (\<lambda>im.
    bindE (fatal m2 (AddVSCListener (clientGo P) im)) (\<lambda>im. bindE (fatal m3 (im_Start (clientGo P) im)) (\<lambda>_.
    bindE (GetPVLister (clientGo P) im) (\<lambda>L. bindE (GetVSCLister (clientGo P) im) (f L)))))) Q (\<lambda>_ _. True) w"
proof (rule wpE_bind_spec [OF AddPVListener_wp [OF _ assms(1)]])
  show "pvInformer (NewInformerManager kc sc) = None" by (simp add: NewInformerManager_def)
next
  fix im and w1 :: "'a world"
  assume "im = NewInformerManager kc sc\<lparr>pvInformer := Some PVInformer, pvSynced := Some PVInformer\<rparr> \<and> registered V (ext w1) PVInformer"
  then have im: "vscInformer im = None" "vscSynced im = None" "pvSynced im = Some PVInformer"
    "registered V (ext w1) PVInformer" "coreInformerFactory im = CoreFactory"
    "snapshotInformerFactory im \<in> {None, Some SnapshotFactory}"
    by (simp_all add: NewInformerManager_def split: option.split)
  show "wpE (bindE (fatal m2 (AddVSCListener (clientGo P) im)) (\<lambda>im. bindE (fatal m3 (im_Start (clientGo P) im)) (\<lambda>_.
    bindE (GetPVLister (clientGo P) im) (\<lambda>L. bindE (GetVSCLister (clientGo P) im) (f L))))) Q (\<lambda>_ _. True) w1"
  proof (rule wpE_bind_spec [OF AddVSCListener_wp [OF im assms(1)]])
    fix im' and w2 :: "'a world"
    assume "listening V (ext w2) im'"
    then show "wpE (bindE (fatal m3 (im_Start (clientGo P) im')) (\<lambda>_.
      bindE (GetPVLister (clientGo P) im') (\<lambda>L. bindE (GetVSCLister (clientGo P) im') (f L)))) Q (\<lambda>_ _. True) w2"
      using assms
      by (intro wpE_bind_spec [OF im_Start_wp] listers_wp) (auto simp: ready_def)
  qed
qed

lemma main_wp:
  assumes "sync_laws (clientGo P) V" "listen_law P V"
  shows "wpE (main P v fl) (serves P V fl) (\<lambda>_ _. True) w"
proof (cases "fl_version fl")
  case True
  then show ?thesis by (simp add: main_def wp serves_def)
next
  case False
  have cl: "wpE (readsE (\<lambda>_. NewClient (kubo P) (os P) a)) (\<lambda>cl _. NewClient (kubo P) (os P) a = Inr cl) (\<lambda>_ _. True) u"
    for a u by (simp add: wp split: sum.split)
  show ?thesis
    unfolding main_def Let_def if_not_P [OF False] FromPtr_def option.case
    by (rule wpE_bind_any, rule wpE_bind_spec [OF cl], rule wpE_bind_any, rule wpE_bind_any, rule wpE_bind_any,
        rule informers_wp [OF assms(1)], rule wpE_install, rule main_tail [OF assms])
qed

section \<open>The tree of the host during start-up\<close>

definition tree_kept :: "'x Process \<Rightarrow> 'x world \<Rightarrow> 'x world \<Rightarrow> bool" where
  "tree_kept P w w' \<longleftrightarrow>
     (host_laws (kubo P) (os P) (mount_New P) \<longrightarrow> tree_ok (hfs w) \<longrightarrow> tree_ok (hfs w'))"

interpretation start_tree: host_frame "tree_kept P" "os P" for P
  by unfold_locales (auto simp: tree_kept_def intro: host_laws_fault)

lemma stays_api_tree [stays]: "stays (tree_kept P) (api f)"
  by (rule stays_api) (simp add: tree_kept_def)

lemma stays_acts [stays]: "stays (tree_kept P) (acts f)"
  by (auto simp: stays_def acts_def tree_kept_def split: prod.split)

lemma stays_fatal [stays]: "stays R m \<Longrightarrow> stays R (fatal msg m)"
  unfolding fatal_def by (rule stays_mapErr)

lemma stays_install [stays]: "stays (tree_kept P) (install_driver dl)"
  by (simp add: stays_def install_driver_def tree_kept_def)

lemma stays_os_Remove [stays]: "stays (tree_kept P) (os_Remove (os P) p)"
  unfolding os_Remove_def
  by (rule start_tree.stays_os_call)
    (auto simp: stays_def tree_kept_def tree_ok_remove split: option.split fnode.split list.split)

lemma stays_listen [stays]: "stays (tree_kept P) (parseListenAddress ip6 (os P) e)"
  unfolding parseListenAddress_def os_Lstat_def by (intro stays)

lemma stays_main: "stays (tree_kept P) (main P v fl)"
  unfolding main_def resolve_nodeID_def GetKubeConfig_def NewKubeClient_def snapshot_client_def NewSnapshotClient_def
    IsVolumeSnapshotAPIAvailable_def AddPVListener_def AddVSCListener_def im_Start_def GetPVLister_def GetVSCLister_def
  by (intro stays)

lemma main_serves:
  assumes "sync_laws (clientGo P) V" "listen_law P V" "host_laws (kubo P) (os P) (mount_New P)"
    and "tree_ok (hfs w)" "main P b fl w = (Inr (Serving d scheme addr reflection log), w')"
  shows "serves P V fl (Serving d scheme addr reflection log) w' \<and> served d w'"
proof -
  have *: "serves P V fl (Serving d scheme addr reflection log) w'"
    by (rule wpE_Inr [OF main_wp [OF assms(1,2)] assms(5)])
  have "tree_ok (hfs w')"
    using stays_pair [OF stays_main assms(5)] assms(3,4) by (simp add: tree_kept_def)
  with * show ?thesis by (auto simp: serves_def intro: served_start)
qed

section \<open>Properties\<close>

text \<open>
  (C13) A process that has started is ready. When it gets as far as serving, its command line was
  well-formed and did not ask for the version, the stores of the
  driver are over the caches of informers that are registered with their factories, were started
  after that and are synced, with the snapshot store only if its informer is one of them; the client is that of the configured daemon,
  the configuration is valid, no lock is held and the host's files are a tree. These are the
  assumptions of the properties of the services, and the start of a run of the server.
\<close>

theorem main_ready:
  assumes "sync_laws (clientGo P) V" "listen_law P V" "host_laws (kubo P) (os P) (mount_New P)"
    and "tree_ok (hfs w)"
    and "run_process float_ok P b KUBECONFIG args w = (Inr (Serving d scheme addr reflection log), w')"
  shows "\<exists>fl rest. flag_Parse float_ok args (default_flags KUBECONFIG) = FlagsParsed fl rest \<and> \<not> fl_version fl \<and>
    serves P V fl (Serving d scheme addr reflection log) w' \<and> served d w'"
proof -
  obtain fl rest where fl: "flag_Parse float_ok args (default_flags KUBECONFIG) = FlagsParsed fl rest"
    "main P b fl w = (Inr (Serving d scheme addr reflection log), w')"
    using assms(5) by (auto simp: run_process_def split: flags_result.splits prod.splits sum.splits started.splits)
  then have "\<not> fl_version fl" by (auto simp: main_def ret_def)
  with fl(1) main_serves [OF assms(1-4) fl(2)] show ?thesis by blast
qed

text \<open>
  A cluster for examples keeps a log of what was asked of it. An informer syncs once it runs, and
  waiting for one that does not run fails.
\<close>

fun informer_name :: "informer \<Rightarrow> string" where
  "informer_name PVInformer = ''pv''"
| "informer_name VSCInformer = ''vsc''"

definition example_view :: "string list informer_view" where
  "example_view =
     \<lparr>registered = (\<lambda>x i. ''register '' @ informer_name i \<in> set x),
      running = (\<lambda>x i. ''run '' @ informer_name i \<in> set x), synced = (\<lambda>x i. ''run '' @ informer_name i \<in> set x)\<rparr>"

definition example_ClientGo :: "string list ClientGo" where
  "example_ClientGo =
     \<lparr>BuildConfigFromFlags = (\<lambda>p x. (Inr \<lparr>rc_cluster = p, rc_QPS = '''', rc_Burst = 0\<rparr>, x)),
      InClusterConfig = (\<lambda>x. (Inr \<lparr>rc_cluster = ''in-cluster'', rc_QPS = '''', rc_Burst = 0\<rparr>, x)),
      kube_NewForConfig = (\<lambda>c x. (Inr (rc_cluster c), x)), snapshot_NewForConfig = (\<lambda>c x. (Inr (rc_cluster c), x)),
      ServerResourcesForGroupVersion = (\<lambda>c g x. (Inr (), x @ [g])),
      Informer = (\<lambda>i x. x @ [''register '' @ informer_name i]), AddEventHandler = (\<lambda>i x. (Inr (), x)),
      factory_Start = (\<lambda>f x. x @ map (\<lambda>i. ''run '' @ informer_name i)
        (filter (\<lambda>i. factory_of i = f \<and> ''register '' @ informer_name i \<in> set x) [PVInformer, VSCInformer])),
      WaitForCacheSync = (\<lambda>is x. (list_all (\<lambda>i. ''run '' @ informer_name i \<in> set x) is, x)), pv_Indexer = example_PVLister, vsc_Indexer = example_VSCLister\<rparr>"

definition example_process :: "string list Process" where
  "example_process =
     \<lparr>clientGo = example_ClientGo, kubo = example_Kubo, os = example_OS, mount_New = example_mounter,
      os_Hostname = (\<lambda>x. (Inr ''node-1'', x)), net_Listen = (\<lambda>s a x. (Inr (), x)), netip_IsAddr6 = (\<lambda>_. False)\<rparr>"

definition example_build :: BuildInfo where
  "example_build = \<lparr>driverVersion = ''dev'', gitCommit = ''unknown'', buildDate = ''unknown''\<rparr>"

lemma example_sync_laws: "sync_laws example_ClientGo example_view"
proof -
  have view: "registered example_view x i \<longleftrightarrow> ''register '' @ informer_name i \<in> set x"
    "running example_view x i \<longleftrightarrow> ''run '' @ informer_name i \<in> set x"
    "synced example_view x i \<longleftrightarrow> ''run '' @ informer_name i \<in> set x" for x i
    by (simp_all add: example_view_def)
  have *: "undoes_nothing example_view (\<lambda>x. x @ f x)" "undoes_nothing example_view (\<lambda>x. x)" for f
    by (simp_all add: undoes_nothing_def view)
  have "running example_view (factory_Start example_ClientGo (factory_of i) x) i" if "registered example_view x i" for x i
    using that by (cases i) (simp_all add: view example_ClientGo_def)
  with * show ?thesis
    by (simp add: sync_laws_def example_ClientGo_def view example_PVLister_ok vsc_lister_ok_def list_all_iff del: append.simps)
qed

theorem main_ready_witness:
  "\<exists>d scheme addr reflection log w'.
     run_process (\<lambda>_. False) example_process example_build '''' [''-nodeid'', ''n1'', ''--log-level=debug''] example_world
       = (Inr (Serving d scheme addr reflection log), w') \<and>
     served d w' \<and> scheme \<in> {''unix'', ''tcp''} \<and> live example_view (ext w') PVInformer"
proof -
  let ?run = "run_process (\<lambda>_. False) example_process example_build '''' [''-nodeid'', ''n1'', ''--log-level=debug''] example_world"
  have "case fst ?run of Inl e \<Rightarrow> False | Inr r \<Rightarrow> (case r of PrintedVersion v \<Rightarrow> False | Serving d s a b l \<Rightarrow> True)"
    by code_simp
  then obtain d s a b l w' where *: "?run = (Inr (Serving d s a b l), w')"
    by (cases ?run) (auto split: sum.splits started.splits)
  have "sync_laws (clientGo example_process) example_view" by (simp add: example_process_def example_sync_laws)
  moreover have "listen_law example_process example_view"
    by (simp add: example_process_def listen_law_def undoes_nothing_def)
  moreover have "host_laws (kubo example_process) (os example_process) (mount_New example_process)" "tree_ok (hfs example_world)"
    by (simp_all add: example_process_def example_host_laws plain_elem_def)
  ultimately have "\<exists>fl. serves example_process example_view fl (Serving d s a b l) w' \<and> served d w'"
    using main_ready [OF _ _ _ _ *] by blast
  with * show ?thesis by (auto simp: serves_def ready_def)
qed

end
