(* ===== verification/Programs.thy ===== *)
theory Programs
  imports Server
begin

text \<open>
  The four handlers of the controller that take a lock, as trees of the calls they make on the
  driver's interfaces: taking or releasing a lock, reading a store, calling the IPFS client,
  package \<open>os\<close> or the clock. A tree says what the handler does after every answer, so that other
  things can happen between two calls; \<open>step\<close> makes one call. Executed without interruption
  (\<open>run\<close>), a tree is the handler of theory \<open>Controller\<close>.
\<close>

section \<open>Handlers as trees of calls\<close>

datatype action = DoPinCID string | DoUnpinCID string | DoMkdirMFS string | DoRmMFS string
  | DoGetCIDContent string string | DoImportToMFS string string | DoRemoveAll string

datatype query = AskResolveMFSCID string | AskMkdirTemp string

datatype 'a prog =
    Return "gerr + 'a"
  | TryAcquireP string "bool \<Rightarrow> 'a prog"
  | ReleaseP string "'a prog"
  | AttributesP string "gerr + VolumeAttributes \<Rightarrow> 'a prog"
  | VolumesP "gerr + VolumeAttributes list \<Rightarrow> 'a prog"
  | SnapshotsP string "gerr + SnapshotEntry list \<Rightarrow> 'a prog"
  | StatCIDP string "gerr + bool \<Rightarrow> 'a prog"
  | DoP action "gerr + unit \<Rightarrow> 'a prog"
  | AskP query "gerr + string \<Rightarrow> 'a prog"
  | NowP "int64 \<Rightarrow> 'a prog"

text \<open>Go on with what a program returned.\<close>

primrec andThen :: "'a prog \<Rightarrow> (gerr + 'a \<Rightarrow> 'b prog) \<Rightarrow> 'b prog" where
  "andThen (Return r) f = f r"
| "andThen (TryAcquireP k c) f = TryAcquireP k (\<lambda>b. andThen (c b) f)"
| "andThen (ReleaseP k c) f = ReleaseP k (andThen c f)"
| "andThen (AttributesP v c) f = AttributesP v (\<lambda>r. andThen (c r) f)"
| "andThen (VolumesP c) f = VolumesP (\<lambda>r. andThen (c r) f)"
| "andThen (SnapshotsP s c) f = SnapshotsP s (\<lambda>r. andThen (c r) f)"
| "andThen (StatCIDP s c) f = StatCIDP s (\<lambda>r. andThen (c r) f)"
| "andThen (DoP a c) f = DoP a (\<lambda>r. andThen (c r) f)"
| "andThen (AskP q c) f = AskP q (\<lambda>r. andThen (c r) f)"
| "andThen (NowP c) f = NowP (\<lambda>r. andThen (c r) f)"

definition bindP :: "'a prog \<Rightarrow> ('a \<Rightarrow> 'b prog) \<Rightarrow> 'b prog" where
  "bindP p f = andThen p (\<lambda>r. case r of Inl e \<Rightarrow> Return (Inl e) | Inr a \<Rightarrow> f a)"

text \<open>A call whose error is wrapped and returned, and one whose error is dropped.\<close>

definition doP :: "(gerr \<Rightarrow> gerr) \<Rightarrow> action \<Rightarrow> unit prog" where
  "doP wrap a = DoP a (\<lambda>r. case r of Inl e \<Rightarrow> Return (Inl (wrap e)) | Inr u \<Rightarrow> Return (Inr u))"

definition tryP :: "action \<Rightarrow> unit prog" where
  "tryP a = DoP a (\<lambda>r. Return (Inr ()))"

definition askP :: "(gerr \<Rightarrow> gerr) \<Rightarrow> query \<Rightarrow> string prog" where
  "askP wrap q = AskP q (\<lambda>r. case r of Inl e \<Rightarrow> Return (Inl (wrap e)) | Inr s \<Rightarrow> Return (Inr s))"

definition statP :: "(gerr \<Rightarrow> gerr) \<Rightarrow> string \<Rightarrow> bool prog" where
  "statP wrap s = StatCIDP s (\<lambda>r. case r of Inl e \<Rightarrow> Return (Inl (wrap e)) | Inr b \<Rightarrow> Return (Inr b))"

text \<open>The lock around a handler's body, released whatever the body returns.\<close>

definition lockP :: "string \<Rightarrow> gerr \<Rightarrow> 'a prog \<Rightarrow> 'a prog" where
  "lockP key aborted body =
     TryAcquireP key (\<lambda>acquired.
       if \<not> acquired then Return (Inl aborted) else andThen body (\<lambda>r. ReleaseP key (Return r)))"

subsection \<open>CreateVolume\<close>

definition restoreP :: "string \<Rightarrow> string \<Rightarrow> unit prog" where
  "restoreP snapshotID mfsPath =
     bindP (statP (\<lambda>err. StatusErr Internal ''stat snapshot CID in IPFS: %v'' [] (Some err)) snapshotID) (\<lambda>exists.
     if \<not> exists then Return (Inl (StatusErr NotFound ''snapshot CID not found in IPFS'' [] None))
     else
       bindP (askP (\<lambda>err. StatusErr Internal ''create temporary restore directory: %v'' [] (Some err))
                (AskMkdirTemp ''csi-ipfs-restore-'')) (\<lambda>tmpDir.
       andThen
         (bindP (doP (\<lambda>err. StatusErr Internal ''download snapshot CID content: %v'' [] (Some err))
                   (DoGetCIDContent snapshotID tmpDir)) (\<lambda>_.
          doP (\<lambda>err. StatusErr Internal ''restore snapshot content to MFS: %v'' [] (Some err))
            (DoImportToMFS tmpDir mfsPath)))
         (\<lambda>r. DoP (DoRemoveAll tmpDir) (\<lambda>_. Return r))))"

definition provision_cidP :: "Config \<Rightarrow> string \<Rightarrow> bool \<Rightarrow> unit prog" where
  "provision_cidP c cid pinning =
     bindP (statP (\<lambda>err. StatusErr Internal ''stat CID in IPFS: %v'' [] (Some err)) cid) (\<lambda>exists.
     if \<not> exists then Return (Inl (StatusErr NotFound ''CID not found in IPFS'' [] None))
     else if pinning then
       DoP (DoPinCID cid) (\<lambda>r.
         case r of
           Inl err \<Rightarrow>
             if PinFailurePolicy c = pinFailurePolicyBestEffort then Return (Inr ())
             else Return (Inl (StatusErr Internal ''pin CID in IPFS: %v'' [] (Some err)))
         | Inr _ \<Rightarrow> Return (Inr ()))
     else Return (Inr ()))"

definition provision_mfsP :: "Config \<Rightarrow> string \<Rightarrow> string prog" where
  "provision_mfsP c rawPath =
     (case normalizeMFSPath rawPath (MFSRoot c) of
        Inl err \<Rightarrow> Return (Inl (StatusErr InvalidArgument ''%v'' [] (Some err)))
      | Inr mfsPath \<Rightarrow>
          bindP (doP (\<lambda>err. StatusErr Internal ''make MFS directory in IPFS: %v'' [] (Some err))
                   (DoMkdirMFS mfsPath)) (\<lambda>_. Return (Inr mfsPath)))"

definition provisionP :: "Config \<Rightarrow> string \<Rightarrow> string \<Rightarrow> string \<Rightarrow> bool \<Rightarrow> (string \<times> bool) prog" where
  "provisionP c name cid mfsPath pinning =
     (if cid \<noteq> '''' then bindP (provision_cidP c cid pinning) (\<lambda>_. Return (Inr (mfsPath, True)))
      else if mfsPath \<noteq> '''' then bindP (provision_mfsP c mfsPath) (\<lambda>p. Return (Inr (p, False)))
      else bindP (provision_mfsP c (MFSRoot c @ ''/'' @ sanitizeVolumeID name)) (\<lambda>p. Return (Inr (p, False))))"

definition CreateVolumeP :: "Config \<Rightarrow> CreateVolumeRequest \<Rightarrow> Volume prog" where
  "CreateVolumeP c req =
     (let name = cv_Name req in
      if name = '''' then Return (Inl (StatusErr InvalidArgument ''volume name is required'' [] None))
      else
      let params = cv_Parameters req;
          sizeBytes = parseCapacityFromRequest (cv_CapacityRange req) defaultCapacityBytes;
          cid = mget params paramCID;
          mfsPath = mget params paramMFSPath;
          pinning = (mget params paramPinning \<noteq> ''false'');
          volumeID = volumeIDFor name
      in
      case snapshotSourceID (cv_VolumeContentSource req) of
        Inl contentSourceErr \<Rightarrow> Return (Inl contentSourceErr)
      | Inr snapID \<Rightarrow>
        if snapID \<noteq> '''' \<and> cid \<noteq> '''' then
          Return (Inl (StatusErr InvalidArgument ''cid parameter cannot be combined with snapshot content source'' [] None))
        else
        lockP volumeID
          (StatusErr Aborted ''an operation with the given volume id %q already exists'' [volumeID] None)
          (bindP (provisionP c name cid mfsPath pinning) (\<lambda>(mfsPath, readOnly).
           bindP (if snapID \<noteq> '''' then restoreP snapID mfsPath else Return (Inr ())) (\<lambda>_.
           Return (Inr \<lparr>VolumeId = volumeID,
                CapacityBytes = sizeBytes,
                VolumeContext = params(paramCID \<mapsto> cid, paramMFSPath \<mapsto> mfsPath,
                                       paramReadOnly \<mapsto> (if readOnly then ''true'' else ''false'')),
                ContentSource = (if snapID \<noteq> '''' then Some (SourceSnapshot (Some snapID)) else None)\<rparr>)))))"

subsection \<open>DeleteVolume, DeleteSnapshot, CreateSnapshot\<close>

text \<open>
  The reference check is two reads, the volumes before the snapshots. Whether there is a snapshot
  store is fixed when the driver is built.
\<close>

definition usageP :: "bool \<Rightarrow> string \<Rightarrow> string \<Rightarrow> bool \<Rightarrow> (nat \<times> nat) prog" where
  "usageP hasSnapshots cid excludedVolumeID excludeOneSnapshot =
     VolumesP (\<lambda>r. case r of
       Inl err \<Rightarrow> Return (Inl (ErrorfW ''list volumes for CID %s: %w'' [cid] err))
     | Inr volumes \<Rightarrow>
         let volumeRefs = count_volume_refs cid excludedVolumeID volumes in
         if \<not> hasSnapshots then
           (if excludeOneSnapshot then Return (Inl ErrSnapshotStoreUnavailable) else Return (Inr (volumeRefs, 0)))
         else SnapshotsP cid (\<lambda>r. case r of
             Inl err \<Rightarrow> Return (Inl (ErrorfW ''list snapshots for CID %s: %w'' [cid] err))
           | Inr snapshots \<Rightarrow>
               let snapshotRefs = length snapshots;
                   snapshotRefs = (if excludeOneSnapshot \<and> snapshotRefs > 0
                                   then snapshotRefs - 1 else snapshotRefs)
               in Return (Inr (volumeRefs, snapshotRefs))))"

definition cleanupP :: "bool \<Rightarrow> VolumeAttributes \<Rightarrow> unit prog" where
  "cleanupP hasSnapshots attrs =
     (let cid = mget (Attributes attrs) paramCID;
          mfsPath = mget (Attributes attrs) paramMFSPath;
          readOnly = (mget (Attributes attrs) paramReadOnly = ''true'');
          pinning = isPinningEnabled (Attributes attrs)
      in
      bindP
        (if cid \<noteq> '''' \<and> pinning then
           andThen (usageP hasSnapshots cid (VolumeID attrs) False) (\<lambda>r.
             case r of
               Inl err \<Rightarrow> Return (Inr ())
             | Inr (volumeRefs, snapshotRefs) \<Rightarrow>
                 if volumeRefs > 0 \<or> snapshotRefs > 0 then Return (Inr ())
                 else tryP (DoUnpinCID cid))
         else Return (Inr ())) (\<lambda>_.
      if mfsPath \<noteq> '''' \<and> \<not> readOnly then tryP (DoRmMFS mfsPath) else Return (Inr ())))"

definition DeleteVolumeP :: "bool \<Rightarrow> string \<Rightarrow> unit prog" where
  "DeleteVolumeP hasSnapshots volumeID =
     (if volumeID = '''' then Return (Inl (StatusErr InvalidArgument ''volume ID is required'' [] None))
      else
      lockP volumeID
        (StatusErr Aborted ''an operation with the given volume id %q already exists'' [volumeID] None)
        (AttributesP volumeID (\<lambda>r.
           case r of
             Inl err \<Rightarrow>
               if errors_Is err ErrPVNotFound then Return (Inr ())
               else Return (Inl (StatusErr Internal ''get volume attributes: %v'' [] (Some err)))
           | Inr attrs \<Rightarrow> cleanupP hasSnapshots attrs)))"

definition DeleteSnapshotP :: "bool \<Rightarrow> string \<Rightarrow> unit prog" where
  "DeleteSnapshotP hasSnapshots snapshotID =
     (if snapshotID = '''' then Return (Inl (StatusErr InvalidArgument ''snapshot ID is required'' [] None))
      else
      let lockKey = ''delete-snapshot-'' @ snapshotID in
      lockP lockKey
        (StatusErr Aborted ''an operation for snapshot %q already exists'' [snapshotID] None)
        (andThen (usageP hasSnapshots snapshotID '''' True) (\<lambda>r.
           case r of
             Inl err \<Rightarrow>
               if errors_Is err ErrSnapshotStoreUnavailable
               then Return (Inl (StatusErr FailedPrecondition
                      ''snapshot reference checks are unavailable (snapshot store disabled)'' [] None))
               else Return (Inl (StatusErr Internal ''check snapshot references: %v'' [] (Some err)))
           | Inr (volumeRefs, snapshotRefs) \<Rightarrow>
               if volumeRefs > 0 \<or> snapshotRefs > 0 then Return (Inr ())
               else tryP (DoUnpinCID snapshotID))))"

definition CreateSnapshotP :: "string \<Rightarrow> string \<Rightarrow> Snapshot prog" where
  "CreateSnapshotP name sourceVolumeID =
     (if name = '''' then Return (Inl (StatusErr InvalidArgument ''snapshot name is required'' [] None))
      else if sourceVolumeID = '''' then Return (Inl (StatusErr InvalidArgument ''source volume ID is required'' [] None))
      else
      let lockKey = ''snapshot-'' @ name in
      lockP lockKey
        (StatusErr Aborted ''an operation for snapshot %q already exists'' [name] None)
        (AttributesP sourceVolumeID (\<lambda>r.
           case r of
             Inl err \<Rightarrow>
               if errors_Is err ErrPVNotFound
               then Return (Inl (StatusErr NotFound ''source volume %s not found'' [sourceVolumeID] None))
               else Return (Inl (StatusErr Internal ''get source volume: %v'' [] (Some err)))
           | Inr attrs \<Rightarrow>
               let mfsPath = mget (Attributes attrs) paramMFSPath in
               if mfsPath = '''' then
                 Return (Inl (StatusErr InvalidArgument
                   ''source volume has no MFS path (read-only by CID volumes cannot be snapshotted)'' [] None))
               else
               bindP (askP (\<lambda>err. StatusErr Internal ''resolve MFS CID: %v'' [] (Some err))
                        (AskResolveMFSCID mfsPath)) (\<lambda>cid.
               bindP (tryP (DoPinCID cid)) (\<lambda>_.
               let sizeBytes = Capacity attrs;
                   sizeBytes = (if sizeBytes = 0 then 1 * 1024 * 1024 * 1024 else sizeBytes)
               in NowP (\<lambda>now.
                  Return (Inr \<lparr>sn_SnapshotId = cid, sn_SourceVolumeId = sourceVolumeID, sn_CreationTime = now,
                       sn_ReadyToUse = True, sn_SizeBytes = sizeBytes\<rparr>)))))))"

text \<open>The goroutine of a request whose method takes a lock; the others count as outside.\<close>

definition answerP :: "('a \<Rightarrow> response) \<Rightarrow> 'a prog \<Rightarrow> response prog" where
  "answerP f p = bindP p (\<lambda>a. Return (Inr (f a)))"

definition hasSnapshots :: "'x Driver \<Rightarrow> bool" where
  "hasSnapshots d \<longleftrightarrow> snapshotStore d \<noteq> None"

fun goroutine :: "'x Driver \<Rightarrow> request \<Rightarrow> response prog option" where
  "goroutine d (ReqCreateVolume req) = Some (answerP RespVolume (CreateVolumeP (cfg d) req))"
| "goroutine d (ReqDeleteVolume v) = Some (answerP (\<lambda>_. RespEmpty) (DeleteVolumeP (hasSnapshots d) v))"
| "goroutine d (ReqCreateSnapshot n v) = Some (answerP RespSnapshot (CreateSnapshotP n v))"
| "goroutine d (ReqDeleteSnapshot s) = Some (answerP (\<lambda>_. RespEmpty) (DeleteSnapshotP (hasSnapshots d) s))"
| "goroutine d _ = None"

section \<open>Calls\<close>

fun perform :: "'x Driver \<Rightarrow> action \<Rightarrow> ('x world, unit) io" where
  "perform d (DoPinCID c) = PinCID (ipfsClient d) c"
| "perform d (DoUnpinCID c) = UnpinCID (ipfsClient d) c"
| "perform d (DoMkdirMFS p) = MkdirMFS (ipfsClient d) p"
| "perform d (DoRmMFS p) = RmMFS (ipfsClient d) p"
| "perform d (DoGetCIDContent c p) = GetCIDContent (ipfsClient d) c p"
| "perform d (DoImportToMFS p m) = ImportToMFS (ipfsClient d) p m"
| "perform d (DoRemoveAll p) = os_RemoveAll (osEnv d) p"

fun inquire :: "'x Driver \<Rightarrow> query \<Rightarrow> ('x world, string) io" where
  "inquire d (AskResolveMFSCID p) = ResolveMFSCID (ipfsClient d) p"
| "inquire d (AskMkdirTemp prefix) = os_MkdirTemp (osEnv d) prefix"

definition listSnapshots :: "'x Driver \<Rightarrow> string \<Rightarrow> 'x world \<Rightarrow> gerr + SnapshotEntry list" where
  "listSnapshots d cid w =
     (case snapshotStore d of
        None \<Rightarrow> Inl ErrSnapshotStoreUnavailable
      | Some ss \<Rightarrow> ListSnapshots ss (DriverName (cfg d)) cid '''' w)"

text \<open>What a call was and what it answered.\<close>

datatype event =
    Acquired string bool
  | Released string
  | GotAttributes string "gerr + VolumeAttributes"
  | GotVolumes "gerr + VolumeAttributes list"
  | GotSnapshots string "gerr + SnapshotEntry list"
  | GotStat string "gerr + bool"
  | Did action "gerr + unit"
  | Asked query "gerr + string"
  | GotNow int64

text \<open>One call of a goroutine; \<open>None\<close> when it has returned.\<close>

fun step :: "'x Driver \<Rightarrow> 'a prog \<Rightarrow> 'x world \<Rightarrow> (event \<times> 'a prog \<times> 'x world) option" where
  "step d (Return r) w = None"
| "step d (TryAcquireP k c) w =
     (case TryAcquire k (volumeLocks w) of (b, vl) \<Rightarrow> Some (Acquired k b, c b, w\<lparr>volumeLocks := vl\<rparr>))"
| "step d (ReleaseP k c) w = Some (Released k, c, w\<lparr>volumeLocks := Release k (volumeLocks w)\<rparr>)"
| "step d (AttributesP v c) w =
     (let r = GetVolumeAttributes (volumeStore d) v w in Some (GotAttributes v r, c r, w))"
| "step d (VolumesP c) w =
     (let r = ListVolumes (volumeStore d) (DriverName (cfg d)) w in Some (GotVolumes r, c r, w))"
| "step d (SnapshotsP s c) w = (let r = listSnapshots d s w in Some (GotSnapshots s r, c r, w))"
| "step d (StatCIDP s c) w = (case StatCID (ipfsClient d) s w of (r, w') \<Rightarrow> Some (GotStat s r, c r, w'))"
| "step d (DoP a c) w = (case perform d a w of (r, w') \<Rightarrow> Some (Did a r, c r, w'))"
| "step d (AskP q c) w = (case inquire d q w of (r, w') \<Rightarrow> Some (Asked q r, c r, w'))"
| "step d (NowP c) w = Some (GotNow (clock w), c (clock w), w)"

text \<open>A goroutine that is never interrupted.\<close>

primrec run :: "'x Driver \<Rightarrow> 'a prog \<Rightarrow> ('x world, 'a) io" where
  "run d (Return r) = (\<lambda>w. (r, w))"
| "run d (TryAcquireP k c) =
     (\<lambda>w. case TryAcquire k (volumeLocks w) of (b, vl) \<Rightarrow> run d (c b) (w\<lparr>volumeLocks := vl\<rparr>))"
| "run d (ReleaseP k c) = (\<lambda>w. run d c (w\<lparr>volumeLocks := Release k (volumeLocks w)\<rparr>))"
| "run d (AttributesP v c) = (\<lambda>w. run d (c (GetVolumeAttributes (volumeStore d) v w)) w)"
| "run d (VolumesP c) = (\<lambda>w. run d (c (ListVolumes (volumeStore d) (DriverName (cfg d)) w)) w)"
| "run d (SnapshotsP s c) = (\<lambda>w. run d (c (listSnapshots d s w)) w)"
| "run d (StatCIDP s c) = (\<lambda>w. case StatCID (ipfsClient d) s w of (r, w') \<Rightarrow> run d (c r) w')"
| "run d (DoP a c) = (\<lambda>w. case perform d a w of (r, w') \<Rightarrow> run d (c r) w')"
| "run d (AskP q c) = (\<lambda>w. case inquire d q w of (r, w') \<Rightarrow> run d (c r) w')"
| "run d (NowP c) = (\<lambda>w. run d (c (clock w)) w)"

section \<open>A goroutine alone\<close>

named_theorems alone \<open>execution of a program without interruption\<close>

lemma run_Return [alone]: "run d (Return (Inr a)) = ret a" "run d (Return (Inl e)) = throw e"
  by (simp_all add: fun_eq_iff ret_def throw_def)

lemma run_andThen: "run d (andThen p f) w = (case run d p w of (r, w') \<Rightarrow> run d (f r) w')"
  by (induction p arbitrary: w) (auto split: prod.split)

lemma run_bindP [alone]: "run d (bindP p f) = bindE (run d p) (\<lambda>a. run d (f a))"
  by (auto simp: fun_eq_iff bindP_def bindE_def run_andThen split: prod.split sum.split)

lemma run_calls [alone]:
  "run d (doP g a) = mapErr g (perform d a)"
  "run d (tryP a) = ignoreErr (perform d a)"
  "run d (askP g q) = mapErr g (inquire d q)"
  "run d (statP g c) = mapErr g (StatCID (ipfsClient d) c)"
  "run d (AttributesP v f) = bindE (reads (GetVolumeAttributes (volumeStore d) v)) (\<lambda>r. run d (f r))"
  "run d (NowP h) = bindE (reads clock) (\<lambda>r. run d (h r))"
  "run d (DoP a i) = bindE (attempt (perform d a)) (\<lambda>r. run d (i r))"
  by (auto simp: fun_eq_iff doP_def tryP_def askP_def statP_def mapErr_def ignoreErr_def bindE_def reads_def
      attempt_def split: prod.split sum.split)

lemma run_lockP [alone]: "run d (lockP k e p) = with_lock k e (run d p)"
  by (auto simp: fun_eq_iff lockP_def with_lock_def bindE_def tryAcquire_def throw_def deferring_def
      releaseLock_def run_andThen split: prod.split)

lemma run_cases [alone]:
  "run d (if b then p else q) = (if b then run d p else run d q)"
  "run d (case x of Inl u \<Rightarrow> f u | Inr v \<Rightarrow> g v) = (case x of Inl u \<Rightarrow> run d (f u) | Inr v \<Rightarrow> run d (g v))"
  "run d (case y of (i, j) \<Rightarrow> h i j) = (case y of (i, j) \<Rightarrow> run d (h i j))"
  "run d (let z = v in m z) = (let z = v in run d (m z))"
  by (auto split: sum.split prod.split)

declare run.simps [simp del]

lemmas branch_cong = if_cong sum.case_cong option.case_cong

lemma run_restoreP: "run d (restoreP s m) = restoreSnapshotToMFS d s m"
proof -
  have "run d (andThen p (\<lambda>r. DoP (DoRemoveAll tmp) (\<lambda>_. Return r)))
      = deferring (\<lambda>w. snd (os_RemoveAll (osEnv d) tmp w)) (run d p)" for p :: "unit prog" and tmp
    by (auto simp: fun_eq_iff run_andThen deferring_def run.simps split: prod.split)
  then show ?thesis
    unfolding restoreP_def restoreSnapshotToMFS_def by (simp add: alone cong: branch_cong)
qed

lemma run_provisionP: "run d (provisionP (cfg d) n c m p) = provision d n c m p"
  unfolding provisionP_def provision_def provision_cidP_def provision_cid_def provision_mfsP_def provision_mfs_def
  by (simp add: alone cong: branch_cong)

lemma run_CreateVolumeP: "run d (CreateVolumeP (cfg d) req) = CreateVolume d req"
  unfolding CreateVolumeP_def CreateVolume_def Let_def
  by (simp add: alone run_provisionP run_restoreP cong: branch_cong)

lemma run_usageP:
  "run d (andThen (usageP (hasSnapshots d) c v x) f) = bindE (reads (cidReferenceUsage d c v x)) (\<lambda>r. run d (f r))"
  by (auto simp: fun_eq_iff run.simps usageP_def hasSnapshots_def cidReferenceUsage_def listSnapshots_def bindE_def reads_def Let_def
      split: sum.split option.split)

lemma run_DeleteVolumeP: "run d (DeleteVolumeP (hasSnapshots d) v) = DeleteVolume d v"
  unfolding DeleteVolumeP_def DeleteVolume_def cleanupP_def cleanupVolumeInIPFS_def Let_def
  by (simp add: alone run_usageP cong: branch_cong)

lemma run_DeleteSnapshotP: "run d (DeleteSnapshotP (hasSnapshots d) s) = DeleteSnapshot d s"
  unfolding DeleteSnapshotP_def DeleteSnapshot_def Let_def
  by (simp add: alone run_usageP cong: branch_cong)

lemma run_CreateSnapshotP: "run d (CreateSnapshotP n v) = CreateSnapshot d n v"
  unfolding CreateSnapshotP_def CreateSnapshot_def Let_def
  by (simp add: alone cong: branch_cong)

lemma run_goroutine: "goroutine d req = Some p \<Longrightarrow> run d p = dispatch d req"
  by (cases req) (auto simp: answerP_def respond_def alone run_CreateVolumeP run_CreateSnapshotP
      run_DeleteVolumeP run_DeleteSnapshotP)

end
