(* ===== verification/Goroutines.thy ===== *)
theory Goroutines
  imports Programs
begin

text \<open>
  The concurrent controller. gRPC serves every request in its own goroutine, so that between two
  calls of one handler anything may happen in another. The step relation \<open>gstep\<close> interleaves any
  number of the programs of theory \<open>Programs\<close>, call by call, with each other and with arbitrary
  changes outside: the other handlers, the daemon, the informers, the host.
  The locale \<open>discipline\<close> carries a rule about the calls of one goroutine, checked on its program
  alone, over to every state of the concurrent server; it is interpreted for the lock protocol,
  for the number of calls and for the checks before an unpin.
\<close>

section \<open>The concurrent server\<close>

text \<open>
  A goroutine has its request, the calls it has made so far and the rest of its program. A step
  of the server is: a request arrives, a goroutine makes its next call, a goroutine that has
  returned ends, or something happens outside, which may be anything but a change of the lock
  set: only these handlers use it.
\<close>

record goroutine_state =
  g_req :: request
  g_log :: "event list"
  g_prog :: "response prog"

record 'x server =
  procs :: "nat \<Rightarrow> goroutine_state option"
  st :: "'x world"

inductive gstep :: "'x Driver \<Rightarrow> 'x server \<Rightarrow> 'x server \<Rightarrow> bool" for d where
  receive: "procs s t = None \<Longrightarrow> goroutine d req = Some p \<Longrightarrow>
     gstep d s (s\<lparr>procs := (procs s)(t \<mapsto> \<lparr>g_req = req, g_log = [], g_prog = p\<rparr>)\<rparr>)"
| call: "procs s t = Some g \<Longrightarrow> step d (g_prog g) (st s) = Some (e, p, w) \<Longrightarrow>
     gstep d s (s\<lparr>procs := (procs s)(t \<mapsto> g\<lparr>g_log := g_log g @ [e], g_prog := p\<rparr>), st := w\<rparr>)"
| reply: "procs s t = Some g \<Longrightarrow> g_prog g = Return r \<Longrightarrow>
     gstep d s (s\<lparr>procs := (procs s)(t := None)\<rparr>)"
| outside: "volumeLocks w = volumeLocks (st s) \<Longrightarrow> gstep d s (s\<lparr>st := w\<rparr>)"

inductive reachable :: "'x Driver \<Rightarrow> 'x server \<Rightarrow> bool" for d where
  server_start: "volumeLocks w = NewVolumeLocks \<Longrightarrow> reachable d \<lparr>procs = (\<lambda>_. None), st = w\<rparr>"
| server_next: "reachable d s \<Longrightarrow> gstep d s s' \<Longrightarrow> reachable d s'"

section \<open>Rules about the calls of a goroutine\<close>

text \<open>
  \<open>follows J F p h\<close>: after the calls \<open>h\<close>, whatever the calls of \<open>p\<close> answer, each of them is
  allowed by \<open>J\<close> after those before it, and what \<open>p\<close> returns is allowed by \<open>F\<close> after all of them.
\<close>

primrec follows ::
  "(event list \<Rightarrow> event \<Rightarrow> bool) \<Rightarrow> (event list \<Rightarrow> gerr + 'a \<Rightarrow> bool) \<Rightarrow> 'a prog \<Rightarrow> event list \<Rightarrow> bool" where
  "follows J F (Return r) = (\<lambda>h. F h r)"
| "follows J F (TryAcquireP k c) = (\<lambda>h. \<forall>b. J h (Acquired k b) \<and> follows J F (c b) (h @ [Acquired k b]))"
| "follows J F (ReleaseP k c) = (\<lambda>h. J h (Released k) \<and> follows J F c (h @ [Released k]))"
| "follows J F (AttributesP v c) = (\<lambda>h. \<forall>r. J h (GotAttributes v r) \<and> follows J F (c r) (h @ [GotAttributes v r]))"
| "follows J F (VolumesP c) = (\<lambda>h. \<forall>r. J h (GotVolumes r) \<and> follows J F (c r) (h @ [GotVolumes r]))"
| "follows J F (SnapshotsP s c) = (\<lambda>h. \<forall>r. J h (GotSnapshots s r) \<and> follows J F (c r) (h @ [GotSnapshots s r]))"
| "follows J F (StatCIDP s c) = (\<lambda>h. \<forall>r. J h (GotStat s r) \<and> follows J F (c r) (h @ [GotStat s r]))"
| "follows J F (DoP a c) = (\<lambda>h. \<forall>r. J h (Did a r) \<and> follows J F (c r) (h @ [Did a r]))"
| "follows J F (AskP q c) = (\<lambda>h. \<forall>r. J h (Asked q r) \<and> follows J F (c r) (h @ [Asked q r]))"
| "follows J F (NowP c) = (\<lambda>h. \<forall>r. J h (GotNow r) \<and> follows J F (c r) (h @ [GotNow r]))"

lemma follows_andThen: "follows J F (andThen p f) h \<longleftrightarrow> follows J (\<lambda>h r. follows J F (f r) h) p h"
  by (induction p arbitrary: h) auto

lemma follows_step: "step d p w = Some (e, p', w') \<Longrightarrow> follows J F p h \<Longrightarrow> J h e \<and> follows J F p' (h @ [e])"
  by (cases p) (auto simp: Let_def split: prod.splits)

lemma snoc_eq_append_Cons: "xs @ [x] = ys @ y # zs \<longleftrightarrow> zs = [] \<and> xs = ys \<and> x = y \<or> (\<exists>us. zs = us @ [x] \<and> xs = ys @ y # us)"
  by (cases zs rule: rev_cases) auto

locale discipline =
  fixes d :: "'x Driver"
    and J :: "request \<Rightarrow> event list \<Rightarrow> event \<Rightarrow> bool"
    and F :: "request \<Rightarrow> event list \<Rightarrow> gerr + response \<Rightarrow> bool"
  assumes start: "goroutine d req = Some p \<Longrightarrow> follows (J req) (F req) p []"
begin

text \<open>Every call a goroutine has made was allowed, and so is whatever it does next.\<close>

lemma reachable_follows:
  assumes "reachable d s" "procs s t = Some g"
  shows "follows (J (g_req g)) (F (g_req g)) (g_prog g) (g_log g) \<and>
    (\<forall>h e h'. g_log g = h @ e # h' \<longrightarrow> J (g_req g) h e)"
  using assms
proof (induction arbitrary: t g rule: reachable.induct)
  case (server_next s s')
  from server_next.hyps(2) server_next.prems show ?case
  proof cases
    case (call u g' e p w)
    have IH: "follows (J (g_req g')) (F (g_req g')) (g_prog g') (g_log g')"
      "\<forall>h e h'. g_log g' = h @ e # h' \<longrightarrow> J (g_req g') h e"
      using server_next.IH [OF call(2)] by auto
    with follows_step [OF call(3) IH(1)] call(1) server_next.prems server_next.IH show ?thesis
      by (auto simp: snoc_eq_append_Cons split: if_splits)
  qed (use server_next.IH in \<open>auto split: if_splits dest: start\<close>)
qed simp

lemma returns_allowed:
  "reachable d s \<Longrightarrow> procs s t = Some g \<Longrightarrow> g_prog g = Return r \<Longrightarrow> F (g_req g) (g_log g) r"
  using reachable_follows by fastforce

lemma call_allowed:
  "reachable d s \<Longrightarrow> procs s t = Some g \<Longrightarrow> step d (g_prog g) (st s) = Some (e, p, w) \<Longrightarrow> J (g_req g) (g_log g) e"
  using reachable_follows follows_step by blast

lemma log_allowed:
  "reachable d s \<Longrightarrow> procs s t = Some g \<Longrightarrow> g_log g = h @ e # h' \<Longrightarrow> J (g_req g) h e"
  using reachable_follows by blast

end

subsection \<open>Rewriting\<close>

lemma follows_bindP:
  "follows J F (bindP p f) h \<longleftrightarrow>
     follows J (\<lambda>h r. case r of Inl e \<Rightarrow> F h (Inl e) | Inr a \<Rightarrow> follows J F (f a) h) p h"
proof -
  have *: "follows J F (case r of Inl e \<Rightarrow> Return (Inl e) | Inr a \<Rightarrow> f a) h
      = (case r of Inl e \<Rightarrow> F h (Inl e) | Inr a \<Rightarrow> follows J F (f a) h)" for r h
    by (cases r) auto
  show ?thesis by (simp add: bindP_def follows_andThen *)
qed

lemma all_sum: "(\<forall>r. P r) \<longleftrightarrow> (\<forall>e. P (Inl e)) \<and> (\<forall>a. P (Inr a))"
  by (metis sum.exhaust)

lemma follows_cases:
  "follows J F (if b then p else q) h = (if b then follows J F p h else follows J F q h)"
  "follows J F (case x of Inl u \<Rightarrow> f u | Inr v \<Rightarrow> g v) h = (case x of Inl u \<Rightarrow> follows J F (f u) h | Inr v \<Rightarrow> follows J F (g v) h)"
  "follows J F (case y of (i, j) \<Rightarrow> k i j) h = (case y of (i, j) \<Rightarrow> follows J F (k i j) h)"
  by (auto split: sum.split prod.split)

lemma follows_lockP:
  "follows J F (lockP k e p) h \<longleftrightarrow>
     (J h (Acquired k False) \<and> F (h @ [Acquired k False]) (Inl e)) \<and>
     J h (Acquired k True) \<and>
     follows J (\<lambda>h r. J h (Released k) \<and> F (h @ [Released k]) r) p (h @ [Acquired k True])"
  by (auto simp: lockP_def all_bool_eq follows_andThen)

lemma follows_calls:
  "follows J F (doP g a) h \<longleftrightarrow> (\<forall>r. J h (Did a r) \<and> F (h @ [Did a r]) (case r of Inl e \<Rightarrow> Inl (g e) | Inr u \<Rightarrow> Inr u))"
  "follows J F (tryP a) h \<longleftrightarrow> (\<forall>r. J h (Did a r) \<and> F (h @ [Did a r]) (Inr ()))"
  "follows J G (askP g q) h \<longleftrightarrow> (\<forall>r. J h (Asked q r) \<and> G (h @ [Asked q r]) (case r of Inl e \<Rightarrow> Inl (g e) | Inr u \<Rightarrow> Inr u))"
  "follows J H (statP g c) h \<longleftrightarrow> (\<forall>r. J h (GotStat c r) \<and> H (h @ [GotStat c r]) (case r of Inl e \<Rightarrow> Inl (g e) | Inr u \<Rightarrow> Inr u))"
  by (simp_all add: doP_def tryP_def askP_def statP_def all_sum)

lemmas follows_simps = follows_andThen follows_bindP follows_lockP follows_calls follows_cases all_sum

lemmas program_defs = answerP_def
  CreateVolumeP_def provisionP_def provision_cidP_def provision_mfsP_def restoreP_def
  DeleteVolumeP_def cleanupP_def usageP_def DeleteSnapshotP_def CreateSnapshotP_def

subsection \<open>The number of calls\<close>

definition at_most :: "nat \<Rightarrow> request \<Rightarrow> event list \<Rightarrow> event \<Rightarrow> bool" where
  "at_most n req h e \<longleftrightarrow> length h < n"



interpretation bounded: discipline d "at_most 8" "\<lambda>_ _ _. True" for d
proof
  fix d :: "'x Driver" and req p
  assume "goroutine d req = Some p"
  then show "follows (at_most 8 req) (\<lambda>_ _. True) p []"
    by (cases req) (auto simp: at_most_def program_defs follows_simps Let_def split: sum.split)
qed

lemma log_bound:
  assumes "reachable d s" "procs s t = Some g"
  shows "length (g_log g) \<le> 8"
proof (cases "g_log g" rule: rev_cases)
  case (snoc h e)
  with bounded.log_allowed [OF assms] show ?thesis by (fastforce simp: at_most_def)
qed simp

subsection \<open>The lock protocol\<close>

text \<open>The keys a goroutine holds after its calls.\<close>

fun held_after :: "string set \<Rightarrow> event \<Rightarrow> string set" where
  "held_after H (Acquired k b) = (if b then insert k H else H)"
| "held_after H (Released k) = H - {k}"
| "held_after H _ = H"

definition held :: "event list \<Rightarrow> string set" where
  "held h = foldl held_after {} h"

lemma held_simps: "held [] = {}" "held (h @ [e]) = held_after (held h) e"
  by (simp_all add: held_def)

text \<open>
  A goroutine takes a lock only as its first call, gives back only what it holds, makes every
  other call with a lock held, and holds none when it returns.
\<close>

fun lock_rule :: "event list \<Rightarrow> event \<Rightarrow> bool" where
  "lock_rule h (Acquired k b) \<longleftrightarrow> h = []"
| "lock_rule h (Released k) \<longleftrightarrow> held h = {k}"
| "lock_rule h _ \<longleftrightarrow> held h \<noteq> {}"

interpretation locking: discipline d "\<lambda>_. lock_rule" "\<lambda>_ h _. held h = {}" for d
proof
  fix d :: "'x Driver" and req p
  assume "goroutine d req = Some p"
  then show "follows lock_rule (\<lambda>h _. held h = {}) p []"
    by (cases req) (auto simp: held_def program_defs follows_simps Let_def split: sum.split)
qed

subsection \<open>The check before an unpin\<close>




section \<open>The lock set of the concurrent server\<close>

definition holding :: "'x server \<Rightarrow> nat \<Rightarrow> string set" where
  "holding s t = (case procs s t of None \<Rightarrow> {} | Some g \<Rightarrow> held (g_log g))"

text \<open>Every key of a set has exactly one owner.\<close>

definition owned :: "string set \<Rightarrow> (nat \<Rightarrow> string set) \<Rightarrow> bool" where
  "owned L H \<longleftrightarrow> (\<forall>k. k \<in> L \<longleftrightarrow> (\<exists>t. k \<in> H t)) \<and> (\<forall>k t u. k \<in> H t \<longrightarrow> k \<in> H u \<longrightarrow> t = u)"

lemma owned_call:
  assumes "owned L H" "\<And>k. e = Acquired k True \<Longrightarrow> k \<notin> L" "\<And>k. e = Released k \<Longrightarrow> k \<in> H t"
  shows "owned (held_after L e) (H(t := held_after (H t) e))"
proof (cases e)
  case (Acquired k b)
  with assms(1,2) show ?thesis unfolding owned_def by (cases b) (auto; metis)+
next
  case (Released k)
  with assms(1,3) show ?thesis unfolding owned_def by (auto; metis)
qed (use assms(1) in \<open>auto simp: fun_upd_idem\<close>)

lemma same_locks_calls:
  assumes "ipfsClient d = client K (osEnv d)"
  shows "volumeLocks (snd (perform d a w)) = volumeLocks w"
    "volumeLocks (snd (inquire d q w)) = volumeLocks w"
    "volumeLocks (snd (StatCID (ipfsClient d) c w)) = volumeLocks w"
  by (cases a; cases q; simp add: assms;
      intro same_locksD kubo_locks.kubo.client_stays kubo_locks.kubo.client_unpin_stays kubo_locks.stays_os_RemoveAll kubo_locks.stays_os_MkdirTemp)+

lemma step_locks:
  assumes "ipfsClient d = client K (osEnv d)" "step d p w = Some (e, p', w')"
  shows "locks (volumeLocks w') = held_after (locks (volumeLocks w)) e \<and>
    (\<forall>k b. e = Acquired k b \<longrightarrow> b = (k \<notin> locks (volumeLocks w)))"
proof (cases p)
  case (TryAcquireP k c)
  with assms(2) show ?thesis
    by (cases "k \<in> locks (volumeLocks w)")
      (auto simp: vlock.acquire_held split: prod.splits dest!: vlock.acquire_free)
qed (use assms(2) same_locks_calls [OF assms(1)] in
      \<open>auto simp: vlock.release_held Let_def split: prod.splits dest!: arg_cong [where f = snd]\<close>)

lemma owned_step:
  assumes "gstep d s s'" "owned (locks (volumeLocks (st s))) (holding s)"
    and "reachable d s" "ipfsClient d = client K (osEnv d)"
  shows "owned (locks (volumeLocks (st s'))) (holding s')"
  using assms(1)
proof cases
  case (receive t req p)
  then have "holding s' = holding s" by (auto simp: holding_def held_def fun_eq_iff)
  with receive assms(2) show ?thesis by simp
next
  case (reply t g r)
  then have "held (g_log g) = {}" using locking.returns_allowed [OF assms(3)] by blast
  with reply have "holding s' = holding s" by (auto simp: holding_def fun_eq_iff)
  with reply assms(2) show ?thesis by simp
next
  case (outside w)
  then have "holding s' = holding s" by (simp add: holding_def fun_eq_iff)
  with outside assms(2) show ?thesis by simp
next
  case (call t g e p w)
  have "holding s' = (holding s)(t := held_after (holding s t) e)"
    using call by (auto simp: holding_def held_simps fun_eq_iff)
  moreover have "locks (volumeLocks (st s')) = held_after (locks (volumeLocks (st s))) e"
    "\<And>k. e = Acquired k True \<Longrightarrow> k \<notin> locks (volumeLocks (st s))"
    using step_locks [OF assms(4) call(3)] call(1) by auto
  moreover have "\<And>k. e = Released k \<Longrightarrow> k \<in> holding s t"
    using locking.call_allowed [OF assms(3) call(2,3)] call(2) by (auto simp: holding_def)
  ultimately show ?thesis using owned_call [OF assms(2)] by simp
qed

lemma reachable_owned:
  assumes "reachable d s" "ipfsClient d = client K (osEnv d)"
  shows "owned (locks (volumeLocks (st s))) (holding s)"
  using assms(1)
proof induction
  case (server_start w)
  then show ?case by (simp add: owned_def holding_def NewVolumeLocks_def)
qed (use assms(2) owned_step in blast)

section \<open>Schedules\<close>

text \<open>
  The next call of one goroutine, and the arrival of a request, as functions: a list of goroutine
  numbers is a schedule that can be evaluated.
\<close>

definition advance :: "'x Driver \<Rightarrow> nat \<Rightarrow> 'x server \<Rightarrow> 'x server" where
  "advance d t s =
     (case procs s t of
        None \<Rightarrow> s
      | Some g \<Rightarrow>
          (case step d (g_prog g) (st s) of
             None \<Rightarrow> s
           | Some (e, p, w) \<Rightarrow>
               s\<lparr>procs := (procs s)(t \<mapsto> g\<lparr>g_log := g_log g @ [e], g_prog := p\<rparr>), st := w\<rparr>))"

definition arrive :: "'x Driver \<Rightarrow> nat \<Rightarrow> request \<Rightarrow> 'x server \<Rightarrow> 'x server" where
  "arrive d t req s =
     (case (procs s t, goroutine d req) of
        (None, Some p) \<Rightarrow> s\<lparr>procs := (procs s)(t \<mapsto> \<lparr>g_req = req, g_log = [], g_prog = p\<rparr>)\<rparr>
      | _ \<Rightarrow> s)"

definition idle_server :: "'x world \<Rightarrow> 'x server" where
  "idle_server w = \<lparr>procs = (\<lambda>_. None), st = w\<rparr>"

lemma reachable_idle: "volumeLocks w = NewVolumeLocks \<Longrightarrow> reachable d (idle_server w)"
  by (simp add: idle_server_def server_start)

lemma reachable_advance: "reachable d s \<Longrightarrow> reachable d (advance d t s)"
  by (auto simp: advance_def split: option.splits prod.splits intro: server_next call)

lemma reachable_arrive: "reachable d s \<Longrightarrow> reachable d (arrive d t req s)"
  by (auto simp: arrive_def split: option.splits intro: server_next receive)

lemma reachable_schedule: "reachable d s \<Longrightarrow> reachable d (fold (advance d) ts s)"
  by (induction ts arbitrary: s) (auto intro: reachable_advance)

text \<open>A goroutine that is scheduled alone behaves as \<open>run\<close>.\<close>

definition completes :: "'x Driver \<Rightarrow> nat \<Rightarrow> response prog \<Rightarrow> bool" where
  "completes d t p \<longleftrightarrow>
     (\<forall>g s r w. procs s t = Some g \<longrightarrow> g_prog g = p \<longrightarrow> run d p (st s) = (r, w) \<longrightarrow>
        (\<exists>h. (gstep d)\<^sup>*\<^sup>* s (s\<lparr>procs := (procs s)(t \<mapsto> g\<lparr>g_log := h, g_prog := Return r\<rparr>), st := w\<rparr>)))"

lemma completesD:
  assumes "completes d t p" "procs s t = Some g" "g_prog g = p" "run d p (st s) = (r, w)"
  shows "\<exists>h. (gstep d)\<^sup>*\<^sup>* s (s\<lparr>procs := (procs s)(t \<mapsto> g\<lparr>g_log := h, g_prog := Return r\<rparr>), st := w\<rparr>)"
  using assms unfolding completes_def by blast

lemma run_step: "step d p w = Some (e, p', w') \<Longrightarrow> run d p w = run d p' w'"
  by (cases p) (auto simp: run.simps Let_def split: prod.splits)

lemma completes_step:
  fixes d :: "'a Driver"
  assumes "\<And>w. \<exists>e p' w'. step d p w = Some (e, p', w') \<and> completes d t p'"
  shows "completes d t p"
  unfolding completes_def
proof (intro allI impI)
  fix g r w and s :: "'a server"
  assume g: "procs s t = Some g" "g_prog g = p" "run d p (st s) = (r, w)"
  obtain e p' w' where p': "step d p (st s) = Some (e, p', w')" "completes d t p'"
    using assms by blast
  let ?s = "s\<lparr>procs := (procs s)(t \<mapsto> g\<lparr>g_log := g_log g @ [e], g_prog := p'\<rparr>), st := w'\<rparr>"
  have "run d p' (st ?s) = (r, w)" using run_step [OF p'(1)] g(3) by simp
  then obtain h where
    "(gstep d)\<^sup>*\<^sup>* ?s (s\<lparr>procs := (procs s)(t \<mapsto> g\<lparr>g_log := h, g_prog := Return r\<rparr>), st := w\<rparr>)"
    using completesD [OF p'(2), of ?s "g\<lparr>g_log := g_log g @ [e], g_prog := p'\<rparr>" r w] by auto
  moreover have "gstep d s ?s" using call g(1,2) p'(1) by blast
  ultimately show "\<exists>h. (gstep d)\<^sup>*\<^sup>* s (s\<lparr>procs := (procs s)(t \<mapsto> g\<lparr>g_log := h, g_prog := Return r\<rparr>), st := w\<rparr>)"
    by (meson converse_rtranclp_into_rtranclp)
qed

lemma completes_Return: "completes (d :: 'a Driver) t (Return r)"
  unfolding completes_def
proof (intro allI impI)
  fix g x w and s :: "'a server"
  assume "procs s t = Some g" "g_prog g = Return r" "run d (Return r) (st s) = (x, w)"
  then have "s\<lparr>procs := (procs s)(t \<mapsto> g\<lparr>g_log := g_log g, g_prog := Return x\<rparr>), st := w\<rparr> = s"
    by (auto simp: run.simps fun_upd_idem)
  then show "\<exists>h. (gstep d)\<^sup>*\<^sup>* s (s\<lparr>procs := (procs s)(t \<mapsto> g\<lparr>g_log := h, g_prog := Return x\<rparr>), st := w\<rparr>)"
    by (metis rtranclp.rtrancl_refl)
qed

lemma completes: "completes d t p"
proof (induction p)
  case (Return r)
  show ?case by (rule completes_Return)
qed (rule completes_step; auto simp: Let_def split: prod.split)+

section \<open>Properties\<close>

abbreviation kubo_example_driver :: "string list Driver" where
  "kubo_example_driver \<equiv> example_driver\<lparr>ipfsClient := client example_Kubo example_OS\<rparr>"

text \<open>
  Two goroutines of the example driver: one deletes the volume \<open>h-e\<close> and has made its first four
  calls, up to the reference check; the other creates a volume with the same CID.
\<close>

definition example_pool :: "string list Driver \<Rightarrow> string list server" where
  "example_pool d =
     fold (advance d) [0, 0, 0, 0]
       (arrive d 1 (ReqCreateVolume (example_request [paramCID \<mapsto> ''Qm2'']))
         (arrive d 0 (ReqDeleteVolume ''h-e'') (idle_server example_world)))"

lemma example_pool_reachable: "reachable d (example_pool d)"
  unfolding example_pool_def
  by (intro reachable_schedule reachable_arrive reachable_idle) (simp add: example_world_def)

text \<open>
  The locks are per volume, not per CID: the creation finds and pins the CID after the deletion has
  counted the references and before it unpins, both succeed, and the new volume has lost its pin.
\<close>

lemma unpin_races_with_pin:
  "\<exists>s. reachable example_driver s \<and> ext (st s) = [''stat Qm2'', ''pin Qm2'', ''unpin Qm2''] \<and>
     (\<exists>g r. procs s 0 = Some g \<and> g_prog g = Return (Inr r)) \<and>
     (\<exists>g v. procs s 1 = Some g \<and> g_prog g = Return (Inr (RespVolume v)))"
proof -
  let ?s = "fold (advance example_driver) [1, 1, 1, 1, 0, 0] (example_pool example_driver)"
  have "ext (st ?s) = [''stat Qm2'', ''pin Qm2'', ''unpin Qm2''] \<and>
      (case procs ?s 0 of Some g \<Rightarrow> (case g_prog g of Return (Inr r) \<Rightarrow> True | _ \<Rightarrow> False) | _ \<Rightarrow> False) \<and>
      (case procs ?s 1 of Some g \<Rightarrow> (case g_prog g of Return (Inr (RespVolume v)) \<Rightarrow> True | _ \<Rightarrow> False) | _ \<Rightarrow> False)"
    by code_simp
  then have "ext (st ?s) = [''stat Qm2'', ''pin Qm2'', ''unpin Qm2''] \<and>
     (\<exists>g r. procs ?s 0 = Some g \<and> g_prog g = Return (Inr r)) \<and>
     (\<exists>g v. procs ?s 1 = Some g \<and> g_prog g = Return (Inr (RespVolume v)))"
    by (auto split: option.splits prog.splits sum.splits response.splits)
  then show ?thesis using reachable_schedule [OF example_pool_reachable] by blast
qed

text \<open>
  The concurrent server refines the handlers: a goroutine whose calls are not interrupted
  takes the server from any state to the one in which it is about to return what the handler
  returns, with the state of the handler.
\<close>

lemma goroutine_refines:
  assumes "goroutine d req = Some p" "procs s t = None" "dispatch d req (st s) = (r, w)"
  shows "\<exists>h. (gstep d)\<^sup>*\<^sup>* s
    (s\<lparr>procs := (procs s)(t \<mapsto> \<lparr>g_req = req, g_log = h, g_prog = Return r\<rparr>), st := w\<rparr>)"
proof -
  let ?g = "\<lparr>g_req = req, g_log = [], g_prog = p\<rparr>"
  let ?s = "s\<lparr>procs := (procs s)(t \<mapsto> ?g)\<rparr>"
  have "run d p (st ?s) = (r, w)" using run_goroutine [OF assms(1)] assms(3) by simp
  then obtain h where "(gstep d)\<^sup>*\<^sup>* ?s (s\<lparr>procs := (procs s)(t \<mapsto> \<lparr>g_req = req, g_log = h, g_prog = Return r\<rparr>), st := w\<rparr>)"
    using completesD [OF completes, of ?s t ?g p d r w] by auto
  with receive [OF assms(2,1)] show ?thesis by (meson converse_rtranclp_into_rtranclp)
qed

text \<open>
  (C10) Mutual exclusion. Whatever the schedule and whatever happens outside, the lock set is
  exactly the keys that goroutines hold, no key has two holders, and every call of a handler but
  the one that takes the lock is made while its goroutine holds a key.
\<close>

theorem goroutines_exclude:
  assumes "reachable d s" "ipfsClient d = client K (osEnv d)"
  shows "(k \<in> locks (volumeLocks (st s)) \<longleftrightarrow> (\<exists>t. k \<in> holding s t)) \<and>
    (k \<in> holding s t \<and> k \<in> holding s u \<longrightarrow> t = u) \<and>
    (procs s t = Some g \<and> step d (g_prog g) (st s) = Some (e, p, w) \<and> (\<forall>k b. e \<noteq> Acquired k b) \<longrightarrow>
       holding s t \<noteq> {})"
proof (intro conjI impI)
  assume *: "procs s t = Some g \<and> step d (g_prog g) (st s) = Some (e, p, w) \<and> (\<forall>k b. e \<noteq> Acquired k b)"
  then have "lock_rule (g_log g) e" using locking.call_allowed [OF assms(1)] by blast
  with * show "holding s t \<noteq> {}" by (cases e) (auto simp: holding_def)
qed (use reachable_owned [OF assms] in \<open>auto simp: owned_def\<close>)

theorem goroutines_exclude_witness:
  "{t. ''h-e'' \<in> holding (example_pool kubo_example_driver) t} = {0}"
proof -
  let ?s = "example_pool kubo_example_driver"
  have "ipfsClient kubo_example_driver = client example_Kubo (osEnv kubo_example_driver)"
    by (simp add: example_driver_def)
  note rule = goroutines_exclude [OF example_pool_reachable this, of "''h-e''"]
  have "(case procs ?s 0 of Some g \<Rightarrow> ''h-e'' \<in> held (g_log g) | None \<Rightarrow> False)" by code_simp
  then have "''h-e'' \<in> holding ?s 0" by (simp add: holding_def split: option.splits)
  with rule show ?thesis by blast
qed

text \<open>
  A lock is granted exactly when it is free: a goroutine about to take a key gets it if and
  only if no goroutine holds it, so that no key is ever lost, and is told so otherwise.
\<close>

lemma lock_granted:
  assumes "reachable d s" "ipfsClient d = client K (osEnv d)"
    and "procs s t = Some g" "g_prog g = TryAcquireP k c"
  shows "\<exists>w. step d (g_prog g) (st s) =
    Some (Acquired k (\<forall>u. k \<notin> holding s u), c (\<forall>u. k \<notin> holding s u), w)"
proof -
  have granted: "fst (TryAcquire k (volumeLocks (st s))) \<longleftrightarrow> (\<forall>u. k \<notin> holding s u)"
    using reachable_owned [OF assms(1,2)] by (simp add: vlock.acquire_ok owned_def)
  show ?thesis
    unfolding granted [symmetric] assms(4) by (simp split: prod.split)
qed

text \<open>
  Every handler ends. Whatever the other goroutines do, a goroutine never waits for them: it
  can always make its next call, and it has returned after at most eight of its own. (A call is one
  step here; one that does not return is not represented.)
\<close>

lemma goroutine_bounded:
  assumes "reachable d s" "procs s t = Some g"
  shows "length (g_log g) \<le> 8 \<and> (length (g_log g) = 8 \<longrightarrow> (\<exists>r. g_prog g = Return r)) \<and>
    ((\<exists>r. g_prog g = Return r) \<or>
     (\<exists>s' e p. gstep d s s' \<and> procs s' t = Some (g\<lparr>g_log := g_log g @ [e], g_prog := p\<rparr>)))"
proof -
  have "(\<exists>r. g_prog g = Return r) \<or> (\<exists>e p w. step d (g_prog g) (st s) = Some (e, p, w))"
    by (cases "g_prog g") (auto simp: Let_def split: prod.split)
  then show ?thesis
  proof
    assume "\<exists>e p w. step d (g_prog g) (st s) = Some (e, p, w)"
    then obtain e p w where step: "step d (g_prog g) (st s) = Some (e, p, w)" by blast
    have "length (g_log g) < 8" using bounded.call_allowed [OF assms step] by (simp add: at_most_def)
    then show ?thesis using call [OF assms(2) step] by fastforce
  qed (use log_bound [OF assms] in blast)
qed



end
