(* ===== verification/Shutdown.thy ===== *)
theory Shutdown
  imports Startup Goroutines
begin

text \<open>
  The end of \<open>main\<close>: the goroutine that serves, the wait for a signal, and the deferred
  \<open>GracefulStop\<close>, around the concurrent controller of theory \<open>Goroutines\<close>. \<open>grpcServer.Serve\<close> hands
  requests to goroutines until it fails, which ends the process at once, or until \<open>GracefulStop\<close> is
  called; from then on no request is accepted, and \<open>GracefulStop\<close>, and with it the process, ends
  when those in flight have returned. These are the documented promises of the gRPC library.
\<close>

section \<open>The life of a serving process\<close>

datatype phase = Accepting | Stopping | Exited | Crashed

record 'x process_state =
  srv :: "'x server"
  phase :: phase

text \<open>
  \<open>signal\<close> is the end of the wait on the context, which main's deferred call follows; \<open>serve_fails\<close>
  is the call of \<open>Fatal\<close> in the goroutine that serves.
\<close>

inductive lifestep :: "'x Driver \<Rightarrow> 'x process_state \<Rightarrow> 'x process_state \<Rightarrow> bool" for d where
  accepting: "phase m = Accepting \<Longrightarrow> gstep d (srv m) s \<Longrightarrow> lifestep d m (m\<lparr>srv := s\<rparr>)"
| signal: "phase m = Accepting \<Longrightarrow> lifestep d m (m\<lparr>phase := Stopping\<rparr>)"
| serve_fails: "phase m = Accepting \<Longrightarrow> lifestep d m (m\<lparr>phase := Crashed\<rparr>)"
| draining: "phase m = Stopping \<Longrightarrow> gstep d (srv m) s \<Longrightarrow>
     (\<forall>t. procs (srv m) t = None \<longrightarrow> procs s t = None) \<Longrightarrow> lifestep d m (m\<lparr>srv := s\<rparr>)"
| stopped: "phase m = Stopping \<Longrightarrow> (\<forall>t. procs (srv m) t = None) \<Longrightarrow> lifestep d m (m\<lparr>phase := Exited\<rparr>)"

text \<open>The states of a process that \<open>main\<close> has brought to the point where it serves.\<close>

inductive lives :: "'x Driver \<Rightarrow> 'x process_state \<Rightarrow> bool" for d where
  live_start: "volumeLocks w = NewVolumeLocks \<Longrightarrow> lives d \<lparr>srv = idle_server w, phase = Accepting\<rparr>"
| live_next: "lives d m \<Longrightarrow> lifestep d m m' \<Longrightarrow> lives d m'"

section \<open>Lemmas\<close>

lemma lives_reachable: "lives d m \<Longrightarrow> reachable d (srv m)"
proof (induction rule: lives.induct)
  case (live_next m m')
  from live_next.hyps(2) show ?case by cases (use live_next.IH server_next in auto)
qed (simp add: reachable_idle)

definition active :: "'x server \<Rightarrow> nat set" where
  "active s = {t. procs s t \<noteq> None}"

lemma gstep_procs: "gstep d s s' \<Longrightarrow> \<exists>t x. procs s' = (procs s)(t := x)"
proof (induction rule: gstep.induct)
  case (outside w s)
  have "procs (s\<lparr>st := w\<rparr>) = (procs s)(0 := procs s 0)" by simp
  then show ?case by blast
qed auto

lemma finite_active: "reachable d s \<Longrightarrow> finite (active s)"
proof (induction rule: reachable.induct)
  case (server_next s s')
  from gstep_procs [OF server_next.hyps(2)] obtain t x where "procs s' = (procs s)(t := x)" by blast
  then have "active s' \<subseteq> insert t (active s)" by (auto simp: active_def split: if_splits)
  then show ?case using server_next.IH finite_subset by blast
qed (simp add: active_def)

text \<open>What is left to do: at most nine steps of every goroutine in flight, its return included.\<close>

definition steps_left :: "goroutine_state option \<Rightarrow> nat" where
  "steps_left x = (case x of None \<Rightarrow> 0 | Some g \<Rightarrow> 9 - length (g_log g))"

lemma steps_left_le: "steps_left x \<le> 9"
  by (simp add: steps_left_def split: option.split)

definition work :: "'x server \<Rightarrow> nat" where
  "work s = (\<Sum>t \<in> active s. steps_left (procs s t))"

lemma work_update:
  assumes "finite (active s)" "procs s' = (procs s)(t := x)" "steps_left x < steps_left (procs s t)"
  shows "work s' < work s"
proof -
  have t: "t \<in> active s" using assms(3) by (auto simp: steps_left_def active_def split: option.splits)
  have "active s' \<subseteq> active s" using assms(2) t by (auto simp: active_def split: if_splits)
  then have "work s' \<le> (\<Sum>u \<in> active s. steps_left (procs s' u))"
    unfolding work_def by (rule sum_mono2 [OF assms(1)]) simp
  also have "\<dots> < work s"
    unfolding work_def using assms(2,3) t by (intro sum_strict_mono_ex1 [OF assms(1)]) auto
  finally show ?thesis .
qed

lemma gstep_work:
  assumes "reachable d s" "gstep d s s'" "\<forall>t. procs s t = None \<longrightarrow> procs s' t = None"
  shows "procs s' = procs s \<or> work s' < work s"
  using assms(2)
proof cases
  case (receive t req p)
  have "procs s' t \<noteq> None" unfolding receive(1) by simp
  with assms(3) [rule_format, OF receive(2)] show ?thesis by contradiction
next
  case (call t g e p w)
  then show ?thesis
    using bounded.call_allowed [OF assms(1) call(2,3)]
    by (intro disjI2 work_update [OF finite_active [OF assms(1)]]) (auto simp: steps_left_def at_most_def)
next
  case (reply t g r)
  then show ?thesis
    using log_bound [OF assms(1) reply(2)]
    by (intro disjI2 work_update [OF finite_active [OF assms(1)]]) (auto simp: steps_left_def)
qed simp

lemma can_step:
  assumes "procs s t = Some g"
  shows "\<exists>s'. gstep d s s' \<and> procs s' \<noteq> procs s \<and> (\<forall>u. procs s u = None \<longrightarrow> procs s' u = None)"
proof (cases "step d (g_prog g) (st s)")
  case None
  then obtain r where "g_prog g = Return r" by (cases "g_prog g") (auto simp: Let_def split: prod.splits)
  from reply [OF assms this] assms show ?thesis by (force simp: fun_eq_iff)
next
  case (Some x)
  then obtain e p w where "step d (g_prog g) (st s) = Some (e, p, w)" by (cases x) auto
  note next_call = call [OF assms this]
  have "g\<lparr>g_log := g_log g @ [e], g_prog := p\<rparr> \<noteq> g" by (cases g) simp
  with next_call assms show ?thesis by (force dest: fun_cong [of _ _ t])
qed

lemma drained:
  assumes "lives d m" "phase m = Stopping"
  shows "\<exists>m'. (lifestep d)\<^sup>*\<^sup>* m m' \<and> phase m' = Exited"
  using assms
proof (induction "work (srv m)" arbitrary: m rule: less_induct)
  case less
  show ?case
  proof (cases "\<forall>t. procs (srv m) t = None")
    case True
    with stopped [OF less.prems(2)] have "(lifestep d)\<^sup>*\<^sup>* m (m\<lparr>phase := Exited\<rparr>)" by blast
    then show ?thesis by fastforce
  next
    case False
    then obtain t g where "procs (srv m) t = Some g" by auto
    from can_step [OF this] obtain s where s: "gstep d (srv m) s" "procs s \<noteq> procs (srv m)"
      "\<forall>u. procs (srv m) u = None \<longrightarrow> procs s u = None" by blast
    let ?m = "m\<lparr>srv := s\<rparr>"
    have step: "lifestep d m ?m" using draining [OF less.prems(2) s(1,3)] .
    have "work (srv ?m) < work (srv m)"
      using gstep_work [OF lives_reachable [OF less.prems(1)] s(1,3)] s(2) by simp
    moreover have "lives d ?m" "phase ?m = Stopping" using live_next [OF less.prems(1) step] less.prems(2) by simp_all
    ultimately obtain m' where "(lifestep d)\<^sup>*\<^sup>* ?m m'" "phase m' = Exited" using less.hyps by blast
    with step show ?thesis by (meson converse_rtranclp_into_rtranclp)
  qed
qed

text \<open>A process that \<open>main\<close> has brought to serving starts such a life.\<close>

lemma main_lives: "serves P V fl (Serving d scheme addr reflect log) w \<Longrightarrow> lives d \<lparr>srv = idle_server w, phase = Accepting\<rparr>"
  by (simp add: serves_def live_start)

lemma lives_accepting: "reachable d s \<Longrightarrow> lives d \<lparr>srv = s, phase = Accepting\<rparr>"
proof (induction rule: reachable.induct)
  case (server_start w)
  from live_start [OF this] show ?case by (simp add: idle_server_def)
next
  case (server_next s s')
  have "lifestep d \<lparr>srv = s, phase = Accepting\<rparr> (\<lparr>srv = s, phase = Accepting\<rparr>\<lparr>srv := s'\<rparr>)"
    by (rule accepting) (simp_all add: server_next.hyps(2))
  with live_next [OF server_next.IH] show ?case by simp
qed

lemma lives_stopping: "reachable d s \<Longrightarrow> lives d \<lparr>srv = s, phase = Stopping\<rparr>"
  using live_next [OF lives_accepting signal, of d s] by simp

lemma lives_Exited: "lives d m \<Longrightarrow> phase m = Exited \<Longrightarrow> active (srv m) = {}"
proof (induction rule: lives.induct)
  case (live_next m m')
  from live_next.hyps(2) live_next.prems show ?case by cases (auto simp: active_def)
qed simp

section \<open>Properties\<close>

text \<open>
  A signal never interrupts a handler. A process that has ended after a signal has no
  goroutine of a controller operation in flight, which is what \<open>GracefulStop\<close> promises, and so no
  lock is held.
\<close>

lemma exit_clean:
  assumes "lives d m" "phase m = Exited" "ipfsClient d = client K (osEnv d)"
  shows "(\<forall>t. procs (srv m) t = None) \<and> locks (volumeLocks (st (srv m))) = {}"
proof -
  have none: "procs (srv m) t = None" for t using lives_Exited [OF assms(1,2)] by (auto simp: active_def)
  then have "holding (srv m) t = {}" for t by (simp add: holding_def)
  with reachable_owned [OF lives_reachable [OF assms(1)] assms(3)] none show ?thesis by (auto simp: owned_def)
qed

text \<open>
  The stop ends. In every state of a process that has got a signal, the process can still end;
  and every step in which a goroutine goes on leaves less work, which is at most nine steps for each
  of the finitely many requests in flight, so that no schedule of them can delay the end for ever.
  (This is for handlers whose calls return; the handlers of the node are not among the goroutines.)
\<close>

lemma graceful_stop_ends:
  assumes "lives d m" "phase m = Stopping"
  shows "(\<exists>m'. (lifestep d)\<^sup>*\<^sup>* m m' \<and> phase m' = Exited) \<and>
    finite (active (srv m)) \<and> work (srv m) \<le> 9 * card (active (srv m)) \<and>
    (\<forall>m'. lifestep d m m' \<longrightarrow> procs (srv m') = procs (srv m) \<or> work (srv m') < work (srv m))"
proof (intro conjI allI impI)
  show "\<exists>m'. (lifestep d)\<^sup>*\<^sup>* m m' \<and> phase m' = Exited" by (rule drained [OF assms])
  show "finite (active (srv m))" by (rule finite_active [OF lives_reachable [OF assms(1)]])
  show "work (srv m) \<le> 9 * card (active (srv m))"
    unfolding work_def using sum_bounded_above [of "active (srv m)" "\<lambda>t. steps_left (procs (srv m) t)" 9]
    by (simp add: steps_left_le mult.commute)
  fix m'
  assume "lifestep d m m'"
  then show "procs (srv m') = procs (srv m) \<or> work (srv m') < work (srv m)"
    by cases (use assms gstep_work [OF lives_reachable [OF assms(1)]] in auto)
qed

end
