(* ===== verification/Pinning.thy ===== *)
theory Pinning
  imports Server
begin

text \<open>
  The purpose of pinning: the content of a volume or snapshot is not collected by the daemon while
  something refers to it. The handlers, the stores, the client and the daemon's pin set are put
  together with the cluster around them (\<open>cluster\<close>): the requests of \<open>dispatch\<close> in any order,
  PersistentVolumes and VolumeSnapshotContents that appear after a creation and vanish after a
  deletion. The frame locales of theory \<open>Frame\<close>, interpreted for \<open>keeps_pins\<close>, show that only the
  two deletions can take a pin away; the reference count of theory \<open>References\<close> shows that these
  spare every CID that something else needs.
\<close>

section \<open>Who needs a pin\<close>

text \<open>
  The CIDs that the driver's volumes (with pinning on) and its snapshots refer to. A volume or
  snapshot whose deletion has been requested needs its pin no longer, although its object may stay
  in the cache for a while: \<open>gone\<close> has the identifiers of these (\<open>Inl\<close> volumes, \<open>Inr\<close> snapshots).
  (A volume has the name of its PersistentVolume for an identifier if it has no handle, so
  the identifier is never empty.)
\<close>

definition needed_by_volumes ::
  "(string + string) set \<Rightarrow> string \<Rightarrow> (string \<times> string \<times> VolumeAttributes) list \<Rightarrow> string list" where
  "needed_by_volumes gone driver vols =
     [mget (Attributes a) paramCID. (v, d, a) \<leftarrow> vols, d = driver \<and> VolumeID a \<noteq> '''' \<and> Inl (VolumeID a) \<notin> gone \<and>
        isPinningEnabled (Attributes a) \<and> mget (Attributes a) paramCID \<noteq> '''']"

definition needed_by_snapshots ::
  "(string + string) set \<Rightarrow> string \<Rightarrow> (string \<times> SnapshotEntry) list \<Rightarrow> string list" where
  "needed_by_snapshots gone driver snaps =
     [SnapshotID e. (d, e) \<leftarrow> snaps, d = driver \<and> Inr (SnapshotID e) \<notin> gone \<and> SnapshotID e \<noteq> '''']"

definition needed ::
  "'x PVLister \<Rightarrow> 'x VSCLister option \<Rightarrow> string \<Rightarrow> (string + string) set \<Rightarrow> 'x \<Rightarrow> string set" where
  "needed L S driver gone x =
     set (needed_by_volumes gone driver (pv_vols L x)) \<union> set (needed_by_snapshots gone driver (cluster_snaps S x))"

lemma needed_iff:
  "cid \<in> needed L S driver gone x \<longleftrightarrow> cid \<noteq> '''' \<and>
     ((\<exists>v a. (v, driver, a) \<in> set (pv_vols L x) \<and> VolumeID a \<noteq> '''' \<and> Inl (VolumeID a) \<notin> gone \<and>
          isPinningEnabled (Attributes a) \<and> mget (Attributes a) paramCID = cid) \<or>
      Inr cid \<notin> gone \<and> (\<exists>e. (driver, e) \<in> set (cluster_snaps S x) \<and> SnapshotID e = cid))"
  by (fastforce simp: needed_def needed_by_volumes_def needed_by_snapshots_def split: if_splits)

text \<open>What a request that has been served makes superfluous.\<close>

fun forgets :: "string \<Rightarrow> (string \<times> SnapshotEntry) list \<Rightarrow> request \<Rightarrow> (string + string) set" where
  "forgets driver snaps (ReqDeleteVolume v) = {Inl v}"
| "forgets driver snaps (ReqDeleteSnapshot s) =
     (if length (snapshot_refs snaps driver s) \<le> 1 then {Inr s} else {})"
| "forgets driver snaps _ = {}"

text \<open>
  Pins are kept per decoded CID, references are compared as strings. A string is canonical if it
  is the one that its CID is printed as.
\<close>

definition pinned :: "'x KuboAPI \<Rightarrow> ('x \<Rightarrow> string set) \<Rightarrow> 'x \<Rightarrow> string \<Rightarrow> bool" where
  "pinned K pins x c \<longleftrightarrow> (case cid_Decode K c of Inl e \<Rightarrow> False | Inr k \<Rightarrow> k \<in> pins x)"

definition canonical :: "'x KuboAPI \<Rightarrow> string \<Rightarrow> bool" where
  "canonical K c \<longleftrightarrow> (case cid_Decode K c of Inl e \<Rightarrow> True | Inr k \<Rightarrow> cid_String K k = c)"

definition cids_canonical :: "'x KuboAPI \<Rightarrow> 'x PVLister \<Rightarrow> 'x VSCLister option \<Rightarrow> 'x \<Rightarrow> bool" where
  "cids_canonical K L S x \<longleftrightarrow>
     list_all (\<lambda>(v, d, a). canonical K (mget (Attributes a) paramCID)) (pv_vols L x) \<and>
     list_all (\<lambda>(d, e). canonical K (SnapshotID e)) (cluster_snaps S x)"

section \<open>What the daemon promises\<close>

text \<open>
  The documented behaviour of the daemon's pin set, \<open>pins x\<close>: an added pin is there, a removed pin
  may be gone but no other, and no other call removes a pin. No call of the daemon or of the mount
  helpers changes the caches of the informers.
\<close>

definition same_cluster :: "'x PVLister \<Rightarrow> 'x VSCLister option \<Rightarrow> 'x \<Rightarrow> 'x \<Rightarrow> bool" where
  "same_cluster L S x x' \<longleftrightarrow> pv_vols L x' = pv_vols L x \<and> cluster_snaps S x' = cluster_snaps S x \<and>
     (caches_ok L S x \<longrightarrow> caches_ok L S x')"

definition grows :: "'x PVLister \<Rightarrow> 'x VSCLister option \<Rightarrow> ('x \<Rightarrow> string set) \<Rightarrow> 'x \<Rightarrow> 'x \<Rightarrow> bool" where
  "grows L S pins x x' \<longleftrightarrow> same_cluster L S x x' \<and> pins x \<subseteq> pins x'"

definition law_pin_add :: "'x KuboAPI \<Rightarrow> 'x PVLister \<Rightarrow> 'x VSCLister option \<Rightarrow> ('x \<Rightarrow> string set) \<Rightarrow> bool" where
  "law_pin_add K L S pins \<longleftrightarrow>
     (\<forall>c x. grows L S pins x (snd (Pin_Add K c x)) \<and>
            (\<forall>x'. Pin_Add K c x = (Inr (), x') \<longrightarrow> c \<in> pins x'))"

definition law_pin_rm :: "'x KuboAPI \<Rightarrow> 'x PVLister \<Rightarrow> 'x VSCLister option \<Rightarrow> ('x \<Rightarrow> string set) \<Rightarrow> bool" where
  "law_pin_rm K L S pins \<longleftrightarrow>
     (\<forall>c x. same_cluster L S x (snd (Pin_Rm K c x)) \<and> pins x - {c} \<subseteq> pins (snd (Pin_Rm K c x)))"

definition law_pin_others ::
  "'x KuboAPI \<Rightarrow> 'x Mounter \<Rightarrow> 'x PVLister \<Rightarrow> 'x VSCLister option \<Rightarrow> ('x \<Rightarrow> string set) \<Rightarrow> bool" where
  "law_pin_others K M L S pins \<longleftrightarrow>
     (\<forall>x c n cmd args opts. grows L S pins x (snd (Key_Self K x)) \<and> grows L S pins x (snd (Unixfs_Get K c x)) \<and>
        grows L S pins x (snd (Unixfs_Add K n x)) \<and>
        (cmd \<in> set client_commands \<longrightarrow> grows L S pins x (snd (Request K cmd args opts x)))) \<and>
     (\<forall>w p q f opts. grows L S pins (ext w) (ext (snd (IsLikelyNotMountPoint M p w))) \<and>
        grows L S pins (ext w) (ext (snd (Mount M p q f opts w))) \<and>
        grows L S pins (ext w) (ext (snd (CleanupMountPoint M p w))))"

definition pin_laws ::
  "'x KuboAPI \<Rightarrow> 'x Mounter \<Rightarrow> 'x PVLister \<Rightarrow> 'x VSCLister option \<Rightarrow> ('x \<Rightarrow> string set) \<Rightarrow> bool" where
  "pin_laws K M L S pins \<longleftrightarrow> law_pin_add K L S pins \<and> law_pin_rm K L S pins \<and> law_pin_others K M L S pins"

lemma grows_refl [simp]: "grows L S pins x x"
  by (simp add: grows_def same_cluster_def)

lemma grows_trans: "grows L S pins x y \<Longrightarrow> grows L S pins y z \<Longrightarrow> grows L S pins x z"
  by (auto simp: grows_def same_cluster_def)

lemma grows_needed: "same_cluster L S x x' \<Longrightarrow> needed L S driver gone x' = needed L S driver gone x"
  by (simp add: needed_def same_cluster_def)

lemma grows_pinned: "grows L S pins x x' \<Longrightarrow> pinned K pins x c \<Longrightarrow> pinned K pins x' c"
  by (auto simp: grows_def pinned_def split: sum.splits)

lemma ext_releaseLock [simp]: "ext (releaseLock k w) = ext w"
  by (simp add: releaseLock_def)

section \<open>Requests that do not delete\<close>

text \<open>Only the two deletions unpin: everything else keeps the pins, and leaves the caches alone.\<close>

definition keeps_pins ::
  "'x KuboAPI \<Rightarrow> 'x Mounter \<Rightarrow> 'x PVLister \<Rightarrow> 'x VSCLister option \<Rightarrow> ('x \<Rightarrow> string set) \<Rightarrow>
   'x world \<Rightarrow> 'x world \<Rightarrow> bool" where
  "keeps_pins K M L S pins w w' \<longleftrightarrow> (pin_laws K M L S pins \<longrightarrow> grows L S pins (ext w) (ext w'))"

lemma keeps_pins_api:
  "(\<And>x. pin_laws K M L S pins \<Longrightarrow> grows L S pins x (snd (f x))) \<Longrightarrow> stays (keeps_pins K M L S pins) (api f)"
  by (simp add: stays_def keeps_pins_def api_state)

interpretation pin_kubo: kubo_frame "keeps_pins K M L S pins" E K for K M L S pins E
  by unfold_locales
    (auto simp: keeps_pins_def pin_laws_def law_pin_add_def law_pin_others_def
      intro!: keeps_pins_api intro: grows_trans)

interpretation pin_node: node_frame "keeps_pins K M L S pins" E "client K E" M for K M L S pins E
  by unfold_locales (auto simp: stays_def keeps_pins_def pin_laws_def law_pin_others_def)

fun deletes :: "request \<Rightarrow> bool" where
  "deletes (ReqDeleteVolume v) \<longleftrightarrow> True"
| "deletes (ReqDeleteSnapshot s) \<longleftrightarrow> True"
| "deletes _ \<longleftrightarrow> False"

lemma dispatch_keeps_pins:
  assumes "ipfsClient d = client K (osEnv d)" "\<not> deletes r" "pin_laws K (mounter d) L S pins"
  shows "grows L S pins (ext w) (ext (snd (dispatch d r w)))"
proof -
  note rules = pin_kubo.kubo.stays_identity [OF assms(1)] pin_kubo.kubo.stays_CreateVolume [OF assms(1) refl]
    pin_kubo.kubo.stays_CreateSnapshot [OF assms(1)] pin_kubo.kubo.stays_controller_reads [OF assms(1)]
    pin_node.stays_node [OF assms(1) refl refl]
  have "stays (keeps_pins K (mounter d) L S pins) (dispatch d r)"
    using assms(2)
    by (cases r) (auto simp: respond_def intro!: pin_kubo.stays_bindE pin_kubo.stays_ret rules)
  with assms(3) show ?thesis by (auto dest!: staysD [of _ _ w] simp: keeps_pins_def)
qed
section \<open>Deletions\<close>

text \<open>\<open>spares c\<close>: at most the pin of \<open>c\<close> is removed, and the caches are left alone.\<close>

definition spares ::
  "'x KuboAPI \<Rightarrow> 'x PVLister \<Rightarrow> 'x VSCLister option \<Rightarrow> ('x \<Rightarrow> string set) \<Rightarrow> string \<Rightarrow> 'x \<Rightarrow> 'x \<Rightarrow> bool" where
  "spares K L S pins c x x' \<longleftrightarrow>
     same_cluster L S x x' \<and> (\<forall>k \<in> pins x. k \<in> pins x' \<or> cid_Decode K c = Inr k)"

lemma spares_grows: "spares K L S pins c x y \<Longrightarrow> grows L S pins y z \<Longrightarrow> spares K L S pins c x z"
  by (auto simp: spares_def grows_def same_cluster_def)

lemma grows_spares: "grows L S pins x y \<Longrightarrow> spares K L S pins c x y"
  by (auto simp: spares_def grows_def)

lemma spares_pinned:
  "spares K L S pins c x y \<Longrightarrow> canonical K c \<Longrightarrow> canonical K c' \<Longrightarrow> c' \<noteq> c \<Longrightarrow>
   pinned K pins x c' \<Longrightarrow> pinned K pins y c'"
  by (auto simp: spares_def pinned_def canonical_def split: sum.splits)

lemma unpin_spares:
  assumes "pin_laws K M L S pins"
  shows "spares K L S pins c (ext w) (ext (snd (client_UnpinCID K c w)))"
proof (cases "cid_Decode K c")
  case (Inl e)
  then show ?thesis by (simp add: client_UnpinCID_def parseCIDPath_def throw_def grows_spares)
next
  case (Inr k)
  have "ext (snd (client_UnpinCID K c w)) = snd (Pin_Rm K k (ext w))"
    by (simp add: client_UnpinCID_def parseCIDPath_def Inr mapErr_def api_def split: prod.split sum.split)
  moreover have "same_cluster L S x (snd (Pin_Rm K k x))" "pins x - {k} \<subseteq> pins (snd (Pin_Rm K k x))" for x
    using assms by (simp_all add: pin_laws_def law_pin_rm_def)
  ultimately show ?thesis using Inr by (auto simp: spares_def)
qed

lemma RmMFS_grows:
  "pin_laws K M L S pins \<Longrightarrow> grows L S pins (ext w) (ext (snd (client_RmMFS K p w)))"
  using staysD [OF pin_kubo.stays_client_plain(4), of K M L S pins w p] by (simp add: keeps_pins_def)

lemma cleanup_unpinned:
  assumes "\<not> (mget (Attributes a) paramCID \<noteq> '''' \<and> isPinningEnabled (Attributes a))"
  shows "cleanupVolumeInIPFS d a w =
    (if mget (Attributes a) paramMFSPath \<noteq> '''' \<and> mget (Attributes a) paramReadOnly \<noteq> ''true''
     then ignoreErr (RmMFS (ipfsClient d) (mget (Attributes a) paramMFSPath)) w else (Inr (), w))"
  using assms by (auto simp: cleanupVolumeInIPFS_def Let_def bindE_def ret_def)

lemma needed_referenced:
  assumes "cid \<in> needed L S driver (insert (Inl v) gone) x"
  shows "cid \<noteq> '''' \<and> (volume_refs (pv_vols L x) driver cid v \<noteq> [] \<or> snapshot_refs (cluster_snaps S x) driver cid \<noteq> [])"
  using assms
  by (fastforce simp: needed_iff volume_refs_def snapshot_refs_def split: if_splits)

lemma needed_canonical:
  "cids_canonical K L S x \<Longrightarrow> cid \<in> needed L S driver gone x \<Longrightarrow> canonical K cid"
  by (fastforce simp: cids_canonical_def needed_iff list_all_iff)

lemma needed_mono: "gone \<subseteq> gone' \<Longrightarrow> needed L S driver gone' x \<subseteq> needed L S driver gone x"
  by (rule subsetI) (unfold needed_iff, blast)

lemma cleanup_pins:
  assumes "informed d L S" "caches_ok L S (ext w)" "ipfsClient d = client K E" "pin_laws K M L S pins"
  shows "grows L S pins (ext w) (ext (snd (cleanupVolumeInIPFS d a w))) \<or>
    spares K L S pins (mget (Attributes a) paramCID) (ext w) (ext (snd (cleanupVolumeInIPFS d a w))) \<and>
    volume_refs (pv_vols L (ext w)) (DriverName (cfg d)) (mget (Attributes a) paramCID) (VolumeID a) = [] \<and>
    snapshot_refs (cluster_snaps S (ext w)) (DriverName (cfg d)) (mget (Attributes a) paramCID) = []"
proof -
  let ?cid = "mget (Attributes a) paramCID"
  let ?shared = "volume_refs (pv_vols L (ext w)) (DriverName (cfg d)) ?cid (VolumeID a) \<noteq> [] \<or>
    snapshot_refs (cluster_snaps S (ext w)) (DriverName (cfg d)) ?cid \<noteq> []"
  note rm = RmMFS_grows [OF assms(4)]
  consider "\<not> (?cid \<noteq> '''' \<and> isPinningEnabled (Attributes a))" | ?shared
    | "?cid \<noteq> ''''" "isPinningEnabled (Attributes a)" "\<not> ?shared" by blast
  then show ?thesis
  proof cases
    case 1
    then show ?thesis by (simp add: cleanup_unpinned ignoreErr_def assms(3) client_def rm)
  next
    case 2
    then show ?thesis
      by (simp add: cleanup_shared [OF assms(1,2) refl] ignoreErr_def assms(3) client_def rm)
  next
    case 3
    then show ?thesis
      by (auto simp: cleanup_last [OF assms(1,2) refl] ignoreErr_def assms(3) client_def
          intro: spares_grows [OF unpin_spares [OF assms(4)] rm] unpin_spares [OF assms(4)])
  qed
qed
text \<open>Every needed pin is there, and stays there as long as no needed CID is given up.\<close>

definition protects ::
  "'x KuboAPI \<Rightarrow> 'x PVLister \<Rightarrow> 'x VSCLister option \<Rightarrow> ('x \<Rightarrow> string set) \<Rightarrow> string \<Rightarrow> (string + string) set \<Rightarrow> 'x \<Rightarrow> bool"
where
  "protects K L S pins driver gone x \<longleftrightarrow> (\<forall>cid \<in> needed L S driver gone x. pinned K pins x cid)"

lemma protects_kept:
  assumes "protects K L S pins driver gone x" "gone \<subseteq> gone'" "grows L S pins x x'"
  shows "same_cluster L S x x' \<and> protects K L S pins driver gone' x'"
proof -
  have "same_cluster L S x x'" using assms(3) by (simp add: grows_def)
  moreover from this assms(1) needed_mono [OF assms(2), of L S driver x] grows_pinned [OF assms(3)]
  have "protects K L S pins driver gone' x'" by (auto simp: protects_def grows_needed)
  ultimately show ?thesis by blast
qed

lemma protects_spared:
  assumes "protects K L S pins driver gone x" "gone \<subseteq> gone'" "spares K L S pins c x x'"
    and "cids_canonical K L S x" "canonical K c" "c \<notin> needed L S driver gone' x"
  shows "same_cluster L S x x' \<and> protects K L S pins driver gone' x'"
proof -
  have same: "same_cluster L S x x'" using assms(3) by (simp add: spares_def)
  have "pinned K pins x' cid" if "cid \<in> needed L S driver gone' x" for cid
    using that assms(1,6) needed_mono [OF assms(2), of L S driver x]
    by (intro spares_pinned [OF assms(3,5) needed_canonical [OF assms(4) that]]) (auto simp: protects_def)
  with same show ?thesis by (simp add: protects_def grows_needed)
qed

lemma DeleteVolume_protects:
  assumes "informed d L S" "caches_ok L S (ext w)" "cids_canonical K L S (ext w)"
    and "ipfsClient d = client K E" "pin_laws K M L S pins"
    and "protects K L S pins (DriverName (cfg d)) gone (ext w)" "w' = snd (DeleteVolume d v w)"
  shows "same_cluster L S (ext w) (ext w') \<and>
    protects K L S pins (DriverName (cfg d)) (insert (Inl v) gone) (ext w')"
proof -
  have sub: "gone \<subseteq> insert (Inl v) gone" by blast
  consider "ext w' = ext w"
    | a where "v \<noteq> ''''" "pvStore_GetVolumeAttributes L v (ext w) = Inr a"
        "ext w' = ext (snd (cleanupVolumeInIPFS d a (locked v w)))"
    using assms(7) DeleteVolume_unlocked [OF assms(1), of v w]
    by (cases "v = ''''"; cases "v \<in> locks (volumeLocks w)")
      (auto simp: DeleteVolume_def with_lock_held throw_def split: sum.splits if_splits)
  then show ?thesis
  proof cases
    case 1
    with protects_kept [OF assms(6) sub grows_refl] show ?thesis by simp
  next
    case (2 a)
    have "VolumeID a = v" "canonical K (mget (Attributes a) paramCID)"
      using 2 assms(2,3) pvs.get_VolumeID pvs.get_found
      by (fastforce simp: caches_ok_def cids_canonical_def list_all_iff)+
    with cleanup_pins [OF assms(1) _ assms(4,5), of "locked v w" a] assms(2) 2
      protects_kept [OF assms(6) sub] protects_spared [OF assms(6) sub _ assms(3)]
    show ?thesis by (auto dest: needed_referenced)
  qed
qed

lemma needed_snapshot:
  assumes "s \<in> needed L S driver (forgets driver (cluster_snaps S x) (ReqDeleteSnapshot s) \<union> gone) x"
  shows "volume_refs (pv_vols L x) driver s '''' \<noteq> [] \<or> 1 < length (snapshot_refs (cluster_snaps S x) driver s)"
  using assms
  by (fastforce simp: needed_iff volume_refs_def snapshot_refs_def split: if_splits)

lemma DeleteSnapshot_protects:
  assumes "informed d L S" "caches_ok L S (ext w)" "cids_canonical K L S (ext w)" "canonical K s"
    and "ipfsClient d = client K E" "pin_laws K M L S pins"
    and "protects K L S pins (DriverName (cfg d)) gone (ext w)" "w' = snd (DeleteSnapshot d s w)"
  shows "same_cluster L S (ext w) (ext w') \<and> protects K L S pins (DriverName (cfg d))
    (forgets (DriverName (cfg d)) (cluster_snaps S (ext w)) (ReqDeleteSnapshot s) \<union> gone) (ext w')"
proof -
  define gone' where "gone' = forgets (DriverName (cfg d)) (cluster_snaps S (ext w)) (ReqDeleteSnapshot s) \<union> gone"
  have sub: "gone \<subseteq> gone'" by (simp add: gone'_def)
  consider "ext w' = ext w"
    | "volume_refs (pv_vols L (ext w)) (DriverName (cfg d)) s '''' = []"
      "length (snapshot_refs (cluster_snaps S (ext w)) (DriverName (cfg d)) s) \<le> 1"
      "ext w' = ext (snd (client_UnpinCID K s (locked (''delete-snapshot-'' @ s) w)))"
    using assms(8) DeleteSnapshot_unlocked [of s w d]
      informed_usage [OF assms(1), of "locked (''delete-snapshot-'' @ s) w" s "''''" True] assms(2)
    by (cases "s = ''''"; cases "''delete-snapshot-'' @ s \<in> locks (volumeLocks w)")
      (auto simp: DeleteSnapshot_def with_lock_held throw_def assms(5) client_def split: if_splits)
  then have "same_cluster L S (ext w) (ext w') \<and> protects K L S pins (DriverName (cfg d)) gone' (ext w')"
  proof cases
    case 1
    with protects_kept [OF assms(7) sub grows_refl] show ?thesis by simp
  next
    case 2
    have "spares K L S pins s (ext w) (ext w')"
      using unpin_spares [OF assms(6), of s "locked (''delete-snapshot-'' @ s) w"] 2(3) by simp
    moreover have "s \<notin> needed L S (DriverName (cfg d)) gone' (ext w)"
      using needed_snapshot 2(1,2) unfolding gone'_def by fastforce
    ultimately show ?thesis by (rule protects_spared [OF assms(7) sub _ assms(3,4)])
  qed
  then show ?thesis by (simp only: gone'_def)
qed

fun request_canonical :: "'x KuboAPI \<Rightarrow> request \<Rightarrow> bool" where
  "request_canonical K (ReqDeleteSnapshot s) \<longleftrightarrow> canonical K s"
| "request_canonical K _ \<longleftrightarrow> True"

lemma dispatch_protects:
  assumes "informed d L S" "caches_ok L S (ext w)" "cids_canonical K L S (ext w)" "request_canonical K r"
    and "ipfsClient d = client K (osEnv d)" "pin_laws K (mounter d) L S pins"
    and "protects K L S pins (DriverName (cfg d)) gone (ext w)" "dispatch d r w = (res, w')"
  shows "same_cluster L S (ext w) (ext w') \<and> protects K L S pins (DriverName (cfg d))
    (forgets (DriverName (cfg d)) (cluster_snaps S (ext w)) r \<union> gone) (ext w')"
proof (cases "deletes r")
  case False
  then have "forgets (DriverName (cfg d)) (cluster_snaps S (ext w)) r = {}" by (cases r) simp_all
  with protects_kept [OF assms(7) order_refl, of "ext w'"] dispatch_keeps_pins [OF assms(5) False assms(6), of w] assms(8)
  show ?thesis by simp
next
  case True
  then consider v where "r = ReqDeleteVolume v" | s where "r = ReqDeleteSnapshot s" by (cases r) auto
  then show ?thesis
  proof cases
    case (1 v)
    then have "w' = snd (DeleteVolume d v w)"
      using assms(8) by (auto simp: respond_def bindE_def ret_def split: prod.splits sum.splits)
    with DeleteVolume_protects [OF assms(1-3,5-7)] 1 show ?thesis by simp
  next
    case (2 s)
    then have "w' = snd (DeleteSnapshot d s w)"
      using assms(8) by (auto simp: respond_def bindE_def ret_def split: prod.splits sum.splits)
    with DeleteSnapshot_protects [OF assms(1-3) _ assms(5-7)] assms(4) 2 show ?thesis by simp
  qed
qed

section \<open>A cluster that uses the driver\<close>

text \<open>
  The controller serves one request at a time. Outside it, objects leave the caches, and
  \<^item> after a volume was created, the external provisioner makes a PersistentVolume of it whose
    attributes have what the volume's context has;
  \<^item> after a snapshot was taken, a VolumeSnapshotContent with its identifier appears; as
    \<open>CreateSnapshot\<close> ignores a failed pin, only those are followed whose pin was set.
  New objects appear before the next request. (If another deletion comes first, the pin can be
  lost: \<open>pin_lost_before_cached\<close> in theory \<open>Provisioning\<close>.)
\<close>

definition agrees :: "gomap \<Rightarrow> gomap \<Rightarrow> bool" where
  "agrees ctx attrs \<longleftrightarrow> list_all (\<lambda>k. mget attrs k = mget ctx k) [paramCID, paramPinning, paramMFSPath, paramReadOnly]"

definition in_use :: "'x PVLister \<Rightarrow> 'x VSCLister option \<Rightarrow> 'x \<Rightarrow> (string + string) set" where
  "in_use L S x = set (map (\<lambda>(v, d, a). Inl (VolumeID a)) (pv_vols L x)) \<union>
     set (map (\<lambda>(d, e). Inr (SnapshotID e)) (cluster_snaps S x))"

definition cluster_ok :: "'x KuboAPI \<Rightarrow> 'x PVLister \<Rightarrow> 'x VSCLister option \<Rightarrow> 'x \<Rightarrow> bool" where
  "cluster_ok K L S x \<longleftrightarrow> caches_ok L S x \<and> cids_canonical K L S x"

inductive cluster ::
  "'x KuboAPI \<Rightarrow> 'x Driver \<Rightarrow> 'x PVLister \<Rightarrow> 'x VSCLister option \<Rightarrow> ('x \<Rightarrow> string set) \<Rightarrow>
   (string + string) set \<Rightarrow> 'x world \<Rightarrow> bool"
  for K d L S pins where
  cluster_start:
    "cluster_ok K L S (ext w) \<Longrightarrow> needed L S (DriverName (cfg d)) {} (ext w) = {} \<Longrightarrow> cluster K d L S pins {} w"
| cluster_request:
    "cluster K d L S pins gone w \<Longrightarrow> request_canonical K r \<Longrightarrow> dispatch d r w = (res, w') \<Longrightarrow>
     cluster K d L S pins (forgets (DriverName (cfg d)) (cluster_snaps S (ext w)) r \<union> gone) w'"
| cluster_provisioned:
    "cluster K d L S pins gone w \<Longrightarrow> dispatch d (ReqCreateVolume req) w = (Inr (RespVolume vol), w') \<Longrightarrow>
     VolumeID a = VolumeId vol \<Longrightarrow> agrees (VolumeContext vol) (Attributes a) \<Longrightarrow>
     set (pv_vols L x) \<subseteq> insert (VolumeId vol, DriverName (cfg d), a) (set (pv_vols L (ext w'))) \<Longrightarrow>
     set (cluster_snaps S x) \<subseteq> set (cluster_snaps S (ext w')) \<Longrightarrow>
     pins (ext w') \<subseteq> pins x \<Longrightarrow> cluster_ok K L S x \<Longrightarrow> cluster K d L S pins gone (w'\<lparr>ext := x\<rparr>)"
| cluster_snapshotted:
    "cluster K d L S pins gone w \<Longrightarrow> dispatch d (ReqCreateSnapshot n v) w = (Inr (RespSnapshot sn), w') \<Longrightarrow>
     pinned K pins (ext w') (sn_SnapshotId sn) \<Longrightarrow> SnapshotID e = sn_SnapshotId sn \<Longrightarrow>
     set (pv_vols L x) \<subseteq> set (pv_vols L (ext w')) \<Longrightarrow>
     set (cluster_snaps S x) \<subseteq> insert (DriverName (cfg d), e) (set (cluster_snaps S (ext w'))) \<Longrightarrow>
     pins (ext w') \<subseteq> pins x \<Longrightarrow> cluster_ok K L S x \<Longrightarrow> cluster K d L S pins gone (w'\<lparr>ext := x\<rparr>)"
| cluster_outside:
    "cluster K d L S pins gone w \<Longrightarrow>
     set (pv_vols L x) \<subseteq> set (pv_vols L (ext w)) \<Longrightarrow> set (cluster_snaps S x) \<subseteq> set (cluster_snaps S (ext w)) \<Longrightarrow>
     pins (ext w) \<subseteq> pins x \<Longrightarrow> cluster_ok K L S x \<Longrightarrow>
     gone \<inter> in_use L S x \<subseteq> gone' \<Longrightarrow>
     cluster K d L S pins gone' (w\<lparr>ext := x\<rparr>)"

lemma needed_subset:
  assumes "set (pv_vols L y) \<subseteq> V \<union> set (pv_vols L x)" "set (cluster_snaps S y) \<subseteq> N \<union> set (cluster_snaps S x)"
    and "gone \<inter> in_use L S y \<subseteq> gone'" "cid \<in> needed L S driver gone' y"
  obtains "cid \<in> needed L S driver gone x"
  | v a where "(v, driver, a) \<in> V" "isPinningEnabled (Attributes a)" "mget (Attributes a) paramCID = cid" "cid \<noteq> ''''"
  | e where "(driver, e) \<in> N" "SnapshotID e = cid"
proof -
  have gone: "i \<notin> gone" if "i \<in> in_use L S y" "i \<notin> gone'" for i using that assms(3) by blast
  consider v a where "(v, driver, a) \<in> set (pv_vols L y)" "VolumeID a \<noteq> ''''" "Inl (VolumeID a) \<notin> gone'"
      "isPinningEnabled (Attributes a)" "mget (Attributes a) paramCID = cid" "cid \<noteq> ''''"
    | e where "(driver, e) \<in> set (cluster_snaps S y)" "Inr cid \<notin> gone'" "SnapshotID e = cid" "cid \<noteq> ''''"
    using assms(4) unfolding needed_iff by blast
  then show thesis
  proof cases
    case (1 v a)
    then have "Inl (VolumeID a) \<notin> gone" by (intro gone) (force simp: in_use_def)+
    with 1 assms(1) that(1,2) show thesis unfolding needed_iff by blast
  next
    case (2 e)
    then have "Inr cid \<notin> gone" by (intro gone) (force simp: in_use_def)+
    with 2 assms(2) that(1,3) show thesis unfolding needed_iff by blast
  qed
qed

lemma PinCID_pinned:
  assumes "pin_laws K M L S pins" "client_PinCID K c w = (Inr (), w')"
  shows "pinned K pins (ext w') c"
proof (cases "cid_Decode K c")
  case (Inl e)
  with assms(2) show ?thesis by (simp add: client_PinCID_def parseCIDPath_def throw_def)
next
  case (Inr k)
  with assms(2) have "Pin_Add K k (ext w) = (Inr (), ext w')"
    by (auto simp: client_PinCID_def parseCIDPath_def mapErr_def api_def split: prod.splits sum.splits)
  with assms(1) Inr show ?thesis by (auto simp: pin_laws_def law_pin_add_def pinned_def)
qed

lemma CreateVolume_pinned:
  assumes "ipfsClient d = client K E" "pin_laws K M L S pins" "PinFailurePolicy (cfg d) = pinFailurePolicyStrict"
    and "CreateVolume d req w = (Inr vol, w')" "mget (VolumeContext vol) paramCID \<noteq> ''''"
    and "isPinningEnabled (VolumeContext vol)"
  shows "pinned K pins (ext w') (mget (VolumeContext vol) paramCID)"
proof -
  have ok: "response_ok d req vol" by (rule wpE_Inr [OF CreateVolume_wp assms(4)])
  then have "VolumeContext vol paramPinning = cv_Parameters req paramPinning"
    by (simp add: response_ok_def param_defs)
  then have "mget (cv_Parameters req) paramPinning \<noteq> ''false''"
    using assms(6) by (simp add: isPinningEnabled_def mget_def)
  moreover have "mget (cv_Parameters req) paramCID = mget (VolumeContext vol) paramCID"
    using ok by (simp add: response_ok_def)
  ultimately obtain w1 w2 where "PinCID (ipfsClient d) (mget (VolumeContext vol) paramCID) w1 = (Inr (), w2)" "ext w' = ext w2"
    using CreateVolume_pins [OF assms(4) _ assms(5) _ assms(3)] by fastforce
  then show ?thesis using PinCID_pinned [OF assms(2)] by (metis assms(1) client_def Client.select_convs(5))
qed

lemma protects_outside:
  assumes "protects K L S pins driver gone y" "pins y \<subseteq> pins x"
    and "set (pv_vols L x) \<subseteq> V \<union> set (pv_vols L y)" "set (cluster_snaps S x) \<subseteq> N \<union> set (cluster_snaps S y)"
    and "gone \<inter> in_use L S x \<subseteq> gone'"
    and "\<And>v a. (v, driver, a) \<in> V \<Longrightarrow> isPinningEnabled (Attributes a) \<Longrightarrow> mget (Attributes a) paramCID \<noteq> '''' \<Longrightarrow>
           pinned K pins y (mget (Attributes a) paramCID)"
    and "\<And>e. (driver, e) \<in> N \<Longrightarrow> pinned K pins y (SnapshotID e)"
  shows "protects K L S pins driver gone' x"
  unfolding protects_def
proof
  fix cid assume "cid \<in> needed L S driver gone' x"
  then have "pinned K pins y cid"
    using assms(1,6,7) by (elim needed_subset [OF assms(3-5)]) (auto simp: protects_def)
  with assms(2) show "pinned K pins x cid" by (auto simp: pinned_def split: sum.splits)
qed

lemma dispatch_CreateVolume:
  "dispatch d (ReqCreateVolume req) w = (Inr (RespVolume vol), w') \<Longrightarrow> CreateVolume d req w = (Inr vol, w')"
  by (auto simp: respond_def bindE_def ret_def split: prod.splits sum.splits)

lemma cluster_protects:
  assumes "cluster K d L S pins gone w" "informed d L S" "ipfsClient d = client K (osEnv d)"
    and "PinFailurePolicy (cfg d) = pinFailurePolicyStrict" "pin_laws K (mounter d) L S pins"
  shows "cluster_ok K L S (ext w) \<and> protects K L S pins (DriverName (cfg d)) gone (ext w)"
proof -
  note served = dispatch_protects [OF assms(2) _ _ _ assms(3,5)]
  have created: "protects K L S pins (DriverName (cfg d)) gone (ext w')"
    if "cluster_ok K L S (ext w) \<and> protects K L S pins (DriverName (cfg d)) gone (ext w)"
      "\<not> deletes r" "dispatch d r w = (res, w')" for gone w r res w'
    using that protects_kept [OF _ order_refl dispatch_keeps_pins [OF assms(3) that(2) assms(5), of w]]
    by (metis snd_conv)
  have ok: "cluster_ok K L S x'" if "cluster_ok K L S x" "same_cluster L S x x'" for x x'
    using that by (simp add: cluster_ok_def same_cluster_def cids_canonical_def)
  show ?thesis
    using assms(1)
  proof induction
    case (cluster_start w)
    then show ?case by (simp add: protects_def)
  next
    case (cluster_request gone w r res w')
    with served [of w r gone res w'] ok [of "ext w" "ext w'"] show ?case by (simp add: cluster_ok_def)
  next
    case (cluster_provisioned gone w req vol w' a x)
    have "protects K L S pins (DriverName (cfg d)) gone (ext w')"
      by (rule created [OF cluster_provisioned.IH _ cluster_provisioned.hyps(2)]) simp
    moreover have "pinned K pins (ext w') (mget (Attributes a) paramCID)"
      if "isPinningEnabled (Attributes a)" "mget (Attributes a) paramCID \<noteq> ''''"
    proof -
      have "mget (VolumeContext vol) paramCID = mget (Attributes a) paramCID"
        "isPinningEnabled (VolumeContext vol) = isPinningEnabled (Attributes a)"
        using cluster_provisioned.hyps(4) by (simp_all add: agrees_def isPinningEnabled_def)
      with that show ?thesis
        using CreateVolume_pinned [OF assms(3,5,4) dispatch_CreateVolume [OF cluster_provisioned.hyps(2)]] by metis
    qed
    ultimately have "protects K L S pins (DriverName (cfg d)) gone x"
      using protects_outside [of K L S pins _ gone "ext w'" x "{(VolumeId vol, DriverName (cfg d), a)}" "{}" gone]
        cluster_provisioned.hyps(5-7) by simp
    with cluster_provisioned.hyps(8) show ?case by simp
  next
    case (cluster_snapshotted gone w n v sn w' e x)
    have "protects K L S pins (DriverName (cfg d)) gone (ext w')"
      by (rule created [OF cluster_snapshotted.IH _ cluster_snapshotted.hyps(2)]) simp
    then have "protects K L S pins (DriverName (cfg d)) gone x"
      using protects_outside [of K L S pins _ gone "ext w'" x "{}" "{(DriverName (cfg d), e)}" gone]
        cluster_snapshotted.hyps(3-7) by simp
    with cluster_snapshotted.hyps(8) show ?case by simp
  next
    case (cluster_outside gone w x gone')
    then have "protects K L S pins (DriverName (cfg d)) gone' x"
      using protects_outside [of K L S pins _ gone "ext w" x "{}" "{}" gone'] by simp
    with cluster_outside.hyps(5) show ?case by simp
  qed
qed

section \<open>An example\<close>

text \<open>
  A daemon whose state is the list of PersistentVolumes in the cache and the list of pins. It
  knows one CID in two spellings: like a CID in the bases \<open>f\<close> and \<open>F\<close> (base 16), \<open>F01\<close> is
  decoded to the CID that is printed as \<open>f01\<close>.
\<close>

type_synonym pin_state = "PersistentVolume list \<times> string list"

definition pin_Kubo :: "pin_state KuboAPI" where
  "pin_Kubo =
     \<lparr>cid_Decode = (\<lambda>c. Inr (if c = ''F01'' then ''f01'' else c)), cid_String = id,
      NewMultiaddr = Inr, kuborpc_NewApi = (\<lambda>a. Inr ()),
      Key_Self = (\<lambda>x. (Inr ''self'', x)), Unixfs_Get = (\<lambda>c x. (Inr (UFile c), x)),
      Unixfs_Add = (\<lambda>n x. (Inr ''Qm9'', x)),
      Pin_Add = (\<lambda>c (vs, ps). (Inr (), (vs, c # ps))),
      Pin_Rm = (\<lambda>c (vs, ps). (Inr (), (vs, removeAll c ps))),
      Request = (\<lambda>cmd args opts x. (Inr \<lparr>resp_Error = None, resp_Output = JObj []\<rparr>, x)),
      files_WriteTo = (\<lambda>n p t. (None, t)), files_NewSerialFile = (\<lambda>p n. Inr n)\<rparr>"

definition pin_mounter :: "pin_state Mounter" where
  "pin_mounter = \<lparr>IsLikelyNotMountPoint = (\<lambda>p. ret True), Mount = (\<lambda>p q f opts. ret ()), CleanupMountPoint = (\<lambda>p. ret ())\<rparr>"

definition pin_PVLister :: "pin_state PVLister" where
  "pin_PVLister = \<lparr>pvl_Get = (\<lambda>n x. Inl (ExtErr ''not found'')), pvl_List = (\<lambda>x. Inr (fst x))\<rparr>"

definition pin_driver :: "pin_state Driver" where
  "pin_driver =
     \<lparr>cfg = example_cfg, ipfsClient = client pin_Kubo example_OS,
      volumeStore = NewVolumeStoreFromPVLister (ext_PVLister pin_PVLister), snapshotStore = None,
      osEnv = example_OS, mounter = pin_mounter\<rparr>"

definition pin_world :: "pin_state \<Rightarrow> pin_state world" where
  "pin_world x = \<lparr>ext = x, hfs = FDir [], volumeLocks = NewVolumeLocks, clock = 0, seqno = 0\<rparr>"

definition pin_pv :: "string \<Rightarrow> string \<Rightarrow> PersistentVolume" where
  "pin_pv handle cid =
     \<lparr>pv_Name = ''pv'', pv_CSI = Some \<lparr>csi_Driver = DefaultDriverName, csi_VolumeHandle = handle,
        csi_VolumeAttributes = [paramCID \<mapsto> cid, paramReadOnly \<mapsto> ''true'']\<rparr>, pv_Storage = Some 5\<rparr>"

lemma pin_driver_sel [simp]:
  "cfg pin_driver = example_cfg" "ipfsClient pin_driver = client pin_Kubo example_OS"
  "osEnv pin_driver = example_OS" "mounter pin_driver = pin_mounter"
  by (simp_all add: pin_driver_def)

lemma pin_informed: "informed pin_driver pin_PVLister None"
  by (simp add: informed_def pin_driver_def NewSnapshotStoreFromVSCLister_def)

lemma pin_vols [simp]: "pv_vols pin_PVLister x = concat (map pv_view (fst x))"
  by (simp add: pv_vols_def pin_PVLister_def)

definition pin_attributes :: "string \<Rightarrow> string \<Rightarrow> VolumeAttributes" where
  "pin_attributes handle cid =
     \<lparr>VolumeID = handle, Capacity = 5, Attributes = [paramCID \<mapsto> cid, paramReadOnly \<mapsto> ''true'']\<rparr>"

lemma pin_view [simp]:
  "handle \<noteq> '''' \<Longrightarrow> pv_view (pin_pv handle cid) = [(handle, DefaultDriverName, pin_attributes handle cid)]"
  by (simp add: pv_view_def pin_pv_def pvToAttributes_def pin_attributes_def)

lemma pin_attributes_sel [simp]:
  "VolumeID (pin_attributes h c) = h" "mget (Attributes (pin_attributes h c)) paramCID = c"
  "mget (Attributes (pin_attributes h c)) paramReadOnly = ''true''"
  "mget (Attributes (pin_attributes h c)) paramMFSPath = ''''"
  "mget (Attributes (pin_attributes h c)) paramPinning = ''''"
  by (simp_all add: pin_attributes_def mget_def param_defs)

lemma pin_laws_hold: "pin_laws pin_Kubo pin_mounter pin_PVLister None (set \<circ> snd)"
  by (auto simp: pin_laws_def law_pin_add_def law_pin_rm_def law_pin_others_def grows_def same_cluster_def
      pin_Kubo_def pin_mounter_def pin_PVLister_def pv_vols_def cluster_snaps_def caches_ok_def lister_ok_def ret_def
      split: prod.split)

lemma pin_cluster_ok:
  "list_all (\<lambda>(v, d, a). mget (Attributes a) paramCID \<noteq> ''F01'') (concat (map pv_view vs)) \<Longrightarrow>
   cluster_ok pin_Kubo pin_PVLister None (vs, ps)"
  by (auto simp: cluster_ok_def caches_ok_def lister_ok_def cids_canonical_def list_all_iff canonical_def
      cluster_snaps_def) (auto simp: pin_PVLister_def pin_Kubo_def)

lemma pin_create:
  "dispatch pin_driver (ReqCreateVolume (example_request [paramCID \<mapsto> ''Qm1''])) (pin_world ([], [])) =
     (Inr (RespVolume (response (example_request [paramCID \<mapsto> ''Qm1'']) '''' ('''', True))), pin_world ([], [''Qm1'']))"
proof -
  have "releaseLock k (locked k (pin_world x)\<lparr>ext := y\<rparr>) = pin_world y" for k x y
    by (simp add: pin_world_def releaseLock_def Release_def NewVolumeLocks_def)
  moreover have "locks (volumeLocks (pin_world x)) = {}" "ext (pin_world x) = x" for x
    by (simp_all add: pin_world_def NewVolumeLocks_def)
  ultimately show ?thesis
    by (simp add: respond_def CreateVolume_valid [OF example_valid] with_lock_free create_body_def provision_def
        provision_cid_def bindE_def mapErr_def attempt_def ret_def client_def client_StatCID_def client_PinCID_def
        parseCIDPath_def api_def pin_Kubo_def)
qed

text \<open>
  References are compared as strings. A volume that names the same CID in another spelling is not
  a reference, and its pin is removed together with the volume that is deleted.
\<close>

lemma spelling_loses_pin:
  "case DeleteVolume pin_driver ''a'' (pin_world ([pin_pv ''a'' ''f01'', pin_pv ''b'' ''F01''], [''f01''])) of
     (Inr _, w) \<Rightarrow>
       needed_by_volumes {Inl ''a''} DefaultDriverName (pv_vols pin_PVLister (ext w)) = [''F01''] \<and>
       snd (ext w) = []
   | _ \<Rightarrow> False"
  by code_simp

section \<open>Properties\<close>

text \<open>
  (C3) No content is lost in an orderly cluster. The controller serves its requests one after
  another; the object of a new volume or pinned snapshot is in the cache before the next request, or
  never; all CIDs, in requests and in the cache, are in the spelling they are printed in; nobody else
  unpins. Then, with the strict policy, the CID of every volume with pinning on, and of every
  snapshot that was pinned, is pinned as long as its object is in the cache and its deletion has
  not been requested. The first three conditions are needed: see \<open>unpin_races_with_pin\<close>,
  \<open>pin_lost_before_cached\<close> and \<open>spelling_loses_pin\<close>.
\<close>

theorem pins_protected:
  assumes "cluster K d L S pins gone w" "informed d L S" "ipfsClient d = client K (osEnv d)"
    and "PinFailurePolicy (cfg d) = pinFailurePolicyStrict" "pin_laws K (mounter d) L S pins"
    and "cid \<in> needed L S (DriverName (cfg d)) gone (ext w)"
  shows "pinned K pins (ext w) cid"
  using cluster_protects [OF assms(1-5)] assms(6) by (simp add: protects_def)

theorem pins_protected_witness:
  "pinned pin_Kubo (set \<circ> snd) ([pin_pv (volumeIDFor ''PVC_1'') ''Qm1''], [''Qm1'']) ''Qm1''"
proof -
  define h where "h = volumeIDFor ''PVC_1''"
  then have h: "h \<noteq> ''''" by (simp add: volumeIDFor_def)
  have start: "cluster pin_Kubo pin_driver pin_PVLister None (set \<circ> snd) {} (pin_world ([], []))"
    by (rule cluster_start) (simp_all add: pin_world_def pin_cluster_ok needed_iff cluster_snaps_def set_eq_iff)
  have agree: "agrees (VolumeContext (response (example_request [paramCID \<mapsto> ''Qm1'']) '''' ('''', True)))
      (Attributes (pin_attributes h ''Qm1''))"
    by (simp add: agrees_def response_def pin_attributes_def mget_def param_defs)
  have "cluster pin_Kubo pin_driver pin_PVLister None (set \<circ> snd) {}
      (pin_world ([], [''Qm1''])\<lparr>ext := ([pin_pv h ''Qm1''], [''Qm1''])\<rparr>)"
    by (rule cluster_provisioned [OF start pin_create _ agree])
      (simp_all add: h response_def cluster_snaps_def pin_cluster_ok pin_world_def h_def [symmetric])
  from pins_protected [OF this pin_informed, of "''Qm1''"] show ?thesis
    by (simp add: h pin_laws_hold example_cfg_def needed_iff isPinningEnabled_def h_def [symmetric])
qed

end
