(* ===== verification/Spec2Isabelle.thy ===== *)
theory Spec2Isabelle
  imports Restoring Volumes Shutdown Pinning
begin

text \<open>
  \<^bold>\<open>A verification development for csi-driver-ipfs.\<close>

  The program is a Container Storage Interface driver that gives Kubernetes volumes backed by
  IPFS. A volume is either read-only content named by a CID, or a read-write directory of the
  Mutable File System (MFS) of an IPFS daemon. The controller service creates and deletes
  volumes and snapshots by calls to the daemon, and reads what exists from informer caches of
  PersistentVolumes and VolumeSnapshotContents. The node service copies a volume to a host
  directory when it is staged, bind-mounts it into pods, and imports it back when it is
  unstaged. All RPCs of one process share a set of locks.

  \<^bold>\<open>Theories and sources.\<close>
  \<^item> \<open>Prelude\<close>: Go errors, status codes, methods that return a value or an error as functions
    from a state to a sum and a new state (\<open>io\<close>), the combinators \<open>bindE\<close> (return early on an
    error), \<open>mapErr\<close> (wrap it), \<open>attempt\<close> (inspect it), \<open>ignoreErr\<close> (log it only),
    \<open>deferring\<close> (a deferred call), Go maps, and a weakest-precondition calculus.
  \<^item> \<open>GoStd\<close>: the functions of Go's standard library the logic depends on: \<open>path.Clean\<close> and
    its companions, \<open>strconv\<close>, decoding of UTF-8, \<open>sort.Slice\<close>.
  \<^item> \<open>Utils\<close>: \<open>pkg/driver/utils.go\<close>, the pure helpers.
  \<^item> \<open>Locks\<close>: \<open>pkg/driver/lock/volumelocks.go\<close>, the lock set and its interface.
  \<^item> \<open>Stores\<close>: \<open>pkg/driver/store\<close>, the two metadata stores over listers.
  \<^item> \<open>HostFS\<close>, \<open>HostTree\<close>: the host's file system as a tree, and package \<open>os\<close> on it. The
    shared state of all operations is the record \<open>world\<close>.
  \<^item> \<open>IpfsClient\<close>: \<open>pkg/ipfs/client.go\<close>. \<open>Kubo\<close>: the client against a daemon that keeps
    named laws.
  \<^item> \<open>Driver\<close>: \<open>pkg/driver/driver.go\<close>, \<open>pkg/driver/identity.go\<close>, and the way a handler takes its
    lock (\<open>with_lock\<close>).
  \<^item> \<open>Controller\<close>: \<open>pkg/driver/controller.go\<close>. \<open>Node\<close>: \<open>pkg/driver/node.go\<close>. One definition
    per RPC, with the checks and calls in the order of the source.
  \<^item> \<open>Server\<close>: the dispatch of a request to the three services and the interceptor of
    \<open>pkg/grpc/middleware/logging.go\<close>; runs of a server as a reachability predicate.
  \<^item> \<open>Programs\<close>: the four handlers that lock as trees of the calls they make, one node per access
    to the lock set, a store, the client or the host. \<open>Goroutines\<close>: any number of them
    interleaved call by call, as a step relation with its reachable states.
  \<^item> \<open>Informers\<close>: \<open>pkg/kubernetes\<close>, the clients and the informer manager.
  \<^item> \<open>CommandLine\<close>: the flags of \<open>cmd/csi-driver-ipfs/main.go\<close> and \<open>flag.Parse\<close> on them.
  \<^item> \<open>Endpoint\<close>: \<open>parseListenAddress\<close> of \<open>cmd/csi-driver-ipfs/main.go\<close>, with \<open>url.Parse\<close>.
    \<open>Logging\<close>: \<open>pkg/logging\<close>, levels and hooks. \<open>Startup\<close>: \<open>main\<close> from the
    command line to serving, and \<open>pkg/utils/ptr.go\<close>. \<open>Shutdown\<close>: the end of \<open>main\<close>, from serving over a signal to the exit.
  \<^item> \<open>Examples\<close>: a concrete driver on which properties are evaluated.
  \<^item> \<open>Frame\<close>: what every operation keeps (the lock set, the shape of the host's tree).
    \<open>References\<close>, \<open>Provisioning\<close>, \<open>Listing\<close>, \<open>Staging\<close>: properties of the operations, by
    theme. \<open>Lifecycle\<close>: the controller, the client and the node over the life of a volume.
    \<open>Restoring\<close>: what the creation of a volume leaves on the host of the controller.
    \<open>Volumes\<close>: the abstract specification of the data of volumes, and the driver's refinement of it.
    \<open>Pinning\<close>: the driver in a cluster, and the pins of the daemon.

  \<^bold>\<open>State.\<close> A \<open>world\<close> has the host's tree, the lock set, the clock, a counter for random names
  and \<open>ext\<close>, the state of everything outside the process. The IPFS daemon and boxo
  (\<open>KuboAPI\<close>), client-go (\<open>ClientGo\<close>, the listers), the mount helpers (\<open>Mounter\<close>) and the
  decisions of the operating system (\<open>OS\<close>: refusals, temporary names, \<open>statfs\<close>, sockets) are not
  in the repository: they are records of functions, arguments of the definitions. Unless a property names a law it holds
  for all of them, also when they fail at any call.

  \<^bold>\<open>Interfaces as locales.\<close> \<open>try_lock\<close> (interpreted on \<open>VolumeLocks\<close>), \<open>volume_store\<close> and
  \<open>snapshot_store\<close> (on the two stores over a lister), \<open>counted_stores\<close> (the two together, on the
  Kubernetes stores). The chain \<open>state_frame\<close>, \<open>read_frame\<close>, \<open>lock_frame\<close>, \<open>host_frame\<close>, \<open>kubo_frame\<close>,
  \<open>client_frame\<close>, \<open>node_frame\<close> proves once what operations keep of a relation between states, with
  \<open>import_frame\<close> for the methods of the client that write no file of the host;
  \<open>kubo_unpin_frame\<close> and \<open>client_unpin_frame\<close> extend it to the operations that unpin. It is
  interpreted on the lock set, on the shape of the tree together with the lock set, on the tree
  during start-up, without unpinning on the pins of the daemon, and in parts on all files of the host, on those
  below one path and on those beside it. The kubo client is a
  \<open>client_frame\<close>, and a \<open>client_unpin_frame\<close>, by sublocales. \<open>discipline\<close> is a property of the
  rest of a goroutine that its own calls keep; it is interpreted for the bound on the calls, for
  the way locks are taken and released, and for the justification of an unpin.

  \<^bold>\<open>What is shown.\<close>
  \<^item> Data: a read-write volume that is unstaged on one node comes back unchanged when it is
    staged again; a snapshot restores what the volume held; emptying a directory touches
    nothing else; a volume made from a snapshot is staged with the files of the first one; a
    creation can be repeated, and so can an unstage that failed; a volume made from a CID is staged
    with the content of the CID; a creation, also one that fails, leaves no file on the host of the
    controller. Every sequence of creations,
    restores, stagings, unstagings and deletions, on any number of machines with one MFS and on
    volumes whose directories are apart, is one of the specification in which a volume is a cell that
    holds a tree of files (\<open>volumes_refine\<close>). The
    daemon's laws are \<open>kubo_laws\<close>; a small daemon keeps all of them. An
    unstage with the staging directory gone empties the volume, a repeated publication without a
    staging path discards what pods have written, and the MFS path of a volume with a CID is not
    checked, so that a snapshot of it can be of anything in MFS.
  \<^item> Service: a server that handles requests in sequence keeps the host's tree well-formed, leaks
    no lock and is never busy; every error of every method has a documented status code.
  \<^item> Command line: the arguments that spell out a setting are parsed to it, whatever was set
    before; what \<open>flag.Parse\<close> leaves is ignored (\<open>bool_flag_ends_parsing\<close>).
  \<^item> Start-up: a process that was started with any arguments and serves does so over
    caches of informers that are registered, running and synced, and with a valid configuration
    (\<open>sync_laws\<close> is what it relies on of client-go); nothing but a stale socket is deleted.
  \<^item> Content identifiers: the driver's reference count is the number of references in the
    cluster; a pin another volume or snapshot needs is never removed; the last reference
    removes it. In a cluster whose requests come one after another, whose new objects are cached
    before the next one, and whose CIDs have one spelling, every pinned volume stays
    pinned until its own deletion (\<open>pin_laws\<close> is what this relies on of the daemon). Each of the three
    conditions is shown to be needed.
  \<^item> Concurrency: in every interleaving no two
    goroutines hold one key, no key is lost, every call is made with a lock held, and an unpin is preceded by a count of
    zero. (That an unpin can still overtake a pin of another goroutine is \<open>unpin_races_with_pin\<close>.)
    Lemmas tie this to the rest: a goroutine that is not interrupted is the handler, and, as long as
    the calls it makes return, it returns after at most eight of them; with this, a process
    that was told to stop ends.
  \<^item> Provisioning: confinement of volume paths to the MFS root, the response, the error codes,
    the pin, when identifiers are distinct and when they are not.
  \<^item> Listing: pages are complete, disjoint, sorted and independent of the order of the cache;
    malformed tokens are refused; listing and lookup agree.
  \<^item> Arithmetic: statistics saturate, \<open>GetCapacity\<close> is exact below \<open>2 ^ 63\<close>.

  \<^bold>\<open>Bounds and fuel.\<close> A client that follows the tokens of \<open>ListVolumes\<close> is given fuel, and one
  unit more than there are volumes is shown to be enough. \<open>os.MkdirTemp\<close> tries ten thousand
  names, as in Go. A handler makes at most eight calls, so that a goroutine takes at most nine steps,
  its return included. All other recursion is structural or over a decreasing measure. An
  \<open>int64\<close> is an \<open>int\<close> where the code does no arithmetic that can leave the range; unsigned
  arithmetic and the conversions between the two are on \<open>64 word\<close>.

  \<^bold>\<open>Not modelled.\<close> Metrics; the value of a floating-point flag, which is kept as text on its way to client-go
  (which texts \<open>strconv.ParseFloat\<close> accepts is a parameter); messages to the log apart from those of the interceptor; contexts and their
  cancellation; generated mocks and test code. In \<open>Goroutines\<close> a call of a client, such as
  \<open>ImportToMFS\<close>, is one step, and the handlers that take no lock, those of the node included, are
  part of what happens outside; \<open>cluster\<close> has its requests one after another. Of \<open>url.Parse\<close> the
  validity of an IPv6 literal is a parameter. On the host, symbolic links are not followed and file
  modes are not kept; \<open>sort.Slice\<close> is stable, which matters only for volumes with the same
  identifier; member names in JSON are compared up to the case of ASCII letters.
\<close>

end
